(* ===== verification/Prelude.thy ===== *)
theory Prelude
  imports Main "HOL-Library.Word"
begin

text \<open>
  Shared vocabulary of the development: the fragment of Go's standard library that the
  operator uses (the \<^verbatim>\<open>strings\<close> functions, \<^verbatim>\<open>fmt.Errorf\<close> wrapping, lookups in a
  \<^verbatim>\<open>map[string]string\<close>, \<^verbatim>\<open>time.Time\<close>), the value types that stand for Go's errors
  and panics, the generic "keep the first best element" scan that five routines of the
  operator are instances of, and the named collections of simplification rules.

  Go strings are modelled as \<^typ>\<open>string\<close>, a list of bytes; case folding is the ASCII
  one, and every name the operator folds (image references, file extensions, kinds, error
  texts of its own) is ASCII.
\<close>

section \<open>Collections of rules\<close>

named_theorems go_string_simps \<open>rules that evaluate the string functions\<close>
named_theorems api_simps \<open>rules that evaluate API calls of the model\<close>

section \<open>Errors, results and panics\<close>

text \<open>
  A Go \<^verbatim>\<open>error\<close> is the reason that \<^verbatim>\<open>apierrors.IsNotFound\<close> and
  \<^verbatim>\<open>apierrors.IsAlreadyExists\<close> look at, and its text. Wrapping with \<^verbatim>\<open>%w\<close> keeps the
  reason and extends the text.
\<close>

datatype reason = NotFound | AlreadyExists | OtherReason

record error =
  err_reason :: reason
  err_text :: string

type_synonym 'a result = "error + 'a"

definition Errorf :: "string \<Rightarrow> error" where
  "Errorf msg = \<lparr>err_reason = OtherReason, err_text = msg\<rparr>"

definition wrapf :: "string \<Rightarrow> error \<Rightarrow> error" where
  "wrapf pre e = \<lparr>err_reason = err_reason e, err_text = pre @ '': '' @ err_text e\<rparr>"

definition IsNotFound :: "error \<Rightarrow> bool" where
  "IsNotFound e \<longleftrightarrow> err_reason e = NotFound"

definition IsAlreadyExists :: "error \<Rightarrow> bool" where
  "IsAlreadyExists e \<longleftrightarrow> err_reason e = AlreadyExists"

text \<open>A nil dereference or a call through a nil interface ends the goroutine: \<open>Panic\<close>.\<close>

datatype 'a outcome = Ret 'a | Panic

definition is_err :: "'a result \<Rightarrow> bool" where
  "is_err r = (case r of Inl _ \<Rightarrow> True | Inr _ \<Rightarrow> False)"

lemma is_err_simps [simp]: "is_err (Inl e)" "\<not> is_err (Inr x)"
  by (simp_all add: is_err_def)

lemma wrapf_reason [simp]: "err_reason (wrapf p e) = err_reason e"
  by (simp add: wrapf_def)

lemma wrapf_IsNotFound [simp]: "IsNotFound (wrapf p e) = IsNotFound e"
  by (simp add: IsNotFound_def)

lemma Errorf_not_NotFound [simp]: "\<not> IsNotFound (Errorf s)" "\<not> IsAlreadyExists (Errorf s)"
  by (simp_all add: IsNotFound_def IsAlreadyExists_def Errorf_def)

section \<open>Time\<close>

text \<open>
  \<^verbatim>\<open>time.Time\<close> and \<^verbatim>\<open>metav1.Time\<close> are nanoseconds since Go's zero time, so the zero
  value that \<^verbatim>\<open>IsZero\<close> tests is \<open>0\<close>; \<^verbatim>\<open>a.After(b)\<close> is \<open>b < a\<close>. A
  \<^verbatim>\<open>time.Duration\<close> is an \<^typ>\<open>int\<close> of nanoseconds.
\<close>

type_synonym time = int
type_synonym duration = int

definition ZeroTime :: time where
  "ZeroTime = 0"

definition IsZero :: "time \<Rightarrow> bool" where
  "IsZero t \<longleftrightarrow> t = ZeroTime"

definition After :: "time \<Rightarrow> time \<Rightarrow> bool" where
  "After a b \<longleftrightarrow> b < a"

definition Millisecond :: duration where "Millisecond = 1000000"
definition Second :: duration where "Second = 1000000000"

lemma Millisecond_pos [simp]: "0 < Millisecond"
  by (simp add: Millisecond_def)

lemma Second_pos [simp]: "0 < Second"
  by (simp add: Second_def)

section \<open>Strings\<close>

definition HasPrefix :: "string \<Rightarrow> string \<Rightarrow> bool" where
  "HasPrefix s p \<longleftrightarrow> take (length p) s = p"

definition HasSuffix :: "string \<Rightarrow> string \<Rightarrow> bool" where
  "HasSuffix s suf \<longleftrightarrow> length suf \<le> length s \<and> drop (length s - length suf) s = suf"

definition TrimSuffix :: "string \<Rightarrow> string \<Rightarrow> string" where
  "TrimSuffix s suf = (if HasSuffix s suf then take (length s - length suf) s else s)"

fun Contains :: "string \<Rightarrow> string \<Rightarrow> bool" where
  "Contains [] sub \<longleftrightarrow> sub = []"
| "Contains (c # s) sub \<longleftrightarrow> HasPrefix (c # s) sub \<or> Contains s sub"

definition lower_char :: "char \<Rightarrow> char" where
  "lower_char c = (let n = (of_char c :: nat) in if 65 \<le> n \<and> n \<le> 90 then char_of (n + 32) else c)"

definition ToLower :: "string \<Rightarrow> string" where
  "ToLower s = map lower_char s"

definition EqualFold :: "string \<Rightarrow> string \<Rightarrow> bool" where
  "EqualFold a b \<longleftrightarrow> ToLower a = ToLower b"

fun Join :: "string list \<Rightarrow> string \<Rightarrow> string" where
  "Join [] sep = ''''"
| "Join [x] sep = x"
| "Join (x # y # zs) sep = x @ sep @ Join (y # zs) sep"

text \<open>Integers in decimal, as \<^verbatim>\<open>strconv.Itoa\<close> prints them.\<close>

fun digits :: "nat \<Rightarrow> nat \<Rightarrow> string" where
  "digits 0 n = ''''"
| "digits (Suc fuel) n = (if n < 10 then [char_of (48 + n)] else digits fuel (n div 10) @ [char_of (48 + n mod 10)])"

definition show_nat :: "nat \<Rightarrow> string" where
  "show_nat n = digits (Suc n) n"

definition Itoa :: "int \<Rightarrow> string" where
  "Itoa i = (if i < 0 then ''-'' @ show_nat (nat (- i)) else show_nat (nat i))"

text \<open>The verb \<^verbatim>\<open>%q\<close>, on names that need no escapes.\<close>

definition quoted :: "string \<Rightarrow> string" where
  "quoted s = [CHR 0x22] @ s @ [CHR 0x22]"

lemma HasPrefix_append [simp]: "HasPrefix (p @ s) p"
  by (simp add: HasPrefix_def)

lemma HasPrefix_iff: "HasPrefix s p \<longleftrightarrow> (\<exists>r. s = p @ r)"
  unfolding HasPrefix_def by (metis append_take_drop_id append_eq_conv_conj)

lemma HasSuffix_append [simp]: "HasSuffix (s @ suf) suf"
  by (simp add: HasSuffix_def)

lemma HasSuffix_iff: "HasSuffix s suf \<longleftrightarrow> (\<exists>r. s = r @ suf)"
proof
  assume "HasSuffix s suf"
  then have "s = take (length s - length suf) s @ suf"
    unfolding HasSuffix_def by (metis append_take_drop_id)
  then show "\<exists>r. s = r @ suf" ..
qed auto

lemma TrimSuffix_append [simp]: "TrimSuffix (s @ suf) suf = s"
  by (simp add: TrimSuffix_def)

lemma Contains_self_prefix [simp]: "Contains (p @ s) p"
  using HasPrefix_append [of p s] by (cases "p @ s") (auto simp del: HasPrefix_append)

lemma Contains_appendI: "Contains s sub \<Longrightarrow> Contains (p @ s) sub"
  by (induction p) auto

lemma Contains_iff: "Contains s sub \<longleftrightarrow> (\<exists>u v. s = u @ sub @ v)"
proof
  show "Contains s sub \<Longrightarrow> \<exists>u v. s = u @ sub @ v"
  proof (induction s)
    case Nil
    then show ?case by simp
  next
    case (Cons c s)
    show ?case
    proof (cases "HasPrefix (c # s) sub")
      case True
      then obtain r where "c # s = [] @ sub @ r" by (auto simp: HasPrefix_iff)
      then show ?thesis by blast
    next
      case False
      with Cons obtain u v where "c # s = (c # u) @ sub @ v" by auto
      then show ?thesis by blast
    qed
  qed
  show "\<exists>u v. s = u @ sub @ v \<Longrightarrow> Contains s sub"
    by (auto intro: Contains_appendI [OF Contains_self_prefix])
qed

lemma ToLower_append [go_string_simps]: "ToLower (a @ b) = ToLower a @ ToLower b"
  by (simp add: ToLower_def)

section \<open>String maps\<close>

text \<open>
  A \<^verbatim>\<open>map[string]string\<close> is an association list, so that values holding one stay
  executable; reading an absent key (or a nil map) gives the empty string, as in Go.
\<close>

type_synonym smap = "(string \<times> string) list"

definition mget :: "smap \<Rightarrow> string \<Rightarrow> string" where
  "mget m k = (case map_of m k of None \<Rightarrow> '''' | Some v \<Rightarrow> v)"

definition mhas :: "smap \<Rightarrow> string \<Rightarrow> bool" where
  "mhas m k \<longleftrightarrow> map_of m k \<noteq> None"

lemma mget_simps [simp]:
  "mget [] k = ''''"
  "mget ((k, v) # m) k = v"
  "k \<noteq> k' \<Longrightarrow> mget ((k', v) # m) k = mget m k"
  by (simp_all add: mget_def)

lemma mget_nonempty_mhas: "mget m k \<noteq> '''' \<Longrightarrow> mhas m k"
  by (auto simp: mget_def mhas_def split: option.splits)

section \<open>Signed machine integers\<close>

text \<open>Go's \<^verbatim>\<open>int\<close> on the operator's platforms has 64 bits; \<^verbatim>\<open>int32(x)\<close> truncates.\<close>

type_synonym int64 = "64 word"
type_synonym int32 = "32 word"

definition to_int32 :: "int64 \<Rightarrow> int32" where
  "to_int32 w = ucast w"

definition MaxInt32 :: int32 where
  "MaxInt32 = 2147483647"

definition less64 :: "int64 \<Rightarrow> int64 \<Rightarrow> bool" where
  "less64 a b \<longleftrightarrow> sint a < sint b"

definition less32 :: "int32 \<Rightarrow> int32 \<Rightarrow> bool" where
  "less32 a b \<longleftrightarrow> sint a < sint b"

lemma sint_MaxInt32: "sint MaxInt32 = 2147483647"
  by (simp add: MaxInt32_def)

lemma sint_le_MaxInt32: "sint (w :: int32) \<le> sint MaxInt32"
  using sint_lt [of w] by (simp add: sint_MaxInt32)

text \<open>Truncation keeps the value of a weight that fits in 32 bits.\<close>

lemma sint_to_int32:
  assumes "- 2147483648 \<le> sint w" and "sint w < 2147483648"
  shows "sint (to_int32 w) = sint w"
proof -
  have "sint (to_int32 w) = signed_take_bit 31 (sint w)"
    by (simp add: to_int32_def sint_uint unsigned_ucast_eq signed_take_bit_take_bit)
  also have "\<dots> = sint w"
    using assms by (intro signed_take_bit_int_eq_self) simp_all
  finally show ?thesis .
qed

section \<open>Keeping the first best element of a list\<close>

text \<open>
  The operator chooses a target cluster, a Velero backup, a node condition and the last
  transition of a package with the same loop: keep a candidate, and replace it by the
  current element only when that is strictly better.
\<close>

fun first_best :: "('a \<Rightarrow> 'a \<Rightarrow> bool) \<Rightarrow> 'a option \<Rightarrow> 'a list \<Rightarrow> 'a option" where
  "first_best b cur [] = cur"
| "first_best b None (x # xs) = first_best b (Some x) xs"
| "first_best b (Some c) (x # xs) = first_best b (Some (if b x c then x else c)) xs"

lemma first_best_Some_not_None: "first_best b (Some c) xs \<noteq> None"
  by (induction xs arbitrary: c) auto

lemma first_best_None_iff: "first_best b None xs = None \<longleftrightarrow> xs = []"
  by (cases xs) (simp_all add: first_best_Some_not_None del: not_None_eq)

lemma first_best_mem: "first_best b None xs = Some y \<Longrightarrow> y \<in> set xs"
proof -
  have "first_best b (Some c) zs = Some y \<Longrightarrow> y = c \<or> y \<in> set zs" for c zs
    by (induction zs arbitrary: c) (auto split: if_splits)
  then show "first_best b None xs = Some y \<Longrightarrow> y \<in> set xs"
    by (cases xs) auto
qed

lemma first_best_map: "first_best b (map_option f cur) (map f xs) =
    map_option f (first_best (\<lambda>x y. b (f x) (f y)) cur xs)"
  by (induction "\<lambda>x y. b (f x) (f y)" cur xs rule: first_best.induct) auto

text \<open>
  The contract of the comparison: a strict weak order. The scan then returns the unique
  element that beats every earlier one and that no later one beats.
\<close>

definition is_first_best :: "('a \<Rightarrow> 'a \<Rightarrow> bool) \<Rightarrow> 'a list \<Rightarrow> 'a \<Rightarrow> bool" where
  "is_first_best b xs y \<longleftrightarrow>
     (\<exists>us vs. xs = us @ y # vs \<and> (\<forall>u \<in> set us. b y u) \<and> (\<forall>v \<in> set vs. \<not> b v y))"

lemma is_first_bestI:
  "xs = us @ y # vs \<Longrightarrow> \<forall>u \<in> set us. b y u \<Longrightarrow> \<forall>v \<in> set vs. \<not> b v y \<Longrightarrow> is_first_best b xs y"
  unfolding is_first_best_def by blast

lemma filter_split_at:
  assumes "filter P xs = us @ y # vs"
  obtains us' vs' where "xs = us' @ y # vs'" "filter P us' = us" "filter P vs' = vs" "P y"
  using assms
proof (induction us arbitrary: xs thesis)
  case Nil
  then obtain as bs where "xs = as @ y # bs" "\<forall>a \<in> set as. \<not> P a" "P y" "filter P bs = vs"
    by (auto simp: filter_eq_Cons_iff)
  with Nil.prems(1) [of as bs] show ?case by simp
next
  case (Cons u us)
  then obtain as bs where xs: "xs = as @ u # bs" "\<forall>a \<in> set as. \<not> P a" "P u"
    and bs: "filter P bs = us @ y # vs"
    by (auto simp: filter_eq_Cons_iff)
  from Cons.IH [OF _ bs] obtain us' vs' where
    "bs = us' @ y # vs'" "filter P us' = us" "filter P vs' = vs" "P y" by blast
  with xs Cons.prems(1) [of "as @ u # us'" vs'] show ?case by simp
qed

text \<open>The chosen element of a filtered list, seen in the whole list.\<close>

lemma is_first_best_filter:
  assumes "is_first_best b (filter P xs) y"
  obtains us vs where "xs = us @ y # vs" "P y"
    "\<forall>u \<in> set us. P u \<longrightarrow> b y u" "\<forall>v \<in> set vs. P v \<longrightarrow> \<not> b v y"
proof -
  from assms obtain us vs where fl: "filter P xs = us @ y # vs"
    and us: "\<forall>u \<in> set us. b y u" and vs: "\<forall>v \<in> set vs. \<not> b v y"
    unfolding is_first_best_def by blast
  from fl obtain us' vs' where "xs = us' @ y # vs'" "filter P us' = us" "filter P vs' = vs" "P y"
    by (rule filter_split_at)
  with us vs that [of us' vs'] show ?thesis by auto
qed

locale strict_pref =
  fixes better :: "'a \<Rightarrow> 'a \<Rightarrow> bool"
  assumes better_irrefl: "\<not> better x x"
    and better_trans: "better x y \<Longrightarrow> better y z \<Longrightarrow> better x z"
    and better_cotrans: "better x z \<Longrightarrow> better x y \<or> better y z"
begin

lemma scan_from:
  "first_best better (Some c) xs = Some y \<Longrightarrow> is_first_best better (c # xs) y"
proof (induction xs arbitrary: c)
  case Nil
  then have "c # [] = [] @ y # []" by simp
  then show ?case unfolding is_first_best_def by fastforce
next
  case (Cons x xs)
  show ?case
  proof (cases "better x c")
    case True
    with Cons obtain us vs where sp: "x # xs = us @ y # vs"
      and us: "\<forall>u \<in> set us. better y u" and vs: "\<forall>v \<in> set vs. \<not> better v y"
      unfolding is_first_best_def by fastforce
    have "better y c"
      using True us sp better_trans by (cases us) auto
    moreover have "c # x # xs = (c # us) @ y # vs" using sp by simp
    ultimately show ?thesis
      using us vs by (intro is_first_bestI [of _ "c # us" y vs]) auto
  next
    case False
    with Cons have "is_first_best better (c # xs) y" by simp
    then obtain us vs where sp: "c # xs = us @ y # vs"
      and us: "\<forall>u \<in> set us. better y u" and vs: "\<forall>v \<in> set vs. \<not> better v y"
      unfolding is_first_best_def by blast
    show ?thesis
    proof (cases us)
      case Nil
      then have "c # x # xs = [] @ y # (x # vs)" and "\<forall>v \<in> set (x # vs). \<not> better v y"
        using sp vs False by auto
      then show ?thesis unfolding is_first_best_def by fastforce
    next
      case (Cons c' us')
      then have "c' = c" and "c # x # xs = (c # x # us') @ y # vs" using sp by auto
      moreover have "better y x"
        using Cons \<open>c' = c\<close> us False better_cotrans [of y c x] by auto
      ultimately show ?thesis
        using us vs Cons
        by (intro is_first_bestI [of _ "c # x # us'" y vs]) auto
    qed
  qed
qed

lemma scan_correct:
  assumes "first_best better None xs = Some y"
  shows "is_first_best better xs y"
  using assms scan_from by (cases xs) auto

lemma first_best_unique:
  assumes "is_first_best better xs y" and "is_first_best better xs z"
  shows "y = z"
proof -
  obtain us vs where y: "xs = us @ y # vs" "\<forall>u \<in> set us. better y u" "\<forall>v \<in> set vs. \<not> better v y"
    using assms(1) unfolding is_first_best_def by blast
  obtain us' vs' where z: "xs = us' @ z # vs'" "\<forall>u \<in> set us'. better z u" "\<forall>v \<in> set vs'. \<not> better v z"
    using assms(2) unfolding is_first_best_def by blast
  from y(1) z(1) have "us @ y # vs = us' @ z # vs'" by simp
  then consider "y = z" | "z \<in> set vs" "y \<in> set us'" | "y \<in> set vs'" "z \<in> set us"
    by (auto simp: append_eq_append_conv2 append_eq_Cons_conv Cons_eq_append_conv)
  then show ?thesis
    using y z by cases auto
qed

lemma scan_iff: "first_best better None xs = Some y \<longleftrightarrow> is_first_best better xs y"
proof
  assume y: "is_first_best better xs y"
  then have "xs \<noteq> []" by (auto simp: is_first_best_def)
  then obtain z where "first_best better None xs = Some z"
    using first_best_None_iff [of better xs] by auto
  with y show "first_best better None xs = Some y"
    using first_best_unique scan_correct by blast
qed (rule scan_correct)

lemma scan_maximal:
  assumes "first_best better None xs = Some y" and "x \<in> set xs"
  shows "\<not> better x y"
proof -
  obtain us vs where "xs = us @ y # vs" "\<forall>u \<in> set us. better y u" "\<forall>v \<in> set vs. \<not> better v y"
    using scan_correct [OF assms(1)] unfolding is_first_best_def by blast
  moreover have "\<not> better x y" if "better y x"
    using that better_trans [of x y x] better_irrefl by blast
  ultimately show ?thesis
    using assms(2) better_irrefl by auto
qed

end

text \<open>Comparisons through a linearly ordered key are strict preferences, both ways round.\<close>

lemma strict_pref_by_key:
  fixes key :: "'a \<Rightarrow> 'k :: linorder"
  shows "strict_pref (\<lambda>x y. key y < key x)" and "strict_pref (\<lambda>x y. key x < key y)"
  by unfold_locales auto

end
