(* ===== verification/Kube_Types.thy ===== *)
theory Kube_Types
  imports Prelude
begin

text \<open>
  The Kubernetes, Cluster API, Velero, Argo CD and Gitea objects the operator reads and
  writes, restricted to the fields it uses. These types come from third-party packages;
  they are plain data here and carry no behaviour of their own.
\<close>

section \<open>Core objects\<close>

datatype NodeConditionType =
    NodeReady | NodeMemoryPressure | NodeDiskPressure | NodePIDPressure | NodeNetworkUnavailable
  | NodeOtherCondition string

datatype ConditionStatus = ConditionTrue | ConditionFalse | ConditionUnknown | ConditionOther string

record NodeCondition =
  cond_Type :: NodeConditionType
  cond_Status :: ConditionStatus
  cond_Reason :: string
  cond_Message :: string
  cond_LastTransitionTime :: time

record NodeAddress =
  addr_InternalIP :: bool
  addr_Address :: string

record Node =
  node_Name :: string
  node_Labels :: smap
  node_Conditions :: "NodeCondition list"
  node_Addresses :: "NodeAddress list"

record OwnerReference =
  ref_Kind :: string
  ref_Name :: string
  ref_Controller :: "bool option"

record ContainerPort =
  port_ContainerPort :: int
  port_Protocol :: string

record CoreContainer =
  ctr_Name :: string
  ctr_Image :: string
  ctr_Args :: "string list"
  ctr_Command :: "string list"
  ctr_Ports :: "ContainerPort list"
  ctr_ImagePullPolicy :: string

datatype PodPhase = PodPending | PodRunning | PodSucceeded | PodFailed | PodPhaseOther string

text \<open>A toleration: key, operator and effect.\<close>

type_synonym Toleration = "string \<times> string \<times> string"

record Pod =
  pod_Name :: string
  pod_Namespace :: string
  pod_OwnerReferences :: "OwnerReference list"
  pod_NodeName :: string
  pod_Containers :: "CoreContainer list"
  pod_Phase :: PodPhase
  pod_PodIP :: string
  pod_ReadyConditions :: "ConditionStatus list"
    \<comment> \<open>the statuses of the conditions of type \<^verbatim>\<open>Ready\<close>, in order\<close>
  pod_Labels :: smap
  pod_Tolerations :: "Toleration list"
  pod_RestartPolicy :: string
  pod_HostNetwork :: bool

text \<open>\<^verbatim>\<open>metav1.ObjectMeta\<close>, as read from Deployments, ReplicaSets, DaemonSets and StatefulSets.\<close>

record ObjectMeta =
  meta_Name :: string
  meta_Namespace :: string
  meta_Annotations :: smap
  meta_OwnerReferences :: "OwnerReference list"

text \<open>\<^verbatim>\<open>metav1.PartialObjectMetadata\<close>.\<close>

record PartialObjectMetadata =
  pom_APIVersion :: string
  pom_Kind :: string
  pom_Name :: string
  pom_Namespace :: string
  pom_Annotations :: smap

text \<open>\<^verbatim>\<open>metav1.Condition\<close>, as the statuses of the custom resources carry it.\<close>

record StatusCondition =
  sc_Type :: string
  sc_Status :: ConditionStatus
  sc_ObservedGeneration :: "64 word"
  sc_LastTransitionTime :: time
  sc_Reason :: string
  sc_Message :: string

record Secret =
  sec_Name :: string
  sec_Namespace :: string
  sec_IsServiceAccountToken :: bool
  sec_Annotations :: smap
  sec_Data :: smap

section \<open>Cluster API objects\<close>

record Condition =
  cc_IsReadyCondition :: bool
  cc_Status :: ConditionStatus

record Cluster =
  cl_Name :: string
  cl_Namespace :: string
  cl_Phase :: string
  cl_Conditions :: "Condition list"

record Machine =
  mach_Name :: string
  mach_Namespace :: string
  mach_Labels :: smap
  mach_Phase :: string
  mach_Addresses :: "string list"
  mach_NodeRef :: "string option"
  mach_ClusterName :: string

section \<open>Velero, Argo CD and Gitea objects\<close>

record VeleroBackup =
  vb_Name :: string
  vb_Labels :: smap
  vb_Phase :: string
  vb_CreationTimestamp :: time

datatype RestorePhase = RestorePhaseCompleted | RestorePhaseFailed | RestorePhaseOther string

record SyncOperation =
  sync_Revision :: string
  sync_Force :: bool
  sync_InitiatedBy :: string

record Application =
  app_Name :: string
  app_Namespace :: string
  app_Operation :: "SyncOperation option"

record GiteaRepository =
  repo_Name :: string
  repo_CloneURL :: string

text \<open>
  The handle of a Kubernetes client: the management cluster's, or a workload cluster's
  built from a kubeconfig. A nil \<^verbatim>\<open>client.Client\<close> is \<open>None\<close> of \<open>kclient option\<close>.
\<close>

datatype kclient = MgmtClient | WorkloadClient string

end
