(* ===== verification/Api_Types.thy ===== *)
theory Api_Types
  imports Kube_Types
begin

text \<open>
  The operator's own custom resources (\<^verbatim>\<open>src/api/v1\<close>): one record per Go struct with
  the source's fields, and one datatype per enumerated string type, with a constructor for
  a value outside the declared constants where the code has a default branch. Type
  metadata and the list types, which only wrap the items, are part of \<open>Api_Memory\<close>.
\<close>

section \<open>ClusterPolicy (clusterpolicy\_types.go)\<close>

datatype PackageType = PackageTypeStateless | PackageTypeStateful | PackageTypeOther string

datatype PackageTransitionCondition =
    PackageTransitionConditionInProgress
  | PackageTransitionConditionCompleted
  | PackageTransitionConditionFailed
  | PackageTransitionConditionOther string

datatype BackupType = BackupTypeSchedule | BackupTypeManual | BackupTypeOther string

record ClusterSelector =
  cs_Name :: string
  cs_Repo :: string
  cs_RepoType :: string
  cs_Provider :: string

record BackupInformation =
  bi_Name :: string
  bi_BackupType :: BackupType
  bi_SchedulePeriod :: string

record PackageRetentionPolicy =
  prp_RetainOnSource :: bool
  prp_DeleteAfterTransition :: bool

record PackageSelector =
  ps_Name :: string
  ps_PackagePath :: string
  ps_PackageType :: PackageType
  ps_LiveStatePackage :: bool
  ps_BackupInformation :: "BackupInformation list"

record PreferredCluster =
  pc_Name :: string
  pc_RepoType :: string
  pc_Weight :: int64

record TargetClusterPolicy =
  tcp_PreferClusters :: "PreferredCluster list"
  tcp_AvoidClusters :: "PreferredCluster list"

record ClusterPolicySpec =
  cps_ClusterSelector :: ClusterSelector
  cps_PackageSelectors :: "PackageSelector list"
  cps_TargetClusterPolicy :: TargetClusterPolicy

record TransitionedPackages =
  tp_PackageSelectors :: "PackageSelector list"
  tp_LastTransitionTime :: time
  tp_PackageTransitionCondition :: PackageTransitionCondition
  tp_PackageTransitionMessage :: string

record ClusterPolicyStatus =
  cpst_TransitionedPackages :: "TransitionedPackages list"

record ClusterPolicy =
  cpol_Name :: string
  cpol_Namespace :: string
  cpol_Spec :: ClusterPolicySpec
  cpol_Status :: ClusterPolicyStatus

section \<open>Checkpoint (checkpoint\_types.go)\<close>

record ResourceRef =
  rr_APIVersion :: string
  rr_Kind :: string
  rr_Namespace :: string
  rr_Name :: string
  rr_Annotations :: smap

record ContainerRef =
  cref_Containers :: "CoreContainer list"

record PodRef =
  pr_Namespace :: string
  pr_Name :: string
  pr_ContainerRef :: ContainerRef

record SecretRef =
  sr_Name :: string
  sr_Namespace :: string

record Registry =
  reg_URL :: string
  reg_Repository :: string
  reg_SecretRef :: "SecretRef option"

record BackupRef =
  bref_Name :: string

text \<open>\<^verbatim>\<open>Container\<close> of the API, unlike the core type of that name.\<close>

record Container =
  cont_Name :: string
  cont_Image :: string

record ClusterRef =
  clr_Name :: string
  clr_Repository :: string
  clr_PackageName :: string

record CheckpointSpec =
  cks_Schedule :: string
  cks_ClusterRef :: "ClusterRef option"
  cks_TargetClusterRef :: "ClusterRef option"
  cks_PodRef :: PodRef
  cks_ResourceRef :: ResourceRef
  cks_Registry :: Registry
  cks_Containers :: "Container list"

datatype CheckpointPhase =
    CheckpointPhasePending | CheckpointPhaseRunning | CheckpointPhaseCompleted
  | CheckpointPhaseFailed | CheckpointPhaseUnset

record CheckpointStatus =
  ckst_Phase :: CheckpointPhase
  ckst_LastCheckpointTime :: "time option"
  ckst_Message :: string
  ckst_ObservedGeneration :: int64
  ckst_LastCheckpointImage :: string
  ckst_OriginalImage :: string
  ckst_Conditions :: "StatusCondition list"

record Checkpoint =
  ck_Name :: string
  ck_Namespace :: string
  ck_Finalizers :: "string list"
  ck_DeletionTimestamp :: "time option"
  ck_Spec :: CheckpointSpec
  ck_Status :: CheckpointStatus

section \<open>NodeHealth (nodehealth\_types.go)\<close>

record NodeHealthSpec =
  nhs_NodeName :: string

record NodeHealthStatus =
  nhst_Conditions :: "StatusCondition list"
  nhst_IP :: string
  nhst_OS :: string
  nhst_Arch :: string
  nhst_CPUs :: int
  nhst_CPUUsage :: string
  nhst_MemTotal :: "64 word"
  nhst_MemUsed :: "64 word"
  nhst_LastSeen :: time
  nhst_Condition :: string
  nhst_ClusterName :: string
  nhst_ClusterNS :: string
  nhst_Machine :: string
  nhst_OwnerKind :: string
  nhst_OwnerName :: string
  nhst_ProvidedIP :: string
  nhst_CRISocket :: string

record NodeHealth =
  nh_Name :: string
  nh_Namespace :: string
  nh_Spec :: NodeHealthSpec
  nh_Status :: NodeHealthStatus

section \<open>PackagePolicy (packagepolicy\_types.go)\<close>

record PackagePolicySpec =
  pps_Foo :: string

text \<open>The status has no fields.\<close>

type_synonym PackagePolicyStatus = unit

record PackagePolicy =
  pp_Name :: string
  pp_Namespace :: string
  pp_Spec :: PackagePolicySpec
  pp_Status :: PackagePolicyStatus

section \<open>Zero values\<close>

text \<open>What Go's \<^verbatim>\<open>T{}\<close> and \<^verbatim>\<open>var x T\<close> give for the types the code declares that way.\<close>

definition zero_BackupInformation :: BackupInformation where
  "zero_BackupInformation = \<lparr>bi_Name = '''', bi_BackupType = BackupTypeOther '''', bi_SchedulePeriod = ''''\<rparr>"

definition zero_ResourceRef :: ResourceRef where
  "zero_ResourceRef =
     \<lparr>rr_APIVersion = '''', rr_Kind = '''', rr_Namespace = '''', rr_Name = '''', rr_Annotations = []\<rparr>"

definition zero_CheckpointStatus :: CheckpointStatus where
  "zero_CheckpointStatus =
     \<lparr>ckst_Phase = CheckpointPhaseUnset, ckst_LastCheckpointTime = None, ckst_Message = '''',
      ckst_ObservedGeneration = 0, ckst_LastCheckpointImage = '''', ckst_OriginalImage = '''', ckst_Conditions = []\<rparr>"

definition zero_NodeHealthStatus :: NodeHealthStatus where
  "zero_NodeHealthStatus =
     \<lparr>nhst_Conditions = [], nhst_IP = '''', nhst_OS = '''', nhst_Arch = '''', nhst_CPUs = 0, nhst_CPUUsage = '''',
      nhst_MemTotal = 0, nhst_MemUsed = 0, nhst_LastSeen = ZeroTime, nhst_Condition = '''', nhst_ClusterName = '''',
      nhst_ClusterNS = '''', nhst_Machine = '''', nhst_OwnerKind = '''', nhst_OwnerName = '''', nhst_ProvidedIP = '''',
      nhst_CRISocket = ''''\<rparr>"

section \<open>Access paths the code uses throughout\<close>

abbreviation selector_name :: "ClusterPolicy \<Rightarrow> string" where
  "selector_name p \<equiv> cs_Name (cps_ClusterSelector (cpol_Spec p))"

abbreviation selector_repo :: "ClusterPolicy \<Rightarrow> string" where
  "selector_repo p \<equiv> cs_Repo (cps_ClusterSelector (cpol_Spec p))"

abbreviation prefer_clusters :: "ClusterPolicy \<Rightarrow> PreferredCluster list" where
  "prefer_clusters p \<equiv> tcp_PreferClusters (cps_TargetClusterPolicy (cpol_Spec p))"

abbreviation transitioned :: "ClusterPolicy \<Rightarrow> TransitionedPackages list" where
  "transitioned p \<equiv> cpst_TransitionedPackages (cpol_Status p)"

definition append_transition :: "TransitionedPackages \<Rightarrow> ClusterPolicy \<Rightarrow> ClusterPolicy" where
  "append_transition t p =
     p\<lparr>cpol_Status := (cpol_Status p)\<lparr>cpst_TransitionedPackages := transitioned p @ [t]\<rparr>\<rparr>"

lemma append_transition_simps [simp]:
  "transitioned (append_transition t p) = transitioned p @ [t]"
  "cpol_Spec (append_transition t p) = cpol_Spec p"
  "cpol_Name (append_transition t p) = cpol_Name p"
  "cpol_Namespace (append_transition t p) = cpol_Namespace p"
  by (simp_all add: append_transition_def)

end
