(* ===== verification/Manifest_Types.thy ===== *)
theory Manifest_Types
  imports Kube_Types
begin

text \<open>
  The documents the operator writes to git: the Argo CD application and the Velero restore
  manifests as structs (\<^verbatim>\<open>src/reconcilers/helpers/argoapp_types.go\<close>,
  \<^verbatim>\<open>velero_restore_types.go\<close>), and decoded YAML documents as trees.
\<close>

section \<open>Argo CD application (argoapp\_types.go)\<close>

record IgnoreDifference =
  id_Group :: string
  id_Kind :: string
  id_Name :: string
  id_Namespace :: string
  id_JSONPointers :: "string list"

record ArgoMetadata =
  am_Name :: string
  am_Namespace :: string
  am_Finalizers :: "string list"

record ArgoSource =
  asrc_RepoURL :: string
  asrc_TargetRevision :: string
  asrc_Path :: string
  asrc_Recurse :: bool

record ArgoSyncPolicy =
  asp_Prune :: bool
  asp_SelfHeal :: bool
  asp_AllowEmpty :: bool
  asp_SyncOptions :: "string list"

record ArgoAppSpec =
  aa_APIVersion :: string
  aa_Kind :: string
  aa_Metadata :: ArgoMetadata
  aa_Project :: string
  aa_Source :: ArgoSource
  aa_DestinationServer :: string
  aa_DestinationNamespace :: string
  aa_SyncPolicy :: ArgoSyncPolicy
  aa_IgnoreDifferences :: "IgnoreDifference list"

text \<open>\<^verbatim>\<open>ArgoAppSkipResourcesIgnoreDifferences\<close> of \<^verbatim>\<open>clusterpolicy_helpers.go\<close>.\<close>

record ArgoAppSkipResourcesIgnoreDifferences =
  sid_Group :: string
  sid_Kind :: string
  sid_Name :: string
  sid_JsonPointers :: "string list"

section \<open>Velero restore (velero\_restore\_types.go)\<close>

record VeleroRestore =
  vr_APIVersion :: string
  vr_Kind :: string
  vr_Name :: string
  vr_Namespace :: string
  vr_BackupName :: string
  vr_ExcludedResources :: "string list"
  vr_IncludedResources :: "string list"
  vr_RestorePVs :: bool
  vr_PreserveNodePorts :: bool
  vr_Hooks :: smap
  vr_IncludedNamespaces :: "string list"
  vr_ItemOperationTimeout :: string

section \<open>Decoded YAML\<close>

text \<open>
  What \<^verbatim>\<open>yaml.Unmarshal\<close> gives for a \<^verbatim>\<open>map[string]interface{}\<close>: a tree. A mapping is an
  association list in which the first entry of a key counts; \<open>YOther\<close> is any value of
  another dynamic type.
\<close>

datatype yval =
    YNull
  | YStr string
  | YSeq "yval list"
  | YMap "(string \<times> yval) list"
  | YOther string

text \<open>The head of a manifest document, the anonymous struct the scanners decode into.\<close>

record manifest_head =
  mh_Kind :: string
  mh_Name :: string
  mh_Namespace :: string

end
