(* ===== verification/Environment.thy ===== *)
theory Environment
  imports Api_Types Manifest_Types
begin

text \<open>
  The services the operator calls: the API servers of the management and the workload
  clusters (through controller-runtime's client), Gitea's REST API, git, the YAML
  packages, the local file system, the process environment and the clock. None of that code is in the repository,
  so it is a parameter: a record of functions that give the answer of each call.

  An answer may depend on everything that happened before: every function takes the
  history of the calls made so far (newest first), and every call of the model extends the
  history. A record of such functions is therefore an arbitrary deterministic environment,
  including other clients of the API servers acting between two calls, and a theorem that
  holds for every record holds for all of them. The history is also what properties about
  the operator's own effects are stated over.
\<close>

section \<open>Histories\<close>

text \<open>A Gitea client is identified by its URL and credentials.\<close>

record gitea_client =
  gc_URL :: string
  gc_Username :: string
  gc_Password :: string

datatype event =
    Read string string string
    \<comment> \<open>a read of an object or a list: its kind, namespace and name\<close>
  | StartedGitea "gitea_client option"
    \<comment> \<open>the process created its Gitea singleton, with or without a working client\<close>
  | Slept duration
    \<comment> \<open>the goroutine slept for that long\<close>
  | Scheduled nat string string
    \<comment> \<open>a job was added to the cron scheduler: its entry, the key of its checkpoint, its schedule\<close>
  | Unscheduled nat
  | StartedCleanup kclient string string
    \<comment> \<open>a goroutine that cleans up a pod was started: cluster, namespace, pod\<close>
  | CreatedCheckpoint Checkpoint bool
  | UpdatedCheckpoint Checkpoint bool
  | UpdatedCheckpointStatus Checkpoint bool
  | UpdatedPolicyStatus ClusterPolicy bool
  | CreatedNodeHealth NodeHealth bool
  | UpdatedNodeHealthStatus NodeHealth bool
  | UpdatedNodeHealth NodeHealth bool
  | CreatedPod kclient Pod bool
  | DeletedPod kclient string string bool
  | CreatedNamespace kclient string bool
  | UpdatedApplication kclient Application bool
  | PatchedApplication kclient string bool
    \<comment> \<open>the body of a merge patch\<close>
  | CreatedFile string string string string string bool
    \<comment> \<open>Gitea user, repository, path, content, commit message\<close>
  | WroteFile string string bool
    \<comment> \<open>local path, content\<close>
  | Cloned string string string bool
    \<comment> \<open>URL, branch, directory\<close>
  | Committed string string bool
    \<comment> \<open>directory, message\<close>
  | Pushed string string bool
    \<comment> \<open>directory, refspec\<close>
  | Executed "string list" bool
    \<comment> \<open>an external command\<close>
  | RemovedFile string bool
  | MadeBucket string bool
  | CreatedLocalFile string bool
  | DownloadedObject string string string bool
    \<comment> \<open>bucket, object, local path\<close>
  | RequestedCheckpoint string bool
    \<comment> \<open>the kubelet checkpoint URL\<close>

type_synonym hist = "event list"

fun is_write :: "event \<Rightarrow> bool" where
  "is_write (Read _ _ _) = False"
| "is_write (StartedGitea _) = False"
| "is_write (Slept _) = False"
| "is_write (Scheduled _ _ _) = False"
| "is_write (Unscheduled _) = False"
| "is_write (StartedCleanup _ _ _) = False"
| "is_write _ = True"

definition writes :: "hist \<Rightarrow> hist" where
  "writes h = filter is_write h"

lemma writes_simps [simp]:
  "writes [] = []"
  "writes (Read a b c # h) = writes h"
  "writes (StartedGitea x # h) = writes h"
  "writes (Slept d # h) = writes h"
  "writes (Scheduled i k s # h) = writes h"
  "writes (Unscheduled i # h) = writes h"
  "writes (StartedCleanup cl ns n # h) = writes h"
  "is_write e \<Longrightarrow> writes (e # h) = e # writes h"
  "writes (g @ h) = writes g @ writes h"
  by (simp_all add: writes_def)

text \<open>A read and a write: the answer, and the history with the call added.\<close>

definition rd :: "string \<Rightarrow> string \<Rightarrow> string \<Rightarrow> (hist \<Rightarrow> 'a) \<Rightarrow> hist \<Rightarrow> 'a \<times> hist" where
  "rd kind ns name f h = (f h, Read kind ns name # h)"

definition wr :: "(bool \<Rightarrow> event) \<Rightarrow> (hist \<Rightarrow> 'a result) \<Rightarrow> hist \<Rightarrow> 'a result \<times> hist" where
  "wr ev f h = (f h, ev (\<not> is_err (f h)) # h)"

lemma rd_simps [api_simps]: "rd k ns n f h = (f h, Read k ns n # h)"
  by (simp add: rd_def)

lemma wr_simps [api_simps]: "wr ev f h = (f h, ev (\<not> is_err (f h)) # h)"
  by (simp add: wr_def)

section \<open>The services\<close>

text \<open>The management cluster: the operator's custom resources, Cluster API objects, secrets.\<close>

record mgmt_api =
  m_ListClusters :: "hist \<Rightarrow> Cluster list result"
  m_GetCluster :: "hist \<Rightarrow> string \<Rightarrow> string \<Rightarrow> Cluster result"
  m_GetSecret :: "hist \<Rightarrow> string \<Rightarrow> string \<Rightarrow> Secret result"
  m_ListMachines :: "hist \<Rightarrow> string \<Rightarrow> smap \<Rightarrow> Machine list result"
  m_GetMachine :: "hist \<Rightarrow> string \<Rightarrow> string \<Rightarrow> Machine result"
  m_ListPolicies :: "hist \<Rightarrow> ClusterPolicy list result"
  m_GetPolicy :: "hist \<Rightarrow> string \<Rightarrow> string \<Rightarrow> ClusterPolicy result"
  m_UpdatePolicyStatus :: "hist \<Rightarrow> ClusterPolicy \<Rightarrow> unit result"
  m_ListCheckpoints :: "hist \<Rightarrow> Checkpoint list result"
  m_GetCheckpoint :: "hist \<Rightarrow> string \<Rightarrow> string \<Rightarrow> Checkpoint result"
  m_CreateCheckpoint :: "hist \<Rightarrow> Checkpoint \<Rightarrow> unit result"
  m_UpdateCheckpoint :: "hist \<Rightarrow> Checkpoint \<Rightarrow> unit result"
  m_UpdateCheckpointStatus :: "hist \<Rightarrow> Checkpoint \<Rightarrow> unit result"
  m_GetNodeHealth :: "hist \<Rightarrow> string \<Rightarrow> string \<Rightarrow> NodeHealth result"
  m_CreateNodeHealth :: "hist \<Rightarrow> NodeHealth \<Rightarrow> unit result"
  m_UpdateNodeHealthStatus :: "hist \<Rightarrow> NodeHealth \<Rightarrow> unit result"
  m_UpdateNodeHealth :: "hist \<Rightarrow> NodeHealth \<Rightarrow> unit result"

text \<open>
  A cluster reached through a client. \<open>w_NewClient\<close> is \<^verbatim>\<open>RESTConfigFromKubeConfig\<close>
  followed by \<^verbatim>\<open>client.New\<close>, applied to the kubeconfig in a secret; \<open>w_GetWorkload\<close>
  reads the metadata of an \<^verbatim>\<open>apps/v1\<close> object of the given kind. \<open>w_NewForConfig\<close> and
  \<open>w_NewExecutor\<close> prepare a command in a pod (namespace, pod, container, command), and
  \<open>w_Stream\<close> runs it: whether its deadline passed, and the error or the standard output.
\<close>

record workload_api =
  w_NewClient :: "hist \<Rightarrow> string \<Rightarrow> kclient result"
  w_ListNodes :: "hist \<Rightarrow> kclient \<Rightarrow> Node list result"
  w_ListNodesWithLabel :: "hist \<Rightarrow> kclient \<Rightarrow> string \<Rightarrow> string \<Rightarrow> Node list result"
  w_GetNode :: "hist \<Rightarrow> kclient \<Rightarrow> string \<Rightarrow> Node result"
  w_ListPods :: "hist \<Rightarrow> kclient \<Rightarrow> Pod list result"
  w_ListPodsWithLabel :: "hist \<Rightarrow> kclient \<Rightarrow> string \<Rightarrow> string \<Rightarrow> string \<Rightarrow> Pod list result"
  w_ListPodsOnNode :: "hist \<Rightarrow> kclient \<Rightarrow> string \<Rightarrow> Pod list result"
  w_GetPod :: "hist \<Rightarrow> kclient \<Rightarrow> string \<Rightarrow> string \<Rightarrow> Pod result"
  w_CreatePod :: "hist \<Rightarrow> kclient \<Rightarrow> Pod \<Rightarrow> unit result"
  w_DeletePod :: "hist \<Rightarrow> kclient \<Rightarrow> string \<Rightarrow> string \<Rightarrow> unit result"
  w_GetNamespace :: "hist \<Rightarrow> kclient \<Rightarrow> string \<Rightarrow> unit result"
  w_CreateNamespace :: "hist \<Rightarrow> kclient \<Rightarrow> string \<Rightarrow> unit result"
  w_GetWorkload :: "hist \<Rightarrow> kclient \<Rightarrow> string \<Rightarrow> string \<Rightarrow> string \<Rightarrow> ObjectMeta result"
  w_ListBackups :: "hist \<Rightarrow> kclient \<Rightarrow> VeleroBackup list result"
  w_GetRestore :: "hist \<Rightarrow> kclient \<Rightarrow> string \<Rightarrow> string \<Rightarrow> RestorePhase result"
  w_GetApplication :: "hist \<Rightarrow> kclient \<Rightarrow> string \<Rightarrow> string \<Rightarrow> Application result"
  w_UpdateApplication :: "hist \<Rightarrow> kclient \<Rightarrow> Application \<Rightarrow> unit result"
  w_NewForConfig :: "hist \<Rightarrow> kclient \<Rightarrow> unit result"
  w_NewExecutor :: "hist \<Rightarrow> kclient \<Rightarrow> string \<Rightarrow> string \<Rightarrow> string \<Rightarrow> string list \<Rightarrow> unit result"
  w_Stream :: "hist \<Rightarrow> kclient \<Rightarrow> string \<Rightarrow> string \<Rightarrow> string \<Rightarrow> string list \<Rightarrow> bool \<times> string result"

record gitea_api =
  g_NewClient :: "hist \<Rightarrow> string \<Rightarrow> string \<Rightarrow> string \<Rightarrow> gitea_client result"
  g_GetMyUserInfo :: "hist \<Rightarrow> gitea_client \<Rightarrow> string result"
  g_ListMyRepos :: "hist \<Rightarrow> gitea_client \<Rightarrow> GiteaRepository list result"
  g_CreateFile :: "hist \<Rightarrow> gitea_client \<Rightarrow> string \<Rightarrow> string \<Rightarrow> string \<Rightarrow> string \<Rightarrow> string \<Rightarrow> unit result"

text \<open>
  The operating system and git. \<open>o_Getenv\<close> is the process environment (the empty
  string for an unset variable), \<open>o_Now\<close> is \<^verbatim>\<open>time.Now\<close>, \<open>o_LocalTimestamp\<close> is
  \<^verbatim>\<open>time.Now().Format("20060102-150405")\<close>, which depends on the host's time zone;
  \<open>o_Ticks h timeout interval\<close> is the number of ticks that a loop entered at \<open>h\<close>,
  which selects between a ticker of that interval and a context with that timeout,
  receives before the context is done (a context with a timeout always ends, so the
  number exists; ticks may be dropped, so it is not a quotient);
  \<open>o_WalkDir\<close> gives the regular files below a directory in the order of the walk, up to
  the first error if there is one; \<open>o_Sched h n\<close> is the \<open>n\<close>-th choice of the Go scheduler in
  a concurrent computation started at \<open>h\<close>; \<open>o_IsNetError\<close> tells whether an error carries a
  \<^verbatim>\<open>net.Error\<close> that timed out or is not temporary, which its text does not show.
\<close>

record os_api =
  o_Getenv :: "string \<Rightarrow> string"
  o_Now :: "hist \<Rightarrow> time"
  o_LocalTimestamp :: "hist \<Rightarrow> string"
  o_Ticks :: "hist \<Rightarrow> duration \<Rightarrow> duration \<Rightarrow> nat"
  o_MkdirTemp :: "hist \<Rightarrow> string result"
  o_WalkDir :: "hist \<Rightarrow> string \<Rightarrow> string list \<times> error option"
  o_ReadFile :: "hist \<Rightarrow> string \<Rightarrow> string result"
  o_WriteFile :: "hist \<Rightarrow> string \<Rightarrow> string \<Rightarrow> unit result"
  o_GitClone :: "hist \<Rightarrow> string \<Rightarrow> string \<Rightarrow> string \<Rightarrow> unit result"
  o_GitOpen :: "hist \<Rightarrow> string \<Rightarrow> unit result"
  o_GitWorktree :: "hist \<Rightarrow> string \<Rightarrow> unit result"
  o_GitAddAll :: "hist \<Rightarrow> string \<Rightarrow> unit result"
  o_GitCommit :: "hist \<Rightarrow> string \<Rightarrow> string \<Rightarrow> string \<Rightarrow> unit result"
  o_GitPush :: "hist \<Rightarrow> string \<Rightarrow> string \<Rightarrow> string \<Rightarrow> string \<Rightarrow> unit result"
  o_NumCPU :: nat
  o_IsNetError :: "error \<Rightarrow> bool"
  o_Sched :: "hist \<Rightarrow> nat \<Rightarrow> nat"

text \<open>
  The YAML packages: \<^verbatim>\<open>yaml.Marshal\<close> of the two structs and of a decoded document,
  \<^verbatim>\<open>yaml.Unmarshal\<close> into a generic map (the top-level mapping's entries), and the
  document-stream decoder: the heads of the documents up to the end of the input or the
  first error.
\<close>

record yaml_api =
  y_MarshalApp :: "ArgoAppSpec \<Rightarrow> string result"
  y_MarshalRestore :: "VeleroRestore \<Rightarrow> string result"
  y_MarshalDoc :: "(string \<times> yval) list \<Rightarrow> string result"
  y_UnmarshalDoc :: "string \<Rightarrow> (string \<times> yval) list result"
  y_DecodeHeads :: "string \<Rightarrow> manifest_head list \<times> error option"

text \<open>
  What taking a checkpoint needs: the object store (MinIO), local files, external commands
  (\<open>e_Run\<close> gives the standard output), the kubelet behind the API server's proxy
  (\<open>e_Host\<close> is the address in the client's configuration, the answer is the status code and
  the body), the decoder of its JSON answer, the cron scheduler (\<open>e_AddFunc\<close> parses a
  schedule and gives the entry), the SHA-1 digest in hexadecimal, and the workload cluster's
  service accounts and secrets. \<open>e_ErrorCode\<close> and \<open>e_IsNotExist\<close> read an error of MinIO and
  of the file system.
\<close>

record ext_api =
  e_MinioNew :: "hist \<Rightarrow> string \<Rightarrow> string \<Rightarrow> string \<Rightarrow> unit result"
  e_BucketExists :: "hist \<Rightarrow> string \<Rightarrow> bool result"
  e_MakeBucket :: "hist \<Rightarrow> string \<Rightarrow> unit result"
  e_StatObject :: "hist \<Rightarrow> string \<Rightarrow> string \<Rightarrow> unit result"
  e_ErrorCode :: "error \<Rightarrow> string"
  e_GetObject :: "hist \<Rightarrow> string \<Rightarrow> string \<Rightarrow> unit result"
  e_CreateFile :: "hist \<Rightarrow> string \<Rightarrow> unit result"
  e_CopyObject :: "hist \<Rightarrow> string \<Rightarrow> string \<Rightarrow> string \<Rightarrow> nat result"
  e_Stat :: "hist \<Rightarrow> string \<Rightarrow> unit result"
  e_IsNotExist :: "error \<Rightarrow> bool"
  e_Remove :: "hist \<Rightarrow> string \<Rightarrow> unit result"
  e_Run :: "hist \<Rightarrow> string list \<Rightarrow> string result"
  e_Host :: "kclient \<Rightarrow> string"
  e_TransportFor :: "hist \<Rightarrow> kclient \<Rightarrow> unit result"
  e_NewRequest :: "string \<Rightarrow> unit result"
  e_Post :: "hist \<Rightarrow> kclient \<Rightarrow> string \<Rightarrow> (nat \<times> string result) result"
  e_ParseItems :: "string \<Rightarrow> string list result"
  e_AddFunc :: "hist \<Rightarrow> string \<Rightarrow> nat result"
  e_Sha1Hex :: "string \<Rightarrow> string"
  e_GetServiceAccount :: "hist \<Rightarrow> kclient \<Rightarrow> string \<Rightarrow> string \<Rightarrow> unit result"
  e_CreateToken :: "hist \<Rightarrow> kclient \<Rightarrow> string \<Rightarrow> string \<Rightarrow> string result"
  e_ListSecrets :: "hist \<Rightarrow> kclient \<Rightarrow> string \<Rightarrow> Secret list result"

record env =
  mgmt :: mgmt_api
  wl :: workload_api
  gt :: gitea_api
  os :: os_api
  yaml :: yaml_api
  ext :: ext_api

text \<open>\<^verbatim>\<open>time.Now\<close>, which advances the history as every other call.\<close>

definition Now :: "env \<Rightarrow> hist \<Rightarrow> time \<times> hist" where
  "Now en = rd ''clock'' '''' '''' (o_Now (os en))"

lemma Now_simp [api_simps]: "Now en h = (o_Now (os en) h, Read ''clock'' '''' '''' # h)"
  by (simp add: Now_def rd_def)

section \<open>What a computation may add to the history\<close>

text \<open>
  \<open>emits P m\<close>: the computation only extends the history, and only with events that
  satisfy \<open>P\<close>. The rules let the property of a handler be read off its calls.
\<close>

definition emits :: "(event \<Rightarrow> bool) \<Rightarrow> (hist \<Rightarrow> 'a \<times> hist) \<Rightarrow> bool" where
  "emits P m \<longleftrightarrow> (\<forall>h. \<exists>es. snd (m h) = es @ h \<and> (\<forall>e \<in> set es. P e))"

named_theorems emits_intros \<open>rules for emits\<close>

lemma emitsI:
  "(\<And>h. \<exists>es. snd (m h) = es @ h \<and> (\<forall>e \<in> set es. P e)) \<Longrightarrow> emits P m"
  by (simp add: emits_def)

lemma emitsD:
  assumes "emits P m" and "m h = (x, h')"
  obtains es where "h' = es @ h" "\<forall>e \<in> set es. P e"
  using assms unfolding emits_def by (metis snd_conv)

lemma emits_ret [emits_intros]: "emits P (\<lambda>h. (x, h))"
  by (simp add: emits_def)

lemma emits_rd [emits_intros]: "P (Read k ns n) \<Longrightarrow> emits P (rd k ns n f)"
  by (auto simp: emits_def rd_def)

lemma emits_wr [emits_intros]: "(\<And>b. P (ev b)) \<Longrightarrow> emits P (wr ev f)"
  by (auto simp: emits_def wr_def)

lemma emits_bind [emits_intros]:
  assumes "emits P m" and "\<And>x. emits P (\<lambda>h. k x h)"
  shows "emits P (\<lambda>h. case m h of (x, h') \<Rightarrow> k x h')"
proof (rule emitsI)
  fix h
  obtain x h1 where m: "m h = (x, h1)" by fastforce
  from assms(1) m obtain es where 1: "h1 = es @ h" "\<forall>e \<in> set es. P e" by (rule emitsD)
  obtain y h2 where k: "k x h1 = (y, h2)" by fastforce
  from assms(2) k obtain fs where 2: "h2 = fs @ h1" "\<forall>e \<in> set fs. P e" by (rule emitsD)
  have "snd (case m h of (x, h') \<Rightarrow> k x h') = (fs @ es) @ h"
    using m k 1 2 by simp
  moreover have "\<forall>e \<in> set (fs @ es). P e" using 1 2 by auto
  ultimately show "\<exists>es. snd (case m h of (x, h') \<Rightarrow> k x h') = es @ h \<and> (\<forall>e \<in> set es. P e)"
    by blast
qed

lemma emits_sum [emits_intros]:
  assumes "\<And>e. emits P (\<lambda>h. f e h)" and "\<And>x. emits P (\<lambda>h. g x h)"
  shows "emits P (\<lambda>h. case r of Inl e \<Rightarrow> f e h | Inr x \<Rightarrow> g x h)"
  using assms by (cases r) simp_all

lemma emits_option [emits_intros]:
  assumes "emits P (\<lambda>h. f h)" and "\<And>x. emits P (\<lambda>h. g x h)"
  shows "emits P (\<lambda>h. case r of None \<Rightarrow> f h | Some x \<Rightarrow> g x h)"
  using assms by (cases r) simp_all

lemma emits_outcome [emits_intros]:
  assumes "\<And>x. emits P (\<lambda>h. f x h)" and "emits P (\<lambda>h. g h)"
  shows "emits P (\<lambda>h. case r of Ret x \<Rightarrow> f x h | Panic \<Rightarrow> g h)"
  using assms by (cases r) simp_all

lemma emits_if [emits_intros]:
  assumes "b \<Longrightarrow> emits P (\<lambda>h. f h)" and "\<not> b \<Longrightarrow> emits P (\<lambda>h. g h)"
  shows "emits P (\<lambda>h. if b then f h else g h)"
  using assms by (cases b) simp_all

lemma emits_prod [emits_intros]:
  assumes "\<And>x y. emits P (\<lambda>h. f x y h)"
  shows "emits P (\<lambda>h. case r of (x, y) \<Rightarrow> f x y h)"
  using assms by (cases r) simp

lemma emits_bool [emits_intros]:
  assumes "b \<Longrightarrow> emits P (\<lambda>h. f h)" and "\<not> b \<Longrightarrow> emits P (\<lambda>h. g h)"
  shows "emits P (\<lambda>h. case b of True \<Rightarrow> f h | False \<Rightarrow> g h)"
  using assms by (cases b) simp_all

lemma emits_list [emits_intros]:
  assumes "emits P (\<lambda>h. f h)" and "\<And>x xs. emits P (\<lambda>h. g x xs h)"
  shows "emits P (\<lambda>h. case l of [] \<Rightarrow> f h | x # xs \<Rightarrow> g x xs h)"
  using assms by (cases l) simp_all

lemma emits_PackageType [emits_intros]:
  assumes "emits P (\<lambda>h. f h)" and "emits P (\<lambda>h. g h)" and "\<And>x. emits P (\<lambda>h. k x h)"
  shows "emits P (\<lambda>h. case t of PackageTypeStateless \<Rightarrow> f h | PackageTypeStateful \<Rightarrow> g h | PackageTypeOther x \<Rightarrow> k x h)"
  using assms by (cases t) simp_all

lemma emits_push:
  assumes "emits P m" and "P e"
  shows "emits P (\<lambda>h. m (e # h))"
proof (rule emitsI)
  fix h
  obtain x h' where m: "m (e # h) = (x, h')" by fastforce
  with assms(1) obtain es where "h' = es @ e # h" "\<forall>e \<in> set es. P e" by (rule emitsD)
  with m assms(2) show "\<exists>es. snd (m (e # h)) = es @ h \<and> (\<forall>e \<in> set es. P e)"
    by (intro exI [of _ "es @ [e]"]) auto
qed

lemma emits_mono: "emits P m \<Longrightarrow> (\<And>e. P e \<Longrightarrow> Q e) \<Longrightarrow> emits Q m"
  unfolding emits_def by metis

lemma emits_Now [emits_intros]: "P (Read ''clock'' '''' '''') \<Longrightarrow> emits P (Now en)"
  by (simp add: Now_def emits_rd)

lemma emits_extends:
  assumes "emits (\<lambda>_. True) m" and "m h = (x, h')"
  shows "\<exists>es. h' = es @ h"
  using assms by (blast elim: emitsD)

lemma emits_reads_writes:
  assumes "emits (\<lambda>e. \<not> is_write e) m" and "m h = (x, h')"
  shows "writes h' = writes h"
proof -
  from assms obtain es where "h' = es @ h" and "\<forall>e \<in> set es. \<not> is_write e" by (rule emitsD)
  then show ?thesis by (simp add: writes_def)
qed

end
