(* ===== verification/Samples.thy ===== *)
theory Samples
  imports Environment
begin

text \<open>
  Concrete inputs for the witnesses: the policy of
  \<^verbatim>\<open>src/config/samples/stateful_transition_v1_clusterpolicy.yaml\<close> with a second target
  cluster, a checkpoint for its first package, and an environment in which every call
  fails, of which the witnesses replace the calls they need.
\<close>

definition down :: error where
  "down = Errorf ''service unavailable''"

definition down_mgmt :: mgmt_api where
  "down_mgmt =
     \<lparr>m_ListClusters = (\<lambda>_. Inl down), m_GetCluster = (\<lambda>_ _ _. Inl down),
      m_GetSecret = (\<lambda>_ _ _. Inl down), m_ListMachines = (\<lambda>_ _ _. Inl down),
      m_GetMachine = (\<lambda>_ _ _. Inl down), m_ListPolicies = (\<lambda>_. Inl down),
      m_GetPolicy = (\<lambda>_ _ _. Inl down), m_UpdatePolicyStatus = (\<lambda>_ _. Inl down),
      m_ListCheckpoints = (\<lambda>_. Inl down), m_GetCheckpoint = (\<lambda>_ _ _. Inl down),
      m_CreateCheckpoint = (\<lambda>_ _. Inl down), m_UpdateCheckpoint = (\<lambda>_ _. Inl down),
      m_UpdateCheckpointStatus = (\<lambda>_ _. Inl down), m_GetNodeHealth = (\<lambda>_ _ _. Inl down),
      m_CreateNodeHealth = (\<lambda>_ _. Inl down), m_UpdateNodeHealthStatus = (\<lambda>_ _. Inl down),
      m_UpdateNodeHealth = (\<lambda>_ _. Inl down)\<rparr>"

definition down_wl :: workload_api where
  "down_wl =
     \<lparr>w_NewClient = (\<lambda>_ _. Inl down), w_ListNodes = (\<lambda>_ _. Inl down),
      w_ListNodesWithLabel = (\<lambda>_ _ _ _. Inl down), w_GetNode = (\<lambda>_ _ _. Inl down),
      w_ListPods = (\<lambda>_ _. Inl down), w_ListPodsWithLabel = (\<lambda>_ _ _ _ _. Inl down),
      w_ListPodsOnNode = (\<lambda>_ _ _. Inl down), w_GetPod = (\<lambda>_ _ _ _. Inl down),
      w_CreatePod = (\<lambda>_ _ _. Inl down), w_DeletePod = (\<lambda>_ _ _ _. Inl down),
      w_GetNamespace = (\<lambda>_ _ _. Inl down), w_CreateNamespace = (\<lambda>_ _ _. Inl down),
      w_GetWorkload = (\<lambda>_ _ _ _ _. Inl down), w_ListBackups = (\<lambda>_ _. Inl down),
      w_GetRestore = (\<lambda>_ _ _ _. Inl down), w_GetApplication = (\<lambda>_ _ _ _. Inl down),
      w_UpdateApplication = (\<lambda>_ _ _. Inl down), w_NewForConfig = (\<lambda>_ _. Inl down),
      w_NewExecutor = (\<lambda>_ _ _ _ _ _. Inl down), w_Stream = (\<lambda>_ _ _ _ _ _. (False, Inl down))\<rparr>"

definition down_gt :: gitea_api where
  "down_gt =
     \<lparr>g_NewClient = (\<lambda>_ _ _ _. Inl down), g_GetMyUserInfo = (\<lambda>_ _. Inl down),
      g_ListMyRepos = (\<lambda>_ _. Inl down), g_CreateFile = (\<lambda>_ _ _ _ _ _ _. Inl down)\<rparr>"

definition down_os :: os_api where
  "down_os =
     \<lparr>o_Getenv = (\<lambda>_. ''''), o_Now = (\<lambda>_. 1), o_LocalTimestamp = (\<lambda>_. ''20250101-000000''),
      o_Ticks = (\<lambda>_ _ _. 2), o_MkdirTemp = (\<lambda>_. Inl down), o_WalkDir = (\<lambda>_ _. ([], Some down)),
      o_ReadFile = (\<lambda>_ _. Inl down), o_WriteFile = (\<lambda>_ _ _. Inl down),
      o_GitClone = (\<lambda>_ _ _ _. Inl down), o_GitOpen = (\<lambda>_ _. Inl down),
      o_GitWorktree = (\<lambda>_ _. Inl down), o_GitAddAll = (\<lambda>_ _. Inl down), o_GitCommit = (\<lambda>_ _ _ _. Inl down),
      o_GitPush = (\<lambda>_ _ _ _ _. Inl down), o_NumCPU = 1, o_IsNetError = (\<lambda>_. False), o_Sched = (\<lambda>_ _. 0)\<rparr>"

definition down_yaml :: yaml_api where
  "down_yaml =
     \<lparr>y_MarshalApp = (\<lambda>_. Inl down), y_MarshalRestore = (\<lambda>_. Inl down),
      y_MarshalDoc = (\<lambda>_. Inl down), y_UnmarshalDoc = (\<lambda>_. Inl down),
      y_DecodeHeads = (\<lambda>_. ([], None))\<rparr>"

definition down_ext :: ext_api where
  "down_ext =
     \<lparr>e_MinioNew = (\<lambda>_ _ _ _. Inl down), e_BucketExists = (\<lambda>_ _. Inl down), e_MakeBucket = (\<lambda>_ _. Inl down),
      e_StatObject = (\<lambda>_ _ _. Inl down), e_ErrorCode = (\<lambda>_. ''''), e_GetObject = (\<lambda>_ _ _. Inl down),
      e_CreateFile = (\<lambda>_ _. Inl down), e_CopyObject = (\<lambda>_ _ _ _. Inl down), e_Stat = (\<lambda>_ _. Inl down),
      e_IsNotExist = (\<lambda>_. True), e_Remove = (\<lambda>_ _. Inl down), e_Run = (\<lambda>_ _. Inl down),
      e_Host = (\<lambda>_. ''https://api:6443''), e_TransportFor = (\<lambda>_ _. Inl down), e_NewRequest = (\<lambda>_. Inl down),
      e_Post = (\<lambda>_ _ _. Inl down), e_ParseItems = (\<lambda>_. Inl down), e_AddFunc = (\<lambda>_ _. Inl down),
      e_Sha1Hex = (\<lambda>_. ''''), e_GetServiceAccount = (\<lambda>_ _ _ _. Inl down),
      e_CreateToken = (\<lambda>_ _ _ _. Inl down), e_ListSecrets = (\<lambda>_ _ _. Inl down)\<rparr>"

definition down_env :: env where
  "down_env = \<lparr>mgmt = down_mgmt, wl = down_wl, gt = down_gt, os = down_os, yaml = down_yaml, ext = down_ext\<rparr>"

lemmas down_defs = down_ext_def down_env_def down_mgmt_def down_wl_def down_gt_def down_os_def down_yaml_def

definition sample_gitea :: gitea_client where
  "sample_gitea = \<lparr>gc_URL = ''http://gitea:3000'', gc_Username = ''nephio'', gc_Password = ''secret''\<rparr>"

definition sample_backup :: BackupInformation where
  "sample_backup =
     \<lparr>bi_Name = ''my-test-backup'', bi_BackupType = BackupTypeSchedule, bi_SchedulePeriod = ''*/2 * * * *''\<rparr>"

definition video_pkg :: PackageSelector where
  "video_pkg =
     \<lparr>ps_Name = ''video'', ps_PackagePath = ''video'', ps_PackageType = PackageTypeStateful,
      ps_LiveStatePackage = True, ps_BackupInformation = [sample_backup]\<rparr>"

definition web_pkg :: PackageSelector where
  "web_pkg =
     \<lparr>ps_Name = ''web'', ps_PackagePath = ''web'', ps_PackageType = PackageTypeStateless,
      ps_LiveStatePackage = False, ps_BackupInformation = []\<rparr>"

definition aws_target :: PreferredCluster where
  "aws_target = \<lparr>pc_Name = ''cluster2-aws'', pc_RepoType = ''git'', pc_Weight = 100\<rparr>"

definition capo_target :: PreferredCluster where
  "capo_target = \<lparr>pc_Name = ''cluster3-capo'', pc_RepoType = ''git'', pc_Weight = 10\<rparr>"

definition sample_policy :: ClusterPolicy where
  "sample_policy =
     \<lparr>cpol_Name = ''clusterpolicy-sample'', cpol_Namespace = ''default'',
      cpol_Spec =
        \<lparr>cps_ClusterSelector =
           \<lparr>cs_Name = ''cluster1-azure'', cs_Repo = ''http://git/cluster1-azure.git'',
            cs_RepoType = ''git'', cs_Provider = ''''\<rparr>,
         cps_PackageSelectors = [video_pkg, web_pkg],
         cps_TargetClusterPolicy =
           \<lparr>tcp_PreferClusters = [aws_target, capo_target], tcp_AvoidClusters = []\<rparr>\<rparr>,
      cpol_Status = \<lparr>cpst_TransitionedPackages = []\<rparr>\<rparr>"

definition policy_annotations :: smap where
  "policy_annotations =
     [(''transition.dcnlab.ssu.ac.kr/cluster-policy'', ''true''),
      (''transition.dcnlab.ssu.ac.kr/packageName'', ''video'')]"

definition sample_checkpoint :: Checkpoint where
  "sample_checkpoint =
     \<lparr>ck_Name = ''checkpoint-clusterpolicy-sample-video-0-video'', ck_Namespace = ''default'',
      ck_Finalizers = [], ck_DeletionTimestamp = None,
      ck_Spec =
        \<lparr>cks_Schedule = ''*/2 * * * *'',
         cks_ClusterRef = Some \<lparr>clr_Name = ''cluster1-azure'', clr_Repository = '''', clr_PackageName = ''''\<rparr>,
         cks_TargetClusterRef = Some \<lparr>clr_Name = ''cluster2-aws'', clr_Repository = '''', clr_PackageName = ''''\<rparr>,
         cks_PodRef =
           \<lparr>pr_Namespace = ''default'', pr_Name = ''video-0'',
            pr_ContainerRef = \<lparr>cref_Containers = []\<rparr>\<rparr>,
         cks_ResourceRef =
           \<lparr>rr_APIVersion = ''apps/v1'', rr_Kind = ''Deployment'', rr_Namespace = ''default'',
            rr_Name = ''video'', rr_Annotations = policy_annotations\<rparr>,
         cks_Registry = \<lparr>reg_URL = ''docker.io'', reg_Repository = ''vitu1'', reg_SecretRef = None\<rparr>, cks_Containers = []\<rparr>,
      ck_Status =
        \<lparr>ckst_Phase = CheckpointPhaseCompleted, ckst_LastCheckpointTime = Some 5, ckst_Message = '''',
         ckst_ObservedGeneration = 0, ckst_LastCheckpointImage = ''docker.io/vitu1/ckpt'', ckst_OriginalImage = ''video:1'',
         ckst_Conditions = []\<rparr>\<rparr>"

text \<open>The target cluster of the policy, with a Ready condition of the given status, and its kubeconfig.\<close>

definition dr_secret :: Secret where
  "dr_secret = \<lparr>sec_Name = ''cluster2-aws-kubeconfig'', sec_Namespace = ''default'', sec_IsServiceAccountToken = False,
     sec_Annotations = [], sec_Data = [(''value'', ''kc'')]\<rparr>"

definition dr_cluster :: "ConditionStatus \<Rightarrow> Cluster" where
  "dr_cluster st = \<lparr>cl_Name = ''cluster2-aws'', cl_Namespace = ''default'', cl_Phase = ''Provisioned'',
     cl_Conditions = [\<lparr>cc_IsReadyCondition = True, cc_Status = st\<rparr>]\<rparr>"

definition up_mgmt :: "ConditionStatus \<Rightarrow> mgmt_api" where
  "up_mgmt st =
     down_mgmt\<lparr>m_ListClusters := (\<lambda>_. Inr [dr_cluster st]), m_GetCluster := (\<lambda>_ _ _. Inr (dr_cluster st)),
       m_GetSecret := (\<lambda>_ _ _. Inr dr_secret)\<rparr>"

definition up_wl :: workload_api where
  "up_wl = down_wl\<lparr>w_NewClient := (\<lambda>_ _. Inr (WorkloadClient ''cluster2-aws''))\<rparr>"

lemmas sample_defs = sample_policy_def sample_checkpoint_def sample_backup_def video_pkg_def
  web_pkg_def aws_target_def capo_target_def policy_annotations_def sample_gitea_def

end
