(* ===== verification/Policy_Selection.thy ===== *)
theory Policy_Selection
  imports Samples
begin

text \<open>
  The decisions of \<^verbatim>\<open>src/reconcilers/helpers/clusterpolicy_helpers.go\<close> that read a policy
  or a node and change nothing: the target cluster (\<open>DetermineTargetRepo\<close>), the most
  recent condition and the status summary of a node, and whether a package already was
  transitioned. Each loop is translated as written and then shown to be an instance of
  \<open>first_best\<close>, through an interpretation of the \<open>strict_pref\<close> contract.
\<close>

section \<open>Definitions\<close>

text \<open>
  \<open>DetermineTargetRepo\<close>: the loop's three variables are the highest weight so far, the
  repository and the cluster name.
\<close>

fun determine_step :: "int64 \<times> string \<times> string \<Rightarrow> PreferredCluster \<Rightarrow> int64 \<times> string \<times> string" where
  "determine_step (highestWeight, repo, targetClusterName) target =
     (if pc_RepoType target \<noteq> ''git'' then (highestWeight, repo, targetClusterName)
      else if less64 highestWeight (pc_Weight target)
      then (pc_Weight target, pc_Name target @ ''-dr'', pc_Name target)
      else (highestWeight, repo, targetClusterName))"

definition DetermineTargetRepo :: "ClusterPolicy \<Rightarrow> string \<times> string \<times> bool" where
  "DetermineTargetRepo policy =
     (case foldl determine_step (- 1, '''', '''') (prefer_clusters policy) of
        (highestWeight, repo, targetClusterName) \<Rightarrow> (repo, targetClusterName, repo \<noteq> ''''))"

fun most_recent_step :: "NodeCondition option \<Rightarrow> NodeCondition \<Rightarrow> NodeCondition option" where
  "most_recent_step None c = Some c"
| "most_recent_step (Some latest) c =
     (if After (cond_LastTransitionTime c) (cond_LastTransitionTime latest) then Some c else Some latest)"

definition GetMostRecentNodeCondition :: "Node \<Rightarrow> NodeCondition option" where
  "GetMostRecentNodeCondition node = foldl most_recent_step None (node_Conditions node)"

text \<open>
  \<open>GetNodeStatusSummary\<close>: one pass fills the condition map (a later condition of a type
  overwrites an earlier one) and keeps the most recent Ready condition.
\<close>

definition summary_step ::
  "(NodeConditionType \<times> ConditionStatus) list \<times> NodeCondition option \<Rightarrow> NodeCondition \<Rightarrow>
   (NodeConditionType \<times> ConditionStatus) list \<times> NodeCondition option" where
  "summary_step st c =
     ((cond_Type c, cond_Status c) # fst st,
      if cond_Type c = NodeReady then most_recent_step (snd st) c else snd st)"

definition node_problems :: "(NodeConditionType \<times> ConditionStatus) list \<Rightarrow> string list" where
  "node_problems m =
     (if map_of m NodeMemoryPressure = Some ConditionTrue then [''MemoryPressure''] else []) @
     (if map_of m NodeDiskPressure = Some ConditionTrue then [''DiskPressure''] else []) @
     (if map_of m NodePIDPressure = Some ConditionTrue then [''PIDPressure''] else []) @
     (if map_of m NodeNetworkUnavailable = Some ConditionTrue then [''NetworkUnavailable''] else [])"

definition GetNodeStatusSummary :: "Node \<Rightarrow> string" where
  "GetNodeStatusSummary node =
     (case foldl summary_step ([], None) (node_Conditions node) of
        (conditionMap, None) \<Rightarrow> ''Node status unknown (no Ready condition)''
      | (conditionMap, Some readyCond) \<Rightarrow>
          (let status = (case cond_Status readyCond of
                 ConditionTrue \<Rightarrow> ''Ready''
               | ConditionFalse \<Rightarrow> ''NotReady ('' @ cond_Reason readyCond @ '')''
               | ConditionUnknown \<Rightarrow> ''Unknown''
               | ConditionOther _ \<Rightarrow> ''Unknown'');
               problems = node_problems conditionMap
           in if problems \<noteq> [] then status @ '' (Issues: '' @ Join problems '', '' @ '')''
              else status))"

text \<open>
  \<open>IsPackageTransitioned\<close>: the inner loop runs over the selectors of an entry, the outer
  one over the entries of the status.
\<close>

definition latest_step ::
  "string \<Rightarrow> TransitionedPackages \<Rightarrow> TransitionedPackages option \<Rightarrow> PackageSelector \<Rightarrow>
   TransitionedPackages option" where
  "latest_step name t latestMatch sel =
     (if ps_Name sel = name then
        (case latestMatch of
           None \<Rightarrow> Some t
         | Some l \<Rightarrow> if After (tp_LastTransitionTime t) (tp_LastTransitionTime l) then Some t else Some l)
      else latestMatch)"

definition latest_match :: "string \<Rightarrow> TransitionedPackages list \<Rightarrow> TransitionedPackages option" where
  "latest_match name ts =
     foldl (\<lambda>latestMatch t. foldl (latest_step name t) latestMatch (tp_PackageSelectors t)) None ts"

definition IsPackageTransitioned :: "ClusterPolicy \<Rightarrow> PackageSelector \<Rightarrow> bool" where
  "IsPackageTransitioned clusterPolicy pkg =
     (case latest_match (ps_Name pkg) (transitioned clusterPolicy) of
        None \<Rightarrow> False
      | Some l \<Rightarrow>
          (case tp_PackageTransitionCondition l of
             PackageTransitionConditionCompleted \<Rightarrow> True
           | PackageTransitionConditionInProgress \<Rightarrow> False
           | _ \<Rightarrow> False))"

section \<open>The preference orders\<close>

definition heavier :: "PreferredCluster \<Rightarrow> PreferredCluster \<Rightarrow> bool" where
  "heavier c d \<longleftrightarrow> sint (pc_Weight d) < sint (pc_Weight c)"

definition cond_later :: "NodeCondition \<Rightarrow> NodeCondition \<Rightarrow> bool" where
  "cond_later c d \<longleftrightarrow> After (cond_LastTransitionTime c) (cond_LastTransitionTime d)"

definition trans_later :: "TransitionedPackages \<Rightarrow> TransitionedPackages \<Rightarrow> bool" where
  "trans_later s t \<longleftrightarrow> After (tp_LastTransitionTime s) (tp_LastTransitionTime t)"

interpretation weight_pref: strict_pref heavier
  unfolding heavier_def by (rule strict_pref_by_key)

interpretation cond_pref: strict_pref cond_later
  unfolding cond_later_def After_def by (rule strict_pref_by_key)

interpretation trans_pref: strict_pref trans_later
  unfolding trans_later_def After_def by (rule strict_pref_by_key)

section \<open>Target cluster\<close>

definition eligible_target :: "PreferredCluster \<Rightarrow> bool" where
  "eligible_target c \<longleftrightarrow> pc_RepoType c = ''git'' \<and> 0 \<le> sint (pc_Weight c)"

definition preferred_target :: "ClusterPolicy \<Rightarrow> PreferredCluster option" where
  "preferred_target p = first_best heavier None (filter eligible_target (prefer_clusters p))"

fun target_of :: "PreferredCluster option \<Rightarrow> int64 \<times> string \<times> string" where
  "target_of None = (- 1, '''', '''')"
| "target_of (Some c) = (pc_Weight c, pc_Name c @ ''-dr'', pc_Name c)"

lemma determine_step_target_of:
  assumes "cur = None \<or> (\<exists>c. cur = Some c \<and> eligible_target c)"
  shows "determine_step (target_of cur) t =
    target_of (if eligible_target t then first_best heavier cur [t] else cur)"
  using assms
  by (cases cur) (auto simp: eligible_target_def heavier_def less64_def)

lemma foldl_determine:
  assumes "cur = None \<or> (\<exists>c. cur = Some c \<and> eligible_target c)"
  shows "foldl determine_step (target_of cur) ts =
    target_of (first_best heavier cur (filter eligible_target ts))"
  using assms
proof (induction ts arbitrary: cur)
  case Nil
  then show ?case by simp
next
  case (Cons t ts)
  let ?cur = "if eligible_target t then first_best heavier cur [t] else cur"
  have "?cur = None \<or> (\<exists>c. ?cur = Some c \<and> eligible_target c)"
    using Cons.prems by (cases cur) auto
  from Cons.IH [OF this] determine_step_target_of [OF Cons.prems]
  show ?case by (cases cur) simp_all
qed

lemma DetermineTargetRepo_preferred:
  "DetermineTargetRepo p =
     (case preferred_target p of
        None \<Rightarrow> ('''', '''', False)
      | Some c \<Rightarrow> (pc_Name c @ ''-dr'', pc_Name c, True))"
  using foldl_determine [of None "prefer_clusters p"]
  by (simp add: DetermineTargetRepo_def preferred_target_def split: option.split)

lemma preferred_target_None: "preferred_target p = None \<longleftrightarrow> (\<forall>c \<in> set (prefer_clusters p). \<not> eligible_target c)"
  by (simp add: preferred_target_def first_best_None_iff filter_empty_conv)

section \<open>Latest entries\<close>

lemma foldl_most_recent: "foldl most_recent_step cur cs = first_best cond_later cur cs"
  by (induction cond_later cur cs rule: first_best.induct) (auto simp: cond_later_def)

lemma latest_step_first_best:
  "latest_step name t cur sel = (if ps_Name sel = name then first_best trans_later cur [t] else cur)"
  by (cases cur) (simp_all add: latest_step_def trans_later_def)

lemma first_best_twice: "first_best trans_later (first_best trans_later cur [t]) [t] = first_best trans_later cur [t]"
  by (cases cur) (simp_all add: trans_pref.better_irrefl)

lemma inner_latest:
  "foldl (latest_step name t) cur sels =
     (if \<exists>sel \<in> set sels. ps_Name sel = name then first_best trans_later cur [t] else cur)"
proof (induction sels arbitrary: cur)
  case Nil
  then show ?case by simp
next
  case (Cons sel sels)
  have "foldl (latest_step name t) cur (sel # sels) = foldl (latest_step name t) (latest_step name t cur sel) sels"
    by simp
  also have "\<dots> = (if \<exists>sel' \<in> set (sel # sels). ps_Name sel' = name then first_best trans_later cur [t] else cur)"
    unfolding Cons.IH by (simp add: latest_step_first_best first_best_twice)
  finally show ?case .
qed

definition mentions :: "string \<Rightarrow> TransitionedPackages \<Rightarrow> bool" where
  "mentions name t \<longleftrightarrow> (\<exists>sel \<in> set (tp_PackageSelectors t). ps_Name sel = name)"

lemma latest_match_first_best:
  "latest_match name ts = first_best trans_later None (filter (mentions name) ts)"
proof -
  have "foldl (\<lambda>l t. foldl (latest_step name t) l (tp_PackageSelectors t)) cur ts =
      first_best trans_later cur (filter (mentions name) ts)" for cur
  proof (induction ts arbitrary: cur)
    case Nil
    then show ?case by simp
  next
    case (Cons t ts)
    then show ?case
      by (cases cur) (simp_all add: inner_latest mentions_def [symmetric])
  qed
  then show ?thesis by (simp add: latest_match_def)
qed

lemma IsPackageTransitioned_iff:
  "IsPackageTransitioned p pkg \<longleftrightarrow>
     (\<exists>t. latest_match (ps_Name pkg) (transitioned p) = Some t \<and>
          tp_PackageTransitionCondition t = PackageTransitionConditionCompleted)"
  by (auto simp: IsPackageTransitioned_def split: option.splits PackageTransitionCondition.splits)

section \<open>Node summaries\<close>

lemma foldl_summary:
  "foldl summary_step (m, r) cs =
     (rev (map (\<lambda>c. (cond_Type c, cond_Status c)) cs) @ m,
      first_best cond_later r (filter (\<lambda>c. cond_Type c = NodeReady) cs))"
proof (induction cs arbitrary: m r)
  case Nil
  then show ?case by simp
next
  case (Cons c cs)
  then show ?case
    by (cases r) (simp_all add: summary_step_def cond_later_def)
qed

text \<open>The status of a type: the one of its last condition in the list.\<close>

definition last_status :: "Node \<Rightarrow> NodeConditionType \<Rightarrow> ConditionStatus option" where
  "last_status node ty =
     map_of (rev (map (\<lambda>c. (cond_Type c, cond_Status c)) (node_Conditions node))) ty"

definition ready_condition :: "Node \<Rightarrow> NodeCondition option" where
  "ready_condition node =
     first_best cond_later None (filter (\<lambda>c. cond_Type c = NodeReady) (node_Conditions node))"

definition pressure_types :: "NodeConditionType list" where
  "pressure_types = [NodeMemoryPressure, NodeDiskPressure, NodePIDPressure, NodeNetworkUnavailable]"

lemma node_problems_Nil:
  "node_problems m = [] \<longleftrightarrow> (\<forall>ty \<in> set pressure_types. map_of m ty \<noteq> Some ConditionTrue)"
  by (auto simp: node_problems_def pressure_types_def)

lemma GetNodeStatusSummary_Ready:
  "GetNodeStatusSummary node = ''Ready'' \<longleftrightarrow>
     (\<exists>c. ready_condition node = Some c \<and> cond_Status c = ConditionTrue) \<and>
     (\<forall>ty \<in> set pressure_types. last_status node ty \<noteq> Some ConditionTrue)"
proof -
  let ?m = "rev (map (\<lambda>c. (cond_Type c, cond_Status c)) (node_Conditions node))"
  have probs: "node_problems ?m = [] \<longleftrightarrow> (\<forall>ty \<in> set pressure_types. last_status node ty \<noteq> Some ConditionTrue)"
    by (simp add: node_problems_Nil last_status_def)
  show ?thesis
  proof (cases "ready_condition node")
    case None
    then show ?thesis
      by (simp add: GetNodeStatusSummary_def foldl_summary ready_condition_def)
  next
    case (Some c)
    then show ?thesis
      unfolding probs [symmetric]
      by (cases "cond_Status c")
        (simp_all add: GetNodeStatusSummary_def foldl_summary ready_condition_def Let_def)
  qed
qed

section \<open>Properties\<close>

text \<open>
  C11. \<open>DetermineTargetRepo\<close> finds a target exactly when some preferred cluster has a git
  repository and a weight that is not negative, and then returns the first one of the
  highest weight among those: every eligible cluster before it weighs strictly less, none
  after it weighs more. The repository is the cluster's name with \<^verbatim>\<open>-dr\<close> appended.
\<close>

theorem DetermineTargetRepo_correct:
  assumes "DetermineTargetRepo p = (repo, tc, found)"
  shows "(found \<longleftrightarrow> (\<exists>c \<in> set (prefer_clusters p). eligible_target c)) \<and>
    (if found
     then \<exists>us c vs. prefer_clusters p = us @ c # vs \<and> eligible_target c \<and>
            repo = pc_Name c @ ''-dr'' \<and> tc = pc_Name c \<and>
            (\<forall>d \<in> set us. eligible_target d \<longrightarrow> sint (pc_Weight d) < sint (pc_Weight c)) \<and>
            (\<forall>d \<in> set vs. eligible_target d \<longrightarrow> sint (pc_Weight d) \<le> sint (pc_Weight c))
     else repo = [] \<and> tc = [])"
proof (cases "preferred_target p")
  case None
  with assms show ?thesis
    by (auto simp: DetermineTargetRepo_preferred preferred_target_None)
next
  case (Some c)
  then have "is_first_best heavier (filter eligible_target (prefer_clusters p)) c"
    unfolding preferred_target_def by (rule weight_pref.scan_correct)
  then obtain us vs where "prefer_clusters p = us @ c # vs" "eligible_target c"
    "\<forall>u \<in> set us. eligible_target u \<longrightarrow> heavier c u" "\<forall>v \<in> set vs. eligible_target v \<longrightarrow> \<not> heavier v c"
    by (rule is_first_best_filter)
  moreover have "repo = pc_Name c @ ''-dr'' \<and> tc = pc_Name c \<and> found"
    using assms Some by (auto simp: DetermineTargetRepo_preferred)
  ultimately show ?thesis
    by (fastforce simp: heavier_def)
qed

theorem DetermineTargetRepo_correct_witness:
  "DetermineTargetRepo sample_policy = (''cluster2-aws-dr'', ''cluster2-aws'', True) \<and>
   (\<exists>c \<in> set (prefer_clusters sample_policy). eligible_target c)"
proof -
  have run: "DetermineTargetRepo sample_policy = (''cluster2-aws-dr'', ''cluster2-aws'', True)"
    by (simp add: DetermineTargetRepo_def sample_defs less64_def)
  with DetermineTargetRepo_correct [OF run] show ?thesis by simp
qed


text \<open>
  A node is summarised as \<open>Ready\<close>, and so spared from workload transition, exactly when
  its most recent Ready condition is True and the last memory, disk, PID and network
  condition of each type is not True.
\<close>

theorem GetNodeStatusSummary_correct:
  "GetNodeStatusSummary node = ''Ready'' \<longleftrightarrow>
     (\<exists>c. is_first_best cond_later (filter (\<lambda>c. cond_Type c = NodeReady) (node_Conditions node)) c \<and>
          cond_Status c = ConditionTrue) \<and>
     last_status node NodeMemoryPressure \<noteq> Some ConditionTrue \<and>
     last_status node NodeDiskPressure \<noteq> Some ConditionTrue \<and>
     last_status node NodePIDPressure \<noteq> Some ConditionTrue \<and>
     last_status node NodeNetworkUnavailable \<noteq> Some ConditionTrue"
  unfolding GetNodeStatusSummary_Ready ready_condition_def cond_pref.scan_iff
  by (auto simp: pressure_types_def)

end
