(* ===== verification/Base64.thy ===== *)
theory Base64
  imports Prelude
begin

text \<open>
  \<^verbatim>\<open>base64.StdEncoding.EncodeToString\<close> of Go's standard library, which the operator
  applies to every manifest it hands to Gitea's file API, and a decoder to state that the
  encoding loses nothing.
\<close>

definition alphabet :: string where
  "alphabet = ''ABCDEFGHIJKLMNOPQRSTUVWXYZabcdefghijklmnopqrstuvwxyz0123456789+/''"

definition sextet :: "nat \<Rightarrow> char" where
  "sextet n = alphabet ! n"

fun encode_bytes :: "nat list \<Rightarrow> string" where
  "encode_bytes [] = ''''"
| "encode_bytes [a] = [sextet (a div 4), sextet (a mod 4 * 16), CHR ''='', CHR ''='']"
| "encode_bytes [a, b] =
     [sextet (a div 4), sextet (a mod 4 * 16 + b div 16), sextet (b mod 16 * 4), CHR ''='']"
| "encode_bytes (a # b # c # bs) =
     sextet (a div 4) # sextet (a mod 4 * 16 + b div 16) #
     sextet (b mod 16 * 4 + c div 64) # sextet (c mod 64) # encode_bytes bs"

definition EncodeToString :: "string \<Rightarrow> string" where
  "EncodeToString s = encode_bytes (map of_char s)"

text \<open>The decoder: the index of a character in the alphabet, and groups of four.\<close>

fun index_of :: "char \<Rightarrow> char list \<Rightarrow> nat" where
  "index_of c [] = 0"
| "index_of c (x # xs) = (if x = c then 0 else Suc (index_of c xs))"

definition sextet_value :: "char \<Rightarrow> nat" where
  "sextet_value c = index_of c alphabet"

fun decode_bytes :: "string \<Rightarrow> nat list" where
  "decode_bytes (w # x # y # z # rest) =
     (let a = sextet_value w; b = sextet_value x; c = sextet_value y; d = sextet_value z in
      if y = CHR ''='' then [a * 4 + b div 16]
      else if z = CHR ''='' then [a * 4 + b div 16, b mod 16 * 16 + c div 4]
      else (a * 4 + b div 16) # (b mod 16 * 16 + c div 4) # (c mod 4 * 64 + d) # decode_bytes rest)"
| "decode_bytes _ = []"

definition DecodeString :: "string \<Rightarrow> string" where
  "DecodeString s = map char_of (decode_bytes s)"

lemma length_alphabet: "length alphabet = 64"
  by (simp add: alphabet_def)

lemma index_of_nth: "distinct xs \<Longrightarrow> n < length xs \<Longrightarrow> index_of (xs ! n) xs = n"
  by (induction xs arbitrary: n) (auto simp: nth_Cons split: nat.split)

lemma distinct_alphabet: "distinct alphabet"
  by (simp add: alphabet_def)

lemma sextet_value_sextet [simp]: "n < 64 \<Longrightarrow> sextet_value (sextet n) = n"
  by (simp add: sextet_value_def sextet_def index_of_nth distinct_alphabet length_alphabet)

lemma sextet_not_pad [simp]:
  assumes "n < 64"
  shows "sextet n \<noteq> CHR ''=''"
proof -
  have "CHR ''='' \<notin> set alphabet" by (simp add: alphabet_def)
  moreover have "sextet n \<in> set alphabet"
    using assms by (simp add: sextet_def length_alphabet)
  ultimately show ?thesis by auto
qed

lemma decode_encode_bytes: "\<forall>b \<in> set bs. b < 256 \<Longrightarrow> decode_bytes (encode_bytes bs) = bs"
proof (induction bs rule: encode_bytes.induct)
  case 1
  then show ?case by simp
next
  case (2 a)
  then have "a div 4 < 64" "a mod 4 * 16 < 64" by auto
  then show ?case by (simp add: Let_def)
next
  case (3 a b)
  then have "a div 4 < 64" "a mod 4 * 16 + b div 16 < 64" "b mod 16 * 4 < 64" by auto
  moreover have "(a mod 4 * 16 + b div 16) div 16 = a mod 4" "(a mod 4 * 16 + b div 16) mod 16 = b div 16"
    using 3 by auto
  ultimately show ?case by (simp add: Let_def)
next
  case (4 a b c bs)
  have lt: "a div 4 < 64" "a mod 4 * 16 + b div 16 < 64" "b mod 16 * 4 + c div 64 < 64" "c mod 64 < 64"
    using 4 by auto
  have eqs: "(a mod 4 * 16 + b div 16) div 16 = a mod 4" "(a mod 4 * 16 + b div 16) mod 16 = b div 16"
    "(b mod 16 * 4 + c div 64) div 4 = b mod 16" "(b mod 16 * 4 + c div 64) mod 4 = c div 64"
    using 4 by auto
  show ?case
    using lt eqs 4 by (simp add: Let_def)
qed

lemma DecodeString_EncodeToString [simp]: "DecodeString (EncodeToString s) = s"
proof -
  have "decode_bytes (encode_bytes (map of_char s)) = (map of_char s :: nat list)"
    by (rule decode_encode_bytes) auto
  then show ?thesis
    by (simp add: DecodeString_def EncodeToString_def)
qed

end
