(* ===== verification/Gitops.thy ===== *)
theory Gitops
  imports Policy_Selection Base64
begin

text \<open>
  The writing half of \<^verbatim>\<open>src/reconcilers/helpers/clusterpolicy_helpers.go\<close>: the Argo CD
  application and Velero restore manifests that are pushed to the disaster-recovery
  repository through Gitea, the wait for the restore, and the sync of an Argo CD
  application. A function that returns \<^verbatim>\<open>(string, error)\<close> gives a \<open>string result\<close>, one
  that returns \<^verbatim>\<open>error\<close> an \<open>error option\<close>; a call through a nil client is \<open>Panic\<close>.
\<close>

section \<open>Definitions\<close>

definition build_argo_app ::
  "ClusterPolicy \<Rightarrow> PackageSelector \<Rightarrow> ArgoAppSkipResourcesIgnoreDifferences list \<Rightarrow> ArgoAppSpec" where
  "build_argo_app clusterPolicy transitionPackage ignoreDifferences =
     \<lparr>aa_APIVersion = ''argoproj.io/v1alpha1'',
      aa_Kind = ''Application'',
      aa_Metadata =
        \<lparr>am_Name = ''argocd-'' @ selector_name clusterPolicy @ ''-'' @ ps_Name transitionPackage,
         am_Namespace = ''argocd'',
         am_Finalizers = [''resources-finalizer.argocd.argoproj.io'']\<rparr>,
      aa_Project = ''default'',
      aa_Source =
        \<lparr>asrc_RepoURL = selector_repo clusterPolicy,
         asrc_TargetRevision = ''HEAD'',
         asrc_Path = ps_PackagePath transitionPackage,
         asrc_Recurse = True\<rparr>,
      aa_DestinationServer = ''https://kubernetes.default.svc'',
      aa_DestinationNamespace = ''default'',
      aa_SyncPolicy =
        \<lparr>asp_Prune = False, asp_SelfHeal = True, asp_AllowEmpty = True,
         asp_SyncOptions = [''CreateNamespace=true'']\<rparr>,
      aa_IgnoreDifferences =
        [\<lparr>id_Group = ''fn.kpt.dev'', id_Kind = ''ApplyReplacements'', id_Name = '''',
          id_Namespace = '''', id_JSONPointers = []\<rparr>,
         \<lparr>id_Group = ''fn.kpt.dev'', id_Kind = ''StarlarkRun'', id_Name = '''',
          id_Namespace = '''', id_JSONPointers = []\<rparr>,
         \<lparr>id_Group = ''infra.nephio.org'', id_Kind = ''WorkloadCluster'', id_Name = '''',
          id_Namespace = '''', id_JSONPointers = []\<rparr>] @
        map (\<lambda>diff. \<lparr>id_Group = sid_Group diff, id_Kind = sid_Kind diff, id_Name = sid_Name diff,
                    id_Namespace = '''', id_JSONPointers = sid_JsonPointers diff\<rparr>) ignoreDifferences\<rparr>"

definition CreateAndPushArgoApp ::
  "env \<Rightarrow> gitea_client \<Rightarrow> string \<Rightarrow> string \<Rightarrow> string \<Rightarrow> ClusterPolicy \<Rightarrow> PackageSelector \<Rightarrow>
   ArgoAppSkipResourcesIgnoreDifferences list \<Rightarrow> hist \<Rightarrow> string result \<times> hist" where
  "CreateAndPushArgoApp en gc username repoName folder clusterPolicy transitionPackage ignoreDifferences h =
     (let app = build_argo_app clusterPolicy transitionPackage ignoreDifferences in
      case y_MarshalApp (yaml en) app of
        Inl err \<Rightarrow> (Inl (wrapf ''failed to marshal Argo application YAML'' err), h)
      | Inr yamlData \<Rightarrow>
          (case rd ''clock'' '''' '''' (o_LocalTimestamp (os en)) h of (timestamp, h) \<Rightarrow>
             (let filename = folder @ ''/argo-app-'' @ timestamp @ ''.yaml'';
                  message = ''ArgoCD app: '' @ selector_name clusterPolicy @ ''-'' @ ps_Name transitionPackage;
                  encodedContent = EncodeToString yamlData
              in case wr (CreatedFile username repoName filename encodedContent message)
                         (\<lambda>h. g_CreateFile (gt en) h gc username repoName filename encodedContent message) h of
                   (Inl err, h) \<Rightarrow> (Inl (wrapf ''failed to create file in Gitea'' err), h)
                 | (Inr _, h) \<Rightarrow> (Inr filename, h))))"

definition sync_operation :: SyncOperation where
  "sync_operation = \<lparr>sync_Revision = ''HEAD'', sync_Force = True, sync_InitiatedBy = ''gitea-client''\<rparr>"

definition TriggerArgoCDSyncWithKubeClient ::
  "env \<Rightarrow> kclient option \<Rightarrow> string \<Rightarrow> string \<Rightarrow> hist \<Rightarrow> error option outcome \<times> hist" where
  "TriggerArgoCDSyncWithKubeClient en k8sClient appName namespace h =
     (case k8sClient of
        None \<Rightarrow> (Panic, h)
      | Some c \<Rightarrow>
          (case rd ''Application'' namespace appName (\<lambda>h. w_GetApplication (wl en) h c namespace appName) h of
             (Inl err, h) \<Rightarrow> (Ret (Some (wrapf ''failed to get Argo CD application'' err)), h)
           | (Inr app, h) \<Rightarrow>
               (let app = app\<lparr>app_Operation := Some sync_operation\<rparr> in
                case wr (UpdatedApplication c app) (\<lambda>h. w_UpdateApplication (wl en) h c app) h of
                  (Inl err, h) \<Rightarrow>
                    (Ret (Some (wrapf ''failed to update application with sync operation'' err)), h)
                | (Inr _, h) \<Rightarrow> (Ret None, h))))"

text \<open>
  The polling loop of \<open>waitForVeleroRestoreCompletion\<close>: the first argument is the number
  of ticks still to come before the context is done.
\<close>

fun poll_restore ::
  "nat \<Rightarrow> env \<Rightarrow> kclient \<Rightarrow> string \<Rightarrow> string \<Rightarrow> hist \<Rightarrow> error option \<times> hist" where
  "poll_restore 0 en c restoreName namespace h =
     (Some (Errorf (''timed out waiting for Velero restore '' @ restoreName @ '' to complete'')), h)"
| "poll_restore (Suc n) en c restoreName namespace h =
     (case rd ''Restore'' namespace restoreName (\<lambda>h. w_GetRestore (wl en) h c namespace restoreName) h of
        (Inl err, h) \<Rightarrow> (Some (wrapf (''failed to get Velero restore '' @ restoreName) err), h)
      | (Inr phase, h) \<Rightarrow>
          (case phase of
             RestorePhaseCompleted \<Rightarrow> (None, h)
           | RestorePhaseFailed \<Rightarrow> (Some (Errorf (''velero restore '' @ restoreName @ '' failed'')), h)
           | RestorePhaseOther _ \<Rightarrow> poll_restore n en c restoreName namespace h))"

definition waitForVeleroRestoreCompletion ::
  "env \<Rightarrow> kclient option \<Rightarrow> string \<Rightarrow> string \<Rightarrow> duration \<Rightarrow> hist \<Rightarrow> error option outcome \<times> hist" where
  "waitForVeleroRestoreCompletion en k8sClient restoreName namespace timeout h =
     (let n = o_Ticks (os en) h timeout (10 * Second) in
      case k8sClient of
        None \<Rightarrow>
          (if n = 0
           then (Ret (Some (Errorf (''timed out waiting for Velero restore '' @ restoreName @ '' to complete''))), h)
           else (Panic, h))
      | Some c \<Rightarrow>
          (case poll_restore n en c restoreName namespace h of (r, h) \<Rightarrow> (Ret r, h)))"

definition build_restore :: "ClusterPolicy \<Rightarrow> PackageSelector \<Rightarrow> BackupInformation \<Rightarrow> VeleroRestore" where
  "build_restore clusterPolicy transitionPackage backupInfo =
     \<lparr>vr_APIVersion = ''velero.io/v1'', vr_Kind = ''Restore'',
      vr_Name = ''velero-'' @ selector_name clusterPolicy @ ''-'' @ ps_Name transitionPackage,
      vr_Namespace = ''velero'',
      vr_BackupName = bi_Name backupInfo,
      vr_ExcludedResources = [], vr_IncludedResources = [], vr_RestorePVs = False,
      vr_PreserveNodePorts = True, vr_Hooks = [],
      vr_IncludedNamespaces = [''*''],
      vr_ItemOperationTimeout = ''4h0m0s''\<rparr>"

definition CreateAndPushVeleroRestore ::
  "env \<Rightarrow> gitea_client \<Rightarrow> string \<Rightarrow> string \<Rightarrow> string \<Rightarrow> ClusterPolicy \<Rightarrow> PackageSelector \<Rightarrow>
   BackupInformation \<Rightarrow> kclient option \<Rightarrow> string \<Rightarrow> hist \<Rightarrow> string result outcome \<times> hist" where
  "CreateAndPushVeleroRestore en gc username repoName folder clusterPolicy transitionPackage backupInfo
       targetClient appName h =
     (let app = build_restore clusterPolicy transitionPackage backupInfo in
      case y_MarshalRestore (yaml en) app of
        Inl err \<Rightarrow> (Ret (Inl (wrapf ''failed to marshal Velero restore YAML'' err)), h)
      | Inr yamlData \<Rightarrow>
          (case rd ''clock'' '''' '''' (o_LocalTimestamp (os en)) h of (timestamp, h) \<Rightarrow>
             (let filename = folder @ ''/velero-restore-'' @ timestamp @ ''.yaml'';
                  message = ''Velero restore: '' @ selector_name clusterPolicy @ ''-'' @ ps_Name transitionPackage;
                  encodedContent = EncodeToString yamlData
              in case wr (CreatedFile username repoName filename encodedContent message)
                         (\<lambda>h. g_CreateFile (gt en) h gc username repoName filename encodedContent message) h of
                   (Inl err, h) \<Rightarrow>
                     (Ret (Inl (wrapf ''failed to create velero restore file in Gitea'' err)), h)
                 | (Inr _, h) \<Rightarrow>
                     (case TriggerArgoCDSyncWithKubeClient en targetClient appName ''argocd'' h of
                        (Panic, h) \<Rightarrow> (Panic, h)
                      | (Ret _, h) \<Rightarrow>
                          (case waitForVeleroRestoreCompletion en targetClient (vr_Name app) (vr_Namespace app)
                                  (1800 * Second) h of
                             (Panic, h) \<Rightarrow> (Panic, h)
                           | (Ret (Some err), h) \<Rightarrow> (Ret (Inl err), h)
                           | (Ret None, h) \<Rightarrow>
                               (case CreateAndPushArgoApp en gc username repoName folder clusterPolicy
                                       transitionPackage [] h of
                                  (Inl err, h) \<Rightarrow>
                                    (Ret (Inl (wrapf ''stateful workload final restore file - failed to create argocd application restore file in gitea'' err)), h)
                                | (Inr _, h) \<Rightarrow> (Ret (Inr filename), h)))))))"

definition live_ignore_differences :: "Checkpoint \<Rightarrow> ArgoAppSkipResourcesIgnoreDifferences list" where
  "live_ignore_differences checkpoint =
     [\<lparr>sid_Group = '''',
       sid_Kind = rr_Kind (cks_ResourceRef (ck_Spec checkpoint)),
       sid_Name = rr_Name (cks_ResourceRef (ck_Spec checkpoint)),
       sid_JsonPointers = [''/spec/containers'']\<rparr>]"

definition CreateAndPushLiveStateBackupRestore ::
  "env \<Rightarrow> gitea_client \<Rightarrow> string \<Rightarrow> string \<Rightarrow> string \<Rightarrow> ClusterPolicy \<Rightarrow> PackageSelector \<Rightarrow>
   Checkpoint \<Rightarrow> hist \<Rightarrow> string result \<times> hist" where
  "CreateAndPushLiveStateBackupRestore en gc username repoName folder clusterPolicy transitionPackage checkpoint h =
     (case CreateAndPushArgoApp en gc username repoName folder clusterPolicy transitionPackage
             (live_ignore_differences checkpoint) h of
        (Inl err, h) \<Rightarrow>
          (Inl (wrapf ''stateful workload final restore file - failed to create argocd application restore file in gitea'' err), h)
      | (Inr _, h) \<Rightarrow> (Inr ''filename'', h))"

section \<open>What the pushes write\<close>

text \<open>The file an Argo CD application push creates, at the time of the push.\<close>

definition argo_file ::
  "env \<Rightarrow> string \<Rightarrow> string \<Rightarrow> string \<Rightarrow> ClusterPolicy \<Rightarrow> PackageSelector \<Rightarrow> string \<Rightarrow> hist \<Rightarrow> bool \<Rightarrow> event" where
  "argo_file en username repoName folder p pkg data h ok =
     CreatedFile username repoName (folder @ ''/argo-app-'' @ o_LocalTimestamp (os en) h @ ''.yaml'')
       (EncodeToString data) (''ArgoCD app: '' @ selector_name p @ ''-'' @ ps_Name pkg) ok"

lemma CreateAndPushArgoApp_cases:
  assumes "CreateAndPushArgoApp en gc u r f p pkg ds h = (res, h')"
  obtains
    (marshal) err where "y_MarshalApp (yaml en) (build_argo_app p pkg ds) = Inl err"
      "res = Inl (wrapf ''failed to marshal Argo application YAML'' err)" "h' = h"
  | (rejected) data err where "y_MarshalApp (yaml en) (build_argo_app p pkg ds) = Inr data"
      "res = Inl (wrapf ''failed to create file in Gitea'' err)"
      "h' = argo_file en u r f p pkg data h False # Read ''clock'' '''' '''' # h"
  | (pushed) data where "y_MarshalApp (yaml en) (build_argo_app p pkg ds) = Inr data"
      "res = Inr (f @ ''/argo-app-'' @ o_LocalTimestamp (os en) h @ ''.yaml'')"
      "h' = argo_file en u r f p pkg data h True # Read ''clock'' '''' '''' # h"
  using assms
  by (auto simp: CreateAndPushArgoApp_def argo_file_def Let_def api_simps split: sum.splits)

lemma TriggerArgoCDSync_nil [simp]: "TriggerArgoCDSyncWithKubeClient en None app ns h = (Panic, h)"
  by (simp add: TriggerArgoCDSyncWithKubeClient_def)

lemma TriggerArgoCDSync_Some_returns:
  "\<exists>r h'. TriggerArgoCDSyncWithKubeClient en (Some c) app ns h = (Ret r, h')"
  by (auto simp: TriggerArgoCDSyncWithKubeClient_def Let_def api_simps split: sum.splits)

fun is_app_update :: "event \<Rightarrow> bool" where
  "is_app_update (UpdatedApplication _ _ _) = True"
| "is_app_update _ = False"

lemma TriggerArgoCDSync_emits [emits_intros]:
  assumes "\<And>a b. P (Read ''Application'' a b)" and "\<And>c app b. P (UpdatedApplication c app b)"
  shows "emits P (TriggerArgoCDSyncWithKubeClient en k app ns)"
  unfolding TriggerArgoCDSyncWithKubeClient_def Let_def
  by (cases k) (auto intro!: emits_intros assms)

lemma TriggerArgoCDSync_success:
  assumes "TriggerArgoCDSyncWithKubeClient en k app ns h = (Ret None, h')"
  shows "\<exists>c a. k = Some c \<and> app_Operation a = Some sync_operation \<and>
    h' = UpdatedApplication c a True # Read ''Application'' ns app # h"
  using assms
  by (fastforce simp: TriggerArgoCDSyncWithKubeClient_def Let_def api_simps split: option.splits sum.splits)

section \<open>The wait for the restore\<close>

text \<open>
  The restore phases a loop of \<open>n\<close> ticks would see if none of them ended it: the
  \<open>i\<close>-th poll happens after \<open>i\<close> reads.
\<close>

definition polled :: "env \<Rightarrow> kclient \<Rightarrow> string \<Rightarrow> string \<Rightarrow> hist \<Rightarrow> nat \<Rightarrow> RestorePhase result" where
  "polled en c name ns h i = w_GetRestore (wl en) (replicate i (Read ''Restore'' ns name) @ h) c ns name"

definition pending :: "RestorePhase result \<Rightarrow> bool" where
  "pending r \<longleftrightarrow> (\<exists>s. r = Inr (RestorePhaseOther s))"

lemma polled_Suc: "polled en c name ns (Read ''Restore'' ns name # h) i = polled en c name ns h (Suc i)"
  by (simp add: polled_def replicate_app_Cons_same)

lemma poll_restore_None_iff:
  "fst (poll_restore n en c name ns h) = None \<longleftrightarrow>
     (\<exists>i < n. polled en c name ns h i = Inr RestorePhaseCompleted \<and> (\<forall>j < i. pending (polled en c name ns h j)))"
proof (induction n arbitrary: h)
  case 0
  then show ?case by simp
next
  case (Suc n)
  let ?h = "Read ''Restore'' ns name # h"
  have shift: "(\<exists>i < Suc n. polled en c name ns h i = Inr RestorePhaseCompleted \<and>
        (\<forall>j < i. pending (polled en c name ns h j))) \<longleftrightarrow>
      polled en c name ns h 0 = Inr RestorePhaseCompleted \<or>
      pending (polled en c name ns h 0) \<and>
      (\<exists>i < n. polled en c name ns ?h i = Inr RestorePhaseCompleted \<and> (\<forall>j < i. pending (polled en c name ns ?h j)))"
    unfolding polled_Suc by (auto simp: Ex_less_Suc2 All_less_Suc2)
  have p0: "polled en c name ns h 0 = w_GetRestore (wl en) h c ns name"
    by (simp add: polled_def)
  show ?case
    unfolding shift p0 Suc.IH [of ?h, symmetric]
    by (auto simp: rd_def pending_def split: sum.splits RestorePhase.splits)
qed

lemma poll_restore_emits [emits_intros]:
  assumes "\<And>a b. P (Read ''Restore'' a b)"
  shows "emits P (poll_restore n en c name ns)"
proof (induction n)
  case 0
  then show ?case by (simp add: emits_def)
next
  case (Suc n)
  have "poll_restore (Suc n) en c name ns = (\<lambda>h.
     (case rd ''Restore'' ns name (\<lambda>h. w_GetRestore (wl en) h c ns name) h of
        (Inl err, h) \<Rightarrow> (Some (wrapf (''failed to get Velero restore '' @ name) err), h)
      | (Inr phase, h) \<Rightarrow>
          (case phase of
             RestorePhaseCompleted \<Rightarrow> (None, h)
           | RestorePhaseFailed \<Rightarrow> (Some (Errorf (''velero restore '' @ name @ '' failed'')), h)
           | RestorePhaseOther _ \<Rightarrow> poll_restore n en c name ns h)))"
    by (rule ext) simp
  moreover have "emits P (\<lambda>h. case phase of
             RestorePhaseCompleted \<Rightarrow> (None, h)
           | RestorePhaseFailed \<Rightarrow> (Some (Errorf (''velero restore '' @ name @ '' failed'')), h)
           | RestorePhaseOther _ \<Rightarrow> poll_restore n en c name ns h)" for phase
    using Suc by (cases phase) (auto intro: emits_intros)
  ultimately show ?case
    by (auto intro!: emits_intros assms)
qed

lemma wait_nil_client:
  "waitForVeleroRestoreCompletion en None name ns timeout h =
     (if o_Ticks (os en) h timeout (10 * Second) = 0
      then (Ret (Some (Errorf (''timed out waiting for Velero restore '' @ name @ '' to complete''))), h)
      else (Panic, h))"
  by (simp add: waitForVeleroRestoreCompletion_def)

lemma wait_Some_client:
  "waitForVeleroRestoreCompletion en (Some c) name ns timeout h =
     (Ret (fst (poll_restore (o_Ticks (os en) h timeout (10 * Second)) en c name ns h)),
      snd (poll_restore (o_Ticks (os en) h timeout (10 * Second)) en c name ns h))"
  by (simp add: waitForVeleroRestoreCompletion_def Let_def case_prod_beta)

section \<open>The files an operation creates\<close>

fun is_created_file :: "event \<Rightarrow> bool" where
  "is_created_file (CreatedFile _ _ _ _ _ _) = True"
| "is_created_file _ = False"

definition files :: "hist \<Rightarrow> hist" where
  "files h = filter is_created_file h"

lemma files_simps [simp]:
  "files [] = []"
  "is_created_file e \<Longrightarrow> files (e # h) = e # files h"
  "\<not> is_created_file e \<Longrightarrow> files (e # h) = files h"
  "files (g @ h) = files g @ files h"
  by (simp_all add: files_def)

lemma emits_no_files:
  assumes "emits (\<lambda>e. \<not> is_created_file e) m" and "m h = (x, h')"
  shows "files h' = files h"
proof -
  from assms obtain es where "h' = es @ h" and "\<forall>e \<in> set es. \<not> is_created_file e" by (rule emitsD)
  then show ?thesis by (simp add: files_def)
qed

lemma TriggerArgoCDSync_files:
  "TriggerArgoCDSyncWithKubeClient en k app ns h = (x, h') \<Longrightarrow> files h' = files h"
  by (rule emits_no_files [OF TriggerArgoCDSync_emits]) simp_all

lemma poll_restore_files: "files (snd (poll_restore n en c name ns h)) = files h"
proof -
  have "emits (\<lambda>e. \<not> is_created_file e) (poll_restore n en c name ns)"
    by (rule poll_restore_emits) simp
  then show ?thesis by (rule emits_no_files [OF _ surjective_pairing])
qed

lemma wait_files: "waitForVeleroRestoreCompletion en k name ns t h = (x, h') \<Longrightarrow> files h' = files h"
  by (cases k) (auto simp: wait_nil_client wait_Some_client poll_restore_files split: if_splits)

definition restore_file ::
  "env \<Rightarrow> string \<Rightarrow> string \<Rightarrow> string \<Rightarrow> ClusterPolicy \<Rightarrow> PackageSelector \<Rightarrow> string \<Rightarrow> hist \<Rightarrow> bool \<Rightarrow> event" where
  "restore_file en username repoName folder p pkg data h ok =
     CreatedFile username repoName (folder @ ''/velero-restore-'' @ o_LocalTimestamp (os en) h @ ''.yaml'')
       (EncodeToString data) (''Velero restore: '' @ selector_name p @ ''-'' @ ps_Name pkg) ok"

lemma is_created_file_simps [simp]:
  "is_created_file (argo_file en u r f p pkg d h ok)" "is_created_file (restore_file en u r f p pkg d h ok)"
  by (simp_all add: argo_file_def restore_file_def)

lemma CreateAndPushVeleroRestore_cases:
  assumes "CreateAndPushVeleroRestore en gc u r f p pkg bi k app h = (res, h')"
  obtains
    (marshal) err where "res = Ret (Inl err)" "h' = h"
  | (rejected) data err where "y_MarshalRestore (yaml en) (build_restore p pkg bi) = Inr data"
      "res = Ret (Inl err)" "files h' = restore_file en u r f p pkg data h False # files h"
  | (panicked) data where "y_MarshalRestore (yaml en) (build_restore p pkg bi) = Inr data" "res = Panic" "k = None"
      "files h' = restore_file en u r f p pkg data h True # files h"
  | (unrestored) data err where "y_MarshalRestore (yaml en) (build_restore p pkg bi) = Inr data"
      "res = Ret (Inl err)" "files h' = restore_file en u r f p pkg data h True # files h"
  | (restored) data h1 h2 c argo where "y_MarshalRestore (yaml en) (build_restore p pkg bi) = Inr data" "k = Some c"
      "waitForVeleroRestoreCompletion en k (''velero-'' @ selector_name p @ ''-'' @ ps_Name pkg) ''velero''
         (1800 * Second) h1 = (Ret None, h2)"
      "files h2 = restore_file en u r f p pkg data h True # files h"
      "CreateAndPushArgoApp en gc u r f p pkg [] h2 = (argo, h')"
      "res = Ret (case argo of
         Inl err \<Rightarrow> Inl (wrapf ''stateful workload final restore file - failed to create argocd application restore file in gitea'' err)
       | Inr _ \<Rightarrow> Inr (f @ ''/velero-restore-'' @ o_LocalTimestamp (os en) h @ ''.yaml''))"
proof (cases "y_MarshalRestore (yaml en) (build_restore p pkg bi)")
  case (Inl e)
  with assms marshal show thesis by (auto simp: CreateAndPushVeleroRestore_def Let_def)
next
  case (Inr data)
  let ?hc = "Read ''clock'' '''' '''' # h" and ?name = "''velero-'' @ selector_name p @ ''-'' @ ps_Name pkg"
  let ?fn = "f @ ''/velero-restore-'' @ o_LocalTimestamp (os en) h @ ''.yaml''"
  let ?create = "g_CreateFile (gt en) ?hc gc u r ?fn (EncodeToString data)
      (''Velero restore: '' @ selector_name p @ ''-'' @ ps_Name pkg)"
  let ?h0 = "restore_file en u r f p pkg data h True # ?hc"
  note go = assms [unfolded CreateAndPushVeleroRestore_def Let_def] Inr
  show thesis
  proof (cases ?create)
    case (Inl e)
    with go rejected show thesis by (auto simp: api_simps restore_file_def)
  next
    case cr: (Inr x)
    show thesis
    proof (cases k)
      case None
      with cr go panicked show thesis by (auto simp: api_simps restore_file_def)
    next
      case (Some c)
      obtain s h1 where tr: "TriggerArgoCDSyncWithKubeClient en (Some c) app ''argocd'' ?h0 = (Ret s, h1)"
        using TriggerArgoCDSync_Some_returns by blast
      obtain w h2 where wt: "waitForVeleroRestoreCompletion en (Some c) ?name ''velero'' (1800 * Second) h1 = (Ret w, h2)"
        by (simp add: wait_Some_client)
      have fl: "files h2 = restore_file en u r f p pkg data h True # files h"
        using TriggerArgoCDSync_files [OF tr] wait_files [OF wt] by simp
      have name: "vr_Name (build_restore p pkg bi) = ?name" "vr_Namespace (build_restore p pkg bi) = ''velero''"
        by (simp_all add: build_restore_def)
      have run: "(res, h') = (case w of
             Some err \<Rightarrow> (Ret (Inl err), h2)
           | None \<Rightarrow> (case CreateAndPushArgoApp en gc u r f p pkg [] h2 of
               (Inl err, h) \<Rightarrow> (Ret (Inl (wrapf ''stateful workload final restore file - failed to create argocd application restore file in gitea'' err)), h)
             | (Inr _, h) \<Rightarrow> (Ret (Inr ?fn), h)))"
        using go cr tr wt Some name by (auto simp: api_simps restore_file_def)
      show thesis
      proof (cases w)
        case None
        obtain argo h3 where "CreateAndPushArgoApp en gc u r f p pkg [] h2 = (argo, h3)" by fastforce
        with None run wt fl Inr Some restored [of data c h1 h2 argo] show thesis
          by (cases argo) auto
      next
        case (Some err)
        with run fl Inr unrestored show thesis by auto
      qed
    qed
  qed
qed

text \<open>What the pushes add to the history.\<close>

lemma wait_emits [emits_intros]:
  assumes "\<And>k a b. P (Read k a b)"
  shows "emits P (waitForVeleroRestoreCompletion en k name ns t)"
proof (cases k)
  case None
  then show ?thesis by (auto simp: emits_def wait_nil_client)
next
  case (Some c)
  have "emits P (poll_restore n en c name ns)" for n by (rule poll_restore_emits) (rule assms)
  with Some show ?thesis by (auto simp: emits_def wait_Some_client)
qed

lemma CreateAndPushArgoApp_emits [emits_intros]:
  assumes "\<And>k a b. P (Read k a b)" and "\<And>u r f d m ok. P (CreatedFile u r f d m ok)"
  shows "emits P (CreateAndPushArgoApp en gc u r f p pkg ds)"
  unfolding CreateAndPushArgoApp_def Let_def by (auto intro!: emits_intros assms)

lemma CreateAndPushVeleroRestore_emits [emits_intros]:
  assumes "\<And>k a b. P (Read k a b)" and "\<And>u r f d m ok. P (CreatedFile u r f d m ok)"
    and "\<And>c app ok. P (UpdatedApplication c app ok)"
  shows "emits P (CreateAndPushVeleroRestore en gc u r f p pkg bi k app)"
  unfolding CreateAndPushVeleroRestore_def Let_def by (auto intro!: emits_intros assms)

section \<open>Properties\<close>

text \<open>
  C30. The wait for a Velero restore always returns for a non-nil client, writes nothing, and
  returns no error exactly when one of the polls made before the timeout saw the restore
  completed and every earlier poll saw it neither failed nor unreadable.
\<close>

theorem waitForVeleroRestoreCompletion_correct:
  "\<exists>res h'. waitForVeleroRestoreCompletion en (Some c) name ns timeout h = (Ret res, h') \<and>
     writes h' = writes h \<and>
     (res = None \<longleftrightarrow>
        (\<exists>i < o_Ticks (os en) h timeout (10 * Second).
           polled en c name ns h i = Inr RestorePhaseCompleted \<and> (\<forall>j < i. pending (polled en c name ns h j))))"
proof -
  let ?n = "o_Ticks (os en) h timeout (10 * Second)"
  have "emits (\<lambda>e. \<not> is_write e) (poll_restore ?n en c name ns)"
    by (rule poll_restore_emits) simp
  then have "writes (snd (poll_restore ?n en c name ns h)) = writes h"
    by (rule emits_reads_writes [OF _ surjective_pairing])
  then show ?thesis by (simp add: wait_Some_client poll_restore_None_iff)
qed

definition restoring_env :: env where
  "restoring_env = down_env\<lparr>wl := down_wl\<lparr>w_GetRestore :=
     (\<lambda>h _ _ _. if h = [] then Inr (RestorePhaseOther ''InProgress'') else Inr RestorePhaseCompleted)\<rparr>\<rparr>"

theorem waitForVeleroRestoreCompletion_correct_witness:
  "\<exists>h'. waitForVeleroRestoreCompletion restoring_env (Some (WorkloadClient ''k'')) ''r'' ''velero'' Second [] =
     (Ret None, h') \<and> writes h' = []"
proof -
  have "\<exists>i < o_Ticks (os restoring_env) [] Second (10 * Second).
      polled restoring_env (WorkloadClient ''k'') ''r'' ''velero'' [] i = Inr RestorePhaseCompleted \<and>
      (\<forall>j < i. pending (polled restoring_env (WorkloadClient ''k'') ''r'' ''velero'' [] j))"
    by (rule exI [of _ 1]) (simp add: restoring_env_def down_defs polled_def pending_def)
  with waitForVeleroRestoreCompletion_correct [of restoring_env "WorkloadClient ''k''" "''r''" "''velero''" Second "[]"]
  show ?thesis by auto
qed

text \<open>
  C10. Order of the manifests of a stateful transition. The Argo CD application is pushed only
  after the Velero restore manifest was pushed and the restore was seen completed; success is
  reported if and only if both files were created. In every other outcome no Argo CD
  application was created: at most the restore file was.
\<close>

theorem CreateAndPushVeleroRestore_order:
  assumes "CreateAndPushVeleroRestore en gc u r f p pkg bi k app h = (res, h')"
  shows "(\<exists>data adata h1 h2 filename. res = Ret (Inr filename) \<and>
            waitForVeleroRestoreCompletion en k (''velero-'' @ selector_name p @ ''-'' @ ps_Name pkg) ''velero''
              (1800 * Second) h1 = (Ret None, h2) \<and>
            files h2 = restore_file en u r f p pkg data h True # files h \<and>
            files h' = argo_file en u r f p pkg adata h2 True # files h2) \<or>
         (\<nexists>filename. res = Ret (Inr filename)) \<and>
            (files h' = files h \<or>
             (\<exists>data ok. files h' = restore_file en u r f p pkg data h ok # files h) \<or>
             (\<exists>data adata h2. files h' = argo_file en u r f p pkg adata h2 False #
                                         restore_file en u r f p pkg data h True # files h))"
  using assms
proof (cases rule: CreateAndPushVeleroRestore_cases)
  case (restored data h1 h2 c argo)
  from restored(5) show ?thesis
  proof (cases rule: CreateAndPushArgoApp_cases)
    case (pushed adata)
    with restored have "files h' = argo_file en u r f p pkg adata h2 True # files h2" by simp
    moreover from pushed restored have "\<exists>filename. res = Ret (Inr filename)" by simp
    ultimately show ?thesis using restored(3,4) by blast
  next
    case (rejected adata err)
    with restored show ?thesis by (intro disjI2) auto
  next
    case (marshal err)
    with restored show ?thesis by (intro disjI2) auto
  qed
qed auto

definition pushing_env :: env where
  "pushing_env = restoring_env\<lparr>gt := down_gt\<lparr>g_CreateFile := (\<lambda>_ _ _ _ _ _ _. Inr ())\<rparr>,
     yaml := down_yaml\<lparr>y_MarshalApp := (\<lambda>_. Inr ''app''), y_MarshalRestore := (\<lambda>_. Inr ''restore'')\<rparr>\<rparr>"

theorem CreateAndPushVeleroRestore_order_witness:
  "\<exists>filename h'. CreateAndPushVeleroRestore pushing_env sample_gitea ''u'' ''cluster2-aws-dr'' ''dr'' sample_policy
     video_pkg sample_backup (Some (WorkloadClient ''k'')) ''app'' [] = (Ret (Inr filename), h') \<and>
     length (files h') = 2"
proof -
  obtain filename h' where call: "CreateAndPushVeleroRestore pushing_env sample_gitea ''u'' ''cluster2-aws-dr'' ''dr'' sample_policy
     video_pkg sample_backup (Some (WorkloadClient ''k'')) ''app'' [] = (Ret (Inr filename), h')"
    by (simp add: CreateAndPushVeleroRestore_def pushing_env_def restoring_env_def down_defs
        TriggerArgoCDSyncWithKubeClient_def waitForVeleroRestoreCompletion_def CreateAndPushArgoApp_def
        build_restore_def Let_def api_simps numeral_2_eq_2)
  from CreateAndPushVeleroRestore_order [OF call] call show ?thesis by auto
qed

text \<open>
  C35. What is pushed can be read back. The content that an Argo CD application push hands to
  Gitea decodes to exactly the YAML of the application it built, for the policy's repository
  and the package's path, and the file it names is the one it created.
\<close>

theorem pushed_application_roundtrip:
  assumes "CreateAndPushArgoApp en gc u r f p pkg ds h = (Inr filename, h')"
  shows "\<exists>content message data. hd h' = CreatedFile u r filename content message True \<and>
    y_MarshalApp (yaml en) (build_argo_app p pkg ds) = Inr data \<and> DecodeString content = data \<and>
    asrc_RepoURL (aa_Source (build_argo_app p pkg ds)) = selector_repo p \<and>
    asrc_Path (aa_Source (build_argo_app p pkg ds)) = ps_PackagePath pkg"
  using assms
proof (cases rule: CreateAndPushArgoApp_cases)
  case (pushed data)
  then have "filename = f @ ''/argo-app-'' @ o_LocalTimestamp (os en) h @ ''.yaml''" by simp
  with pushed show ?thesis by (simp add: argo_file_def build_argo_app_def)
qed simp_all

theorem pushed_application_roundtrip_witness:
  "\<exists>filename h' content message. CreateAndPushArgoApp pushing_env sample_gitea ''u'' ''dr'' ''cluster2-aws-dr'' sample_policy video_pkg [] [] =
     (Inr filename, h') \<and> hd h' = CreatedFile ''u'' ''dr'' filename content message True \<and> DecodeString content = ''app''"
proof -
  obtain filename h' where call: "CreateAndPushArgoApp pushing_env sample_gitea ''u'' ''dr'' ''cluster2-aws-dr'' sample_policy video_pkg [] [] =
     (Inr filename, h')"
    by (simp add: CreateAndPushArgoApp_def pushing_env_def restoring_env_def down_defs Let_def api_simps)
  have yaml: "y_MarshalApp (yaml pushing_env) app = Inr ''app''" for app by (simp add: pushing_env_def)
  from pushed_application_roundtrip [OF call] obtain content message where
    "hd h' = CreatedFile ''u'' ''dr'' filename content message True" "DecodeString content = ''app''"
    by (auto simp: yaml)
  with call show ?thesis by (intro exI [of _ filename] exI [of _ h'] exI [of _ content] exI [of _ message] conjI)
qed

end
