(* ===== verification/Manifests.thy ===== *)
theory Manifests
  imports Samples
begin

text \<open>
  \<^verbatim>\<open>src/reconcilers/gitaclient/gitea.go\<close>, the manifest editor: replacing the image of the
  checkpointed containers in a workload manifest of the source repository
  (\<open>UpdateResourceContainers\<close>), and committing and pushing the clone. Go mutates the
  decoded maps in place; the model returns the changed tree.
\<close>

section \<open>Definitions\<close>

definition yget :: "(string \<times> yval) list \<Rightarrow> string \<Rightarrow> yval option" where
  "yget m k = map_of m k"

fun yset :: "(string \<times> yval) list \<Rightarrow> string \<Rightarrow> yval \<Rightarrow> (string \<times> yval) list" where
  "yset [] k v = [(k, v)]"
| "yset ((k', v') # m) k v = (if k' = k then (k, v) # m else (k', v') # yset m k v)"

definition isSupportedKind :: "string \<Rightarrow> bool" where
  "isSupportedKind k \<longleftrightarrow> k \<in> {''Deployment'', ''ReplicaSet'', ''DaemonSet'', ''StatefulSet''}"

definition container_image :: "yval \<Rightarrow> string" where
  "container_image c =
     (case c of
        YMap cm \<Rightarrow> (case yget cm ''image'' of Some (YStr img) \<Rightarrow> img | _ \<Rightarrow> '''')
      | _ \<Rightarrow> '''')"

definition update_container :: "string \<Rightarrow> string \<Rightarrow> yval \<Rightarrow> yval \<times> bool" where
  "update_container imageCheckpoint originalImage c =
     (case c of
        YMap cm \<Rightarrow>
          (let img = (case yget cm ''image'' of Some (YStr img) \<Rightarrow> img | _ \<Rightarrow> '''') in
           if img \<noteq> '''' \<and> img = originalImage
           then (YMap (yset cm ''image'' (YStr imageCheckpoint)), True)
           else (c, False))
      | _ \<Rightarrow> (c, False))"

fun update_array :: "string \<Rightarrow> string \<Rightarrow> yval list \<Rightarrow> yval list \<times> bool" where
  "update_array ck orig [] = ([], False)"
| "update_array ck orig (c # cs) =
     (case update_container ck orig c of (c', ch) \<Rightarrow>
        (case update_array ck orig cs of (cs', chs) \<Rightarrow> (c' # cs', ch \<or> chs)))"

definition update_field ::
  "string \<Rightarrow> string \<Rightarrow> (string \<times> yval) list \<times> bool \<Rightarrow> string \<Rightarrow> (string \<times> yval) list \<times> bool" where
  "update_field ck orig st field =
     (case yget (fst st) field of
        Some (YSeq arr) \<Rightarrow>
          (case update_array ck orig arr of (arr', ch) \<Rightarrow> (yset (fst st) field (YSeq arr'), snd st \<or> ch))
      | _ \<Rightarrow> st)"

definition updateContainers ::
  "(string \<times> yval) list \<Rightarrow> string \<Rightarrow> string \<Rightarrow> (string \<times> yval) list \<times> bool" where
  "updateContainers resourceSpec imageCheckpoint originalImage =
     foldl (update_field imageCheckpoint originalImage) (resourceSpec, False) [''containers'', ''initContainers'']"

text \<open>The body of \<open>UpdateResourceContainers\<close> between decoding and encoding.\<close>

definition edit_manifest ::
  "string \<Rightarrow> string \<Rightarrow> string \<Rightarrow> (string \<times> yval) list \<Rightarrow> ((string \<times> yval) list \<times> bool) result" where
  "edit_manifest path imageCheckpoint originalImage doc =
     (let kind = (case yget doc ''kind'' of Some (YStr k) \<Rightarrow> k | _ \<Rightarrow> '''') in
      if \<not> isSupportedKind kind then Inl (Errorf (path @ '': unsupported Kind '' @ quoted kind))
      else case yget doc ''spec'' of
             Some (YMap spec) \<Rightarrow>
               (case yget spec ''template'' of
                  Some (YMap tpl) \<Rightarrow>
                    (case yget tpl ''spec'' of
                       Some (YMap resourceSpec) \<Rightarrow>
                         (case updateContainers resourceSpec imageCheckpoint originalImage of
                            (resourceSpec', changed) \<Rightarrow>
                              Inr (yset doc ''spec'' (YMap (yset spec ''template'' (YMap (yset tpl ''spec'' (YMap resourceSpec'))))),
                                   changed))
                     | _ \<Rightarrow> Inl (Errorf (path @ '': missing spec.template.spec'')))
                | _ \<Rightarrow> Inl (Errorf (path @ '': missing spec.template'')))
           | _ \<Rightarrow> Inl (Errorf (path @ '': missing spec'')))"

definition UpdateResourceContainers ::
  "env \<Rightarrow> string \<Rightarrow> string \<Rightarrow> string \<Rightarrow> hist \<Rightarrow> error option \<times> hist" where
  "UpdateResourceContainers en path imageCheckpoint originalImage h =
     (case rd ''file'' '''' path (\<lambda>h. o_ReadFile (os en) h path) h of
        (Inl err, h) \<Rightarrow> (Some (wrapf ''read file'' err), h)
      | (Inr data, h) \<Rightarrow>
          (case y_UnmarshalDoc (yaml en) data of
             Inl err \<Rightarrow> (Some (wrapf ''unmarshal yaml'' err), h)
           | Inr doc \<Rightarrow>
               (case edit_manifest path imageCheckpoint originalImage doc of
                  Inl err \<Rightarrow> (Some err, h)
                | Inr (doc', changed) \<Rightarrow>
                    (if \<not> changed then (None, h)
                     else case y_MarshalDoc (yaml en) doc' of
                            Inl err \<Rightarrow> (Some (wrapf ''marshal yaml'' err), h)
                          | Inr out \<Rightarrow>
                              (case wr (WroteFile path out) (\<lambda>h. o_WriteFile (os en) h path out) h of
                                 (Inl err, h) \<Rightarrow> (Some err, h)
                               | (Inr _, h) \<Rightarrow> (None, h))))))"

definition CommitAndPush ::
  "env \<Rightarrow> string \<Rightarrow> string \<Rightarrow> string \<Rightarrow> string \<Rightarrow> string \<Rightarrow> hist \<Rightarrow> error option \<times> hist" where
  "CommitAndPush en cloneDir branch userName password commitMsg h =
     (case rd ''repo'' '''' cloneDir (\<lambda>h. o_GitOpen (os en) h cloneDir) h of
        (Inl err, h) \<Rightarrow> (Some (wrapf ''open repo'' err), h)
      | (Inr _, h) \<Rightarrow>
          (case rd ''worktree'' '''' cloneDir (\<lambda>h. o_GitWorktree (os en) h cloneDir) h of
             (Inl err, h) \<Rightarrow> (Some (wrapf ''get worktree'' err), h)
           | (Inr _, h) \<Rightarrow>
          (case rd ''index'' '''' cloneDir (\<lambda>h. o_GitAddAll (os en) h cloneDir) h of
             (Inl err, h) \<Rightarrow> (Some (wrapf ''git add'' err), h)
           | (Inr _, h) \<Rightarrow>
               (case wr (Committed cloneDir commitMsg) (\<lambda>h. o_GitCommit (os en) h cloneDir userName commitMsg) h of
                  (Inl err, h) \<Rightarrow> (Some (wrapf ''git commit'' err), h)
                | (Inr _, h) \<Rightarrow>
                    (let refspec = ''refs/heads/'' @ branch @ '':refs/heads/'' @ branch in
                     case wr (Pushed cloneDir refspec) (\<lambda>h. o_GitPush (os en) h cloneDir refspec userName password) h of
                       (Inl err, h) \<Rightarrow> (Some (wrapf ''git push'' err), h)
                     | (Inr _, h) \<Rightarrow> (None, h))))))"

text \<open>
  The two editors of the interface addresses of a network function's manifest. The first
  asserts the dynamic types of an interface and of its name without a check, so it panics
  on another type; the second skips such an entry.
\<close>

record IPInfo =
  ip_Address :: string
  ip_Gateway :: string

definition set_ipv4 :: "IPInfo \<Rightarrow> (string \<times> yval) list \<Rightarrow> (string \<times> yval) list" where
  "set_ipv4 info m =
     (case yget m ''ipv4'' of
        Some (YMap ipv4) \<Rightarrow>
          (let ipv4 = (if ip_Address info \<noteq> '''' then yset ipv4 ''address'' (YStr (ip_Address info)) else ipv4);
               ipv4 = (if ip_Gateway info \<noteq> '''' then yset ipv4 ''gateway'' (YStr (ip_Gateway info)) else ipv4)
           in yset m ''ipv4'' (YMap ipv4))
      | _ \<Rightarrow> m)"

fun set_interfaces_nf :: "(string \<times> IPInfo) list \<Rightarrow> yval list \<Rightarrow> yval list outcome" where
  "set_interfaces_nf newIPs [] = Ret []"
| "set_interfaces_nf newIPs (iface # ifaces) =
     (case iface of
        YMap m \<Rightarrow>
          (case yget m ''name'' of
             Some (YStr name) \<Rightarrow>
               (let m = (case map_of newIPs name of Some info \<Rightarrow> set_ipv4 info m | None \<Rightarrow> m) in
                case set_interfaces_nf newIPs ifaces of
                  Ret r \<Rightarrow> Ret (YMap m # r)
                | Panic \<Rightarrow> Panic)
           | _ \<Rightarrow> Panic)
      | _ \<Rightarrow> Panic)"

definition set_interface_config :: "(string \<times> IPInfo) list \<Rightarrow> yval \<Rightarrow> yval" where
  "set_interface_config newIPs iface =
     (case iface of
        YMap m \<Rightarrow>
          (case yget m ''name'' of
             Some (YStr name) \<Rightarrow>
               (case map_of newIPs name of Some info \<Rightarrow> YMap (set_ipv4 info m) | None \<Rightarrow> iface)
           | _ \<Rightarrow> iface)
      | _ \<Rightarrow> iface)"

definition write_doc :: "env \<Rightarrow> string \<Rightarrow> (string \<times> yval) list \<Rightarrow> hist \<Rightarrow> error option \<times> hist" where
  "write_doc en path doc h =
     (case y_MarshalDoc (yaml en) doc of
        Inl err \<Rightarrow> (Some err, h)
      | Inr out \<Rightarrow>
          (case wr (WroteFile path out) (\<lambda>h. o_WriteFile (os en) h path out) h of
             (Inl err, h) \<Rightarrow> (Some err, h)
           | (Inr _, h) \<Rightarrow> (None, h)))"

definition UpdateInterfaceIPsNFDeployment ::
  "env \<Rightarrow> string \<Rightarrow> (string \<times> IPInfo) list \<Rightarrow> hist \<Rightarrow> error option outcome \<times> hist" where
  "UpdateInterfaceIPsNFDeployment en path newIPs h =
     (case rd ''file'' '''' path (\<lambda>h. o_ReadFile (os en) h path) h of
        (Inl err, h) \<Rightarrow> (Ret (Some err), h)
      | (Inr data, h) \<Rightarrow>
          (case y_UnmarshalDoc (yaml en) data of
             Inl err \<Rightarrow> (Ret (Some err), h)
           | Inr doc \<Rightarrow>
               (case yget doc ''spec'' of
                  Some (YMap spec) \<Rightarrow>
                    (case yget spec ''interfaces'' of
                       Some (YSeq ifaces) \<Rightarrow>
                         (case set_interfaces_nf newIPs ifaces of
                            Panic \<Rightarrow> (Panic, h)
                          | Ret ifaces' \<Rightarrow>
                              (case write_doc en path
                                      (yset doc ''spec'' (YMap (yset spec ''interfaces'' (YSeq ifaces')))) h of
                                 (r, h) \<Rightarrow> (Ret r, h)))
                     | _ \<Rightarrow> (Ret None, h))
                | _ \<Rightarrow> (Ret None, h))))"

definition UpdateInterfaceIPsConfigRefs ::
  "env \<Rightarrow> string \<Rightarrow> (string \<times> IPInfo) list \<Rightarrow> hist \<Rightarrow> error option \<times> hist" where
  "UpdateInterfaceIPsConfigRefs en path newIPs h =
     (case rd ''file'' '''' path (\<lambda>h. o_ReadFile (os en) h path) h of
        (Inl err, h) \<Rightarrow> (Some err, h)
      | (Inr data, h) \<Rightarrow>
          (case y_UnmarshalDoc (yaml en) data of
             Inl err \<Rightarrow> (Some err, h)
           | Inr doc \<Rightarrow>
               (case yget doc ''spec'' of
                  Some (YMap spec) \<Rightarrow>
                    (case yget spec ''config'' of
                       Some (YMap config) \<Rightarrow>
                         (case yget config ''spec'' of
                            Some (YMap nfSpec) \<Rightarrow>
                              (case yget nfSpec ''interfaces'' of
                                 Some (YSeq ifaces) \<Rightarrow>
                                   write_doc en path
                                     (yset doc ''spec'' (YMap (yset spec ''config'' (YMap (yset config ''spec''
                                       (YMap (yset nfSpec ''interfaces''
                                         (YSeq (map (set_interface_config newIPs) ifaces)))))))))
                                     h
                               | _ \<Rightarrow> (None, h))
                          | _ \<Rightarrow> (None, h))
                     | _ \<Rightarrow> (None, h))
                | _ \<Rightarrow> (None, h))))"

text \<open>\<^verbatim>\<open>filepath.Ext\<close>: the suffix from the last dot of the last path element.\<close>

fun rev_ext :: "string \<Rightarrow> string \<Rightarrow> string" where
  "rev_ext [] acc = ''''"
| "rev_ext (c # cs) acc =
     (if c = CHR ''/'' then '''' else if c = CHR ''.'' then c # acc else rev_ext cs (c # acc))"

definition Ext :: "string \<Rightarrow> string" where
  "Ext path = rev_ext (rev path) ''''"

definition is_yaml :: "string \<Rightarrow> bool" where
  "is_yaml path \<longleftrightarrow> ToLower (Ext path) = ''.yaml'' \<or> ToLower (Ext path) = ''.yml''"

text \<open>
  \<open>FindMatchingResource\<close>: the inner loop over the documents of a file appends the path for
  every match and edits the file at once; the first error ends the walk.
\<close>

fun match_docs ::
  "env \<Rightarrow> string \<Rightarrow> Checkpoint \<Rightarrow> manifest_head list \<Rightarrow> string list \<Rightarrow> hist \<Rightarrow> string list result \<times> hist" where
  "match_docs en path checkpoint [] found h = (Inr found, h)"
| "match_docs en path checkpoint (obj # objs) found h =
     (if EqualFold (mh_Kind obj) ''NetworkAttachmentDefinition'' \<and>
         mh_Name obj = rr_Name (cks_ResourceRef (ck_Spec checkpoint)) \<and>
         mh_Namespace obj = rr_Namespace (cks_ResourceRef (ck_Spec checkpoint))
      then (case UpdateResourceContainers en path (ckst_LastCheckpointImage (ck_Status checkpoint))
                   (ckst_OriginalImage (ck_Status checkpoint)) h of
              (Some err, h) \<Rightarrow> (Inl err, h)
            | (None, h) \<Rightarrow> match_docs en path checkpoint objs (found @ [path]) h)
      else match_docs en path checkpoint objs found h)"

fun match_files ::
  "env \<Rightarrow> Checkpoint \<Rightarrow> string list \<Rightarrow> string list \<Rightarrow> hist \<Rightarrow> string list result \<times> hist" where
  "match_files en checkpoint [] found h = (Inr found, h)"
| "match_files en checkpoint (path # paths) found h =
     (if \<not> is_yaml path then match_files en checkpoint paths found h
      else case rd ''file'' '''' path (\<lambda>h. o_ReadFile (os en) h path) h of
             (Inl err, h) \<Rightarrow> (Inl err, h)
           | (Inr data, h) \<Rightarrow>
               (case y_DecodeHeads (yaml en) data of (objs, derr) \<Rightarrow>
                  (case match_docs en path checkpoint objs found h of
                     (Inl err, h) \<Rightarrow> (Inl err, h)
                   | (Inr found, h) \<Rightarrow>
                       (case derr of
                          Some err \<Rightarrow> (Inl err, h)
                        | None \<Rightarrow> match_files en checkpoint paths found h))))"

definition FindMatchingResource ::
  "env \<Rightarrow> string \<Rightarrow> Checkpoint \<Rightarrow> hist \<Rightarrow> string list result \<times> hist" where
  "FindMatchingResource en baseDir checkpoint h =
     (case rd ''directory'' '''' baseDir (\<lambda>h. o_WalkDir (os en) h baseDir) h of ((paths, werr), h) \<Rightarrow>
        (case match_files en checkpoint paths [] h of
           (Inl err, h) \<Rightarrow> (Inl err, h)
         | (Inr found, h) \<Rightarrow>
             (case werr of Some err \<Rightarrow> (Inl err, h) | None \<Rightarrow> (Inr found, h))))"

section \<open>Maps\<close>

lemma yget_yset [simp]: "yget (yset m k v) k' = (if k' = k then Some v else yget m k')"
  by (induction m) (auto simp: yget_def)

lemma yset_same: "yget m k = Some v \<Longrightarrow> yset m k v = m"
  by (induction m) (auto simp: yget_def split: if_splits)

section \<open>One container, one array\<close>

text \<open>What the edit is to do to an image: the specification the code refines.\<close>

definition replace_image :: "string \<Rightarrow> string \<Rightarrow> string \<Rightarrow> string" where
  "replace_image ck orig i = (if i \<noteq> '''' \<and> i = orig then ck else i)"

lemma update_container_spec:
  "container_image (fst (update_container ck orig c)) = replace_image ck orig (container_image c)"
  "snd (update_container ck orig c) \<longleftrightarrow> container_image c \<noteq> '''' \<and> container_image c = orig"
  "\<not> snd (update_container ck orig c) \<Longrightarrow> fst (update_container ck orig c) = c"
  by (auto simp: update_container_def container_image_def replace_image_def Let_def
      split: yval.splits option.splits)

lemma update_array_spec:
  "map container_image (fst (update_array ck orig cs)) = map (replace_image ck orig) (map container_image cs)"
  "snd (update_array ck orig cs) \<longleftrightarrow> (\<exists>c \<in> set cs. container_image c \<noteq> '''' \<and> container_image c = orig)"
  "\<not> snd (update_array ck orig cs) \<Longrightarrow> fst (update_array ck orig cs) = cs"
  by (induction cs)
    (auto simp: update_container_spec split: prod.splits dest: update_container_spec(3)
      , (metis fst_conv snd_conv update_container_spec)+)

section \<open>The pod specification of a manifest\<close>

definition pod_spec :: "(string \<times> yval) list \<Rightarrow> (string \<times> yval) list option" where
  "pod_spec doc =
     (case yget doc ''spec'' of
        Some (YMap spec) \<Rightarrow>
          (case yget spec ''template'' of
             Some (YMap tpl) \<Rightarrow> (case yget tpl ''spec'' of Some (YMap m) \<Rightarrow> Some m | _ \<Rightarrow> None)
           | _ \<Rightarrow> None)
      | _ \<Rightarrow> None)"

definition field_images :: "(string \<times> yval) list \<Rightarrow> string \<Rightarrow> string list" where
  "field_images m field = (case yget m field of Some (YSeq cs) \<Rightarrow> map container_image cs | _ \<Rightarrow> [])"

definition pod_images :: "(string \<times> yval) list \<Rightarrow> string \<Rightarrow> string list" where
  "pod_images doc field = (case pod_spec doc of None \<Rightarrow> [] | Some m \<Rightarrow> field_images m field)"

lemma update_field_cases:
  obtains (seq) arr where "yget m f = Some (YSeq arr)"
      "update_field ck orig (m, ch) f =
        (yset m f (YSeq (fst (update_array ck orig arr))), ch \<or> snd (update_array ck orig arr))"
  | (other) "field_images m f = []" "update_field ck orig (m, ch) f = (m, ch)"
proof (cases "yget m f")
  case None
  then show ?thesis using other by (simp add: update_field_def field_images_def)
next
  case (Some v)
  then show ?thesis
    using seq other by (cases v) (simp_all add: update_field_def field_images_def case_prod_beta)
qed

lemma update_field_spec:
  assumes "update_field ck orig (m, ch) f = (m', ch')"
  shows "field_images m' g = (if g = f then map (replace_image ck orig) (field_images m f) else field_images m g)"
    and "ch' \<longleftrightarrow> ch \<or> orig \<noteq> '''' \<and> orig \<in> set (field_images m f)"
    and "\<not> ch' \<Longrightarrow> m' = m"
    and "g \<noteq> f \<Longrightarrow> yget m' g = yget m g"
proof -
  have "(field_images m' g = (if g = f then map (replace_image ck orig) (field_images m f) else field_images m g)) \<and>
      (ch' = (ch \<or> orig \<noteq> '''' \<and> orig \<in> set (field_images m f))) \<and> (\<not> ch' \<longrightarrow> m' = m) \<and>
      (g \<noteq> f \<longrightarrow> yget m' g = yget m g)" for g
  proof (cases rule: update_field_cases [of m f ck orig ch])
    case (seq arr)
    with assms show ?thesis
      using update_array_spec [of ck orig arr] by (auto simp: field_images_def yset_same)
  next
    case other
    with assms show ?thesis by simp
  qed
  then show "field_images m' g = (if g = f then map (replace_image ck orig) (field_images m f) else field_images m g)"
    and "ch' \<longleftrightarrow> ch \<or> orig \<noteq> '''' \<and> orig \<in> set (field_images m f)"
    and "\<not> ch' \<Longrightarrow> m' = m" and "g \<noteq> f \<Longrightarrow> yget m' g = yget m g"
    by blast+
qed

abbreviation container_fields :: "string list" where
  "container_fields \<equiv> [''containers'', ''initContainers'']"

lemma updateContainers_spec:
  assumes "updateContainers m ck orig = (m', ch)"
  shows "f \<in> set container_fields \<Longrightarrow> field_images m' f = map (replace_image ck orig) (field_images m f)"
    and "ch \<longleftrightarrow> orig \<noteq> '''' \<and> (\<exists>f \<in> set container_fields. orig \<in> set (field_images m f))"
    and "\<not> ch \<Longrightarrow> m' = m"
    and "f \<notin> set container_fields \<Longrightarrow> yget m' f = yget m f"
proof -
  obtain m1 c1 where 1: "update_field ck orig (m, False) ''containers'' = (m1, c1)" by fastforce
  with assms have 2: "update_field ck orig (m1, c1) ''initContainers'' = (m', ch)"
    by (simp add: updateContainers_def)
  note s1 = update_field_spec [OF 1] and s2 = update_field_spec [OF 2]
  show "f \<in> set container_fields \<Longrightarrow> field_images m' f = map (replace_image ck orig) (field_images m f)"
    using s1(1) [of f] s1(1) [of "''initContainers''"] s2(1) [of f] by auto
  show ch: "ch \<longleftrightarrow> orig \<noteq> '''' \<and> (\<exists>f \<in> set container_fields. orig \<in> set (field_images m f))"
    using s1(1) [of "''initContainers''"] s1(2) s2(2) by auto
  show "\<not> ch \<Longrightarrow> m' = m"
    using s1(2,3) s2(2,3) by auto
  show "f \<notin> set container_fields \<Longrightarrow> yget m' f = yget m f"
    using s1(4) [of f] s2(4) [of f] by auto
qed

lemma edit_manifest_cases:
  assumes "edit_manifest path ck orig doc = Inr (doc', changed)"
  obtains k spec tpl m m' where
    "yget doc ''kind'' = Some (YStr k)" "isSupportedKind k"
    "yget doc ''spec'' = Some (YMap spec)" "yget spec ''template'' = Some (YMap tpl)"
    "yget tpl ''spec'' = Some (YMap m)" "updateContainers m ck orig = (m', changed)"
    "doc' = yset doc ''spec'' (YMap (yset spec ''template'' (YMap (yset tpl ''spec'' (YMap m')))))"
  using assms
  by (auto simp: edit_manifest_def Let_def isSupportedKind_def
      split: if_splits option.splits yval.splits prod.splits)

lemma edit_manifest_pod_spec:
  assumes "edit_manifest path ck orig doc = Inr (doc', changed)"
  obtains m m' where "pod_spec doc = Some m" "pod_spec doc' = Some m'" "updateContainers m ck orig = (m', changed)"
  using assms by (rule edit_manifest_cases) (auto simp: pod_spec_def)

lemma replace_image_idem: "ck \<noteq> orig \<Longrightarrow> orig \<noteq> [] \<Longrightarrow> orig \<notin> replace_image ck orig ` A"
  by (auto simp: replace_image_def)

lemma UpdateResourceContainers_writes:
  assumes "UpdateResourceContainers en path ck orig h = (res, h')"
  obtains (silent) "writes h' = writes h"
  | (wrote) data doc doc' out where "o_ReadFile (os en) h path = Inr data"
      "y_UnmarshalDoc (yaml en) data = Inr doc" "edit_manifest path ck orig doc = Inr (doc', True)"
      "y_MarshalDoc (yaml en) doc' = Inr out" "writes h' = WroteFile path out (res = None) # writes h"
  using assms
  by (fastforce simp: UpdateResourceContainers_def api_simps split: sum.splits prod.splits if_splits)

lemma UpdateResourceContainers_emits [emits_intros]:
  assumes "\<And>k a b. P (Read k a b)" and "\<And>out b. P (WroteFile path out b)"
  shows "emits P (UpdateResourceContainers en path ck orig)"
  unfolding UpdateResourceContainers_def by (auto intro!: emits_intros assms)

lemma CommitAndPush_emits [emits_intros]:
  assumes "\<And>k a b. P (Read k a b)" and "\<And>b. P (Committed dir msg b)" and "\<And>r b. P (Pushed dir r b)"
  shows "emits P (CommitAndPush en dir branch u pw msg)"
  unfolding CommitAndPush_def Let_def by (auto intro!: emits_intros assms)

section \<open>Properties\<close>


definition video_manifest :: "string \<Rightarrow> (string \<times> yval) list" where
  "video_manifest img =
     [(''kind'', YStr ''Deployment''),
      (''spec'', YMap [(''template'', YMap [(''spec'', YMap [(''containers'',
         YSeq [YMap [(''name'', YStr ''video''), (''image'', YStr img)],
               YMap [(''name'', YStr ''proxy''), (''image'', YStr ''envoy:2'')]])])])])]"


text \<open>
  \<open>UpdateResourceContainers\<close> writes at most one file, the one it was given, and only when
  the decoded document had an image to replace; what it writes is the encoding of the edited
  document and nothing else of the file's contents, and it reports success if and only if
  the write succeeded. A file that is not a supported workload is an error and is not written.
\<close>

theorem UpdateResourceContainers_effect:
  assumes "UpdateResourceContainers en path ck orig h = (res, h')"
  shows "writes h' = writes h \<or>
    (\<exists>data doc doc' out. o_ReadFile (os en) h path = Inr data \<and> y_UnmarshalDoc (yaml en) data = Inr doc \<and>
       (\<exists>k. yget doc ''kind'' = Some (YStr k) \<and> isSupportedKind k) \<and>
       (\<exists>f \<in> set container_fields. orig \<in> set (pod_images doc f)) \<and>
       edit_manifest path ck orig doc = Inr (doc', True) \<and> y_MarshalDoc (yaml en) doc' = Inr out \<and>
       writes h' = WroteFile path out (res = None) # writes h)"
  using assms
proof (cases rule: UpdateResourceContainers_writes)
  case (wrote data doc doc' out)
  from wrote(3) obtain m m' where "pod_spec doc = Some m" "updateContainers m ck orig = (m', True)"
    by (rule edit_manifest_pod_spec)
  then have "\<exists>f \<in> set container_fields. orig \<in> set (pod_images doc f)"
    using updateContainers_spec(2) [of m ck orig m' True] by (auto simp: pod_images_def)
  moreover from wrote(3) have "\<exists>k. yget doc ''kind'' = Some (YStr k) \<and> isSupportedKind k"
    by (rule edit_manifest_cases) auto
  ultimately show ?thesis using wrote by blast
qed simp

definition edit_env :: env where
  "edit_env = down_env\<lparr>os := down_os\<lparr>o_ReadFile := (\<lambda>_ _. Inr ''old''), o_WriteFile := (\<lambda>_ _ _. Inr ())\<rparr>,
     yaml := down_yaml\<lparr>y_UnmarshalDoc := (\<lambda>_. Inr (video_manifest ''video:1'')),
       y_MarshalDoc := (\<lambda>d. if d = video_manifest ''ckpt:1'' then Inr ''new'' else Inl down)\<rparr>\<rparr>"

theorem UpdateResourceContainers_effect_witness:
  "\<exists>doc'. edit_manifest ''f.yaml'' ''ckpt:1'' ''video:1'' (video_manifest ''video:1'') = Inr (doc', True)"
proof -
  have "UpdateResourceContainers edit_env ''f.yaml'' ''ckpt:1'' ''video:1'' [] =
      (None, [WroteFile ''f.yaml'' ''new'' True, Read ''file'' '''' ''f.yaml''])"
    by (simp add: UpdateResourceContainers_def edit_env_def api_simps edit_manifest_def video_manifest_def
        yget_def isSupportedKind_def updateContainers_def update_field_def update_container_def)
  from UpdateResourceContainers_effect [OF this] show ?thesis by (auto simp: edit_env_def)
qed

text \<open>
  \<open>CommitAndPush\<close> pushes only a commit that succeeded, pushes the one branch it was given to
  the branch of the same name, writes nothing else, and returns no error if and only if the
  commit and the push both succeeded.
\<close>

theorem CommitAndPush_order:
  "\<exists>res h'. CommitAndPush en dir branch u pw msg h = (res, h') \<and>
     (res \<noteq> None \<and> writes h' = writes h \<or>
      res \<noteq> None \<and> writes h' = Committed dir msg False # writes h \<or>
      writes h' = Pushed dir (''refs/heads/'' @ branch @ '':refs/heads/'' @ branch) (res = None) #
                  Committed dir msg True # writes h)"
  by (auto simp: CommitAndPush_def Let_def api_simps split: sum.splits)

text \<open>
  The two editors of interface addresses agree where the first does not panic: it panics
  exactly when an interface is not a mapping or has no string name, and otherwise changes the
  interfaces as the second one does.
\<close>

definition well_formed_interface :: "yval \<Rightarrow> bool" where
  "well_formed_interface v \<longleftrightarrow> (\<exists>m name. v = YMap m \<and> yget m ''name'' = Some (YStr name))"

theorem interface_editors_agree:
  "set_interfaces_nf newIPs ifaces =
     (if list_all well_formed_interface ifaces then Ret (map (set_interface_config newIPs) ifaces) else Panic)"
proof (induction ifaces)
  case (Cons v ifaces)
  show ?case
  proof (cases v)
    case (YMap m)
    then show ?thesis
      using Cons
      by (auto simp: well_formed_interface_def set_interface_config_def split: option.splits yval.splits)
  qed (auto simp: well_formed_interface_def)
qed simp

text \<open>
  \<open>FindMatchingResource\<close> looks for network attachment definitions and edits them with an
  editor that only accepts workloads: a file that starts with a matching definition makes the
  whole search fail.
\<close>

lemma UpdateResourceContainers_unsupported:
  assumes "o_ReadFile (os en) h path = Inr data" and "y_UnmarshalDoc (yaml en) data = Inr doc"
    and "yget doc ''kind'' = Some (YStr k)" and "\<not> isSupportedKind k"
  shows "\<exists>err h'. UpdateResourceContainers en path ck orig h = (Some err, h')"
  using assms by (simp add: UpdateResourceContainers_def edit_manifest_def api_simps)

lemma FindMatchingResource_rejects_definitions:
  assumes walk: "o_WalkDir (os en) h dir = (path # paths, werr)" and yml: "is_yaml path"
    and readf: "\<And>h. o_ReadFile (os en) h path = Inr data"
    and heads: "y_DecodeHeads (yaml en) data = (obj # objs, derr)"
    and match: "EqualFold (mh_Kind obj) ''NetworkAttachmentDefinition''"
      "mh_Name obj = rr_Name (cks_ResourceRef (ck_Spec ck))" "mh_Namespace obj = rr_Namespace (cks_ResourceRef (ck_Spec ck))"
    and doc: "y_UnmarshalDoc (yaml en) data = Inr doc" "yget doc ''kind'' = Some (YStr (mh_Kind obj))"
  shows "\<exists>err h'. FindMatchingResource en dir ck h = (Inl err, h')"
proof -
  have "\<not> isSupportedKind (mh_Kind obj)"
    using match(1) by (auto simp: isSupportedKind_def EqualFold_def ToLower_def lower_char_def)
  note bad = UpdateResourceContainers_unsupported [OF readf doc this]
  have docs: "\<exists>err h'. match_docs en path ck (obj # objs) [] g = (Inl err, h')" for g
  proof -
    from bad obtain err h' where "UpdateResourceContainers en path (ckst_LastCheckpointImage (ck_Status ck))
        (ckst_OriginalImage (ck_Status ck)) g = (Some err, h')" by blast
    then show ?thesis using match by simp
  qed
  have files: "\<exists>err h'. match_files en ck (path # paths) [] g = (Inl err, h')" for g
  proof -
    from docs obtain err h' where "match_docs en path ck (obj # objs) [] (Read ''file'' [] path # g) = (Inl err, h')"
      by blast
    then show ?thesis using yml readf heads by (simp add: rd_def)
  qed
  then obtain err h' where "match_files en ck (path # paths) [] (Read ''directory'' [] dir # h) = (Inl err, h')"
    by blast
  then show ?thesis using walk by (simp add: FindMatchingResource_def rd_def)
qed

end
