(* ===== verification/Manifest_Scan.thy ===== *)
theory Manifest_Scan
  imports Manifests "HOL-Library.Multiset"
begin

text \<open>
  \<^verbatim>\<open>src/reconcilers/gitaclient/gitea.go\<close>, \<open>CheckRepoForMatchingManifests\<close>: the concurrent
  search of a cloned repository. A walker goroutine feeds a channel of files, one worker per
  processor decodes them and sends the matches on a second channel, a closer waits for the
  workers and closes that channel and then a \<^verbatim>\<open>done\<close> channel, and the caller collects.

  The state holds the contents of the channels and the program point of each goroutine. One
  goroutine's next move is a choice; \<open>scan_next\<close> is the effect of a choice, undefined when
  the goroutine is blocked; the scheduler is the sequence of choices. The run ends with the
  collector's return: the goroutines it leaves behind have no further effect.
\<close>

section \<open>Definitions\<close>

datatype worker = Idle | Decoding string "manifest_head list" "error option" | Exited

record scan_state =
  sc_walk :: "string list"
  sc_walkErr :: "error option"
  sc_open :: bool
    \<comment> \<open>the walker has not yet closed the file channel\<close>
  sc_fileCh :: "string list"
  sc_workers :: "worker list"
  sc_matchCh :: "string list"
  sc_errCh :: "error option"
  sc_matchClosed :: bool
  sc_doneClosed :: bool
  sc_ctxDone :: bool
  sc_found :: "string list"
  sc_result :: "string list result option"

datatype choice = CWalk | CWorker nat | CCloser | CErr | CMatch | CDone | CCtx | CCancel

type_synonym reader = "string \<Rightarrow> (manifest_head list \<times> error option) result"

definition channel_capacity :: nat where
  "channel_capacity = 100"

definition or_default :: "string \<Rightarrow> string" where
  "or_default ns = (if ns = '''' then ''default'' else ns)"

definition doc_matches :: "ResourceRef \<Rightarrow> manifest_head \<Rightarrow> bool" where
  "doc_matches ref obj \<longleftrightarrow>
     mh_Kind obj = rr_Kind ref \<and> mh_Name obj = rr_Name ref \<and>
     or_default (mh_Namespace obj) = or_default (rr_Namespace ref)"

text \<open>A send on the error channel that never blocks: a second error is dropped.\<close>

definition try_err :: "error \<Rightarrow> error option \<Rightarrow> error option" where
  "try_err e ch = (case ch of None \<Rightarrow> Some e | Some e' \<Rightarrow> Some e')"

definition walk_next :: "scan_state \<Rightarrow> scan_state option" where
  "walk_next s =
     (if \<not> sc_open s then None
      else case sc_walk s of
             path # paths \<Rightarrow>
               (if \<not> is_yaml path then Some (s\<lparr>sc_walk := paths\<rparr>)
                else if length (sc_fileCh s) < channel_capacity
                then Some (s\<lparr>sc_walk := paths, sc_fileCh := sc_fileCh s @ [path]\<rparr>)
                else None)
           | [] \<Rightarrow>
               Some (s\<lparr>sc_open := False,
                       sc_errCh := (case sc_walkErr s of None \<Rightarrow> sc_errCh s | Some e \<Rightarrow> try_err e (sc_errCh s))\<rparr>))"

definition worker_next :: "reader \<Rightarrow> ResourceRef \<Rightarrow> nat \<Rightarrow> scan_state \<Rightarrow> scan_state option" where
  "worker_next readFile ref i s =
     (if length (sc_workers s) \<le> i then None
      else case sc_workers s ! i of
             Exited \<Rightarrow> None
           | Idle \<Rightarrow>
               (case sc_fileCh s of
                  [] \<Rightarrow> if sc_open s then None else Some (s\<lparr>sc_workers := (sc_workers s)[i := Exited]\<rparr>)
                | path # rest \<Rightarrow>
                    (if sc_ctxDone s
                     then Some (s\<lparr>sc_fileCh := rest, sc_workers := (sc_workers s)[i := Exited]\<rparr>)
                     else case readFile path of
                            Inl e \<Rightarrow> Some (s\<lparr>sc_fileCh := rest, sc_errCh := try_err e (sc_errCh s),
                                            sc_workers := (sc_workers s)[i := Exited]\<rparr>)
                          | Inr (objs, derr) \<Rightarrow>
                              Some (s\<lparr>sc_fileCh := rest,
                                      sc_workers := (sc_workers s)[i := Decoding path objs derr]\<rparr>)))
           | Decoding path (obj # objs) derr \<Rightarrow>
               (if \<not> doc_matches ref obj
                then Some (s\<lparr>sc_workers := (sc_workers s)[i := Decoding path objs derr]\<rparr>)
                else if length (sc_matchCh s) < channel_capacity
                then Some (s\<lparr>sc_matchCh := sc_matchCh s @ [path],
                             sc_workers := (sc_workers s)[i := Decoding path objs derr]\<rparr>)
                else None)
           | Decoding path [] None \<Rightarrow> Some (s\<lparr>sc_workers := (sc_workers s)[i := Idle]\<rparr>)
           | Decoding path [] (Some e) \<Rightarrow>
               Some (s\<lparr>sc_errCh := try_err e (sc_errCh s), sc_workers := (sc_workers s)[i := Exited]\<rparr>))"

definition closer_next :: "scan_state \<Rightarrow> scan_state option" where
  "closer_next s =
     (if \<not> list_all (\<lambda>w. w = Exited) (sc_workers s) then None
      else if \<not> sc_matchClosed s then Some (s\<lparr>sc_matchClosed := True\<rparr>)
      else if \<not> sc_doneClosed s then Some (s\<lparr>sc_doneClosed := True\<rparr>)
      else None)"

definition ctx_err :: error where
  "ctx_err = Errorf ''context canceled''"

text \<open>The four cases of the collector's \<^verbatim>\<open>select\<close>, and the cancellation of the context.\<close>

fun scan_next :: "reader \<Rightarrow> ResourceRef \<Rightarrow> choice \<Rightarrow> scan_state \<Rightarrow> scan_state option" where
  "scan_next readFile ref CWalk s = walk_next s"
| "scan_next readFile ref (CWorker i) s = worker_next readFile ref i s"
| "scan_next readFile ref CCloser s = closer_next s"
| "scan_next readFile ref CErr s =
     (case sc_errCh s of None \<Rightarrow> None | Some e \<Rightarrow> Some (s\<lparr>sc_errCh := None, sc_result := Some (Inl e)\<rparr>))"
| "scan_next readFile ref CMatch s =
     (case sc_matchCh s of
        path # rest \<Rightarrow> Some (s\<lparr>sc_matchCh := rest, sc_found := sc_found s @ [path]\<rparr>)
      | [] \<Rightarrow> if sc_matchClosed s then Some (s\<lparr>sc_result := Some (Inr (sc_found s))\<rparr>) else None)"
| "scan_next readFile ref CDone s =
     (if sc_doneClosed s then Some (s\<lparr>sc_result := Some (Inr (sc_found s))\<rparr>) else None)"
| "scan_next readFile ref CCtx s =
     (if sc_ctxDone s then Some (s\<lparr>sc_result := Some (Inl ctx_err)\<rparr>) else None)"
| "scan_next readFile ref CCancel s =
     (if sc_ctxDone s then None else Some (s\<lparr>sc_ctxDone := True\<rparr>))"

definition scan_init :: "nat \<Rightarrow> string list \<times> error option \<Rightarrow> scan_state" where
  "scan_init workerCount w =
     \<lparr>sc_walk = fst w, sc_walkErr = snd w, sc_open = True, sc_fileCh = [],
      sc_workers = replicate workerCount Idle, sc_matchCh = [], sc_errCh = None,
      sc_matchClosed = False, sc_doneClosed = False, sc_ctxDone = False, sc_found = [], sc_result = None\<rparr>"

definition choices :: "scan_state \<Rightarrow> choice list" where
  "choices s = [CMatch, CDone, CErr, CCtx, CCloser, CWalk] @ map CWorker [0..<length (sc_workers s)] @ [CCancel]"

definition enabled :: "reader \<Rightarrow> ResourceRef \<Rightarrow> scan_state \<Rightarrow> choice list" where
  "enabled readFile ref s = filter (\<lambda>c. scan_next readFile ref c s \<noteq> None) (choices s)"

section \<open>Progress: the search never deadlocks\<close>

text \<open>
  Whatever the state, some goroutine other than the one that cancels the context can move:
  a full match channel is drained by the collector, an empty one lets the workers go on, and
  workers that have all left let the closer and then the collector finish.
\<close>

lemma worker_blocked:
  assumes "worker_next readFile ref i s = None" and "i < length (sc_workers s)" and "sc_matchCh s = []"
  shows "sc_workers s ! i = Exited \<or> sc_workers s ! i = Idle \<and> sc_fileCh s = [] \<and> sc_open s"
  using assms
  by (auto simp: worker_next_def channel_capacity_def
      split: worker.splits list.splits if_splits sum.splits option.splits prod.splits)

lemma scan_progress: "\<exists>c \<in> set (choices s). c \<noteq> CCancel \<and> scan_next readFile ref c s \<noteq> None"
proof (cases "sc_matchCh s")
  case (Cons p q)
  then have "scan_next readFile ref CMatch s \<noteq> None" by simp
  then show ?thesis by (intro bexI [of _ CMatch]) (simp_all add: choices_def)
next
  case Nil
  show ?thesis
  proof (cases "\<exists>i < length (sc_workers s). worker_next readFile ref i s \<noteq> None")
    case True
    then obtain i where "i < length (sc_workers s)" "worker_next readFile ref i s \<noteq> None" by blast
    then show ?thesis by (intro bexI [of _ "CWorker i"]) (simp_all add: choices_def)
  next
    case False
    then have blocked: "\<forall>i < length (sc_workers s).
        sc_workers s ! i = Exited \<or> sc_workers s ! i = Idle \<and> sc_fileCh s = [] \<and> sc_open s"
      using worker_blocked [OF _ _ Nil] by blast
    show ?thesis
    proof (cases "\<forall>i < length (sc_workers s). sc_workers s ! i = Exited")
      case True
      then have "list_all (\<lambda>w. w = Exited) (sc_workers s)" by (simp add: list_all_length)
      then have "scan_next readFile ref CCloser s \<noteq> None \<or> scan_next readFile ref CDone s \<noteq> None"
        by (simp add: closer_next_def)
      then show ?thesis by (auto simp: choices_def)
    next
      case False
      with blocked have "sc_fileCh s = []" "sc_open s" by auto
      then have "scan_next readFile ref CWalk s \<noteq> None"
        by (simp add: walk_next_def channel_capacity_def split: list.splits)
      then show ?thesis by (intro bexI [of _ CWalk]) (simp_all add: choices_def)
    qed
  qed
qed

lemma enabled_nonempty: "enabled readFile ref s \<noteq> []"
  using scan_progress [of s readFile ref] by (auto simp: enabled_def filter_empty_conv)

section \<open>The moves, one by one\<close>

lemma walk_next_cases:
  assumes "walk_next s = Some s'"
  obtains (skip) p ps where "sc_open s" "sc_walk s = p # ps" "\<not> is_yaml p" "s' = s\<lparr>sc_walk := ps\<rparr>"
  | (send) p ps where "sc_open s" "sc_walk s = p # ps" "is_yaml p"
      "s' = s\<lparr>sc_walk := ps, sc_fileCh := sc_fileCh s @ [p]\<rparr>"
  | (close) "sc_open s" "sc_walk s = []"
      "s' = s\<lparr>sc_open := False,
              sc_errCh := (case sc_walkErr s of None \<Rightarrow> sc_errCh s | Some e \<Rightarrow> try_err e (sc_errCh s))\<rparr>"
  using assms by (auto simp: walk_next_def split: list.splits if_splits)

lemma worker_next_cases:
  assumes "worker_next readFile ref i s = Some s'"
  obtains
    (finish) "i < length (sc_workers s)" "sc_workers s ! i = Idle" "sc_fileCh s = []" "\<not> sc_open s"
      "s' = s\<lparr>sc_workers := (sc_workers s)[i := Exited]\<rparr>"
  | (cancelled) p q where "i < length (sc_workers s)" "sc_workers s ! i = Idle" "sc_fileCh s = p # q" "sc_ctxDone s"
      "s' = s\<lparr>sc_fileCh := q, sc_workers := (sc_workers s)[i := Exited]\<rparr>"
  | (unreadable) p q e where "i < length (sc_workers s)" "sc_workers s ! i = Idle" "sc_fileCh s = p # q"
      "readFile p = Inl e" "s' = s\<lparr>sc_fileCh := q, sc_errCh := try_err e (sc_errCh s),
        sc_workers := (sc_workers s)[i := Exited]\<rparr>"
  | (load) p q objs derr where "i < length (sc_workers s)" "sc_workers s ! i = Idle" "sc_fileCh s = p # q"
      "readFile p = Inr (objs, derr)" "s' = s\<lparr>sc_fileCh := q, sc_workers := (sc_workers s)[i := Decoding p objs derr]\<rparr>"
  | (pass) p obj objs derr where "i < length (sc_workers s)" "sc_workers s ! i = Decoding p (obj # objs) derr"
      "\<not> doc_matches ref obj" "s' = s\<lparr>sc_workers := (sc_workers s)[i := Decoding p objs derr]\<rparr>"
  | (match) p obj objs derr where "i < length (sc_workers s)" "sc_workers s ! i = Decoding p (obj # objs) derr"
      "doc_matches ref obj" "s' = s\<lparr>sc_matchCh := sc_matchCh s @ [p],
        sc_workers := (sc_workers s)[i := Decoding p objs derr]\<rparr>"
  | (next_file) p where "i < length (sc_workers s)" "sc_workers s ! i = Decoding p [] None"
      "s' = s\<lparr>sc_workers := (sc_workers s)[i := Idle]\<rparr>"
  | (undecodable) p e where "i < length (sc_workers s)" "sc_workers s ! i = Decoding p [] (Some e)"
      "s' = s\<lparr>sc_errCh := try_err e (sc_errCh s), sc_workers := (sc_workers s)[i := Exited]\<rparr>"
proof -
  from assms have i: "i < length (sc_workers s)" by (auto simp: worker_next_def split: if_splits)
  show thesis
  proof (cases "sc_workers s ! i")
    case Exited
    with assms i show thesis by (simp add: worker_next_def)
  next
    case Idle
    show thesis
    proof (cases "sc_fileCh s")
      case Nil
      with assms i Idle finish show thesis by (auto simp: worker_next_def split: if_splits)
    next
      case (Cons p q)
      with assms i Idle cancelled unreadable load show thesis
        by (auto simp: worker_next_def split: if_splits sum.splits)
    qed
  next
    case (Decoding p objs derr)
    show thesis
    proof (cases objs)
      case Nil
      with assms i Decoding next_file undecodable show thesis
        by (auto simp: worker_next_def split: option.splits)
    next
      case (Cons obj rest)
      with assms i Decoding pass match show thesis
        by (auto simp: worker_next_def split: if_splits)
    qed
  qed
qed

section \<open>Termination\<close>

text \<open>
  A bound on the moves left: what each file, worker, channel entry and flag can still cause.
\<close>

definition doc_count :: "reader \<Rightarrow> string \<Rightarrow> nat" where
  "doc_count readFile path = (case readFile path of Inl _ \<Rightarrow> 0 | Inr (objs, _) \<Rightarrow> length objs)"

fun worker_left :: "worker \<Rightarrow> nat" where
  "worker_left Exited = 0"
| "worker_left Idle = 1"
| "worker_left (Decoding _ objs _) = 2 + 2 * length objs"

definition scan_left :: "reader \<Rightarrow> scan_state \<Rightarrow> nat" where
  "scan_left readFile s =
     sum_list (map (\<lambda>p. 3 + 2 * doc_count readFile p) (sc_walk s)) +
     sum_list (map (\<lambda>p. 2 + 2 * doc_count readFile p) (sc_fileCh s)) +
     sum_list (map worker_left (sc_workers s)) +
     length (sc_matchCh s) + of_bool (sc_open s) + of_bool (\<not> sc_matchClosed s) +
     of_bool (\<not> sc_doneClosed s) + of_bool (\<not> sc_ctxDone s) + of_bool (sc_result s = None)"

lemma sum_list_update_nat:
  "i < length xs \<Longrightarrow> sum_list (map f (xs[i := v])) + f (xs ! i) = sum_list (map f xs) + (f v :: nat)"
  by (induction xs arbitrary: i) (auto split: nat.splits)

lemma walk_left: "walk_next s = Some s' \<Longrightarrow> scan_left readFile s' < scan_left readFile s"
  by (erule walk_next_cases) (simp_all add: scan_left_def)

lemma worker_left_less:
  assumes "worker_next readFile ref i s = Some s'"
  shows "scan_left readFile s' < scan_left readFile s"
  using assms
proof (cases rule: worker_next_cases)
  case finish
  then show ?thesis using sum_list_update_nat [OF finish(1), of worker_left Exited] by (simp add: scan_left_def)
next
  case (cancelled p q)
  then show ?thesis using sum_list_update_nat [OF cancelled(1), of worker_left Exited] by (simp add: scan_left_def)
next
  case (unreadable p q e)
  then show ?thesis using sum_list_update_nat [OF unreadable(1), of worker_left Exited] by (simp add: scan_left_def)
next
  case (load p q objs derr)
  then show ?thesis
    using sum_list_update_nat [OF load(1), of worker_left "Decoding p objs derr"]
    by (simp add: scan_left_def doc_count_def)
next
  case (pass p obj objs derr)
  then show ?thesis
    using sum_list_update_nat [OF pass(1), of worker_left "Decoding p objs derr"] by (simp add: scan_left_def)
next
  case (match p obj objs derr)
  then show ?thesis
    using sum_list_update_nat [OF match(1), of worker_left "Decoding p objs derr"] by (simp add: scan_left_def)
next
  case (next_file p)
  then show ?thesis using sum_list_update_nat [OF next_file(1), of worker_left Idle] by (simp add: scan_left_def)
next
  case (undecodable p e)
  then show ?thesis using sum_list_update_nat [OF undecodable(1), of worker_left Exited] by (simp add: scan_left_def)
qed

lemma closer_next_cases:
  assumes "closer_next s = Some s'"
  obtains (match) "list_all (\<lambda>w. w = Exited) (sc_workers s)" "\<not> sc_matchClosed s" "s' = s\<lparr>sc_matchClosed := True\<rparr>"
  | (finished) "list_all (\<lambda>w. w = Exited) (sc_workers s)" "sc_matchClosed s" "\<not> sc_doneClosed s"
      "s' = s\<lparr>sc_doneClosed := True\<rparr>"
  using assms by (auto simp: closer_next_def split: if_splits)

lemma closer_left: "closer_next s = Some s' \<Longrightarrow> scan_left readFile s' < scan_left readFile s"
  by (erule closer_next_cases) (simp_all add: scan_left_def)

lemma collect_next_cases:
  assumes "scan_next readFile ref c s = Some s'" and "c \<in> {CErr, CMatch, CDone, CCtx, CCancel}"
  obtains (take) p q where "sc_matchCh s = p # q" "s' = s\<lparr>sc_matchCh := q, sc_found := sc_found s @ [p]\<rparr>"
  | (ret) "s' = s\<lparr>sc_result := Some (Inr (sc_found s))\<rparr>"
      "sc_matchCh s = [] \<and> sc_matchClosed s \<or> sc_doneClosed s"
  | (fail) e ch where "s' = s\<lparr>sc_errCh := ch, sc_result := Some (Inl e)\<rparr>"
  | (cancel) "\<not> sc_ctxDone s" "s' = s\<lparr>sc_ctxDone := True\<rparr>"
proof -
  consider "c = CErr" | "c = CMatch" | "c = CDone" | "c = CCtx" | "c = CCancel" using assms(2) by blast
  then show thesis
  proof cases
    case 1 with assms(1) fail show thesis by (auto split: option.splits)
  next
    case 2 with assms(1) take ret show thesis by (auto split: list.splits if_splits)
  next
    case 3 with assms(1) ret show thesis by (auto split: if_splits)
  next
    case 4 with assms(1) fail [of ctx_err "sc_errCh s"] show thesis by (auto split: if_splits)
  next
    case 5 with assms(1) cancel show thesis by (auto split: if_splits)
  qed
qed

lemma scan_next_left:
  assumes step: "scan_next readFile ref c s = Some s'" and "sc_result s = None"
  shows "scan_left readFile s' < scan_left readFile s"
proof (cases "c \<in> {CErr, CMatch, CDone, CCtx, CCancel}")
  case True
  with step show ?thesis
    by (cases rule: collect_next_cases) (simp_all add: scan_left_def assms(2))
next
  case False
  with step show ?thesis using walk_left worker_left_less closer_left by (cases c) auto
qed

section \<open>The run and the reachable states\<close>

text \<open>
  \<open>scan_run\<close> lets the scheduler \<open>pick\<close> among the goroutines that can move until the collector
  returns. It is total: some goroutine can always move, and the work left decreases.
\<close>

function scan_run :: "reader \<Rightarrow> ResourceRef \<Rightarrow> (nat \<Rightarrow> nat) \<Rightarrow> nat \<Rightarrow> scan_state \<Rightarrow> scan_state" where
  "scan_run readFile ref pick n s =
     (if sc_result s \<noteq> None then s
      else let cs = enabled readFile ref s in
           case scan_next readFile ref (cs ! (pick n mod length cs)) s of
             None \<Rightarrow> s
           | Some s' \<Rightarrow> scan_run readFile ref pick (Suc n) s')"
  by pat_completeness auto
termination
  by (relation "measure (\<lambda>(readFile, ref, pick, n, s). scan_left readFile s)")
    (auto dest: scan_next_left)

declare scan_run.simps [simp del]

inductive scan_reach :: "reader \<Rightarrow> ResourceRef \<Rightarrow> scan_state \<Rightarrow> scan_state \<Rightarrow> bool"
  for readFile ref s0 where
  init: "scan_reach readFile ref s0 s0"
| step: "scan_reach readFile ref s0 s \<Longrightarrow> sc_result s = None \<Longrightarrow> scan_next readFile ref c s = Some s' \<Longrightarrow>
    scan_reach readFile ref s0 s'"

lemma scan_run_step:
  assumes "sc_result s = None"
  obtains c s' where "scan_next readFile ref c s = Some s'"
    "scan_run readFile ref pick n s = scan_run readFile ref pick (Suc n) s'"
proof -
  let ?cs = "enabled readFile ref s"
  have "pick n mod length ?cs < length ?cs" using enabled_nonempty by simp
  then have "?cs ! (pick n mod length ?cs) \<in> set ?cs" by (rule nth_mem)
  then obtain s' where "scan_next readFile ref (?cs ! (pick n mod length ?cs)) s = Some s'"
    by (auto simp: enabled_def)
  with assms that show thesis by (simp add: scan_run.simps [of readFile ref pick n s] Let_def)
qed

lemma scan_run_reach:
  "scan_reach readFile ref s0 s \<Longrightarrow>
     scan_reach readFile ref s0 (scan_run readFile ref pick n s) \<and> sc_result (scan_run readFile ref pick n s) \<noteq> None"
proof (induction "scan_left readFile s" arbitrary: n s rule: less_induct)
  case less
  show ?case
  proof (cases "sc_result s")
    case None
    then obtain c s' where c: "scan_next readFile ref c s = Some s'"
      "scan_run readFile ref pick n s = scan_run readFile ref pick (Suc n) s'" by (rule scan_run_step)
    with None less.prems have "scan_reach readFile ref s0 s'" by (blast intro: scan_reach.step)
    with less.hyps [OF scan_next_left [OF c(1) None]] c(2) show ?thesis by simp
  next
    case (Some r)
    with less.prems show ?thesis by (simp add: scan_run.simps [of readFile ref pick n s])
  qed
qed

text \<open>
  \<open>CheckRepoForMatchingManifests\<close>: the clone directory, and the matching files or the error.
\<close>

definition doc_reader :: "env \<Rightarrow> hist \<Rightarrow> reader" where
  "doc_reader en h path =
     (case o_ReadFile (os en) h path of Inl e \<Rightarrow> Inl e | Inr data \<Rightarrow> Inr (y_DecodeHeads (yaml en) data))"

definition scan_repo :: "env \<Rightarrow> ResourceRef \<Rightarrow> string \<Rightarrow> hist \<Rightarrow> scan_state" where
  "scan_repo en ref dir h =
     scan_run (doc_reader en h) ref (o_Sched (os en) h) 0
       (scan_init (o_NumCPU (os en)) (o_WalkDir (os en) h dir))"

definition CheckRepoForMatchingManifests ::
  "env \<Rightarrow> string \<Rightarrow> string \<Rightarrow> ResourceRef \<Rightarrow> hist \<Rightarrow> (string \<times> string list result) \<times> hist" where
  "CheckRepoForMatchingManifests en repoURL branch ref h =
     (case rd ''tempdir'' '''' '''' (o_MkdirTemp (os en)) h of
        (Inl err, h) \<Rightarrow> (('''', Inl err), h)
      | (Inr tmpDir, h) \<Rightarrow>
          (case wr (Cloned repoURL branch tmpDir) (\<lambda>h. o_GitClone (os en) h repoURL branch tmpDir) h of
             (Inl err, h) \<Rightarrow> (('''', Inl (wrapf ''git clone failed'' err)), h)
           | (Inr _, h) \<Rightarrow>
               (case rd ''directory'' '''' tmpDir (\<lambda>h. sc_result (scan_repo en ref tmpDir h)) h of
                  (Some r, h) \<Rightarrow> ((tmpDir, r), h)
                | (None, h) \<Rightarrow> ((tmpDir, Inl ctx_err), h))))"

lemma scan_repo_reach:
  "scan_reach (doc_reader en h) ref (scan_init (o_NumCPU (os en)) (o_WalkDir (os en) h dir)) (scan_repo en ref dir h)"
  "sc_result (scan_repo en ref dir h) \<noteq> None"
  unfolding scan_repo_def using scan_run_reach [OF scan_reach.init] by blast+

lemma CheckRepo_emits [emits_intros]:
  assumes "\<And>k a b. P (Read k a b)" and "\<And>d b. P (Cloned url branch d b)"
  shows "emits P (CheckRepoForMatchingManifests en url branch ref)"
  unfolding CheckRepoForMatchingManifests_def by (auto intro!: emits_intros assms)

section \<open>Accounting for the matches\<close>

definition matches_of :: "reader \<Rightarrow> ResourceRef \<Rightarrow> string \<Rightarrow> string list" where
  "matches_of readFile ref p =
     (case readFile p of Inl _ \<Rightarrow> [] | Inr (objs, _) \<Rightarrow> replicate (length (filter (doc_matches ref) objs)) p)"

definition all_matches :: "reader \<Rightarrow> ResourceRef \<Rightarrow> string list \<Rightarrow> string multiset" where
  "all_matches readFile ref paths = mset (concat (map (matches_of readFile ref) (filter is_yaml paths)))"

fun worker_matches :: "ResourceRef \<Rightarrow> worker \<Rightarrow> string list" where
  "worker_matches ref (Decoding p objs _) = replicate (length (filter (doc_matches ref) objs)) p"
| "worker_matches ref _ = []"

definition bag :: "('a \<Rightarrow> 'b list) \<Rightarrow> 'a list \<Rightarrow> 'b multiset" where
  "bag f xs = mset (concat (map f xs))"

lemma bag_simps [simp]:
  "bag f [] = {#}" "bag f (x # xs) = mset (f x) + bag f xs" "bag f (xs @ ys) = bag f xs + bag f ys"
  by (simp_all add: bag_def)

lemma bag_update: "i < length xs \<Longrightarrow> bag f (xs[i := v]) + mset (f (xs ! i)) = bag f xs + mset (f v)"
  by (induction xs arbitrary: i) (auto split: nat.splits simp: ac_simps)

lemma bag_replicate_empty: "f x = [] \<Longrightarrow> bag f (replicate n x) = {#}"
  by (induction n) auto

lemma bag_all_empty: "list_all (\<lambda>x. f x = []) xs \<Longrightarrow> bag f xs = {#}"
  by (induction xs) auto

definition account :: "reader \<Rightarrow> ResourceRef \<Rightarrow> scan_state \<Rightarrow> string multiset" where
  "account readFile ref s =
     mset (sc_found s) + mset (sc_matchCh s) + bag (worker_matches ref) (sc_workers s) +
     bag (matches_of readFile ref) (sc_fileCh s) + all_matches readFile ref (sc_walk s)"

text \<open>A scan is clean while no error is on its way, the context is live and it did not fail.\<close>

definition clean :: "scan_state \<Rightarrow> bool" where
  "clean s \<longleftrightarrow> sc_errCh s = None \<and> \<not> sc_ctxDone s \<and> (\<forall>e. sc_result s \<noteq> Some (Inl e))"

definition scan_inv :: "reader \<Rightarrow> ResourceRef \<Rightarrow> string multiset \<Rightarrow> scan_state \<Rightarrow> bool" where
  "scan_inv readFile ref expected s \<longleftrightarrow>
     account readFile ref s \<subseteq># expected \<and>
     (clean s \<longrightarrow> account readFile ref s = expected) \<and>
     (clean s \<longrightarrow> Exited \<in> set (sc_workers s) \<longrightarrow> \<not> sc_open s \<and> sc_fileCh s = []) \<and>
     (\<not> sc_open s \<longrightarrow> sc_walk s = []) \<and>
     (sc_matchClosed s \<longrightarrow> list_all (\<lambda>w. w = Exited) (sc_workers s)) \<and>
     (sc_doneClosed s \<longrightarrow> sc_matchClosed s) \<and>
     (\<forall>ms. sc_result s = Some (Inr ms) \<longrightarrow> ms = sc_found s \<and> sc_matchClosed s)"

lemma scan_inv_init:
  "scan_inv readFile ref (all_matches readFile ref (fst w)) (scan_init n w)"
  by (auto simp: scan_inv_def account_def scan_init_def clean_def bag_replicate_empty)

lemma all_matches_Cons:
  "all_matches readFile ref (p # ps) =
     (if is_yaml p then mset (matches_of readFile ref p) else {#}) + all_matches readFile ref ps"
  by (simp add: all_matches_def)

lemma try_err_Some [simp]: "try_err e ch \<noteq> None"
  by (simp add: try_err_def split: option.splits)

text \<open>What a step does to the account: it keeps it, and only a cancelled worker drops a file.\<close>

lemma account_walk:
  "walk_next s = Some s' \<Longrightarrow> account readFile ref s' = account readFile ref s"
  by (erule walk_next_cases) (simp_all add: account_def all_matches_Cons ac_simps)

lemma account_worker:
  assumes "worker_next readFile ref i s = Some s'"
  shows "account readFile ref s' \<subseteq># account readFile ref s"
    and "\<not> sc_ctxDone s \<Longrightarrow> account readFile ref s' = account readFile ref s"
proof -
  have "account readFile ref s' = account readFile ref s \<or>
      sc_ctxDone s \<and> account readFile ref s' \<subseteq># account readFile ref s"
    using assms
  proof (cases rule: worker_next_cases)
    case finish
    with bag_update [OF finish(1), of "worker_matches ref" Exited] show ?thesis by (simp add: account_def)
  next
    case (cancelled p q)
    with bag_update [OF cancelled(1), of "worker_matches ref" Exited] show ?thesis by (simp add: account_def)
  next
    case (unreadable p q e)
    with bag_update [OF unreadable(1), of "worker_matches ref" Exited] show ?thesis
      by (simp add: account_def matches_of_def)
  next
    case (load p q objs derr)
    with bag_update [OF load(1), of "worker_matches ref" "Decoding p objs derr"] show ?thesis
      by (simp add: account_def matches_of_def ac_simps)
  next
    case (pass p obj objs derr)
    with bag_update [OF pass(1), of "worker_matches ref" "Decoding p objs derr"] show ?thesis
      by (simp add: account_def)
  next
    case (match p obj objs derr)
    with bag_update [OF match(1), of "worker_matches ref" "Decoding p objs derr"]
    have "bag (worker_matches ref) (sc_workers s) =
        add_mset p (bag (worker_matches ref) ((sc_workers s)[i := Decoding p objs derr]))"
      by simp
    with match show ?thesis by (simp add: account_def)
  next
    case (next_file p)
    with bag_update [OF next_file(1), of "worker_matches ref" Idle] show ?thesis by (simp add: account_def)
  next
    case (undecodable p e)
    with bag_update [OF undecodable(1), of "worker_matches ref" Exited] show ?thesis by (simp add: account_def)
  qed
  then show "account readFile ref s' \<subseteq># account readFile ref s"
    and "\<not> sc_ctxDone s \<Longrightarrow> account readFile ref s' = account readFile ref s" by auto
qed

lemma scan_inv_walk:
  assumes "walk_next s = Some s'" and "sc_result s = None" and "scan_inv readFile ref ms s"
  shows "scan_inv readFile ref ms s'"
  using assms(1)
proof (cases rule: walk_next_cases)
  case close
  with assms account_walk [OF assms(1), of readFile ref] show ?thesis
    by (auto simp: scan_inv_def clean_def account_def split: option.splits)
qed (use assms account_walk [OF assms(1), of readFile ref] in \<open>auto simp: scan_inv_def clean_def\<close>)

lemma scan_inv_worker:
  assumes step: "worker_next readFile ref i s = Some s'" and res: "sc_result s = None"
    and inv: "scan_inv readFile ref ms s"
  shows "scan_inv readFile ref ms s'"
proof -
  note acc = account_worker [OF step]
  have same: "sc_open s' = sc_open s" "sc_walk s' = sc_walk s" "sc_matchClosed s' = sc_matchClosed s"
    "sc_doneClosed s' = sc_doneClosed s" "sc_result s' = None" "sc_ctxDone s' = sc_ctxDone s"
    using step res by (cases rule: worker_next_cases; simp)+
  have live: "\<not> sc_matchClosed s"
    using step inv by (cases rule: worker_next_cases) (auto simp: scan_inv_def list_all_length)
  have cl: "clean s' \<Longrightarrow> clean s"
    using step res by (cases rule: worker_next_cases) (auto simp: clean_def)
  have ex: "\<not> sc_open s' \<and> sc_fileCh s' = []" if "clean s'" and "Exited \<in> set (sc_workers s')"
  proof -
    have old: "Exited \<in> set (sc_workers s) \<Longrightarrow> \<not> sc_open s \<and> sc_fileCh s = []"
      using inv cl [OF that(1)] by (simp add: scan_inv_def)
    show ?thesis
      using step that old
      by (cases rule: worker_next_cases) (auto simp: clean_def dest!: set_update_subset_insert [THEN subsetD])
  qed
  have "account readFile ref s' \<subseteq># ms" using acc(1) inv by (auto simp: scan_inv_def intro: subset_mset.order_trans)
  moreover have "account readFile ref s' = ms" if "clean s'"
    using cl [OF that] acc(2) inv by (simp add: scan_inv_def clean_def)
  ultimately show ?thesis using inv ex live same by (simp add: scan_inv_def)
qed

lemma scan_inv_closer:
  "closer_next s = Some s' \<Longrightarrow> scan_inv readFile ref ms s \<Longrightarrow> sc_result s = None \<Longrightarrow> scan_inv readFile ref ms s'"
  by (erule closer_next_cases) (auto simp: scan_inv_def clean_def account_def)

lemma scan_inv_collect:
  assumes "scan_next readFile ref c s = Some s'" and "c \<in> {CErr, CMatch, CDone, CCtx, CCancel}"
    and "scan_inv readFile ref ms s" and "sc_result s = None"
  shows "scan_inv readFile ref ms s'"
  using assms(1,2)
  by (cases rule: collect_next_cases) (use assms(3,4) in \<open>auto simp: scan_inv_def clean_def account_def\<close>)

lemma scan_inv_reach:
  assumes "scan_reach readFile ref s0 s" and "scan_inv readFile ref ms s0"
  shows "scan_inv readFile ref ms s"
  using assms
proof (induction rule: scan_reach.induct)
  case init
  then show ?case .
next
  case (step s c s')
  show ?case
  proof (cases "c \<in> {CErr, CMatch, CDone, CCtx, CCancel}")
    case True
    with step show ?thesis by (blast intro: scan_inv_collect)
  next
    case False
    with step show ?thesis
      using scan_inv_walk scan_inv_worker scan_inv_closer by (cases c) auto
  qed
qed

lemma workers_reach:
  "scan_reach readFile ref s0 s \<Longrightarrow> length (sc_workers s) = length (sc_workers s0)"
proof (induction rule: scan_reach.induct)
  case (step s c s')
  show ?case
  proof (cases "c \<in> {CErr, CMatch, CDone, CCtx, CCancel}")
    case True
    from step(3) True step.IH show ?thesis by (cases rule: collect_next_cases) auto
  next
    case False
    with step(3) step.IH show ?thesis
      by (cases c) (auto elim: walk_next_cases worker_next_cases closer_next_cases)
  qed
qed simp

section \<open>Properties\<close>

text \<open>
  C14. The concurrent search always returns, whatever the scheduler does, and what it returns
  is sound: the files it reports are, with multiplicity, among the matching documents of the
  YAML files of the clone. If no error is pending and the context is live when it returns,
  and at least one worker ran, the reported files together with those left in the match
  channel are exactly the matching documents: nothing is reported twice and a match can only
  be missing because the collector returned before it received it.
\<close>

theorem scan_repo_correct:
  shows "(\<exists>r. sc_result (scan_repo en ref dir h) = Some r) \<and>
    (\<forall>ms. sc_result (scan_repo en ref dir h) = Some (Inr ms) \<longrightarrow>
       mset ms \<subseteq># all_matches (doc_reader en h) ref (fst (o_WalkDir (os en) h dir)) \<and>
       (0 < o_NumCPU (os en) \<longrightarrow> sc_errCh (scan_repo en ref dir h) = None \<longrightarrow> \<not> sc_ctxDone (scan_repo en ref dir h) \<longrightarrow>
        mset ms + mset (sc_matchCh (scan_repo en ref dir h)) =
          all_matches (doc_reader en h) ref (fst (o_WalkDir (os en) h dir))))"
proof -
  let ?s = "scan_repo en ref dir h" and ?all = "all_matches (doc_reader en h) ref (fst (o_WalkDir (os en) h dir))"
  note reach = scan_repo_reach [where en = en and ref = ref and h = h and dir = dir]
  have inv: "scan_inv (doc_reader en h) ref ?all ?s"
    by (rule scan_inv_reach [OF reach(1) scan_inv_init])
  have len: "length (sc_workers ?s) = o_NumCPU (os en)"
    using workers_reach [OF reach(1)] by (simp add: scan_init_def)
  have "mset ms \<subseteq># ?all \<and>
      (0 < o_NumCPU (os en) \<longrightarrow> sc_errCh ?s = None \<longrightarrow> \<not> sc_ctxDone ?s \<longrightarrow> mset ms + mset (sc_matchCh ?s) = ?all)"
    if "sc_result ?s = Some (Inr ms)" for ms
  proof -
    from that inv have ms: "ms = sc_found ?s" and ex: "list_all (\<lambda>w. w = Exited) (sc_workers ?s)"
      and sub: "account (doc_reader en h) ref ?s \<subseteq># ?all"
      by (auto simp: scan_inv_def)
    have "mset ms \<subseteq># account (doc_reader en h) ref ?s"
      unfolding ms account_def by (simp add: subset_mset.add_increasing2 ac_simps)
    moreover have "mset ms + mset (sc_matchCh ?s) = ?all"
      if n: "0 < o_NumCPU (os en)" and cl: "sc_errCh ?s = None" "\<not> sc_ctxDone ?s"
    proof -
      have "clean ?s" using cl \<open>sc_result ?s = Some (Inr ms)\<close> by (simp add: clean_def)
      moreover have "Exited \<in> set (sc_workers ?s)" using ex n len by (cases "sc_workers ?s") auto
      ultimately have "sc_fileCh ?s = []" "sc_walk ?s = []" "account (doc_reader en h) ref ?s = ?all"
        using inv by (auto simp: scan_inv_def)
      moreover have "bag (worker_matches ref) (sc_workers ?s) = {#}"
        using ex by (intro bag_all_empty) (auto elim: list.pred_mono_strong)
      ultimately show ?thesis by (simp add: account_def ms all_matches_def)
    qed
    ultimately show ?thesis using sub by (blast intro: subset_mset.order_trans)
  qed
  with reach(2) show ?thesis by auto
qed

definition video_head :: manifest_head where
  "video_head = \<lparr>mh_Kind = ''Deployment'', mh_Name = ''video'', mh_Namespace = ''''\<rparr>"

definition video_ref :: ResourceRef where
  "video_ref = zero_ResourceRef\<lparr>rr_Kind := ''Deployment'', rr_Name := ''video'', rr_Namespace := ''default''\<rparr>"

text \<open>A clone with one file that holds one matching document, under a given schedule.\<close>

definition scan_env :: "(nat \<Rightarrow> nat) \<Rightarrow> env" where
  "scan_env pick = down_env\<lparr>
     os := down_os\<lparr>o_MkdirTemp := (\<lambda>_. Inr ''/tmp/d''), o_GitClone := (\<lambda>_ _ _ _. Inr ()),
       o_WalkDir := (\<lambda>_ _. ([''a.yaml''], None)), o_ReadFile := (\<lambda>_ _. Inr ''data''), o_Sched := (\<lambda>_. pick)\<rparr>,
     yaml := down_yaml\<lparr>y_DecodeHeads := (\<lambda>_. ([video_head], None))\<rparr>\<rparr>"

lemma scan_env_reader: "doc_reader (scan_env pick) h = (\<lambda>_. Inr ([video_head], None))"
  by (rule ext) (simp add: doc_reader_def scan_env_def)

lemma scan_env_repo:
  "scan_repo (scan_env pick) video_ref d h =
     scan_run (\<lambda>_. Inr ([video_head], None)) video_ref pick 0 (scan_init 1 ([''a.yaml''], None))"
  by (simp add: scan_repo_def scan_env_reader) (simp add: scan_env_def down_os_def)

lemma scan_env_all: "all_matches (doc_reader (scan_env pick) h) video_ref [''a.yaml''] = {#''a.yaml''#}"
  by (simp add: scan_env_reader all_matches_def matches_of_def video_head_def video_ref_def doc_matches_def
      zero_ResourceRef_def or_default_def is_yaml_def Ext_def ToLower_def lower_char_def)

theorem scan_repo_correct_witness:
  "sc_result (scan_repo (scan_env (\<lambda>_. 0)) video_ref ''/tmp/d'' []) = Some (Inr [''a.yaml'']) \<and>
   mset [''a.yaml''] \<subseteq># all_matches (doc_reader (scan_env (\<lambda>_. 0)) []) video_ref [''a.yaml'']"
proof -
  have r: "sc_result (scan_repo (scan_env (\<lambda>_. 0)) video_ref ''/tmp/d'' []) = Some (Inr [''a.yaml''])"
    unfolding scan_env_repo by code_simp
  have w: "fst (o_WalkDir (os (scan_env (\<lambda>_. 0))) [] ''/tmp/d'') = [''a.yaml'']"
    by (simp add: scan_env_def)
  from scan_repo_correct [where en = "scan_env (\<lambda>_. 0)" and ref = video_ref and dir = "''/tmp/d''" and h = "[]"] r
  show ?thesis unfolding w by blast
qed

text \<open>
  A match can be lost. The collector's \<^verbatim>\<open>select\<close> also listens on \<^verbatim>\<open>done\<close>, which is closed
  while matches may still be buffered: with one worker and one file that holds the wanted
  object, there is a schedule, without errors and without cancellation, in which the search
  reports that nothing was found.
\<close>

definition losing_schedule :: "nat \<Rightarrow> nat" where
  "losing_schedule n = (if n < 4 then 0 else 1)"

theorem CheckRepo_can_lose_match:
  "\<exists>h'. CheckRepoForMatchingManifests (scan_env losing_schedule) ''http://git/r'' ''main'' video_ref [] =
      ((''/tmp/d'', Inr []), h') \<and>
    all_matches (doc_reader (scan_env losing_schedule) []) video_ref [''a.yaml''] = {#''a.yaml''#}"
proof -
  have "sc_result (scan_repo (scan_env losing_schedule) video_ref ''/tmp/d'' h) = Some (Inr [])" for h
    unfolding scan_env_repo by code_simp
  moreover have "o_MkdirTemp (os (scan_env losing_schedule)) [] = Inr ''/tmp/d''"
    "o_GitClone (os (scan_env losing_schedule)) h u b d = Inr ()" for h u b d
    by (simp_all add: scan_env_def)
  ultimately show ?thesis by (simp add: CheckRepoForMatchingManifests_def api_simps scan_env_all)
qed

end
