(* ===== verification/Gitea_Client.thy ===== *)
theory Gitea_Client
  imports Samples
begin

text \<open>
  \<^verbatim>\<open>src/reconcilers/gitaclient/giteaclient.go\<close>: the process-wide Gitea client. The package
  variable \<^verbatim>\<open>singleInstance\<close> is written once, when it is nil, so its value is a function of
  what the process did: the history records the creation (\<open>StartedGitea\<close>), with the client
  when \<open>Start\<close> succeeded.
\<close>

section \<open>Definitions\<close>

record gc =
  gc_giteaClient :: "gitea_client option"

fun singleInstance :: "hist \<Rightarrow> gc option" where
  "singleInstance [] = None"
| "singleInstance (StartedGitea c # h) = Some \<lparr>gc_giteaClient = c\<rparr>"
| "singleInstance (_ # h) = singleInstance h"

definition IsInitialized :: "gc \<Rightarrow> bool" where
  "IsInitialized r \<longleftrightarrow> gc_giteaClient r \<noteq> None"

text \<open>The name and namespace of the credentials secret, from the environment variables.\<close>

definition git_secret_name :: "env \<Rightarrow> string" where
  "git_secret_name en =
     (let n = o_Getenv (os en) ''GIT_SECRET_NAME'' in if n = '''' then ''git-user-secret'' else n)"

definition git_secret_namespace :: "env \<Rightarrow> string" where
  "git_secret_namespace en =
     (let gns = o_Getenv (os en) ''GIT_SECRET_NAMESPACE'' in
      if gns = ''''
      then (let ns = o_Getenv (os en) ''POD_NAMESPACE'' in if ns \<noteq> '''' then ns else ''default'')
      else gns)"

definition get_git_secret :: "env \<Rightarrow> hist \<Rightarrow> Secret result \<times> hist" where
  "get_git_secret en =
     rd ''Secret'' (git_secret_namespace en) (git_secret_name en)
       (\<lambda>h. m_GetSecret (mgmt en) h (git_secret_namespace en) (git_secret_name en))"

text \<open>\<open>Start\<close> gives the client it stored, if it got that far.\<close>

definition Start :: "env \<Rightarrow> hist \<Rightarrow> gitea_client option \<times> hist" where
  "Start en h =
     (let gitURL = o_Getenv (os en) ''GIT_SERVER_URL'' in
      if gitURL = '''' then (None, h)
      else case get_git_secret en h of
             (Inl err, h) \<Rightarrow> (None, h)
           | (Inr secret, h) \<Rightarrow>
               (case rd ''gitea-client'' '''' gitURL
                       (\<lambda>h. g_NewClient (gt en) h gitURL (mget (sec_Data secret) ''username'')
                              (mget (sec_Data secret) ''password'')) h of
                  (Inl err, h) \<Rightarrow> (None, h)
                | (Inr client, h) \<Rightarrow>
                    (case rd ''gitea-user'' '''' '''' (\<lambda>h. g_GetMyUserInfo (gt en) h client) h of
                       (Inl err, h) \<Rightarrow> (None, h)
                     | (Inr _, h) \<Rightarrow> (Some client, h))))"

definition GetClient :: "env \<Rightarrow> hist \<Rightarrow> gc \<times> hist" where
  "GetClient en h =
     (case singleInstance h of
        Some r \<Rightarrow> (r, h)
      | None \<Rightarrow> (case Start en h of (c, h) \<Rightarrow> (\<lparr>gc_giteaClient = c\<rparr>, StartedGitea c # h)))"

text \<open>The user name, the password and the URL, or the error.\<close>

definition GetGiteaSecretUserNamePassword :: "env \<Rightarrow> hist \<Rightarrow> (string \<times> string \<times> string) result \<times> hist" where
  "GetGiteaSecretUserNamePassword en h =
     (let gitURL = o_Getenv (os en) ''GIT_SERVER_URL'' in
      if gitURL = '''' then (Inr ('''', '''', ''''), h)
      else case get_git_secret en h of
             (Inl err, h) \<Rightarrow> (Inl err, h)
           | (Inr secret, h) \<Rightarrow>
               (Inr (mget (sec_Data secret) ''username'', mget (sec_Data secret) ''password'', gitURL), h))"

section \<open>Lemmas\<close>

lemma Start_emits [emits_intros]:
  assumes "\<And>k a b. P (Read k a b)"
  shows "emits P (Start en)"
  unfolding Start_def get_git_secret_def Let_def by (auto intro!: emits_intros assms)

lemma GetClient_emits [emits_intros]:
  assumes "\<And>k a b. P (Read k a b)" and "\<And>c. P (StartedGitea c)"
  shows "emits P (GetClient en)"
proof (rule emitsI)
  fix h
  obtain c h1 where s: "Start en h = (c, h1)" by fastforce
  have "emits P (Start en)" using assms(1) by (rule Start_emits)
  then obtain es where "h1 = es @ h" "\<forall>e \<in> set es. P e" using s by (rule emitsD)
  then have "StartedGitea c # h1 = (StartedGitea c # es) @ h" "\<forall>e \<in> set (StartedGitea c # es). P e"
    using assms(2) by auto
  then show "\<exists>es. snd (GetClient en h) = es @ h \<and> (\<forall>e \<in> set es. P e)"
    using s by (cases "singleInstance h") (force simp: GetClient_def)+
qed

lemma GetGiteaSecret_emits [emits_intros]:
  assumes "\<And>k a b. P (Read k a b)"
  shows "emits P (GetGiteaSecretUserNamePassword en)"
  unfolding GetGiteaSecretUserNamePassword_def get_git_secret_def Let_def
  by (auto intro!: emits_intros assms)

text \<open>No other event changes the singleton, and it never changes once it is there.\<close>

lemma singleInstance_append: "singleInstance h = Some r \<Longrightarrow> \<forall>e \<in> set es. \<forall>c. e \<noteq> StartedGitea c \<Longrightarrow> singleInstance (es @ h) = Some r"
proof (induction es)
  case (Cons e es)
  then show ?case by (cases e) auto
qed simp

lemma GetClient_singleton: "GetClient en h = (r, h') \<Longrightarrow> singleInstance h' = Some r"
  by (auto simp: GetClient_def split: option.splits prod.splits)

section \<open>Properties\<close>

text \<open>
  The Gitea client is a singleton that is created once: after one call of \<open>GetClient\<close>,
  and whatever other calls the process made since, a second call returns the same instance
  and makes no call of its own. The converse side of this: an instance whose start failed is
  kept as well, so a process whose first \<open>GetClient\<close> found Gitea or its secret unavailable
  stays without a client, however often it asks again.
\<close>

theorem GetClient_once:
  assumes "GetClient en h = (r, h1)" and "\<forall>e \<in> set es. \<forall>c. e \<noteq> StartedGitea c"
  shows "GetClient en (es @ h1) = (r, es @ h1)"
  using singleInstance_append [OF GetClient_singleton [OF assms(1)] assms(2)] by (simp add: GetClient_def)

theorem GetClient_once_witness:
  "\<not> IsInitialized (fst (GetClient down_env [Read ''NodeList'' '''' '''', StartedGitea None]))"
proof -
  have "GetClient down_env [] = (\<lparr>gc_giteaClient = None\<rparr>, [StartedGitea None])"
    by (simp add: GetClient_def Start_def down_defs)
  from GetClient_once [OF this, of "[Read ''NodeList'' '''' '''']"] show ?thesis
    by (simp add: IsInitialized_def)
qed

end
