(* ===== verification/Owners.thy ===== *)
theory Owners
  imports Samples
begin

text \<open>
  \<^verbatim>\<open>src/reconcilers/helpers/common.go\<close>: from a pod to the workload that owns it and to the
  annotations of that workload, and the environment-variable defaults.
\<close>

section \<open>Definitions\<close>

fun owner_controller :: "OwnerReference list \<Rightarrow> string \<times> string \<times> bool" where
  "owner_controller [] = ('''', '''', False)"
| "owner_controller (ref # refs) =
     (if ref_Controller ref = Some True then (ref_Kind ref, ref_Name ref, True) else owner_controller refs)"

definition GetWorkloadOwnerControllerInfo :: "Pod \<Rightarrow> string \<times> string \<times> bool" where
  "GetWorkloadOwnerControllerInfo pod = owner_controller (pod_OwnerReferences pod)"

fun GetWorkloadControllerOwnerName :: "OwnerReference list \<Rightarrow> string \<Rightarrow> string \<times> bool" where
  "GetWorkloadControllerOwnerName [] kind = ('''', False)"
| "GetWorkloadControllerOwnerName (ref # refs) kind =
     (if ref_Kind ref = kind \<and> ref_Controller ref = Some True then (ref_Name ref, True)
      else GetWorkloadControllerOwnerName refs kind)"

fun GetOwnerName :: "OwnerReference list \<Rightarrow> string \<Rightarrow> string \<times> string \<times> bool" where
  "GetOwnerName [] kind = ('''', '''', False)"
| "GetOwnerName (ref # refs) kind =
     (if EqualFold (ref_Kind ref) kind \<and> (ref_Controller ref = None \<or> ref_Controller ref = Some True)
      then (ref_Name ref, ref_Kind ref, True)
      else GetOwnerName refs kind)"

definition GetEnv :: "env \<Rightarrow> string \<Rightarrow> string \<Rightarrow> string" where
  "GetEnv en key defaultVal = (let v = o_Getenv (os en) key in if v \<noteq> '''' then v else defaultVal)"

definition get_workload :: "env \<Rightarrow> kclient \<Rightarrow> string \<Rightarrow> string \<Rightarrow> string \<Rightarrow> hist \<Rightarrow> ObjectMeta result \<times> hist" where
  "get_workload en c kind name namespace =
     rd kind namespace name (\<lambda>h. w_GetWorkload (wl en) h c kind namespace name)"

text \<open>
  \<open>GetParentAnnotations\<close>: the metadata of the parent and its kind, \<open>None\<close> for the nil
  metadata of an unsupported kind.
\<close>

definition GetParentAnnotations ::
  "env \<Rightarrow> kclient \<Rightarrow> string \<Rightarrow> string \<Rightarrow> string \<Rightarrow> hist \<Rightarrow> (ObjectMeta option \<times> string) result \<times> hist" where
  "GetParentAnnotations en c kind name namespace h =
     (if kind = ''ReplicaSet'' then
        (case get_workload en c ''ReplicaSet'' name namespace h of
           (Inl err, h) \<Rightarrow> (Inl err, h)
         | (Inr rs, h) \<Rightarrow>
             (case GetOwnerName (meta_OwnerReferences rs) ''Deployment'' of (deployName, _, found) \<Rightarrow>
                (if \<not> found then (Inr (Some rs, ''ReplicaSet''), h)
                 else case get_workload en c ''Deployment'' deployName (meta_Namespace rs) h of
                        (Inl err, h) \<Rightarrow> (Inr (Some rs, ''ReplicaSet''), h)
                      | (Inr deploy, h) \<Rightarrow> (Inr (Some deploy, ''Deployment''), h))))
      else if kind = ''Deployment'' \<or> kind = ''DaemonSet'' \<or> kind = ''StatefulSet'' then
        (case get_workload en c kind name namespace h of
           (Inl err, h) \<Rightarrow> (Inl err, h)
         | (Inr m, h) \<Rightarrow> (Inr (Some m, kind), h))
      else (Inr (None, ''''), h))"

section \<open>Lemmas\<close>

lemma GetParentAnnotations_emits [emits_intros]:
  assumes "\<And>k a b. P (Read k a b)"
  shows "emits P (GetParentAnnotations en c kind name ns)"
  unfolding GetParentAnnotations_def get_workload_def
  by (auto intro!: emits_intros assms)

lemma owner_controller_find:
  "owner_controller refs =
     (case find (\<lambda>r. ref_Controller r = Some True) refs of
        None \<Rightarrow> ('''', '''', False)
      | Some r \<Rightarrow> (ref_Kind r, ref_Name r, True))"
  by (induction refs) auto

lemma GetOwnerName_find:
  "GetOwnerName refs kind =
     (case find (\<lambda>r. EqualFold (ref_Kind r) kind \<and> ref_Controller r \<noteq> Some False) refs of
        None \<Rightarrow> ('''', '''', False)
      | Some r \<Rightarrow> (ref_Name r, ref_Kind r, True))"
proof (induction refs)
  case Nil
  then show ?case by simp
next
  case (Cons r refs)
  then show ?case by (cases "ref_Controller r") auto
qed

section \<open>Properties\<close>

text \<open>
  When the pod's owner is a ReplicaSet that has a Deployment above it, the annotations
  come from that Deployment when it can be read and from the ReplicaSet itself otherwise;
  only a failed read of the ReplicaSet is an error, and nothing is written.
\<close>

theorem GetParentAnnotations_ReplicaSet:
  assumes rs: "w_GetWorkload (wl en) h c ''ReplicaSet'' ns name = Inr rs"
    and dep: "GetOwnerName (meta_OwnerReferences rs) ''Deployment'' = (dn, dk, True)"
    and call: "GetParentAnnotations en c ''ReplicaSet'' name ns h = (res, h')"
  shows "res = (case w_GetWorkload (wl en) (Read ''ReplicaSet'' ns name # h) c ''Deployment'' (meta_Namespace rs) dn of
                  Inl _ \<Rightarrow> Inr (Some rs, ''ReplicaSet'')
                | Inr d \<Rightarrow> Inr (Some d, ''Deployment'')) \<and>
    writes h' = writes h"
proof -
  have "emits (\<lambda>e. \<not> is_write e) (GetParentAnnotations en c ''ReplicaSet'' name ns)"
    by (rule GetParentAnnotations_emits) simp
  then have "writes h' = writes h" using call by (rule emits_reads_writes)
  with rs dep call show ?thesis
    by (auto simp: GetParentAnnotations_def get_workload_def api_simps split: sum.splits)
qed

definition video_rs :: ObjectMeta where
  "video_rs = \<lparr>meta_Name = ''video-5d'', meta_Namespace = ''default'', meta_Annotations = [],
     meta_OwnerReferences = [\<lparr>ref_Kind = ''Deployment'', ref_Name = ''video'', ref_Controller = None\<rparr>]\<rparr>"

definition rs_env :: env where
  "rs_env = down_env\<lparr>wl := down_wl\<lparr>w_GetWorkload :=
     (\<lambda>_ _ kind _ _. if kind = ''ReplicaSet'' then Inr video_rs else Inl down)\<rparr>\<rparr>"

theorem GetParentAnnotations_ReplicaSet_witness:
  "GetParentAnnotations rs_env MgmtClient ''ReplicaSet'' ''video-5d'' ''default'' [] =
     (Inr (Some video_rs, ''ReplicaSet''),
      [Read ''Deployment'' ''default'' ''video'', Read ''ReplicaSet'' ''default'' ''video-5d''])"
proof -
  have rs: "w_GetWorkload (wl rs_env) [] MgmtClient ''ReplicaSet'' ''default'' ''video-5d'' = Inr video_rs"
    by (simp add: rs_env_def)
  have dep: "GetOwnerName (meta_OwnerReferences video_rs) ''Deployment'' = (''video'', ''Deployment'', True)"
    by (simp add: video_rs_def EqualFold_def)
  have call: "GetParentAnnotations rs_env MgmtClient ''ReplicaSet'' ''video-5d'' ''default'' [] =
     (Inr (Some video_rs, ''ReplicaSet''),
      [Read ''Deployment'' ''default'' ''video'', Read ''ReplicaSet'' ''default'' ''video-5d''])"
    by (simp add: GetParentAnnotations_def get_workload_def api_simps rs_env_def video_rs_def EqualFold_def)
  from GetParentAnnotations_ReplicaSet [OF rs dep call] call show ?thesis by simp
qed

end
