(* ===== verification/Capi.thy ===== *)
theory Capi
  imports Samples
begin

text \<open>
  \<^verbatim>\<open>src/reconcilers/capi/cluster.go\<close>: from a cluster's name to a client for it. A \<open>Capi\<close>
  value holds the kubeconfig secret; the client is only built for a cluster whose Ready
  condition is true. The scheme, which fixes the Go types a client can decode, is built in
  \<open>Scheme_Setup\<close>.
\<close>

section \<open>Definitions\<close>

definition kubeConfigSuffix :: string where
  "kubeConfigSuffix = ''-kubeconfig''"

record Capi =
  capi_Secret :: "Secret option"

definition GetClusterName :: "Capi \<Rightarrow> string" where
  "GetClusterName r =
     (case capi_Secret r of None \<Rightarrow> '''' | Some s \<Rightarrow> TrimSuffix (sec_Name s) kubeConfigSuffix)"

fun isReady :: "Condition list \<Rightarrow> bool" where
  "isReady [] = False"
| "isReady (c # cs) = ((cc_IsReadyCondition c \<and> cc_Status c = ConditionTrue) \<or> isReady cs)"

text \<open>
  The read gives the typed object: a failed read, and a failed conversion of the
  unstructured object, both mean not ready. A nil receiver or a nil secret panics.
\<close>

definition isCapiClusterReady :: "env \<Rightarrow> Capi option \<Rightarrow> hist \<Rightarrow> bool outcome \<times> hist" where
  "isCapiClusterReady en r h =
     (case r of
        None \<Rightarrow> (Panic, h)
      | Some r \<Rightarrow>
          (case capi_Secret r of
             None \<Rightarrow> (Panic, h)
           | Some s \<Rightarrow>
               (case rd ''Cluster'' (sec_Namespace s) (GetClusterName r)
                       (\<lambda>h. m_GetCluster (mgmt en) h (sec_Namespace s) (GetClusterName r)) h of
                  (Inl err, h) \<Rightarrow> (Ret False, h)
                | (Inr cluster, h) \<Rightarrow> (Ret (isReady (cl_Conditions cluster)), h))))"

text \<open>The results are the client, whether it is ready, and the error.\<close>

definition getCapiClusterClient :: "env \<Rightarrow> Secret \<Rightarrow> hist \<Rightarrow> (kclient option \<times> bool \<times> error option) \<times> hist" where
  "getCapiClusterClient en secret h =
     (case rd ''kubeconfig'' (sec_Namespace secret) (sec_Name secret)
             (\<lambda>h. w_NewClient (wl en) h (mget (sec_Data secret) ''value'')) h of
        (Inl err, h) \<Rightarrow> ((None, False, Some err), h)
      | (Inr c, h) \<Rightarrow> ((Some c, True, None), h))"

definition GetClusterClient ::
  "env \<Rightarrow> Capi option \<Rightarrow> hist \<Rightarrow> (kclient option \<times> bool \<times> error option) outcome \<times> hist" where
  "GetClusterClient en r h =
     (case isCapiClusterReady en r h of
        (Panic, h) \<Rightarrow> (Panic, h)
      | (Ret ready, h) \<Rightarrow>
          (case r of
             None \<Rightarrow> (Panic, h)
           | Some r' \<Rightarrow>
               (if \<not> ready
                then (Ret (None, False,
                        Some (Errorf (''workload cluster '' @ quoted (GetClusterName r') @ '' not Ready yet''))), h)
                else case capi_Secret r' of
                       None \<Rightarrow> (Panic, h)
                     | Some s \<Rightarrow> (case getCapiClusterClient en s h of (x, h) \<Rightarrow> (Ret x, h)))))"

definition GetCapiCluster :: "Secret option \<Rightarrow> Capi option" where
  "GetCapiCluster secret =
     (case secret of
        None \<Rightarrow> None
      | Some s \<Rightarrow> if \<not> HasSuffix (sec_Name s) kubeConfigSuffix then None else Some \<lparr>capi_Secret = Some s\<rparr>)"

definition GetCapiClusterFromName ::
  "env \<Rightarrow> string \<Rightarrow> string \<Rightarrow> hist \<Rightarrow> Capi option result \<times> hist" where
  "GetCapiClusterFromName en name namespace h =
     (if name = '''' then (Inr None, h)
      else case rd ''Secret'' namespace (name @ kubeConfigSuffix)
                  (\<lambda>h. m_GetSecret (mgmt en) h namespace (name @ kubeConfigSuffix)) h of
             (Inl err, h) \<Rightarrow> (Inl err, h)
           | (Inr secret, h) \<Rightarrow> (Inr (GetCapiCluster (Some secret)), h))"

definition GetCapiClusterFromSecret :: "Secret option \<Rightarrow> Capi option" where
  "GetCapiClusterFromSecret secret =
     (case secret of
        None \<Rightarrow> None
      | Some s \<Rightarrow> if \<not> HasSuffix (sec_Name s) kubeConfigSuffix then None else Some \<lparr>capi_Secret = Some s\<rparr>)"

text \<open>
  The loop of \<open>GetWorkloadClusterClient\<close> over the clusters stops at the first one of the
  given name. Its result: the requeue delay (0 for an empty \<^verbatim>\<open>ctrl.Result\<close>), the client
  (nil is \<open>None\<close>), and the error.
\<close>

fun find_capi :: "env \<Rightarrow> string \<Rightarrow> Cluster list \<Rightarrow> hist \<Rightarrow> Capi option result \<times> hist" where
  "find_capi en clusterName [] h = (Inr None, h)"
| "find_capi en clusterName (c # cs) h =
     (if clusterName = cl_Name c then GetCapiClusterFromName en clusterName ''default'' h
      else find_capi en clusterName cs h)"

definition GetWorkloadClusterClient ::
  "env \<Rightarrow> string \<Rightarrow> hist \<Rightarrow> (duration \<times> kclient option \<times> error option) outcome \<times> hist" where
  "GetWorkloadClusterClient en clusterName h =
     (case rd ''ClusterList'' '''' '''' (m_ListClusters (mgmt en)) h of
        (Inl err, h) \<Rightarrow> (Ret (0, None, Some err), h)
      | (Inr clusters, h) \<Rightarrow>
          (case find_capi en clusterName clusters h of
             (Inl err, h) \<Rightarrow> (Ret (0, None, Some err), h)
           | (Inr None, h) \<Rightarrow>
               (Ret (0, None, Some (Errorf (''no matching cluster found for '' @ clusterName))), h)
           | (Inr (Some capiCluster), h) \<Rightarrow>
               (case GetClusterClient en (Some capiCluster) h of
                  (Panic, h) \<Rightarrow> (Panic, h)
                | (Ret (client, ready, Some err), h) \<Rightarrow> (Ret (10 * Second, None, None), h)
                | (Ret (client, ready, None), h) \<Rightarrow>
                    (if \<not> ready then (Ret (10 * Second, None, None), h)
                     else (Ret (0, client, None), h)))))"

section \<open>Lemmas\<close>

lemma isReady_iff: "isReady cs \<longleftrightarrow> (\<exists>c \<in> set cs. cc_IsReadyCondition c \<and> cc_Status c = ConditionTrue)"
  by (induction cs) auto

lemma GetCapiCluster_Some: "GetCapiCluster (Some s) = Some r \<Longrightarrow> capi_Secret r = Some s"
  by (auto simp: GetCapiCluster_def split: if_splits)

lemma GetCapiClusterFromName_Some:
  "GetCapiClusterFromName en n ns h = (Inr (Some r), h') \<Longrightarrow>
     (\<exists>s. capi_Secret r = Some s \<and> m_GetSecret (mgmt en) h ns (n @ kubeConfigSuffix) = Inr s) \<and>
     h' = Read ''Secret'' ns (n @ kubeConfigSuffix) # h"
  by (auto simp: GetCapiClusterFromName_def api_simps dest: GetCapiCluster_Some split: if_splits sum.splits)

lemma find_capi_Some:
  assumes "find_capi en n cs h = (Inr (Some r), h')"
  shows "(\<exists>c \<in> set cs. cl_Name c = n) \<and> (\<exists>s. capi_Secret r = Some s)"
  using assms
proof (induction cs)
  case Nil
  then show ?case by simp
next
  case (Cons c cs)
  then show ?case
    by (cases "n = cl_Name c") (auto dest: GetCapiClusterFromName_Some)
qed

lemma GetClusterClient_cases:
  assumes "capi_Secret r = Some s"
  obtains
    (notready) h' where "GetClusterClient en (Some r) h =
        (Ret (None, False, Some (Errorf (''workload cluster '' @ quoted (GetClusterName r) @ '' not Ready yet''))), h')"
  | (nokubeconfig) err h' where "GetClusterClient en (Some r) h = (Ret (None, False, Some err), h')"
  | (ready) c cl h' where "GetClusterClient en (Some r) h = (Ret (Some c, True, None), h')"
      "m_GetCluster (mgmt en) h (sec_Namespace s) (GetClusterName r) = Inr cl" "isReady (cl_Conditions cl)"
  using assms
  by (cases "m_GetCluster (mgmt en) h (sec_Namespace s) (GetClusterName r)")
    (fastforce simp: GetClusterClient_def isCapiClusterReady_def getCapiClusterClient_def api_simps
      split: sum.splits if_splits)+

lemma GetClusterClient_nil [simp]: "GetClusterClient en None h = (Panic, h)"
  by (simp add: GetClusterClient_def isCapiClusterReady_def)

lemma GetClusterClient_emits [emits_intros]:
  assumes "\<And>k a b. P (Read k a b)"
  shows "emits P (GetClusterClient en r)"
  unfolding GetClusterClient_def isCapiClusterReady_def getCapiClusterClient_def
  by (auto intro!: emits_intros assms)

lemma GetCapiClusterFromName_emits [emits_intros]:
  assumes "\<And>k a b. P (Read k a b)"
  shows "emits P (GetCapiClusterFromName en n ns)"
  unfolding GetCapiClusterFromName_def by (auto intro!: emits_intros assms)

lemma find_capi_emits [emits_intros]:
  assumes "\<And>k a b. P (Read k a b)"
  shows "emits P (find_capi en n cs)"
proof (induction cs)
  case Nil
  then show ?case by (simp add: emits_def)
next
  case (Cons c cs)
  moreover have "emits P (GetCapiClusterFromName en n ''default'')"
    using assms by (rule GetCapiClusterFromName_emits)
  ultimately show ?case by (cases "n = cl_Name c") (simp_all add: emits_def)
qed

lemma GetWorkloadClusterClient_emits [emits_intros]:
  assumes "\<And>k a b. P (Read k a b)"
  shows "emits P (GetWorkloadClusterClient en n)"
  unfolding GetWorkloadClusterClient_def
  by (auto intro!: emits_intros assms)

lemma GetWorkloadClusterClient_result:
  "\<exists>requeue client err h'. GetWorkloadClusterClient en n h = (Ret (requeue, client, err), h') \<and>
     writes h' = writes h \<and>
     (requeue = 0 \<and> client = None \<and> err \<noteq> None \<or>
      requeue = 10 * Second \<and> client = None \<and> err = None \<or>
      requeue = 0 \<and> client \<noteq> None \<and> err = None \<and>
        (\<exists>cs. m_ListClusters (mgmt en) h = Inr cs \<and> (\<exists>c \<in> set cs. cl_Name c = n)))"
proof -
  obtain res h' where call: "GetWorkloadClusterClient en n h = (res, h')" by fastforce
  have "emits (\<lambda>e. \<not> is_write e) (GetWorkloadClusterClient en n)"
    by (rule GetWorkloadClusterClient_emits) simp
  then have w: "writes h' = writes h" using call by (rule emits_reads_writes)
  show ?thesis
  proof (cases "m_ListClusters (mgmt en) h")
    case (Inl e)
    with call w show ?thesis by (auto simp: GetWorkloadClusterClient_def api_simps)
  next
    case (Inr cs)
    let ?h = "Read ''ClusterList'' '''' '''' # h"
    obtain fr h1 where f: "find_capi en n cs ?h = (fr, h1)" by fastforce
    show ?thesis
    proof (cases fr)
      case (Inl e)
      with Inr f call w show ?thesis by (auto simp: GetWorkloadClusterClient_def api_simps)
    next
      case (Inr ro)
      note fr = this
      show ?thesis
      proof (cases ro)
        case None
        with fr f \<open>m_ListClusters (mgmt en) h = Inr cs\<close> call w show ?thesis
          by (auto simp: GetWorkloadClusterClient_def api_simps)
      next
        case (Some r)
        from f fr Some obtain s where s: "capi_Secret r = Some s" and mem: "\<exists>c \<in> set cs. cl_Name c = n"
          using find_capi_Some [of en n cs ?h r h1] by auto
        from s show ?thesis
          by (cases rule: GetClusterClient_cases [where en = en and h = h1])
            (use fr f Some \<open>m_ListClusters (mgmt en) h = Inr cs\<close> call w mem in
              \<open>auto simp: GetWorkloadClusterClient_def api_simps\<close>)
      qed
    qed
  qed
qed

section \<open>Properties\<close>

text \<open>
  \<open>GetWorkloadClusterClient\<close> never panics, writes nothing, and has exactly three kinds of
  result: an error with no client and no requeue; no error and no client with a requeue
  after ten seconds; or a client, with no error and no requeue, which is only handed out
  when the listed clusters contain one of the given name. Callers have to test the client
  for nil as well as the error.
\<close>

theorem GetWorkloadClusterClient_contract:
  "\<exists>requeue client err h'. GetWorkloadClusterClient en n h = (Ret (requeue, client, err), h') \<and>
     writes h' = writes h \<and>
     (requeue = 0 \<and> client = None \<and> err \<noteq> None \<or>
      requeue = 10 * Second \<and> client = None \<and> err = None \<or>
      requeue = 0 \<and> client \<noteq> None \<and> err = None \<and>
        (\<exists>cs. m_ListClusters (mgmt en) h = Inr cs \<and> (\<exists>c \<in> set cs. cl_Name c = n)))"
  by (rule GetWorkloadClusterClient_result)

text \<open>
  The name round trip: the \<open>Capi\<close> value looked up for a cluster name answers
  \<open>GetClusterName\<close> with that name, provided the API server returns the secret that was
  asked for.
\<close>

theorem GetClusterName_roundtrip:
  assumes named: "\<And>s. m_GetSecret (mgmt en) h ns (n @ kubeConfigSuffix) = Inr s \<Longrightarrow> sec_Name s = n @ kubeConfigSuffix"
    and call: "GetCapiClusterFromName en n ns h = (Inr (Some r), h')"
  shows "GetClusterName r = n"
  using GetCapiClusterFromName_Some [OF call] named by (auto simp: GetClusterName_def)

definition azure_secret :: Secret where
  "azure_secret = \<lparr>sec_Name = ''cluster1-azure-kubeconfig'', sec_Namespace = ''default'',
     sec_IsServiceAccountToken = False, sec_Annotations = [], sec_Data = [(''value'', ''kubeconfig'')]\<rparr>"

definition azure_env :: env where
  "azure_env = down_env\<lparr>mgmt := down_mgmt\<lparr>m_GetSecret := (\<lambda>_ _ _. Inr azure_secret)\<rparr>\<rparr>"

theorem GetClusterName_roundtrip_witness:
  "GetClusterName \<lparr>capi_Secret = Some azure_secret\<rparr> = ''cluster1-azure''"
proof -
  have named: "\<And>s. m_GetSecret (mgmt azure_env) [] ''default'' (''cluster1-azure'' @ kubeConfigSuffix) = Inr s \<Longrightarrow>
      sec_Name s = ''cluster1-azure'' @ kubeConfigSuffix"
    by (simp add: azure_env_def azure_secret_def kubeConfigSuffix_def)
  have call: "GetCapiClusterFromName azure_env ''cluster1-azure'' ''default'' [] =
      (Inr (Some \<lparr>capi_Secret = Some azure_secret\<rparr>), [Read ''Secret'' ''default'' ''cluster1-azure-kubeconfig''])"
    by (simp add: GetCapiClusterFromName_def GetCapiCluster_def api_simps azure_env_def azure_secret_def
        kubeConfigSuffix_def HasSuffix_def)
  show ?thesis by (rule GetClusterName_roundtrip [OF named call])
qed

end
