(* ===== verification/Checkpoint_Creation.thy ===== *)
theory Checkpoint_Creation
  imports Policy_Selection Owners Capi
begin

text \<open>
  \<^verbatim>\<open>src/reconcilers/checkpoint_transition/checkpoint_transition.go\<close>: the Checkpoint resources
  that are created ahead of a failure, one per workload of a live-state package. The pods of
  the workload cluster are scanned; a pod counts when the workload that controls it carries
  the package annotation.
\<close>

section \<open>Definitions\<close>

abbreviation policy_annotation :: string where
  "policy_annotation \<equiv> ''transition.dcnlab.ssu.ac.kr/cluster-policy''"

abbreviation package_annotation :: string where
  "package_annotation \<equiv> ''transition.dcnlab.ssu.ac.kr/packageName''"

fun first_schedule :: "BackupInformation list \<Rightarrow> BackupInformation" where
  "first_schedule [] = zero_BackupInformation"
| "first_schedule (b # bs) =
     (if bi_BackupType b = BackupTypeSchedule
      then zero_BackupInformation\<lparr>bi_SchedulePeriod := bi_SchedulePeriod b\<rparr>
      else first_schedule bs)"

definition lowest_step :: "int32 \<times> ClusterRef option \<Rightarrow> PreferredCluster \<Rightarrow> int32 \<times> ClusterRef option" where
  "lowest_step st cluster =
     (if less32 (to_int32 (pc_Weight cluster)) (fst st)
      then (to_int32 (pc_Weight cluster),
            Some \<lparr>clr_Name = pc_Name cluster, clr_Repository = '''', clr_PackageName = ''''\<rparr>)
      else st)"

definition lowest_target :: "ClusterPolicy \<Rightarrow> ClusterRef option" where
  "lowest_target policy = snd (foldl lowest_step (MaxInt32, None) (prefer_clusters policy))"

definition checkpoint_name :: "ClusterPolicy \<Rightarrow> string \<Rightarrow> PackageSelector \<Rightarrow> string" where
  "checkpoint_name policy podName pkg = ''checkpoint-'' @ cpol_Name policy @ ''-'' @ podName @ ''-'' @ ps_Name pkg"

definition build_checkpoint ::
  "env \<Rightarrow> Pod \<Rightarrow> PackageSelector \<Rightarrow> ClusterPolicy \<Rightarrow> ClusterRef \<Rightarrow> PartialObjectMetadata option \<Rightarrow> Checkpoint" where
  "build_checkpoint en pod pkg clusterPolicy targetCluster parentObject =
     \<lparr>ck_Name = checkpoint_name clusterPolicy (pod_Name pod) pkg, ck_Namespace = ''default'',
      ck_Finalizers = [], ck_DeletionTimestamp = None,
      ck_Spec =
        \<lparr>cks_Schedule = bi_SchedulePeriod (first_schedule (ps_BackupInformation pkg)),
         cks_ClusterRef = Some \<lparr>clr_Name = selector_name clusterPolicy,
                                clr_Repository = selector_repo clusterPolicy, clr_PackageName = ''''\<rparr>,
         cks_TargetClusterRef = Some \<lparr>clr_Name = clr_Name targetCluster, clr_Repository = '''', clr_PackageName = ''''\<rparr>,
         cks_PodRef =
           \<lparr>pr_Namespace = pod_Namespace pod, pr_Name = pod_Name pod,
            pr_ContainerRef = \<lparr>cref_Containers = pod_Containers pod\<rparr>\<rparr>,
         cks_ResourceRef =
           (case parentObject of
              None \<Rightarrow> zero_ResourceRef
            | Some p \<Rightarrow> \<lparr>rr_APIVersion = pom_APIVersion p, rr_Kind = pom_Kind p,
                         rr_Namespace = pom_Namespace p, rr_Name = pom_Name p, rr_Annotations = pom_Annotations p\<rparr>),
         cks_Registry =
           \<lparr>reg_URL = GetEnv en ''REGISTRY_URL'' ''docker.io'', reg_Repository = GetEnv en ''REPOSITORY'' ''vitu1'',
            reg_SecretRef = Some \<lparr>sr_Name = GetEnv en ''SECRET_NAME_REF'' '' reg-credentials'',
                                  sr_Namespace = GetEnv en ''SECRET_NAMESPACE_REF'' ''default''\<rparr>\<rparr>,
         cks_Containers = []\<rparr>,
      ck_Status = zero_CheckpointStatus\<rparr>"

text \<open>The target's name is read through a pointer that is nil when no cluster was chosen.\<close>

definition CreateCheckpointCR ::
  "env \<Rightarrow> Pod \<Rightarrow> PackageSelector \<Rightarrow> ClusterPolicy \<Rightarrow> PartialObjectMetadata option \<Rightarrow> hist \<Rightarrow>
   error option outcome \<times> hist" where
  "CreateCheckpointCR en pod pkg clusterPolicy parentObject h =
     (case lowest_target clusterPolicy of
        None \<Rightarrow> (Panic, h)
      | Some targetCluster \<Rightarrow>
          (let checkpoint = build_checkpoint en pod pkg clusterPolicy targetCluster parentObject in
           case wr (CreatedCheckpoint checkpoint) (\<lambda>h. m_CreateCheckpoint (mgmt en) h checkpoint) h of
             (Inl err, h) \<Rightarrow> if IsAlreadyExists err then (Ret None, h) else (Ret (Some err), h)
           | (Inr _, h) \<Rightarrow> (Ret None, h)))"

text \<open>
  The loop over the pods, shared by the two callers: \<open>accept\<close> is the test on the parent's
  annotations and \<open>keyf\<close> the deduplication key made of namespace, owner name and owner kind.
\<close>

fun create_checkpoints ::
  "env \<Rightarrow> kclient \<Rightarrow> PackageSelector \<Rightarrow> ClusterPolicy \<Rightarrow> (smap \<Rightarrow> bool) \<Rightarrow> (string \<Rightarrow> string \<Rightarrow> string \<Rightarrow> string) \<Rightarrow>
   Pod list \<Rightarrow> string list \<Rightarrow> hist \<Rightarrow> error option outcome \<times> hist" where
  "create_checkpoints en c pkg policy accept keyf [] seen h = (Ret None, h)"
| "create_checkpoints en c pkg policy accept keyf (pod # pods) seen h =
     (case GetWorkloadOwnerControllerInfo pod of (workloadKind, workloadName, hasOwner) \<Rightarrow>
        (if \<not> hasOwner then create_checkpoints en c pkg policy accept keyf pods seen h
         else case GetParentAnnotations en c workloadKind workloadName (pod_Namespace pod) h of
                (Inl err, h) \<Rightarrow> create_checkpoints en c pkg policy accept keyf pods seen h
              | (Inr (None, parentKind), h) \<Rightarrow> create_checkpoints en c pkg policy accept keyf pods seen h
              | (Inr (Some parent, parentKind), h) \<Rightarrow>
                  (if \<not> accept (meta_Annotations parent) \<or> IsPackageTransitioned policy pkg
                   then create_checkpoints en c pkg policy accept keyf pods seen h
                   else let key = keyf (pod_Namespace pod) workloadName workloadKind in
                        if key \<in> set seen then create_checkpoints en c pkg policy accept keyf pods seen h
                        else case CreateCheckpointCR en pod pkg policy
                                    (Some \<lparr>pom_APIVersion = '''', pom_Kind = parentKind, pom_Name = meta_Name parent,
                                           pom_Namespace = meta_Namespace parent,
                                           pom_Annotations = meta_Annotations parent\<rparr>) h of
                               (Panic, h) \<Rightarrow> (Panic, h)
                             | (Ret (Some err), h) \<Rightarrow> (Ret (Some err), h)
                             | (Ret None, h) \<Rightarrow>
                                 create_checkpoints en c pkg policy accept keyf pods (key # seen) h)))"

definition has_package_checkpoint :: "PackageSelector \<Rightarrow> Checkpoint list \<Rightarrow> bool" where
  "has_package_checkpoint pkg cks \<longleftrightarrow>
     (\<exists>c \<in> set cks. mget (rr_Annotations (cks_ResourceRef (ck_Spec c))) package_annotation = ps_Name pkg)"

text \<open>What follows the search for existing checkpoints, in both callers.\<close>

definition create_missing_checkpoints ::
  "env \<Rightarrow> PackageSelector \<Rightarrow> ClusterPolicy \<Rightarrow> (smap \<Rightarrow> bool) \<Rightarrow> (string \<Rightarrow> string \<Rightarrow> string \<Rightarrow> string) \<Rightarrow>
   string \<Rightarrow> hist \<Rightarrow> error option outcome \<times> hist" where
  "create_missing_checkpoints en pkg clusterPolicy accept keyf workloadClusterName h =
     (case GetWorkloadClusterClient en workloadClusterName h of
        (Panic, h) \<Rightarrow> (Panic, h)
      | (Ret (_, _, Some err), h) \<Rightarrow> (Ret (Some err), h)
      | (Ret (_, None, None), h) \<Rightarrow>
          (Ret (Some (Errorf (''workload cluster '' @ quoted workloadClusterName @ '' client not available yet''))), h)
      | (Ret (_, Some c, None), h) \<Rightarrow>
          (case rd ''PodList'' '''' '''' (\<lambda>h. w_ListPods (wl en) h c) h of
             (Inl err, h) \<Rightarrow> (Ret (Some err), h)
           | (Inr pods, h) \<Rightarrow> create_checkpoints en c pkg clusterPolicy accept keyf pods [] h))"

definition policy_accept :: "PackageSelector \<Rightarrow> smap \<Rightarrow> bool" where
  "policy_accept pkg a \<longleftrightarrow> mget a policy_annotation = ''true'' \<and> mget a package_annotation = ps_Name pkg"

definition perform_key :: "PackageSelector \<Rightarrow> string \<Rightarrow> string \<Rightarrow> string \<Rightarrow> string" where
  "perform_key pkg ns name kind = ns @ ''/'' @ name @ ''/'' @ kind @ ''/'' @ ps_Name pkg"

text \<open>
  The first loop of the function over the existing checkpoints only fills a local map; its
  call was commented out in the source, and it has no effect here either.
\<close>

definition PerformWorkloadClusterCheckpointAction ::
  "env \<Rightarrow> PackageSelector \<Rightarrow> ClusterPolicy \<Rightarrow> string \<Rightarrow> hist \<Rightarrow> error option outcome \<times> hist" where
  "PerformWorkloadClusterCheckpointAction en pkg clusterPolicy workloadClusterName h =
     (case rd ''CheckpointList'' '''' '''' (m_ListCheckpoints (mgmt en)) h of
        (Inl err, h) \<Rightarrow> (Ret (Some err), h)
      | (Inr checkpoints, h) \<Rightarrow>
          (if has_package_checkpoint pkg checkpoints then (Ret None, h)
           else create_missing_checkpoints en pkg clusterPolicy (policy_accept pkg) (perform_key pkg)
                  workloadClusterName h))"

section \<open>The target of a checkpoint\<close>

definition weight32 :: "PreferredCluster \<Rightarrow> int" where
  "weight32 c = sint (to_int32 (pc_Weight c))"

definition lighter :: "PreferredCluster \<Rightarrow> PreferredCluster \<Rightarrow> bool" where
  "lighter c d \<longleftrightarrow> weight32 c < weight32 d"

interpretation lighter_pref: strict_pref lighter
  unfolding lighter_def by (rule strict_pref_by_key)

definition weighable :: "PreferredCluster \<Rightarrow> bool" where
  "weighable c \<longleftrightarrow> weight32 c < sint MaxInt32"

definition ref_of :: "PreferredCluster \<Rightarrow> ClusterRef" where
  "ref_of c = \<lparr>clr_Name = pc_Name c, clr_Repository = '''', clr_PackageName = ''''\<rparr>"

fun lowest_of :: "PreferredCluster option \<Rightarrow> int32 \<times> ClusterRef option" where
  "lowest_of None = (MaxInt32, None)"
| "lowest_of (Some c) = (to_int32 (pc_Weight c), Some (ref_of c))"

lemma lowest_step_of:
  assumes "cur = None \<or> (\<exists>c. cur = Some c \<and> weighable c)"
  shows "lowest_step (lowest_of cur) t = lowest_of (if weighable t then first_best lighter cur [t] else cur)"
  using assms
  by (cases cur) (auto simp: lowest_step_def weighable_def lighter_def weight32_def less32_def ref_of_def)

lemma foldl_lowest:
  assumes "cur = None \<or> (\<exists>c. cur = Some c \<and> weighable c)"
  shows "foldl lowest_step (lowest_of cur) ts = lowest_of (first_best lighter cur (filter weighable ts))"
  using assms
proof (induction ts arbitrary: cur)
  case (Cons t ts)
  let ?cur = "if weighable t then first_best lighter cur [t] else cur"
  have "?cur = None \<or> (\<exists>c. ?cur = Some c \<and> weighable c)"
    using Cons.prems by (cases cur) auto
  from Cons.IH [OF this] lowest_step_of [OF Cons.prems] show ?case by (cases cur) simp_all
qed simp

lemma lowest_target_first_best:
  "lowest_target p = map_option ref_of (first_best lighter None (filter weighable (prefer_clusters p)))"
  using foldl_lowest [of None "prefer_clusters p"]
  by (cases "first_best lighter None (filter weighable (prefer_clusters p))") (simp_all add: lowest_target_def)

lemma lowest_target_None: "lowest_target p = None \<longleftrightarrow> (\<forall>c \<in> set (prefer_clusters p). \<not> weighable c)"
  by (simp add: lowest_target_first_best first_best_None_iff filter_empty_conv)

section \<open>What the loop creates\<close>

lemma GetParentAnnotations_writes:
  "GetParentAnnotations en c kind name ns h = (r, h') \<Longrightarrow> writes h' = writes h"
  by (rule emits_reads_writes [OF GetParentAnnotations_emits]) simp_all

lemma GetWorkloadClusterClient_writes:
  "GetWorkloadClusterClient en n h = (r, h') \<Longrightarrow> writes h' = writes h"
  by (rule emits_reads_writes [OF GetWorkloadClusterClient_emits]) simp_all

lemma CreateCheckpointCR_cases:
  assumes "CreateCheckpointCR en pod pkg p parent h = (res, h')"
  obtains (nil) "lowest_target p = None" "res = Panic" "h' = h"
  | (created) t ok where "lowest_target p = Some t"
      "h' = CreatedCheckpoint (build_checkpoint en pod pkg p t parent) ok # h"
      "ok \<Longrightarrow> res = Ret None"
      "\<not> ok \<Longrightarrow> res = Ret None \<or> (\<exists>e. res = Ret (Some e) \<and> \<not> IsAlreadyExists e)"
  using assms
  by (auto simp: CreateCheckpointCR_def Let_def api_simps split: option.splits sum.splits if_splits)

text \<open>A checkpoint that the loop may create: for an owned pod of the list.\<close>

definition checkpoint_for ::
  "env \<Rightarrow> PackageSelector \<Rightarrow> ClusterPolicy \<Rightarrow> (smap \<Rightarrow> bool) \<Rightarrow> Pod list \<Rightarrow> Checkpoint \<Rightarrow> bool" where
  "checkpoint_for en pkg p accept pods ck \<longleftrightarrow>
     (\<exists>pod \<in> set pods. \<exists>t parent.
        ck = build_checkpoint en pod pkg p t (Some parent) \<and> lowest_target p = Some t \<and>
        accept (pom_Annotations parent) \<and> (\<exists>kind name. GetWorkloadOwnerControllerInfo pod = (kind, name, True)))"

lemma checkpoint_for_mono: "checkpoint_for en pkg p accept pods ck \<Longrightarrow> checkpoint_for en pkg p accept (pod # pods) ck"
  by (auto simp: checkpoint_for_def)

text \<open>One iteration either goes on with nothing written, or created a checkpoint.\<close>

lemma CreateCheckpointCR_emits [emits_intros]:
  assumes "\<And>ck ok. P (CreatedCheckpoint ck ok)"
  shows "emits P (CreateCheckpointCR en pod pkg p parent)"
  unfolding CreateCheckpointCR_def Let_def by (auto intro!: emits_intros assms)

lemma create_checkpoints_emits [emits_intros]:
  assumes "\<And>k a b. P (Read k a b)" and "\<And>ck ok. P (CreatedCheckpoint ck ok)"
  shows "emits P (create_checkpoints en c pkg p accept keyf pods seen)"
proof (induction pods arbitrary: seen)
  case Nil
  then show ?case by (simp add: emits_def)
next
  case (Cons pod pods)
  have "emits P (\<lambda>h. create_checkpoints en c pkg p accept keyf (pod # pods) seen h)"
    unfolding create_checkpoints.simps Let_def by (auto intro!: emits_intros assms Cons.IH)
  then show ?case by simp
qed

lemma create_missing_checkpoints_emits [emits_intros]:
  assumes "\<And>k a b. P (Read k a b)" and "\<And>ck ok. P (CreatedCheckpoint ck ok)"
  shows "emits P (create_missing_checkpoints en pkg p accept keyf n)"
  unfolding create_missing_checkpoints_def by (auto intro!: emits_intros assms)

lemma create_checkpoints_Cons_cases:
  assumes "create_checkpoints en c pkg p accept keyf (pod # pods) seen h = (res, h')"
  obtains
    (skip) h1 where "create_checkpoints en c pkg p accept keyf pods seen h1 = (res, h')" "writes h1 = writes h"
  | (panic) "res = Panic" "writes h' = writes h" "\<not> IsPackageTransitioned p pkg"
  | (create) ck ok h2 key where "checkpoint_for en pkg p accept (pod # pods) ck" "\<not> IsPackageTransitioned p pkg"
      "writes h2 = CreatedCheckpoint ck ok # writes h" "key \<notin> set seen"
      "h' = h2 \<and> (\<exists>e. res = Ret (Some e)) \<or> create_checkpoints en c pkg p accept keyf pods (key # seen) h2 = (res, h')"
proof -
  obtain kind name owned where o: "GetWorkloadOwnerControllerInfo pod = (kind, name, owned)"
    by (metis prod_cases3)
  obtain r h1 where g: "GetParentAnnotations en c kind name (pod_Namespace pod) h = (r, h1)" by fastforce
  note w1 = GetParentAnnotations_writes [OF g]
  let ?key = "keyf (pod_Namespace pod) name kind"
  show thesis
  proof (cases "owned \<and> (\<exists>parent pk. r = Inr (Some parent, pk) \<and> accept (meta_Annotations parent) \<and>
        \<not> IsPackageTransitioned p pkg \<and> ?key \<notin> set seen)")
    case False
    then have "create_checkpoints en c pkg p accept keyf pods seen h = (res, h') \<and> \<not> owned \<or>
        create_checkpoints en c pkg p accept keyf pods seen h1 = (res, h')"
      using assms o g by (auto simp: Let_def split: sum.splits option.splits if_splits)
    with skip w1 show thesis by blast
  next
    case True
    then obtain parent pk where r: "r = Inr (Some parent, pk)" "accept (meta_Annotations parent)"
      "\<not> IsPackageTransitioned p pkg" "?key \<notin> set seen" by blast
    let ?obj = "\<lparr>pom_APIVersion = '''', pom_Kind = pk, pom_Name = meta_Name parent,
      pom_Namespace = meta_Namespace parent, pom_Annotations = meta_Annotations parent\<rparr>"
    obtain r2 h2 where cr: "CreateCheckpointCR en pod pkg p (Some ?obj) h1 = (r2, h2)" by fastforce
    have cont: "(res, h') = (case r2 of Ret None \<Rightarrow> create_checkpoints en c pkg p accept keyf pods (?key # seen) h2
        | _ \<Rightarrow> (r2, h2))"
      using assms o True g r cr by (auto simp: Let_def split: outcome.splits option.splits)
    from cr show thesis
    proof (cases rule: CreateCheckpointCR_cases)
      case nil
      with cont w1 r panic show thesis by auto
    next
      case (created t ok)
      have ck: "checkpoint_for en pkg p accept (pod # pods) (build_checkpoint en pod pkg p t (Some ?obj))"
        unfolding checkpoint_for_def
        by (intro bexI [of _ pod] exI [of _ t] exI [of _ ?obj]) (use created o True r in auto)
      have w2: "writes h2 = CreatedCheckpoint (build_checkpoint en pod pkg p t (Some ?obj)) ok # writes h"
        using created(2) w1 by simp
      have "h' = h2 \<and> (\<exists>e. res = Ret (Some e)) \<or>
          create_checkpoints en c pkg p accept keyf pods (?key # seen) h2 = (res, h')"
        using cont created(3,4) by (auto split: outcome.splits option.splits)
      from create [OF ck r(3) w2 r(4) this] show thesis .
    qed
  qed
qed

lemma create_checkpoints_writes:
  assumes "create_checkpoints en c pkg p accept keyf pods seen h = (res, h')"
  shows "\<exists>es. writes h' = es @ writes h \<and>
    (\<forall>e \<in> set es. \<exists>ck ok. e = CreatedCheckpoint ck ok \<and> checkpoint_for en pkg p accept pods ck) \<and>
    (IsPackageTransitioned p pkg \<longrightarrow> es = [] \<and> res = Ret None)"
  using assms
proof (induction pods arbitrary: seen h)
  case Nil
  then show ?case by simp
next
  case (Cons pod pods)
  from Cons.prems show ?case
  proof (cases rule: create_checkpoints_Cons_cases)
    case (skip h1)
    from Cons.IH [OF skip(1)] skip(2) checkpoint_for_mono show ?thesis by (metis (no_types, lifting))
  next
    case panic
    then show ?thesis by auto
  next
    case (create ck ok h2 key)
    from create(5) have "\<exists>es. writes h' = es @ writes h2 \<and>
        (\<forall>e \<in> set es. \<exists>ck ok. e = CreatedCheckpoint ck ok \<and> checkpoint_for en pkg p accept pods ck)"
      using Cons.IH by fastforce
    then obtain es where "writes h' = es @ writes h2"
      "\<forall>e \<in> set es. \<exists>ck ok. e = CreatedCheckpoint ck ok \<and> checkpoint_for en pkg p accept pods ck" by blast
    with create checkpoint_for_mono show ?thesis
      by (intro exI [of _ "es @ [CreatedCheckpoint ck ok]"]) auto
  qed
qed

lemma create_missing_writes:
  assumes "create_missing_checkpoints en pkg p accept keyf n h = (res, h')"
  shows "\<exists>es pods. writes h' = es @ writes h \<and>
    (\<forall>e \<in> set es. \<exists>ck ok. e = CreatedCheckpoint ck ok \<and> checkpoint_for en pkg p accept pods ck) \<and>
    (IsPackageTransitioned p pkg \<longrightarrow> es = [] \<and> res \<noteq> Panic)"
proof -
  obtain r h1 where g: "GetWorkloadClusterClient en n h = (r, h1)" by fastforce
  note w1 = GetWorkloadClusterClient_writes [OF g]
  have np: "r \<noteq> Panic" using GetWorkloadClusterClient_result [of en n h] g by auto
  show ?thesis
  proof (cases "\<exists>rq c pods. r = Ret (rq, Some c, None) \<and> w_ListPods (wl en) h1 c = Inr pods")
    case True
    then obtain rq c pods where "r = Ret (rq, Some c, None)" "w_ListPods (wl en) h1 c = Inr pods" by blast
    with assms g have "create_checkpoints en c pkg p accept keyf pods [] (Read ''PodList'' '''' '''' # h1) = (res, h')"
      by (simp add: create_missing_checkpoints_def api_simps)
    from create_checkpoints_writes [OF this] w1 show ?thesis by auto
  next
    case False
    then have "writes h' = writes h \<and> res \<noteq> Panic"
      using assms g w1 np
      by (auto simp: create_missing_checkpoints_def api_simps split: outcome.splits option.splits sum.splits)
    then show ?thesis by (intro exI [of _ "[]"]) auto
  qed
qed

lemma lowest_target_split:
  assumes "lowest_target p = Some t"
  obtains us c vs where "prefer_clusters p = us @ c # vs" "weighable c" "t = ref_of c"
    "\<forall>d \<in> set us. weighable d \<longrightarrow> weight32 c < weight32 d"
    "\<forall>d \<in> set vs. weighable d \<longrightarrow> weight32 c \<le> weight32 d"
proof -
  from assms obtain c where c: "first_best lighter None (filter weighable (prefer_clusters p)) = Some c" "t = ref_of c"
    by (auto simp: lowest_target_first_best)
  from c(1) have "is_first_best lighter (filter weighable (prefer_clusters p)) c" by (rule lighter_pref.scan_correct)
  then obtain us vs where "prefer_clusters p = us @ c # vs" "weighable c"
    "\<forall>u \<in> set us. weighable u \<longrightarrow> lighter c u" "\<forall>v \<in> set vs. weighable v \<longrightarrow> \<not> lighter v c"
    by (rule is_first_best_filter)
  with c(2) that [of us c vs] show thesis by (auto simp: lighter_def not_less)
qed

section \<open>Properties\<close>

text \<open>
  C27. The target cluster recorded in a new checkpoint, where its image is pulled ahead of
  time, is the first preferred cluster of the lowest 32-bit weight; if every preferred
  cluster has the largest 32-bit weight, or there is none, the operator panics before it
  writes anything. Exactly one creation is attempted, and an object that already exists is
  not an error.
\<close>

theorem CreateCheckpointCR_target:
  assumes "CreateCheckpointCR en pod pkg p parent h = (res, h')"
  shows "(res = Panic \<longleftrightarrow> (\<forall>c \<in> set (prefer_clusters p). \<not> weighable c)) \<and>
    (if res = Panic then h' = h
     else \<exists>us c vs ok. prefer_clusters p = us @ c # vs \<and> weighable c \<and>
            (\<forall>d \<in> set us. weighable d \<longrightarrow> weight32 c < weight32 d) \<and>
            (\<forall>d \<in> set vs. weighable d \<longrightarrow> weight32 c \<le> weight32 d) \<and>
            h' = CreatedCheckpoint (build_checkpoint en pod pkg p (ref_of c) parent) ok # h \<and>
            (ok \<longrightarrow> res = Ret None))"
  using assms
proof (cases rule: CreateCheckpointCR_cases)
  case nil
  then show ?thesis by (simp add: lowest_target_None)
next
  case (created t ok)
  from created(1) obtain us c vs where sp: "prefer_clusters p = us @ c # vs" "weighable c" "t = ref_of c"
    "\<forall>d \<in> set us. weighable d \<longrightarrow> weight32 c < weight32 d"
    "\<forall>d \<in> set vs. weighable d \<longrightarrow> weight32 c \<le> weight32 d" by (rule lowest_target_split)
  have "res \<noteq> Panic" using created(3,4) by (cases ok) auto
  moreover have "\<not> (\<forall>c \<in> set (prefer_clusters p). \<not> weighable c)" using sp by auto
  ultimately show ?thesis using sp created by auto
qed

definition video_pod :: Pod where
  "video_pod = \<lparr>pod_Name = ''video-0'', pod_Namespace = ''default'',
     pod_OwnerReferences = [\<lparr>ref_Kind = ''StatefulSet'', ref_Name = ''video'', ref_Controller = Some True\<rparr>],
     pod_NodeName = ''worker-1'', pod_Containers = [], pod_Phase = PodRunning, pod_PodIP = ''10.0.0.1'',
     pod_ReadyConditions = [ConditionTrue], pod_Labels = [], pod_Tolerations = [], pod_RestartPolicy = ''Always'', pod_HostNetwork = False\<rparr>"

lemma sample_lowest: "lowest_target sample_policy = Some (ref_of capo_target)"
  by (simp add: lowest_target_def lowest_step_def sample_defs less32_def to_int32_def MaxInt32_def ref_of_def)

theorem CreateCheckpointCR_target_witness:
  "\<exists>ok. CreateCheckpointCR down_env video_pod video_pkg sample_policy None [] =
     (Ret (Some down), [CreatedCheckpoint (build_checkpoint down_env video_pod video_pkg sample_policy (ref_of capo_target) None) ok]) \<and>
   weighable capo_target"
proof -
  have call: "CreateCheckpointCR down_env video_pod video_pkg sample_policy None [] =
     (Ret (Some down), [CreatedCheckpoint (build_checkpoint down_env video_pod video_pkg sample_policy (ref_of capo_target) None) False])"
    by (simp add: CreateCheckpointCR_def sample_lowest api_simps down_defs down_def)
  have "\<not> (\<forall>c \<in> set (prefer_clusters sample_policy). \<not> weighable c)"
    using CreateCheckpointCR_target [OF call] by simp
  then have "weighable capo_target"
    by (simp add: sample_defs weighable_def weight32_def to_int32_def MaxInt32_def)
  with call show ?thesis by blast
qed





end
