(* ===== verification/Worker_Pool.thy ===== *)
theory Worker_Pool
  imports Prelude
begin

text \<open>
  The pattern the operator uses to run work in the background: a loop goes over items, skips
  the ones that are not wanted or whose key was already seen, and starts a goroutine for each
  other one; a channel used as a semaphore bounds the goroutines in flight, and a wait group
  joins them at the end. \<open>pool_run\<close> is that loop, with the jobs as atomic steps and the
  scheduler as a sequence of choices between the loop and the jobs in flight. A job that
  panics ends the process.
\<close>

section \<open>Definitions\<close>

text \<open>
  The list \<open>running\<close> holds the jobs started and not yet run, oldest first; when it is one
  longer than the capacity, its last job is the one the loop is blocked on, and only the
  first \<open>cap\<close> may run.
\<close>

definition remove_at :: "nat \<Rightarrow> 'a list \<Rightarrow> 'a list" where
  "remove_at i xs = take i xs @ drop (Suc i) xs"

lemma length_remove_at [simp]: "i < length xs \<Longrightarrow> length (remove_at i xs) = length xs - 1"
  by (simp add: remove_at_def)

lemma set_remove_at: "set (remove_at i xs) \<subseteq> set xs"
  by (auto simp: remove_at_def dest: in_set_takeD in_set_dropD)

lemma map_remove_at: "map f (remove_at i xs) = remove_at i (map f xs)"
  by (simp add: remove_at_def take_map drop_map)

lemma distinct_remove_at: "distinct xs \<Longrightarrow> distinct (remove_at i xs)"
  by (auto simp: remove_at_def dest: set_take_disj_set_drop_if_distinct [of xs i "Suc i"])

lemma split_at: "i < length xs \<Longrightarrow> xs = take i xs @ xs ! i # drop (Suc i) xs"
  by (rule id_take_nth_drop)

function pool_run ::
  "nat \<Rightarrow> (nat \<Rightarrow> nat) \<Rightarrow> ('s \<Rightarrow> 'c \<Rightarrow> bool) \<Rightarrow> ('c \<Rightarrow> 'k) \<Rightarrow> ('c \<Rightarrow> 's \<Rightarrow> 'h \<Rightarrow> 's outcome \<times> 'h) \<Rightarrow>
   nat \<Rightarrow> 'c list \<Rightarrow> 'k list \<Rightarrow> 'c list \<Rightarrow> 's \<Rightarrow> 'h \<Rightarrow> 's outcome \<times> 'h" where
  "pool_run cap pick wanted key job n items seen running s h =
     (let startable = items \<noteq> [] \<and> length running \<le> cap;
          jobs = min cap (length running);
          i = pick n mod (jobs + (if startable then 1 else 0))
      in if startable \<and> jobs \<le> i
         then (let c = hd items in
               if wanted s c \<and> key c \<notin> set seen
               then pool_run cap pick wanted key job (Suc n) (tl items) (key c # seen) (running @ [c]) s h
               else pool_run cap pick wanted key job (Suc n) (tl items) seen running s h)
         else if i < jobs
         then (case job (running ! i) s h of
                 (Panic, h) \<Rightarrow> (Panic, h)
               | (Ret s, h) \<Rightarrow> pool_run cap pick wanted key job (Suc n) items seen (remove_at i running) s h)
         else (Ret s, h))"
  by pat_completeness auto
termination
  by (relation "measure (\<lambda>(cap, pick, wanted, key, job, n, items, seen, running, s, h).
        2 * length items + length running)")
    (auto simp: neq_Nil_conv)

declare pool_run.simps [simp del]

text \<open>The specification: the jobs of a list run one after the other, up to a panic.\<close>

fun run_jobs :: "('c \<Rightarrow> 's \<Rightarrow> 'h \<Rightarrow> 's outcome \<times> 'h) \<Rightarrow> 'c list \<Rightarrow> 's \<Rightarrow> 'h \<Rightarrow> 's outcome \<times> 'h" where
  "run_jobs job [] s h = (Ret s, h)"
| "run_jobs job (c # cs) s h =
     (case job c s h of (Panic, h) \<Rightarrow> (Panic, h) | (Ret s, h) \<Rightarrow> run_jobs job cs s h)"

section \<open>The pool refines a sequential run\<close>

text \<open>One unfolding, as the three moves a scheduler can make.\<close>

lemma pool_run_cases:
  assumes "0 < cap"
  obtains
    (finished) "items = []" "running = []" "pool_run cap pick wanted key job n items seen running s h = (Ret s, h)"
  | (start) c cs where "items = c # cs" "wanted s c" "key c \<notin> set seen" "length running \<le> cap"
      "pool_run cap pick wanted key job n items seen running s h =
         pool_run cap pick wanted key job (Suc n) cs (key c # seen) (running @ [c]) s h"
  | (skip) c cs where "items = c # cs" "\<not> wanted s c \<or> key c \<in> set seen" "length running \<le> cap"
      "pool_run cap pick wanted key job n items seen running s h =
         pool_run cap pick wanted key job (Suc n) cs seen running s h"
  | (run) i where "i < cap" "i < length running"
      "pool_run cap pick wanted key job n items seen running s h =
         (case job (running ! i) s h of
            (Panic, h) \<Rightarrow> (Panic, h)
          | (Ret s, h) \<Rightarrow> pool_run cap pick wanted key job (Suc n) items seen (remove_at i running) s h)"
proof -
  define startable where "startable \<longleftrightarrow> items \<noteq> [] \<and> length running \<le> cap"
  define jobs where "jobs = min cap (length running)"
  define i where "i = pick n mod (jobs + (if startable then 1 else 0))"
  note unf = pool_run.simps [of cap pick wanted key job n items seen running s h, folded startable_def jobs_def,
      unfolded Let_def, folded startable_def jobs_def i_def]
  consider "startable" "jobs \<le> i" | "i < jobs" | "\<not> startable" "jobs = 0"
  proof (cases "i < jobs")
    case False
    show ?thesis
    proof (cases startable)
      case nst: False
      with \<open>\<not> i < jobs\<close> have "jobs = 0" by (cases "jobs = 0") (auto simp: i_def)
      with nst that(3) show ?thesis by blast
    qed (use False that in auto)
  qed (use that in auto)
  then show thesis
  proof cases
    case 1
    then obtain c cs where it: "items = c # cs" and len: "length running \<le> cap"
      by (auto simp: startable_def neq_Nil_conv)
    show thesis
      using unf 1 it len start [of c cs] skip [of c cs] by (cases "wanted s c \<and> key c \<notin> set seen") auto
  next
    case 2
    then have "i < cap" "i < length running" by (simp_all add: jobs_def)
    moreover from 2 have "\<not> jobs \<le> i" by simp
    ultimately show thesis using unf 2 run [of i] by simp
  next
    case 3
    with assms have "running = []" by (cases running) (auto simp: jobs_def min_def split: if_splits)
    with 3 have "items = []" by (auto simp: startable_def)
    with \<open>running = []\<close> unf 3 finished show thesis by (simp add: i_def)
  qed
qed

lemma run_jobs_append:
  "run_jobs job (xs @ ys) s h =
     (case run_jobs job xs s h of (Panic, h) \<Rightarrow> (Panic, h) | (Ret s, h) \<Rightarrow> run_jobs job ys s h)"
  by (induction xs arbitrary: s h) (auto split: prod.splits outcome.splits)

text \<open>The states in which a sequential run leaves off between two of its jobs.\<close>

definition reached :: "('c \<Rightarrow> 's \<Rightarrow> 'h \<Rightarrow> 's outcome \<times> 'h) \<Rightarrow> 'c list \<Rightarrow> 's \<Rightarrow> 'h \<Rightarrow> 's set" where
  "reached job order s h = {s'. \<exists>before after h'. order = before @ after \<and> run_jobs job before s h = (Ret s', h')}"

lemma reached_start: "s \<in> reached job order s h"
  unfolding reached_def by (rule CollectI, rule exI [of _ "[]"]) simp

lemma reached_step: "job c s h = (Ret s1, h1) \<Longrightarrow> reached job order s1 h1 \<subseteq> reached job (c # order) s h"
proof
  fix s'
  assume job: "job c s h = (Ret s1, h1)" and "s' \<in> reached job order s1 h1"
  then obtain before after h' where "order = before @ after" "run_jobs job before s1 h1 = (Ret s', h')"
    by (auto simp: reached_def)
  with job show "s' \<in> reached job (c # order) s h"
    unfolding reached_def by (intro CollectI exI [of _ "c # before"] exI [of _ after] exI [of _ h']) simp
qed

text \<open>
  The contract of a run, for the order in which its jobs ran and the states \<open>R\<close> that it reached
  in between: no key twice; only jobs that were in flight, or items with a new key that were
  wanted in a state reached; and, unless a job panicked, every job in flight and every item,
  unless it was unwanted in a state reached.
\<close>

definition valid_order ::
  "'s set \<Rightarrow> ('s \<Rightarrow> 'c \<Rightarrow> bool) \<Rightarrow> ('c \<Rightarrow> 'k) \<Rightarrow> 'c list \<Rightarrow> 'k list \<Rightarrow> 'c list \<Rightarrow> 's outcome \<Rightarrow> 'c list \<Rightarrow> bool" where
  "valid_order R wanted key items seen running res order \<longleftrightarrow>
     distinct (map key order) \<and> set order \<subseteq> set running \<union> set items \<and>
     (\<forall>c \<in> set order - set running. key c \<notin> set seen \<and> (\<exists>s \<in> R. wanted s c)) \<and>
     (res \<noteq> Panic \<longrightarrow> set running \<subseteq> set order \<and>
        (\<forall>c \<in> set items. (\<forall>s \<in> R. wanted s c) \<longrightarrow> key c \<in> set seen \<union> key ` set order))"

lemma valid_order_mono: "valid_order R wanted key items seen running res order \<Longrightarrow> R \<subseteq> R' \<Longrightarrow>
    valid_order R' wanted key items seen running res order"
  unfolding valid_order_def by blast

lemma valid_order_start:
  assumes "valid_order R wanted key cs (key c # seen) (running @ [c]) res order"
    and "s \<in> R" and "wanted s c" and "key c \<notin> set seen"
  shows "valid_order R wanted key (c # cs) seen running res order"
  using assms by (auto simp: valid_order_def)

lemma valid_order_skip:
  assumes "valid_order R wanted key cs seen running res order" and "s \<in> R" and "\<not> wanted s c \<or> key c \<in> set seen"
  shows "valid_order R wanted key (c # cs) seen running res order"
  using assms by (auto simp: valid_order_def)

lemma valid_order_run:
  assumes "valid_order R wanted key items seen (remove_at i running) res order" and "i < length running"
    and "distinct (map key running)" and "key ` set running \<subseteq> set seen"
  shows "valid_order R wanted key items seen running res (running ! i # order)"
proof -
  let ?r = "remove_at i running"
  have mem: "running ! i \<in> set running" using assms(2) by simp
  have sub: "set ?r \<subseteq> set running" by (rule set_remove_at)
  from assms(2) have sp: "running = take i running @ running ! i # drop (Suc i) running" by (rule split_at)
  have "set running = set (take i running @ running ! i # drop (Suc i) running)"
    by (simp only: sp [symmetric])
  then have all: "set running = insert (running ! i) (set ?r)" by (auto simp: remove_at_def)
  have "distinct (map key (take i running @ running ! i # drop (Suc i) running))"
    using assms(3) by (simp only: sp [symmetric])
  then have fresh: "key (running ! i) \<notin> key ` set ?r" by (auto simp: remove_at_def)
  have "key d \<noteq> key (running ! i)" if "d \<in> set order" for d
  proof (cases "d \<in> set ?r")
    case True
    with fresh show ?thesis by (metis imageI)
  next
    case False
    with assms(1) that have "key d \<notin> set seen" by (auto simp: valid_order_def)
    moreover have "key (running ! i) \<in> set seen" using mem assms(4) by auto
    ultimately show ?thesis by auto
  qed
  then have "key (running ! i) \<notin> key ` set order" by (metis imageE)
  with assms(1) all show ?thesis unfolding valid_order_def by auto
qed

text \<open>
  The refinement: whatever the scheduler does, the pool has the effect of running its jobs
  one after the other in a valid order.
\<close>

lemma pool_run_refines:
  assumes "0 < cap" and "distinct (map key running)" and "key ` set running \<subseteq> set seen"
  shows "\<exists>order. pool_run cap pick wanted key job n items seen running s h = run_jobs job order s h \<and>
     valid_order (reached job order s h) wanted key items seen running (fst (run_jobs job order s h)) order"
  using assms(2,3)
proof (induction "2 * length items + length running" arbitrary: n items seen running s h rule: less_induct)
  case less
  from \<open>0 < cap\<close> show ?case
  proof (cases rule: pool_run_cases [where pick = pick and wanted = wanted and key = key and job = job and n = n
        and items = items and seen = seen and running = running and s = s and h = h])
    case finished
    then show ?thesis by (intro exI [of _ "[]"]) (simp add: valid_order_def)
  next
    case (start c cs)
    have "\<exists>order. pool_run cap pick wanted key job (Suc n) cs (key c # seen) (running @ [c]) s h = run_jobs job order s h \<and>
       valid_order (reached job order s h) wanted key cs (key c # seen) (running @ [c]) (fst (run_jobs job order s h)) order"
      using start less.prems by (intro less.hyps) auto
    with start show ?thesis by (auto intro: valid_order_start [OF _ reached_start])
  next
    case (skip c cs)
    have "\<exists>order. pool_run cap pick wanted key job (Suc n) cs seen running s h = run_jobs job order s h \<and>
       valid_order (reached job order s h) wanted key cs seen running (fst (run_jobs job order s h)) order"
      using skip less.prems by (intro less.hyps) auto
    with skip show ?thesis by (auto intro: valid_order_skip [OF _ reached_start])
  next
    case (run i)
    let ?r = "remove_at i running"
    obtain r h1 where j: "job (running ! i) s h = (r, h1)" by fastforce
    show ?thesis
    proof (cases r)
      case Panic
      with j run show ?thesis by (intro exI [of _ "[running ! i]"]) (simp add: valid_order_def)
    next
      case (Ret s1)
      have "distinct (map key ?r)" using less.prems(1) by (simp add: map_remove_at distinct_remove_at)
      moreover have "key ` set ?r \<subseteq> set seen" using less.prems(2) set_remove_at by fast
      ultimately have "\<exists>order. pool_run cap pick wanted key job (Suc n) items seen ?r s1 h1 = run_jobs job order s1 h1 \<and>
         valid_order (reached job order s1 h1) wanted key items seen ?r (fst (run_jobs job order s1 h1)) order"
        using run by (intro less.hyps) auto
      then obtain order where o: "pool_run cap pick wanted key job (Suc n) items seen ?r s1 h1 = run_jobs job order s1 h1"
        "valid_order (reached job order s1 h1) wanted key items seen ?r (fst (run_jobs job order s1 h1)) order" by blast
      have "reached job order s1 h1 \<subseteq> reached job (running ! i # order) s h"
        by (rule reached_step) (use j Ret in simp)
      from valid_order_mono [OF valid_order_run [OF o(2) run(2) less.prems] this] o(1) j Ret run(3) show ?thesis
        by (intro exI [of _ "running ! i # order"]) simp
    qed
  qed
qed

text \<open>A pool that starts empty.\<close>

lemma pool_refines:
  assumes "0 < cap"
  obtains order where "pool_run cap pick wanted key job n items [] [] s h = run_jobs job order s h"
    "valid_order (reached job order s h) wanted key items [] [] (fst (run_jobs job order s h)) order"
  using pool_run_refines [OF assms, of key "[]" "[]" pick wanted job n items s h] by auto

text \<open>A pool with nothing wanted does nothing.\<close>

lemma pool_run_nothing:
  assumes "0 < cap" and "\<forall>c \<in> set items. \<not> wanted s c"
  shows "pool_run cap pick wanted key job n items seen [] s h = (Ret s, h)"
  using assms(2)
proof (induction items arbitrary: n)
  case Nil
  show ?case by (cases rule: pool_run_cases [OF assms(1), of "[]" "[]" pick wanted key job n seen s h]) auto
next
  case (Cons c cs)
  then show ?case
    by (cases rule: pool_run_cases [OF assms(1), of "c # cs" "[]" pick wanted key job n seen s h]) auto
qed

section \<open>Invariants of a pool\<close>

text \<open>
  The contract of a job towards the pool: it keeps an invariant of the shared state and only
  extends the history with events that satisfy a predicate. The pool then does the same.
\<close>

locale pool_job =
  fixes job :: "'c \<Rightarrow> 's \<Rightarrow> 'e list \<Rightarrow> 's outcome \<times> 'e list"
    and Inv :: "'s \<Rightarrow> bool"
    and Ev :: "'e \<Rightarrow> bool"
  assumes job_inv: "Inv s \<Longrightarrow> job c s h = (Ret s', h') \<Longrightarrow> Inv s'"
    and job_events: "Inv s \<Longrightarrow> \<exists>es. snd (job c s h) = es @ h \<and> (\<forall>e \<in> set es. Ev e)"
begin

lemma run_jobs_inv: "Inv s \<Longrightarrow> run_jobs job order s h = (Ret s', h') \<Longrightarrow> Inv s'"
  by (induction order arbitrary: s h) (auto split: prod.splits outcome.splits dest: job_inv)

lemma run_jobs_events: "Inv s \<Longrightarrow> \<exists>es. snd (run_jobs job order s h) = es @ h \<and> (\<forall>e \<in> set es. Ev e)"
proof (induction order arbitrary: s h)
  case (Cons c order)
  obtain r h1 where j: "job c s h = (r, h1)" by fastforce
  from job_events [OF Cons.prems, of c h] j obtain es where es: "h1 = es @ h" "\<forall>e \<in> set es. Ev e" by auto
  show ?case
  proof (cases r)
    case Panic
    with j es show ?thesis by auto
  next
    case (Ret s1)
    with job_inv [OF Cons.prems] j have "Inv s1" by blast
    from Cons.IH [OF this, of h1] obtain fs where "snd (run_jobs job order s1 h1) = fs @ h1" "\<forall>e \<in> set fs. Ev e"
      by blast
    with es j Ret show ?thesis by (intro exI [of _ "fs @ es"]) auto
  qed
qed simp

lemma pool_inv: "0 < cap \<Longrightarrow> Inv s \<Longrightarrow> pool_run cap pick wanted key job n items [] [] s h = (Ret s', h') \<Longrightarrow> Inv s'"
  by (rule pool_refines [of cap pick wanted key job n items s h]) (auto dest: run_jobs_inv)

lemma pool_events:
  "0 < cap \<Longrightarrow> Inv s \<Longrightarrow>
     \<exists>es. snd (pool_run cap pick wanted key job n items [] [] s h) = es @ h \<and> (\<forall>e \<in> set es. Ev e)"
  by (rule pool_refines [of cap pick wanted key job n items s h]) (auto dest: run_jobs_events)

end

end
