(* ===== verification/Node_Transition.thy ===== *)
theory Node_Transition
  imports Checkpoint_Creation Gitops Manifest_Scan Gitea_Client Worker_Pool
begin

text \<open>
  \<^verbatim>\<open>src/reconcilers/checkpoint_transition/nodehealth_transition.go\<close>: moving the workloads of a
  package to the target cluster when a monitor reported a failure. The policy object is
  shared and mutated: the functions take it and give it back. Goroutines started per
  checkpoint run in a \<open>pool_run\<close> of capacity two; each transition is one atomic job.
\<close>

section \<open>Definitions\<close>

definition UpdateClusterPolicyStatus ::
  "env \<Rightarrow> PackageSelector \<Rightarrow> error option \<Rightarrow> PackageTransitionCondition \<Rightarrow> ClusterPolicy \<Rightarrow> hist \<Rightarrow>
   ClusterPolicy \<times> hist" where
  "UpdateClusterPolicyStatus en transitionPackage updateErr condition clusterPolicy h =
     (let message = (case updateErr of None \<Rightarrow> '''' | Some e \<Rightarrow> err_text e) in
      case Now en h of (now, h) \<Rightarrow>
        (let clusterPolicy = append_transition
               \<lparr>tp_PackageSelectors = [transitionPackage], tp_LastTransitionTime = now,
                tp_PackageTransitionCondition = condition, tp_PackageTransitionMessage = message\<rparr> clusterPolicy
         in case wr (UpdatedPolicyStatus clusterPolicy) (\<lambda>h. m_UpdatePolicyStatus (mgmt en) h clusterPolicy) h of
              (_, h) \<Rightarrow> (clusterPolicy, h)))"

text \<open>
  The loop over the backups of a stateful package: \<open>None\<close> is an early return, otherwise the
  last checkpoint read, if any.
\<close>

fun live_checkpoint ::
  "env \<Rightarrow> string \<Rightarrow> BackupInformation list \<Rightarrow> Checkpoint option \<Rightarrow> hist \<Rightarrow> Checkpoint option option \<times> hist" where
  "live_checkpoint en name [] acc h = (Some acc, h)"
| "live_checkpoint en name (backup # backups) acc h =
     (if bi_BackupType backup \<noteq> BackupTypeSchedule then live_checkpoint en name backups acc h
      else case rd ''Checkpoint'' ''default'' name (\<lambda>h. m_GetCheckpoint (mgmt en) h ''default'' name) h of
             (Inl err, h) \<Rightarrow> (None, h)
           | (Inr checkpoint, h) \<Rightarrow>
               (if ckst_LastCheckpointImage (ck_Status checkpoint) = '''' then (None, h)
                else live_checkpoint en name backups (Some checkpoint) h))"

text \<open>
  The goroutines that edit the matching manifests: all of them run, in any order, and their
  errors are collected. The semaphore inside them bounds how many run at once and does not
  restrict the order.
\<close>

definition update_manifest_job ::
  "env \<Rightarrow> string \<Rightarrow> string \<Rightarrow> nat \<times> string \<Rightarrow> error list \<Rightarrow> hist \<Rightarrow> error list outcome \<times> hist" where
  "update_manifest_job en ckImage origImage c errs h =
     (case UpdateResourceContainers en (snd c) ckImage origImage h of
        (None, h) \<Rightarrow> (Ret errs, h)
      | (Some err, h) \<Rightarrow> (Ret (errs @ [wrapf (''failed to update manifest '' @ snd c) err]), h))"

definition update_manifests ::
  "env \<Rightarrow> string list \<Rightarrow> string \<Rightarrow> string \<Rightarrow> hist \<Rightarrow> error list outcome \<times> hist" where
  "update_manifests en matchingFiles ckImage origImage h =
     pool_run (Suc (length matchingFiles)) (o_Sched (os en) h) (\<lambda>_ _. True) fst (update_manifest_job en ckImage origImage)
       0 (enumerate 0 matchingFiles) [] [] [] h"

text \<open>
  The preparation of a stateful transition: the checkpoint, the manifests of the source
  repository with the checkpoint image, committed and pushed. \<open>None\<close> is an early return.
\<close>

definition prepare_live_state ::
  "env \<Rightarrow> string \<Rightarrow> string \<Rightarrow> BackupInformation list \<Rightarrow> hist \<Rightarrow> Checkpoint option outcome \<times> hist" where
  "prepare_live_state en sourceRepo checkpointName backups h =
     (case live_checkpoint en checkpointName backups None h of
        (None, h) \<Rightarrow> (Ret None, h)
      | (Some None, h) \<Rightarrow> (Ret None, h)
      | (Some (Some associatedCheckpoint), h) \<Rightarrow>
          (if ck_Name associatedCheckpoint = '''' then (Ret None, h)
           else case CheckRepoForMatchingManifests en sourceRepo ''main''
                       (cks_ResourceRef (ck_Spec associatedCheckpoint)) h of
                  ((tmpDir, Inl err), h) \<Rightarrow> (Ret None, h)
                | ((tmpDir, Inr matches), h) \<Rightarrow>
                    (if matches = [] then (Ret None, h)
                     else let ckImage = ckst_LastCheckpointImage (ck_Status associatedCheckpoint);
                              origImage = ckst_OriginalImage (ck_Status associatedCheckpoint)
                          in case update_manifests en matches ckImage origImage h of
                               (Panic, h) \<Rightarrow> (Panic, h)
                             | (Ret errs, h) \<Rightarrow>
                                 (if errs \<noteq> [] then (Ret None, h)
                                  else case GetGiteaSecretUserNamePassword en h of
                                         (Inl err, h) \<Rightarrow> (Ret None, h)
                                       | (Inr (username, password, _), h) \<Rightarrow>
                                           (case CommitAndPush en tmpDir ''main'' username password
                                                   (''Update container image '' @ ckImage @ ''/'' @ origImage) h of
                                              (Some err, h) \<Rightarrow> (Ret None, h)
                                            | (None, h) \<Rightarrow> (Ret (Some associatedCheckpoint), h))))))"

text \<open>What a transition does once the manifest was pushed: the sync and the status entry.\<close>

definition finish_transition ::
  "env \<Rightarrow> kclient option \<Rightarrow> string \<Rightarrow> string \<Rightarrow> PackageSelector \<Rightarrow> ClusterPolicy \<Rightarrow> hist \<Rightarrow> ClusterPolicy outcome \<times> hist" where
  "finish_transition en targetClusterClient targetClusterName message transitionPackage clusterPolicy h =
     (case TriggerArgoCDSyncWithKubeClient en targetClusterClient (targetClusterName @ ''-dr'') ''argocd'' h of
        (Panic, h) \<Rightarrow> (Panic, h)
      | (Ret err, h) \<Rightarrow>
          (let message = (case err of None \<Rightarrow> message | Some _ \<Rightarrow> message @ ''; ArgoCD sync failed'') in
           case UpdateClusterPolicyStatus en transitionPackage (Some (Errorf message))
                  PackageTransitionConditionCompleted clusterPolicy h of
             (clusterPolicy, h) \<Rightarrow> (Ret clusterPolicy, h)))"

definition fail_transition ::
  "env \<Rightarrow> error \<Rightarrow> PackageSelector \<Rightarrow> ClusterPolicy \<Rightarrow> hist \<Rightarrow> ClusterPolicy outcome \<times> hist" where
  "fail_transition en err transitionPackage clusterPolicy h =
     (case UpdateClusterPolicyStatus en transitionPackage (Some err) PackageTransitionConditionFailed clusterPolicy h of
        (clusterPolicy, h) \<Rightarrow> (Ret clusterPolicy, h))"

text \<open>The two cases of the switch over the package type.\<close>

definition transition_stateful ::
  "env \<Rightarrow> gitea_client \<Rightarrow> string \<Rightarrow> string \<Rightarrow> string \<Rightarrow> string \<Rightarrow> kclient option \<Rightarrow> string \<Rightarrow> PackageSelector \<Rightarrow>
   ClusterPolicy \<Rightarrow> hist \<Rightarrow> ClusterPolicy outcome \<times> hist" where
  "transition_stateful en gc userName drRepo targetRepoName targetClusterName targetClusterClient podName
       transitionPackage clusterPolicy h =
     (case prepare_live_state en (selector_repo clusterPolicy)
             (checkpoint_name clusterPolicy podName transitionPackage) (ps_BackupInformation transitionPackage) h of
        (Panic, h) \<Rightarrow> (Panic, h)
      | (Ret None, h) \<Rightarrow> (Ret clusterPolicy, h)
      | (Ret (Some associatedCheckpoint), h) \<Rightarrow>
          (case CreateAndPushLiveStateBackupRestore en gc userName drRepo targetRepoName clusterPolicy
                  transitionPackage associatedCheckpoint h of
             (Inl err, h) \<Rightarrow> fail_transition en err transitionPackage clusterPolicy h
           | (Inr _, h) \<Rightarrow>
               finish_transition en targetClusterClient targetClusterName
                 ''Transitioned stateful package successfully'' transitionPackage clusterPolicy h))"

definition transition_stateless ::
  "env \<Rightarrow> gitea_client \<Rightarrow> string \<Rightarrow> string \<Rightarrow> string \<Rightarrow> string \<Rightarrow> kclient option \<Rightarrow> PackageSelector \<Rightarrow>
   ClusterPolicy \<Rightarrow> hist \<Rightarrow> ClusterPolicy outcome \<times> hist" where
  "transition_stateless en gc userName drRepo targetRepoName targetClusterName targetClusterClient
       transitionPackage clusterPolicy h =
     (case CreateAndPushArgoApp en gc userName drRepo targetRepoName clusterPolicy transitionPackage [] h of
        (Inl err, h) \<Rightarrow> fail_transition en err transitionPackage clusterPolicy h
      | (Inr _, h) \<Rightarrow>
          finish_transition en targetClusterClient targetClusterName
            ''Transitioned stateless package successfully'' transitionPackage clusterPolicy h)"

text \<open>
  The first half of \<open>TransitionOnMissedNodeHealth\<close>, up to the switch: Gitea, the user, the
  \<^verbatim>\<open>dr\<close> repository and the target cluster. \<open>None\<close> is an early return; the client of the
  target cluster may be nil.
\<close>

record transition_target =
  tt_gitea :: gitea_client
  tt_userName :: string
  tt_drRepo :: string
  tt_targetRepoName :: string
  tt_targetClusterName :: string
  tt_targetClusterClient :: "kclient option"

definition locate_target :: "env \<Rightarrow> ClusterPolicy \<Rightarrow> hist \<Rightarrow> transition_target option outcome \<times> hist" where
  "locate_target en clusterPolicy h =
     (case GetClient en h of (giteaClient, h) \<Rightarrow>
        (case gc_giteaClient giteaClient of
           None \<Rightarrow> (Ret None, h)
         | Some gc \<Rightarrow>
             (case rd ''gitea-user'' '''' '''' (\<lambda>h. g_GetMyUserInfo (gt en) h gc) h of
                (Inl err, h) \<Rightarrow> (Ret None, h)
              | (Inr userName, h) \<Rightarrow>
                  (if selector_repo clusterPolicy = '''' then (Ret None, h)
                   else case rd ''gitea-repos'' '''' '''' (\<lambda>h. g_ListMyRepos (gt en) h gc) h of
                          (Inl err, h) \<Rightarrow> (Ret None, h)
                        | (Inr repos, h) \<Rightarrow>
                            (case find (\<lambda>r. repo_Name r = ''dr'') repos of
                               None \<Rightarrow> (Ret None, h)
                             | Some drRepo \<Rightarrow>
                                 (case DetermineTargetRepo clusterPolicy of (targetRepoName, targetClusterName, found) \<Rightarrow>
                                    (if \<not> found then (Ret None, h)
                                     else case GetWorkloadClusterClient en targetClusterName h of
                                            (Panic, h) \<Rightarrow> (Panic, h)
                                          | (Ret (_, _, Some err), h) \<Rightarrow> (Ret None, h)
                                          | (Ret (_, targetClusterClient, None), h) \<Rightarrow>
                                              (Ret (Some \<lparr>tt_gitea = gc, tt_userName = userName,
                                                 tt_drRepo = repo_Name drRepo, tt_targetRepoName = targetRepoName,
                                                 tt_targetClusterName = targetClusterName,
                                                 tt_targetClusterClient = targetClusterClient\<rparr>), h))))))))"

definition TransitionOnMissedNodeHealth ::
  "env \<Rightarrow> string \<Rightarrow> PackageSelector \<Rightarrow> string \<Rightarrow> ClusterPolicy \<Rightarrow> hist \<Rightarrow> ClusterPolicy outcome \<times> hist" where
  "TransitionOnMissedNodeHealth en podName transitionPackage workloadClusterName clusterPolicy h =
     (case locate_target en clusterPolicy h of
        (Panic, h) \<Rightarrow> (Panic, h)
      | (Ret None, h) \<Rightarrow> (Ret clusterPolicy, h)
      | (Ret (Some t), h) \<Rightarrow>
          (case ps_PackageType transitionPackage of
             PackageTypeStateful \<Rightarrow>
               transition_stateful en (tt_gitea t) (tt_userName t) (tt_drRepo t) (tt_targetRepoName t)
                 (tt_targetClusterName t) (tt_targetClusterClient t) podName transitionPackage clusterPolicy h
           | PackageTypeStateless \<Rightarrow>
               transition_stateless en (tt_gitea t) (tt_userName t) (tt_drRepo t) (tt_targetRepoName t)
                 (tt_targetClusterName t) (tt_targetClusterClient t) transitionPackage clusterPolicy h
           | PackageTypeOther _ \<Rightarrow> (Ret clusterPolicy, h)))"

text \<open>The goroutine of one checkpoint reads the cluster's name through a pointer.\<close>

definition transition_job ::
  "env \<Rightarrow> PackageSelector \<Rightarrow> Checkpoint \<Rightarrow> ClusterPolicy \<Rightarrow> hist \<Rightarrow> ClusterPolicy outcome \<times> hist" where
  "transition_job en pkg cp clusterPolicy h =
     (case cks_ClusterRef (ck_Spec cp) of
        None \<Rightarrow> (Panic, h)
      | Some ref \<Rightarrow>
          TransitionOnMissedNodeHealth en (pr_Name (cks_PodRef (ck_Spec cp))) pkg (clr_Name ref) clusterPolicy h)"

definition transition_wanted :: "PackageSelector \<Rightarrow> ClusterPolicy \<Rightarrow> Checkpoint \<Rightarrow> bool" where
  "transition_wanted pkg clusterPolicy cp \<longleftrightarrow>
     policy_accept pkg (rr_Annotations (cks_ResourceRef (ck_Spec cp))) \<and> \<not> IsPackageTransitioned clusterPolicy pkg"

definition transition_key :: "PackageSelector \<Rightarrow> Checkpoint \<Rightarrow> string" where
  "transition_key pkg cp = pr_Name (cks_PodRef (ck_Spec cp)) @ ''/'' @ ps_Name pkg"

definition trigger_accept :: "PackageSelector \<Rightarrow> smap \<Rightarrow> bool" where
  "trigger_accept pkg a \<longleftrightarrow> mget a package_annotation = ps_Name pkg"

definition trigger_key :: "PackageSelector \<Rightarrow> string \<Rightarrow> string \<Rightarrow> string \<Rightarrow> string" where
  "trigger_key pkg ns name kind = ns @ ''/'' @ name @ ''/'' @ ps_Name pkg"

definition TriggerTransitionOnMissedNodeHealth ::
  "env \<Rightarrow> PackageSelector \<Rightarrow> string \<Rightarrow> ClusterPolicy \<Rightarrow> hist \<Rightarrow> (ClusterPolicy \<times> error option) outcome \<times> hist" where
  "TriggerTransitionOnMissedNodeHealth en pkg workloadClusterName clusterPolicy h =
     (case rd ''CheckpointList'' '''' '''' (m_ListCheckpoints (mgmt en)) h of
        (Inl err, h) \<Rightarrow> (Ret (clusterPolicy, Some err), h)
      | (Inr checkpoints, h) \<Rightarrow>
          (case pool_run 2 (o_Sched (os en) h) (transition_wanted pkg) (transition_key pkg) (transition_job en pkg)
                  0 checkpoints [] [] clusterPolicy h of
             (Panic, h) \<Rightarrow> (Panic, h)
           | (Ret clusterPolicy, h) \<Rightarrow>
               (if has_package_checkpoint pkg checkpoints then (Ret (clusterPolicy, None), h)
                else case create_missing_checkpoints en pkg clusterPolicy (trigger_accept pkg) (trigger_key pkg)
                            workloadClusterName h of
                       (Panic, h) \<Rightarrow> (Panic, h)
                     | (Ret err, h) \<Rightarrow> (Ret (clusterPolicy, err), h))))"

section \<open>The manifest edits\<close>

interpretation manifest_pool: pool_job "update_manifest_job en ckImage origImage" "\<lambda>_. True"
  "\<lambda>e. (\<exists>k a b. e = Read k a b) \<or> (\<exists>p d ok. e = WroteFile p d ok)"
proof unfold_locales
  fix c errs h
  have "emits (\<lambda>e. (\<exists>k a b. e = Read k a b) \<or> (\<exists>p d ok. e = WroteFile p d ok)) (update_manifest_job en ckImage origImage c errs)"
    unfolding update_manifest_job_def by (auto intro!: emits_intros)
  then show "\<exists>es. snd (update_manifest_job en ckImage origImage c errs h) = es @ h \<and>
      (\<forall>e \<in> set es. (\<exists>k a b. e = Read k a b) \<or> (\<exists>p d ok. e = WroteFile p d ok))"
    by (simp add: emits_def)
qed simp

lemma run_update_jobs:
  assumes "run_jobs (update_manifest_job en ckImage origImage) order errs h = (res, h')"
  shows "\<exists>errs'. res = Ret (errs @ errs') \<and>
    (errs' = [] \<longrightarrow> (\<forall>c \<in> set order. \<exists>ha hb. UpdateResourceContainers en (snd c) ckImage origImage ha = (None, hb)))"
  using assms
proof (induction order arbitrary: errs h)
  case (Cons c order)
  obtain r h1 where u: "UpdateResourceContainers en (snd c) ckImage origImage h = (r, h1)" by fastforce
  have job: "update_manifest_job en ckImage origImage c errs h = (case r of None \<Rightarrow> (Ret errs, h1)
      | Some e \<Rightarrow> (Ret (errs @ [wrapf (''failed to update manifest '' @ snd c) e]), h1))"
    using u by (simp add: update_manifest_job_def split: option.splits)
  show ?case
  proof (cases r)
    case None
    with Cons.prems job have "run_jobs (update_manifest_job en ckImage origImage) order errs h1 = (res, h')"
      by simp
    from Cons.IH [OF this] u None show ?thesis by auto
  next
    case (Some e)
    let ?errs = "errs @ [wrapf (''failed to update manifest '' @ snd c) e]"
    from Cons.prems job Some have "run_jobs (update_manifest_job en ckImage origImage) order ?errs h1 = (res, h')"
      by simp
    from Cons.IH [OF this] show ?thesis by auto
  qed
qed auto

lemma update_manifests_ret:
  assumes "update_manifests en fs ckImage origImage h = (res, h')"
  shows "\<exists>errs. res = Ret errs \<and>
    (errs = [] \<longrightarrow> (\<forall>f \<in> set fs. \<exists>ha hb. UpdateResourceContainers en f ckImage origImage ha = (None, hb)))"
proof -
  obtain order where o: "update_manifests en fs ckImage origImage h =
      run_jobs (update_manifest_job en ckImage origImage) order [] h"
    and v: "valid_order (reached (update_manifest_job en ckImage origImage) order [] h) (\<lambda>_ _. True) fst (enumerate 0 fs) [] []
      (fst (run_jobs (update_manifest_job en ckImage origImage) order [] h)) order"
    unfolding update_manifests_def
    by (rule pool_refines [of "Suc (length fs)"]) auto
  from assms o have run: "run_jobs (update_manifest_job en ckImage origImage) order [] h = (res, h')" by simp
  from run_update_jobs [OF run] obtain errs where errs: "res = Ret errs"
    "errs = [] \<longrightarrow> (\<forall>c \<in> set order. \<exists>ha hb. UpdateResourceContainers en (snd c) ckImage origImage ha = (None, hb))"
    by auto
  have cover: "\<exists>c \<in> set order. snd c = f" if "f \<in> set fs" for f
  proof -
    from that obtain i where i: "i < length fs" "fs ! i = f" by (auto simp: in_set_conv_nth)
    then have "(i, f) \<in> set (enumerate 0 fs)" by (auto simp: in_set_enumerate_eq)
    with v run errs have "i \<in> fst ` set order" by (force simp: valid_order_def)
    then obtain c where c: "c \<in> set order" "fst c = i" by auto
    with v have "c \<in> set (enumerate 0 fs)" by (auto simp: valid_order_def)
    with c i show ?thesis by (auto simp: in_set_enumerate_eq)
  qed
  have "\<exists>ha hb. UpdateResourceContainers en f ckImage origImage ha = (None, hb)" if "errs = []" "f \<in> set fs" for f
    using cover [OF that(2)] errs(2) that(1) by auto
  with errs(1) show ?thesis by auto
qed

lemma update_manifests_emits [emits_intros]:
  assumes "\<And>k a b. P (Read k a b)" and "\<And>p d ok. P (WroteFile p d ok)"
  shows "emits P (update_manifests en fs ckImage origImage)"
proof -
  have "emits (\<lambda>e. (\<exists>k a b. e = Read k a b) \<or> (\<exists>p d ok. e = WroteFile p d ok)) (update_manifests en fs ckImage origImage)"
    unfolding update_manifests_def emits_def using manifest_pool.pool_events by blast
  then show ?thesis by (rule emits_mono) (use assms in auto)
qed

section \<open>The preparation\<close>

lemma live_checkpoint_emits [emits_intros]:
  assumes "\<And>k a b. P (Read k a b)"
  shows "emits P (live_checkpoint en name backups acc)"
proof (induction backups arbitrary: acc)
  case Nil
  then show ?case by (simp add: emits_def)
next
  case (Cons b bs)
  have "live_checkpoint en name (b # bs) acc = (\<lambda>h.
     (if bi_BackupType b \<noteq> BackupTypeSchedule then live_checkpoint en name bs acc h
      else case rd ''Checkpoint'' ''default'' name (\<lambda>h. m_GetCheckpoint (mgmt en) h ''default'' name) h of
             (Inl err, h) \<Rightarrow> (None, h)
           | (Inr checkpoint, h) \<Rightarrow>
               (if ckst_LastCheckpointImage (ck_Status checkpoint) = '''' then (None, h)
                else live_checkpoint en name bs (Some checkpoint) h)))"
    by (rule ext) simp
  then show ?case by (auto intro!: emits_intros Cons.IH assms)
qed

lemma prepare_emits [emits_intros]:
  assumes "\<And>k a b. P (Read k a b)" and "\<And>u r d ok. P (Cloned u r d ok)" and "\<And>p d ok. P (WroteFile p d ok)"
    and "\<And>d m ok. P (Committed d m ok)" and "\<And>d r ok. P (Pushed d r ok)"
  shows "emits P (prepare_live_state en repo name backups)"
  unfolding prepare_live_state_def Let_def by (auto intro!: emits_intros assms)

lemma CommitAndPush_success:
  assumes "CommitAndPush en dir branch u pw msg h = (None, h')"
  shows "\<exists>es. h' = Pushed dir (''refs/heads/'' @ branch @ '':refs/heads/'' @ branch) True # Committed dir msg True # es @ h"
  using assms by (auto simp: CommitAndPush_def Let_def api_simps split: sum.splits)

text \<open>A preparation that succeeds ends with the push of the edited manifests.\<close>

definition pushed_edit :: "Checkpoint \<Rightarrow> string \<Rightarrow> hist" where
  "pushed_edit ck dir =
     [Pushed dir ''refs/heads/main:refs/heads/main'' True,
      Committed dir (''Update container image '' @ ckst_LastCheckpointImage (ck_Status ck) @ ''/'' @
        ckst_OriginalImage (ck_Status ck)) True]"

definition edited :: "env \<Rightarrow> Checkpoint \<Rightarrow> string \<Rightarrow> bool" where
  "edited en ck f \<longleftrightarrow> (\<exists>ha hb. UpdateResourceContainers en f (ckst_LastCheckpointImage (ck_Status ck))
     (ckst_OriginalImage (ck_Status ck)) ha = (None, hb))"

text \<open>All the manifests that the search of the source repository reported were edited.\<close>

definition matches_edited :: "env \<Rightarrow> string \<Rightarrow> Checkpoint \<Rightarrow> string \<Rightarrow> bool" where
  "matches_edited en repo ck dir \<longleftrightarrow>
     (\<exists>ha hb ms. CheckRepoForMatchingManifests en repo ''main'' (cks_ResourceRef (ck_Spec ck)) ha = ((dir, Inr ms), hb) \<and>
        ms \<noteq> [] \<and> (\<forall>f \<in> set ms. edited en ck f))"

lemma prepare_never_panics: "fst (prepare_live_state en repo name backups h) \<noteq> Panic"
  using update_manifests_ret
  by (fastforce simp: prepare_live_state_def Let_def split: prod.splits option.splits sum.splits outcome.splits if_splits)

lemma prepare_success:
  assumes "prepare_live_state en repo name backups h = (Ret (Some ck), h')"
  obtains dir es where "h' = pushed_edit ck dir @ es @ h" "matches_edited en repo ck dir"
proof -
  let ?i = "ckst_LastCheckpointImage (ck_Status ck)" and ?o = "ckst_OriginalImage (ck_Status ck)"
  from assms obtain h1 h2 h3 h4 dir ms u pw url where
    l: "live_checkpoint en name backups None h = (Some (Some ck), h1)"
    and r: "CheckRepoForMatchingManifests en repo ''main'' (cks_ResourceRef (ck_Spec ck)) h1 = ((dir, Inr ms), h2)" "ms \<noteq> []"
    and m: "update_manifests en ms ?i ?o h2 = (Ret [], h3)"
    and c: "GetGiteaSecretUserNamePassword en h3 = (Inr (u, pw, url), h4)"
    and p: "CommitAndPush en dir ''main'' u pw (''Update container image '' @ ?i @ ''/'' @ ?o) h4 = (None, h')"
    by (auto simp: prepare_live_state_def Let_def split: prod.splits option.splits sum.splits outcome.splits if_splits)
  note ems = live_checkpoint_emits CheckRepo_emits update_manifests_emits GetGiteaSecret_emits
  obtain e1 e2 e3 e4 where "h1 = e1 @ h" "h2 = e2 @ h1" "h3 = e3 @ h2" "h4 = e4 @ h3"
    using emits_extends [OF ems(1) l] emits_extends [OF ems(2) r(1)] emits_extends [OF ems(3) m] emits_extends [OF ems(4) c]
    by simp metis
  moreover obtain e5 where "h' = pushed_edit ck dir @ e5 @ h4"
    using CommitAndPush_success [OF p] by (auto simp: pushed_edit_def)
  ultimately have "h' = pushed_edit ck dir @ (e5 @ e4 @ e3 @ e2 @ e1) @ h" by simp
  moreover have "\<forall>f \<in> set ms. edited en ck f"
    using update_manifests_ret [OF m] by (auto simp: edited_def)
  ultimately show thesis using that r unfolding matches_edited_def by blast
qed

section \<open>What a transition leaves behind\<close>

fun is_status_update :: "event \<Rightarrow> bool" where
  "is_status_update (UpdatedPolicyStatus _ _) = True"
| "is_status_update _ = False"

definition statuses :: "hist \<Rightarrow> hist" where
  "statuses h = filter is_status_update h"

lemma statuses_simps [simp]:
  "statuses [] = []"
  "is_status_update e \<Longrightarrow> statuses (e # h) = e # statuses h"
  "\<not> is_status_update e \<Longrightarrow> statuses (e # h) = statuses h"
  "statuses (g @ h) = statuses g @ statuses h"
  by (simp_all add: statuses_def)

fun succeeded :: "event \<Rightarrow> bool" where
  "succeeded (CreatedFile _ _ _ _ _ ok) = ok"
| "succeeded _ = False"

definition transition_entry ::
  "env \<Rightarrow> PackageSelector \<Rightarrow> error option \<Rightarrow> PackageTransitionCondition \<Rightarrow> hist \<Rightarrow> TransitionedPackages" where
  "transition_entry en pkg err cond h =
     \<lparr>tp_PackageSelectors = [pkg], tp_LastTransitionTime = o_Now (os en) h,
      tp_PackageTransitionCondition = cond,
      tp_PackageTransitionMessage = (case err of None \<Rightarrow> '''' | Some e \<Rightarrow> err_text e)\<rparr>"

lemma transition_entry_simps [simp]:
  "tp_PackageSelectors (transition_entry en pkg err cond h) = [pkg]"
  "tp_PackageTransitionCondition (transition_entry en pkg err cond h) = cond"
  "tp_LastTransitionTime (transition_entry en pkg err cond h) = o_Now (os en) h"
  by (simp_all add: transition_entry_def)

lemma UpdateClusterPolicyStatus_eq:
  "\<exists>ok. UpdateClusterPolicyStatus en pkg err cond p h =
     (append_transition (transition_entry en pkg err cond h) p,
      UpdatedPolicyStatus (append_transition (transition_entry en pkg err cond h) p) ok # Read ''clock'' '''' '''' # h)"
  by (auto simp: UpdateClusterPolicyStatus_def Let_def api_simps transition_entry_def)

text \<open>
  The outcomes of a transition that starts from policy \<open>p\<close> and history \<open>h\<close>: nothing was
  done; a Completed entry was appended and the manifest was created; a Failed entry was
  appended and no manifest was created; or the manifest was created and the process died.
\<close>

definition transition_outcome ::
  "ClusterPolicy \<Rightarrow> PackageSelector \<Rightarrow> hist \<Rightarrow> ClusterPolicy outcome \<Rightarrow> hist \<Rightarrow> bool" where
  "transition_outcome p pkg h res h' \<longleftrightarrow>
     (res = Ret p \<and> files h' = files h \<and> statuses h' = statuses h) \<or>
     (\<exists>t ok f. res = Ret (append_transition t p) \<and> tp_PackageSelectors t = [pkg] \<and>
        tp_PackageTransitionCondition t = PackageTransitionConditionCompleted \<and>
        statuses h' = UpdatedPolicyStatus (append_transition t p) ok # statuses h \<and>
        succeeded f \<and> files h' = f # files h) \<or>
     (\<exists>t ok. res = Ret (append_transition t p) \<and> tp_PackageSelectors t = [pkg] \<and>
        tp_PackageTransitionCondition t = PackageTransitionConditionFailed \<and>
        statuses h' = UpdatedPolicyStatus (append_transition t p) ok # statuses h \<and>
        (files h' = files h \<or> (\<exists>f. \<not> succeeded f \<and> files h' = f # files h))) \<or>
     (\<exists>f. res = Panic \<and> statuses h' = statuses h \<and> succeeded f \<and> files h' = f # files h)"

lemma transition_outcome_cong:
  "files h1 = files h \<Longrightarrow> statuses h1 = statuses h \<Longrightarrow>
     transition_outcome p pkg h1 res h' = transition_outcome p pkg h res h'"
  by (simp add: transition_outcome_def)

lemma finish_nil_client: "finish_transition en None tc msg pkg p h = (Panic, h)"
  by (simp add: finish_transition_def)

lemma finish_some_client:
  obtains t ok h1 where "finish_transition en (Some c) tc msg pkg p h =
      (Ret (append_transition t p), UpdatedPolicyStatus (append_transition t p) ok # Read ''clock'' '''' '''' # h1)"
    "tp_PackageSelectors t = [pkg]" "tp_PackageTransitionCondition t = PackageTransitionConditionCompleted"
    "files h1 = files h" "statuses h1 = statuses h" "tp_LastTransitionTime t = o_Now (os en) h1"
proof -
  obtain r h1 where tr: "TriggerArgoCDSyncWithKubeClient en (Some c) (tc @ ''-dr'') ''argocd'' h = (Ret r, h1)"
    using TriggerArgoCDSync_Some_returns by blast
  have "emits (\<lambda>e. \<not> is_status_update e) (TriggerArgoCDSyncWithKubeClient en (Some c) (tc @ ''-dr'') ''argocd'')"
    by (rule TriggerArgoCDSync_emits) simp_all
  then obtain es where "h1 = es @ h" "\<forall>e \<in> set es. \<not> is_status_update e" using tr by (rule emitsD)
  then have st: "statuses h1 = statuses h" by (simp add: statuses_def)
  let ?msg = "case r of None \<Rightarrow> msg | Some _ \<Rightarrow> msg @ ''; ArgoCD sync failed''"
  obtain ok where up: "UpdateClusterPolicyStatus en pkg (Some (Errorf ?msg)) PackageTransitionConditionCompleted p h1 =
     (append_transition (transition_entry en pkg (Some (Errorf ?msg)) PackageTransitionConditionCompleted h1) p,
      UpdatedPolicyStatus (append_transition (transition_entry en pkg (Some (Errorf ?msg)) PackageTransitionConditionCompleted h1) p) ok #
        Read ''clock'' '''' '''' # h1)"
    using UpdateClusterPolicyStatus_eq by blast
  have "finish_transition en (Some c) tc msg pkg p h =
      (case UpdateClusterPolicyStatus en pkg (Some (Errorf ?msg)) PackageTransitionConditionCompleted p h1 of
         (p, h) \<Rightarrow> (Ret p, h))"
    using tr by (simp add: finish_transition_def Let_def)
  with up st TriggerArgoCDSync_files [OF tr] that show thesis by simp
qed

lemma fail_transition_cases:
  obtains t ok where "fail_transition en err pkg p h =
      (Ret (append_transition t p), UpdatedPolicyStatus (append_transition t p) ok # Read ''clock'' '''' '''' # h)"
    "tp_PackageSelectors t = [pkg]" "tp_PackageTransitionCondition t = PackageTransitionConditionFailed"
proof -
  obtain ok where "UpdateClusterPolicyStatus en pkg (Some err) PackageTransitionConditionFailed p h =
     (append_transition (transition_entry en pkg (Some err) PackageTransitionConditionFailed h) p,
      UpdatedPolicyStatus (append_transition (transition_entry en pkg (Some err) PackageTransitionConditionFailed h) p) ok #
        Read ''clock'' '''' '''' # h)"
    using UpdateClusterPolicyStatus_eq by blast
  with that show thesis by (simp add: fail_transition_def)
qed

text \<open>The push of the application followed by the failure or the completion of the transition.\<close>

lemma push_outcome:
  assumes push: "CreateAndPushArgoApp en gc u r f p pkg ds h = (ar, h1)"
    and run: "(res, h') = (case ar of Inl e \<Rightarrow> fail_transition en (g e) pkg p h1 | Inr _ \<Rightarrow> finish_transition en k tc msg pkg p h1)"
  shows "transition_outcome p pkg h res h' \<and> (res = Panic \<longrightarrow> k = None)"
  using push
proof (cases rule: CreateAndPushArgoApp_cases)
  case (marshal err)
  obtain t ok where "fail_transition en (g (wrapf ''failed to marshal Argo application YAML'' err)) pkg p h1 =
      (Ret (append_transition t p), UpdatedPolicyStatus (append_transition t p) ok # Read ''clock'' '''' '''' # h1)"
    "tp_PackageSelectors t = [pkg]" "tp_PackageTransitionCondition t = PackageTransitionConditionFailed"
    by (rule fail_transition_cases)
  with marshal run show ?thesis by (auto simp: transition_outcome_def)
next
  case (rejected data err)
  obtain t ok where "fail_transition en (g (wrapf ''failed to create file in Gitea'' err)) pkg p h1 =
      (Ret (append_transition t p), UpdatedPolicyStatus (append_transition t p) ok # Read ''clock'' '''' '''' # h1)"
    "tp_PackageSelectors t = [pkg]" "tp_PackageTransitionCondition t = PackageTransitionConditionFailed"
    by (rule fail_transition_cases)
  moreover have "\<not> succeeded (argo_file en u r f p pkg data h False)" "\<not> is_status_update (argo_file en u r f p pkg data h False)"
    by (simp_all add: argo_file_def)
  ultimately show ?thesis using rejected run by (auto simp: transition_outcome_def)
next
  case (pushed data)
  have f: "succeeded (argo_file en u r f p pkg data h True)" "\<not> is_status_update (argo_file en u r f p pkg data h True)"
    by (simp_all add: argo_file_def)
  show ?thesis
  proof (cases k)
    case None
    with pushed run f show ?thesis by (auto simp: transition_outcome_def finish_nil_client)
  next
    case (Some c)
    obtain t ok h2 where "finish_transition en (Some c) tc msg pkg p h1 =
        (Ret (append_transition t p), UpdatedPolicyStatus (append_transition t p) ok # Read ''clock'' '''' '''' # h2)"
      "tp_PackageSelectors t = [pkg]" "tp_PackageTransitionCondition t = PackageTransitionConditionCompleted"
      "files h2 = files h1" "statuses h2 = statuses h1" by (rule finish_some_client)
    with Some pushed run f show ?thesis by (auto simp: transition_outcome_def)
  qed
qed

lemma transition_stateless_outcome:
  assumes "transition_stateless en gc u r f tc k pkg p h = (res, h')"
  shows "transition_outcome p pkg h res h' \<and> (res = Panic \<longrightarrow> k = None)"
proof -
  obtain ar h1 where push: "CreateAndPushArgoApp en gc u r f p pkg [] h = (ar, h1)" by fastforce
  show ?thesis
    by (rule push_outcome [OF push, where g = "\<lambda>e. e" and tc = tc and msg = "''Transitioned stateless package successfully''"])
      (use assms push in \<open>simp add: transition_stateless_def split: sum.splits\<close>)
qed

lemma prepare_files:
  assumes "prepare_live_state en repo name backups h = (x, h')"
  shows "files h' = files h" and "statuses h' = statuses h"
proof -
  have "emits (\<lambda>e. \<not> is_created_file e \<and> \<not> is_status_update e) (prepare_live_state en repo name backups)"
    by (rule prepare_emits) simp_all
  then obtain es where "h' = es @ h" "\<forall>e \<in> set es. \<not> is_created_file e \<and> \<not> is_status_update e"
    using assms by (rule emitsD)
  then show "files h' = files h" and "statuses h' = statuses h" by (simp_all add: files_def statuses_def)
qed

lemma transition_stateful_outcome:
  assumes "transition_stateful en gc u r f tc k pod pkg p h = (res, h')"
  shows "transition_outcome p pkg h res h' \<and> (res = Panic \<longrightarrow> k = None)"
proof -
  obtain pr h1 where pr: "prepare_live_state en (selector_repo p) (checkpoint_name p pod pkg) (ps_BackupInformation pkg) h = (pr, h1)"
    by fastforce
  note same = prepare_files [OF pr]
  have "pr \<noteq> Panic" using prepare_never_panics pr by (metis fst_conv)
  then consider "pr = Ret None" | ck where "pr = Ret (Some ck)" by (metis not_None_eq outcome.exhaust)
  then show ?thesis
  proof cases
    case 1
    with assms pr same show ?thesis by (auto simp: transition_stateful_def transition_outcome_def)
  next
    case (2 ck)
    obtain ar h2 where push: "CreateAndPushArgoApp en gc u r f p pkg (live_ignore_differences ck) h1 = (ar, h2)" by fastforce
    let ?g = "wrapf ''stateful workload final restore file - failed to create argocd application restore file in gitea''"
    have "transition_outcome p pkg h1 res h' \<and> (res = Panic \<longrightarrow> k = None)"
      by (rule push_outcome [OF push, where g = ?g and tc = tc and msg = "''Transitioned stateful package successfully''"])
        (use assms push 2 pr in \<open>simp add: transition_stateful_def CreateAndPushLiveStateBackupRestore_def split: sum.splits\<close>)
    with transition_outcome_cong [OF same] show ?thesis by simp
  qed
qed

lemma locate_target_emits [emits_intros]:
  assumes "\<And>k a b. P (Read k a b)" and "\<And>c. P (StartedGitea c)"
  shows "emits P (locate_target en p)"
  unfolding locate_target_def by (auto intro!: emits_intros assms)

lemma locate_target_returns: "fst (locate_target en p h) \<noteq> Panic"
proof -
  have np: "\<exists>x y. GetWorkloadClusterClient en n g = (Ret x, y)" for n g
    using GetWorkloadClusterClient_result [of en n g] by auto
  have "\<forall>y. GetWorkloadClusterClient en n g \<noteq> (Panic, y)" for n g
    using np [of n g] by auto
  then show ?thesis
    unfolding locate_target_def
    by (auto split: prod.splits option.splits sum.splits outcome.splits if_splits)
qed

lemma locate_target_same:
  assumes "locate_target en p h = (x, h')"
  shows "files h' = files h" "statuses h' = statuses h" "writes h' = writes h"
proof -
  have "emits (\<lambda>e. \<not> is_created_file e \<and> \<not> is_status_update e \<and> \<not> is_write e) (locate_target en p)"
    by (rule locate_target_emits) simp_all
  then obtain es where "h' = es @ h" "\<forall>e \<in> set es. \<not> is_created_file e \<and> \<not> is_status_update e \<and> \<not> is_write e"
    using assms by (rule emitsD)
  then show "files h' = files h" "statuses h' = statuses h" "writes h' = writes h"
    by (simp_all add: files_def statuses_def writes_def)
qed

text \<open>The client lookup for a cluster answered with that client (nil or not) and no error.\<close>

definition client_answer :: "env \<Rightarrow> string \<Rightarrow> kclient option \<Rightarrow> bool" where
  "client_answer en tc k \<longleftrightarrow> (\<exists>rq h1 h2. GetWorkloadClusterClient en tc h1 = (Ret (rq, k, None), h2))"

lemma client_answerI: "GetWorkloadClusterClient en tc h1 = (Ret (rq, k, None), h2) \<Longrightarrow> client_answer en tc k"
  unfolding client_answer_def by blast

text \<open>The target is the one the policy prefers, and its client was asked for just before.\<close>

lemma locate_target_Some:
  assumes "locate_target en p h = (Ret (Some t), h')"
  shows "DetermineTargetRepo p = (tt_targetRepoName t, tt_targetClusterName t, True) \<and>
    client_answer en (tt_targetClusterName t) (tt_targetClusterClient t)"
  using assms
  by (auto simp: locate_target_def intro: client_answerI split: prod.splits option.splits sum.splits outcome.splits if_splits)

lemma Transition_cases:
  assumes "TransitionOnMissedNodeHealth en pod pkg n p h = (res, h')"
  obtains (idle) "res = Ret p" "files h' = files h" "statuses h' = statuses h" "writes h' = writes h"
  | (stateful) t h1 where "locate_target en p h = (Ret (Some t), h1)" "ps_PackageType pkg = PackageTypeStateful"
      "transition_stateful en (tt_gitea t) (tt_userName t) (tt_drRepo t) (tt_targetRepoName t)
         (tt_targetClusterName t) (tt_targetClusterClient t) pod pkg p h1 = (res, h')"
  | (stateless) t h1 where "locate_target en p h = (Ret (Some t), h1)" "ps_PackageType pkg = PackageTypeStateless"
      "transition_stateless en (tt_gitea t) (tt_userName t) (tt_drRepo t) (tt_targetRepoName t)
         (tt_targetClusterName t) (tt_targetClusterClient t) pkg p h1 = (res, h')"
proof -
  obtain r h1 where l: "locate_target en p h = (r, h1)" by fastforce
  note same = locate_target_same [OF l]
  have "r \<noteq> Panic" using locate_target_returns l by (metis fst_conv)
  then consider "r = Ret None" | t where "r = Ret (Some t)" by (metis not_None_eq outcome.exhaust)
  then show thesis
  proof cases
    case 1
    with assms l same idle show thesis by (simp add: TransitionOnMissedNodeHealth_def)
  next
    case (2 t)
    with assms l same idle stateful stateless show thesis
      by (cases "ps_PackageType pkg") (simp_all add: TransitionOnMissedNodeHealth_def)
  qed
qed

lemma Transition_outcome:
  assumes "TransitionOnMissedNodeHealth en pod pkg n p h = (res, h')"
  shows "transition_outcome p pkg h res h' \<and>
    (res = Panic \<longrightarrow> (\<exists>tr tc. DetermineTargetRepo p = (tr, tc, True) \<and> client_answer en tc None))"
  using assms
proof (cases rule: Transition_cases)
  case idle
  then show ?thesis by (simp add: transition_outcome_def)
next
  case (stateful t h1)
  with transition_stateful_outcome [OF stateful(3)] transition_outcome_cong [OF locate_target_same(1,2) [OF stateful(1)]]
    locate_target_Some [OF stateful(1)] show ?thesis by auto
next
  case (stateless t h1)
  with transition_stateless_outcome [OF stateless(3)] transition_outcome_cong [OF locate_target_same(1,2) [OF stateless(1)]]
    locate_target_Some [OF stateless(1)] show ?thesis by auto
qed

lemma latest_match_append:
  assumes "mentions name t" and "\<forall>u \<in> set ts. mentions name u \<longrightarrow> tp_LastTransitionTime u < tp_LastTransitionTime t"
  shows "latest_match name (ts @ [t]) = Some t"
proof -
  have "is_first_best trans_later (filter (mentions name) (ts @ [t])) t"
    by (rule is_first_bestI [of _ "filter (mentions name) ts" _ "[]"])
      (use assms in \<open>auto simp: trans_later_def After_def\<close>)
  then show ?thesis by (simp only: latest_match_first_best trans_pref.scan_iff)
qed

lemma stateful_push_history:
  assumes "transition_stateful en gc u r f tc k pod pkg p h = (res, h')" and "files h' \<noteq> files h"
  obtains ck dir es1 es2 ev ms where "h' = es1 @ ev # es2 @ pushed_edit ck dir @ ms"
    "is_created_file ev" "files h' = ev # files h"
    "matches_edited en (selector_repo p) ck dir"
proof -
  obtain pr h1 where pr: "prepare_live_state en (selector_repo p) (checkpoint_name p pod pkg) (ps_BackupInformation pkg) h = (pr, h1)"
    by fastforce
  note same = prepare_files [OF pr]
  have "pr \<noteq> Panic" using prepare_never_panics pr by (metis fst_conv)
  with assms pr same obtain ck where ck: "pr = Ret (Some ck)"
    by (cases pr) (auto simp: transition_stateful_def split: option.splits)
  with pr have "prepare_live_state en (selector_repo p) (checkpoint_name p pod pkg) (ps_BackupInformation pkg) h = (Ret (Some ck), h1)"
    by simp
  then obtain dir es where h1: "h1 = pushed_edit ck dir @ es @ h" "matches_edited en (selector_repo p) ck dir"
    by (rule prepare_success)
  obtain ar h2 where push: "CreateAndPushArgoApp en gc u r f p pkg (live_ignore_differences ck) h1 = (ar, h2)" by fastforce
  let ?g = "wrapf ''stateful workload final restore file - failed to create argocd application restore file in gitea''"
  have rest: "(res, h') = (case ar of Inl e \<Rightarrow> fail_transition en (?g e) pkg p h2
      | Inr _ \<Rightarrow> finish_transition en k tc ''Transitioned stateful package successfully'' pkg p h2)"
    using assms(1) push ck pr
    by (simp add: transition_stateful_def CreateAndPushLiveStateBackupRestore_def split: sum.splits)
  have tail: "\<exists>es1. h' = es1 @ h2 \<and> files es1 = []"
  proof -
    have em: "emits (\<lambda>e. \<not> is_created_file e) (\<lambda>h. case ar of Inl e \<Rightarrow> fail_transition en (?g e) pkg p h
      | Inr _ \<Rightarrow> finish_transition en k tc ''Transitioned stateful package successfully'' pkg p h)"
      unfolding fail_transition_def finish_transition_def UpdateClusterPolicyStatus_def Let_def
      by (auto intro!: emits_intros)
    from em rest [symmetric] obtain es1 where "h' = es1 @ h2" "\<forall>e \<in> set es1. \<not> is_created_file e" by (rule emitsD)
    then show ?thesis by (auto simp: files_def)
  qed
  then obtain es1 where es1: "h' = es1 @ h2" "files es1 = []" by blast
  from push obtain ev where "h2 = ev # Read ''clock'' '''' '''' # h1 \<and> is_created_file ev \<or> h2 = h1"
    by (cases rule: CreateAndPushArgoApp_cases) auto
  with es1 assms(2) same have ev: "h2 = ev # Read ''clock'' '''' '''' # h1" "is_created_file ev" by auto
  have "h' = es1 @ ev # [Read ''clock'' '''' ''''] @ pushed_edit ck dir @ es @ h" using es1 ev h1(1) by simp
  moreover have "files h' = ev # files h" using es1 ev same by simp
  ultimately show thesis using that ev(2) h1(2) by blast
qed

lemma trigger_transitioned:
  assumes "IsPackageTransitioned p pkg"
  shows "\<exists>err h'. TriggerTransitionOnMissedNodeHealth en pkg n p h = (Ret (p, err), h') \<and> writes h' = writes h"
proof (cases "m_ListCheckpoints (mgmt en) h")
  case (Inl e)
  then show ?thesis by (simp add: TriggerTransitionOnMissedNodeHealth_def api_simps)
next
  case (Inr cks)
  let ?h = "Read ''CheckpointList'' '''' '''' # h"
  have idle: "pool_run 2 pick (transition_wanted pkg) (transition_key pkg) (transition_job en pkg) 0 cks [] [] p ?h = (Ret p, ?h)" for pick
    by (rule pool_run_nothing) (simp_all add: transition_wanted_def assms)
  obtain r h1 where m: "create_missing_checkpoints en pkg p (trigger_accept pkg) (trigger_key pkg) n ?h = (r, h1)" by fastforce
  from create_missing_writes [OF m] assms have "writes h1 = writes h" "r \<noteq> Panic" by auto
  then show ?thesis
    using Inr idle m
    by (cases r) (auto simp: TriggerTransitionOnMissedNodeHealth_def api_simps)
qed

section \<open>Sample runs\<close>

definition dr_env :: "ConditionStatus \<Rightarrow> env" where
  "dr_env st = \<lparr>
     mgmt = down_mgmt\<lparr>m_ListClusters := (\<lambda>_. Inr [dr_cluster st]), m_GetCluster := (\<lambda>_ _ _. Inr (dr_cluster st)),
       m_GetSecret := (\<lambda>_ _ _. Inr dr_secret), m_GetCheckpoint := (\<lambda>_ _ _. Inr sample_checkpoint),
       m_ListCheckpoints := (\<lambda>_. Inr [sample_checkpoint]), m_UpdatePolicyStatus := (\<lambda>_ _. Inr ())\<rparr>,
     wl = down_wl\<lparr>w_NewClient := (\<lambda>_ _. Inr (WorkloadClient ''cluster2-aws''))\<rparr>,
     gt = down_gt\<lparr>g_GetMyUserInfo := (\<lambda>_ _. Inr ''nephio''),
       g_ListMyRepos := (\<lambda>_ _. Inr [\<lparr>repo_Name = ''dr'', repo_CloneURL = ''http://git/dr.git''\<rparr>]),
       g_CreateFile := (\<lambda>_ _ _ _ _ _ _. Inr ())\<rparr>,
     os = down_os\<lparr>o_MkdirTemp := (\<lambda>_. Inr ''/tmp/d''), o_GitClone := (\<lambda>_ _ _ _. Inr ()),
       o_WalkDir := (\<lambda>_ _. ([''a.yaml''], None)), o_ReadFile := (\<lambda>_ _. Inr ''data''), o_WriteFile := (\<lambda>_ _ _. Inr ()),
       o_GitOpen := (\<lambda>_ _. Inr ()), o_GitWorktree := (\<lambda>_ _. Inr ()), o_GitAddAll := (\<lambda>_ _. Inr ()),
       o_GitCommit := (\<lambda>_ _ _ _. Inr ()), o_GitPush := (\<lambda>_ _ _ _ _. Inr ())\<rparr>,
     yaml = down_yaml\<lparr>y_DecodeHeads := (\<lambda>_. ([video_head], None)), y_MarshalApp := (\<lambda>_. Inr ''app''),
       y_UnmarshalDoc := (\<lambda>_. Inr (video_manifest ''video:1'')), y_MarshalDoc := (\<lambda>_. Inr ''new'')\<rparr>, ext = down_ext\<rparr>"

text \<open>A run of a stateful transition from end to end, with the target cluster ready or not.\<close>

abbreviation dr_history :: hist where
  "dr_history \<equiv> [StartedGitea (Some sample_gitea)]"

lemma dr_run:
  obtains p' h' where "TransitionOnMissedNodeHealth (dr_env ConditionTrue) ''video-0'' video_pkg ''cluster1-azure''
     sample_policy dr_history = (Ret p', h')" "length (files h') = 1" "transitioned p' \<noteq> []"
proof -
  have "(case TransitionOnMissedNodeHealth (dr_env ConditionTrue) ''video-0'' video_pkg ''cluster1-azure'' sample_policy
     dr_history of (Ret p', h') \<Rightarrow> length (files h') = 1 \<and> length (transitioned p') = 1 | _ \<Rightarrow> False)"
    by code_simp
  with that show thesis by (fastforce split: prod.splits outcome.splits)
qed

lemma dr_panic:
  obtains h' where "TransitionOnMissedNodeHealth (dr_env ConditionFalse) ''video-0'' video_pkg ''cluster1-azure''
     sample_policy dr_history = (Panic, h')" "length (files h') = 1" "statuses h' = []"
proof -
  have "(case TransitionOnMissedNodeHealth (dr_env ConditionFalse) ''video-0'' video_pkg ''cluster1-azure'' sample_policy
     dr_history of (Panic, h') \<Rightarrow> length (files h') = 1 \<and> length (statuses h') = 0 | _ \<Rightarrow> False)"
    by code_simp
  with that show thesis by (fastforce split: prod.splits outcome.splits)
qed

section \<open>Properties\<close>



text \<open>
  The nil client is reachable: when the target cluster exists but is not ready, a stateful
  transition pushes the edited manifests and the Argo CD application and then dies on the nil
  client, before anything is recorded in the policy's status.
\<close>

theorem transition_dies_when_target_not_ready:
  "\<exists>h'. TransitionOnMissedNodeHealth (dr_env ConditionFalse) ''video-0'' video_pkg ''cluster1-azure''
     sample_policy dr_history = (Panic, h') \<and> length (files h') = 1 \<and> statuses h' = []"
  by (rule dr_panic) blast



text \<open>
  C25. A package that the policy records as transitioned is not transitioned again, and no
  checkpoint is created for it: the trigger writes nothing and leaves the policy as it was.
\<close>

theorem transitioned_package_is_left_alone:
  assumes "IsPackageTransitioned p pkg"
  shows "\<exists>err h'. TriggerTransitionOnMissedNodeHealth en pkg n p h = (Ret (p, err), h') \<and> writes h' = writes h"
  using assms by (rule trigger_transitioned)

definition done_policy :: ClusterPolicy where
  "done_policy = append_transition
     \<lparr>tp_PackageSelectors = [video_pkg], tp_LastTransitionTime = 9,
      tp_PackageTransitionCondition = PackageTransitionConditionCompleted, tp_PackageTransitionMessage = ''''\<rparr>
     sample_policy"

theorem transitioned_package_is_left_alone_witness:
  "\<exists>err h'. TriggerTransitionOnMissedNodeHealth down_env video_pkg ''cluster1-azure'' done_policy [] =
     (Ret (done_policy, err), h') \<and> writes h' = []"
proof -
  have "IsPackageTransitioned done_policy video_pkg"
    by (simp add: done_policy_def IsPackageTransitioned_def latest_match_def latest_step_def append_transition_def sample_defs)
  from transitioned_package_is_left_alone [OF this, of down_env "''cluster1-azure''" "[]"] show ?thesis by simp
qed



text \<open>
  A completed transition is recorded: if the clock is later than every entry that the
  status already has for the package, the package counts as transitioned afterwards.
\<close>

theorem completed_transition_is_recorded:
  assumes "tp_PackageSelectors t = [pkg]" and "tp_PackageTransitionCondition t = PackageTransitionConditionCompleted"
    and "\<forall>u \<in> set (transitioned p). mentions (ps_Name pkg) u \<longrightarrow> tp_LastTransitionTime u < tp_LastTransitionTime t"
  shows "IsPackageTransitioned (append_transition t p) pkg"
  using assms latest_match_append [of "ps_Name pkg" t "transitioned p"]
  by (auto simp: IsPackageTransitioned_iff mentions_def)

theorem completed_transition_is_recorded_witness:
  "IsPackageTransitioned (append_transition
     \<lparr>tp_PackageSelectors = [video_pkg], tp_LastTransitionTime = 10,
      tp_PackageTransitionCondition = PackageTransitionConditionCompleted, tp_PackageTransitionMessage = ''''\<rparr>
     done_policy) video_pkg"
  by (rule completed_transition_is_recorded)
    (auto simp: done_policy_def append_transition_def sample_policy_def)

end
