(* ===== verification/Migration.thy ===== *)
theory Migration
  imports Node_Transition
begin

text \<open>
  \<^verbatim>\<open>src/internal/controller/clusterpolicy_controller.go\<close>, the entry point of the monitors:
  \<open>triggerMigrationNodeCP\<close> finds the policy of a cluster and transitions its live-state
  packages one after the other; \<open>ReconcileClusterPoliciesForNode\<close> is the heartbeat server's
  call of it.
\<close>

section \<open>Definitions\<close>

fun migrate_packages ::
  "env \<Rightarrow> string \<Rightarrow> PackageSelector list \<Rightarrow> ClusterPolicy \<Rightarrow> hist \<Rightarrow> ClusterPolicy outcome \<times> hist" where
  "migrate_packages en clusterName [] clusterPolicy h = (Ret clusterPolicy, h)"
| "migrate_packages en clusterName (pkg # pkgs) clusterPolicy h =
     (if \<not> ps_LiveStatePackage pkg then migrate_packages en clusterName pkgs clusterPolicy h
      else case TriggerTransitionOnMissedNodeHealth en pkg clusterName clusterPolicy h of
             (Panic, h) \<Rightarrow> (Panic, h)
           | (Ret (clusterPolicy, err), h) \<Rightarrow> migrate_packages en clusterName pkgs clusterPolicy h)"

definition triggerMigrationNodeCP :: "env \<Rightarrow> string \<Rightarrow> hist \<Rightarrow> error option outcome \<times> hist" where
  "triggerMigrationNodeCP en clusterName h =
     (case rd ''ClusterPolicyList'' '''' '''' (m_ListPolicies (mgmt en)) h of
        (Inl err, h) \<Rightarrow> (Ret (Some err), h)
      | (Inr policies, h) \<Rightarrow>
          (case find (\<lambda>cp. selector_name cp = clusterName) policies of
             None \<Rightarrow> (Ret (Some (Errorf (''no ClusterPolicy found for cluster '' @ clusterName))), h)
           | Some clusterPolicy \<Rightarrow>
               (if cpol_Name clusterPolicy = ''''
                then (Ret (Some (Errorf (''no ClusterPolicy found for cluster '' @ clusterName))), h)
                else case migrate_packages en clusterName (cps_PackageSelectors (cpol_Spec clusterPolicy)) clusterPolicy h of
                       (Panic, h) \<Rightarrow> (Panic, h)
                     | (Ret _, h) \<Rightarrow> (Ret None, h))))"

definition ReconcileClusterPoliciesForNode :: "env \<Rightarrow> string \<Rightarrow> string \<Rightarrow> hist \<Rightarrow> error option outcome \<times> hist" where
  "ReconcileClusterPoliciesForNode en nodeName clusterName h = triggerMigrationNodeCP en clusterName h"

section \<open>What a migration touches\<close>

text \<open>
  The events of a migration: it reads, makes the Gitea client, edits and pushes the manifests
  of the source repository, creates files in the disaster-recovery repository, synchronises
  applications, creates checkpoints and writes the status of the policy.
\<close>

fun migration_event :: "event \<Rightarrow> bool" where
  "migration_event (Read _ _ _) = True"
| "migration_event (StartedGitea _) = True"
| "migration_event (CreatedCheckpoint _ _) = True"
| "migration_event (UpdatedPolicyStatus _ _) = True"
| "migration_event (UpdatedApplication _ _ _) = True"
| "migration_event (CreatedFile _ _ _ _ _ _) = True"
| "migration_event (WroteFile _ _ _) = True"
| "migration_event (Cloned _ _ _ _) = True"
| "migration_event (Committed _ _ _) = True"
| "migration_event (Pushed _ _ _) = True"
| "migration_event _ = False"

lemma transition_emits: "emits migration_event (TransitionOnMissedNodeHealth en podName pkg n p)"
  unfolding TransitionOnMissedNodeHealth_def transition_stateful_def transition_stateless_def fail_transition_def
    finish_transition_def UpdateClusterPolicyStatus_def CreateAndPushLiveStateBackupRestore_def Let_def
  by (auto intro!: emits_intros)

interpretation transition_pool: pool_job "transition_job en pkg" "\<lambda>_. True" migration_event
proof unfold_locales
  fix cp p h
  have "emits migration_event (transition_job en pkg cp p)"
    unfolding transition_job_def by (auto intro!: emits_intros transition_emits)
  then show "\<exists>es. snd (transition_job en pkg cp p h) = es @ h \<and> (\<forall>e \<in> set es. migration_event e)"
    by (simp add: emits_def)
qed simp

lemma transition_pool_emits:
  "emits migration_event (\<lambda>h. pool_run 2 (pick h) wanted key (transition_job en pkg) n cks [] [] p h)"
  unfolding emits_def by (intro allI transition_pool.pool_events) simp_all

lemma trigger_emits: "emits migration_event (TriggerTransitionOnMissedNodeHealth en pkg n p)"
  unfolding TriggerTransitionOnMissedNodeHealth_def by (auto intro!: emits_intros transition_pool_emits)

lemma migrate_packages_emits: "emits migration_event (migrate_packages en n pkgs p)"
proof (induction pkgs arbitrary: p)
  case (Cons pkg pkgs)
  have "emits migration_event (\<lambda>h. migrate_packages en n (pkg # pkgs) p h)"
    unfolding migrate_packages.simps by (auto intro!: emits_intros trigger_emits Cons.IH)
  then show ?case by simp
qed (simp add: emits_def)

lemma ReconcileClusterPoliciesForNode_emits: "emits migration_event (ReconcileClusterPoliciesForNode en node n)"
  unfolding ReconcileClusterPoliciesForNode_def triggerMigrationNodeCP_def
  by (auto intro!: emits_intros migrate_packages_emits)

section \<open>Lemmas\<close>

lemma migrate_transitioned:
  assumes "\<forall>pkg \<in> set pkgs. ps_LiveStatePackage pkg \<longrightarrow> IsPackageTransitioned p pkg"
  shows "\<exists>h'. migrate_packages en n pkgs p h = (Ret p, h') \<and> writes h' = writes h"
  using assms
proof (induction pkgs arbitrary: h)
  case (Cons pkg pkgs)
  show ?case
  proof (cases "ps_LiveStatePackage pkg")
    case True
    with Cons.prems have "IsPackageTransitioned p pkg" by simp
    from trigger_transitioned [OF this, of en n h] obtain err h1 where
      t: "TriggerTransitionOnMissedNodeHealth en pkg n p h = (Ret (p, err), h1)" "writes h1 = writes h" by blast
    from Cons.IH [of h1] Cons.prems obtain h' where "migrate_packages en n pkgs p h1 = (Ret p, h')" "writes h' = writes h1"
      by auto
    with t True show ?thesis by simp
  qed (use Cons in simp)
qed simp

section \<open>Properties\<close>

text \<open>
  A migration only concerns the first policy that selects the cluster. If there is none, or
  if all live-state packages of that policy are recorded as transitioned, the migration
  writes nothing, and reports an error only in the first case.
\<close>

theorem migration_of_transitioned_cluster_is_idle:
  assumes "m_ListPolicies (mgmt en) h = Inr policies"
    and "case find (\<lambda>cp. selector_name cp = n) policies of
           None \<Rightarrow> True
         | Some p \<Rightarrow> \<forall>pkg \<in> set (cps_PackageSelectors (cpol_Spec p)).
                      ps_LiveStatePackage pkg \<longrightarrow> IsPackageTransitioned p pkg"
  shows "\<exists>err h'. triggerMigrationNodeCP en n h = (Ret err, h') \<and> writes h' = writes h \<and>
    (err = None \<longleftrightarrow> (\<exists>p. find (\<lambda>cp. selector_name cp = n) policies = Some p \<and> cpol_Name p \<noteq> []))"
proof (cases "find (\<lambda>cp. selector_name cp = n) policies")
  case None
  with assms show ?thesis by (simp add: triggerMigrationNodeCP_def api_simps)
next
  case (Some p)
  with assms(2) have "\<forall>pkg \<in> set (cps_PackageSelectors (cpol_Spec p)). ps_LiveStatePackage pkg \<longrightarrow> IsPackageTransitioned p pkg"
    by simp
  from migrate_transitioned [OF this, of en n "Read ''ClusterPolicyList'' '''' '''' # h"] obtain h' where
    "migrate_packages en n (cps_PackageSelectors (cpol_Spec p)) p (Read ''ClusterPolicyList'' '''' '''' # h) = (Ret p, h')"
    "writes h' = writes h" by auto
  with Some assms(1) show ?thesis by (simp add: triggerMigrationNodeCP_def api_simps)
qed

theorem migration_of_transitioned_cluster_is_idle_witness:
  "\<exists>h'. triggerMigrationNodeCP (down_env\<lparr>mgmt := down_mgmt\<lparr>m_ListPolicies := (\<lambda>_. Inr [done_policy])\<rparr>\<rparr>)
     ''cluster1-azure'' [] = (Ret None, h') \<and> writes h' = []"
proof -
  let ?en = "down_env\<lparr>mgmt := down_mgmt\<lparr>m_ListPolicies := (\<lambda>_. Inr [done_policy])\<rparr>\<rparr>"
  have f: "find (\<lambda>cp. selector_name cp = ''cluster1-azure'') [done_policy] = Some done_policy"
    by (simp add: done_policy_def append_transition_def sample_policy_def)
  have "case find (\<lambda>cp. selector_name cp = ''cluster1-azure'') [done_policy] of
           None \<Rightarrow> True
         | Some p \<Rightarrow> \<forall>pkg \<in> set (cps_PackageSelectors (cpol_Spec p)).
                      ps_LiveStatePackage pkg \<longrightarrow> IsPackageTransitioned p pkg"
    unfolding f
    by (simp add: done_policy_def IsPackageTransitioned_def latest_match_def latest_step_def append_transition_def sample_defs)
  from migration_of_transitioned_cluster_is_idle [of ?en "[]" "[done_policy]", OF _ this] f show ?thesis
    by (auto simp: done_policy_def append_transition_def sample_policy_def)
qed

end
