(* ===== verification/Detectors.thy ===== *)
theory Detectors
  imports Samples
begin

text \<open>
  The two health probes of a workload cluster: the control plane
  (\<^verbatim>\<open>src/reconcilers/controlplane/control-plane.go\<close>) and the pod network
  (\<^verbatim>\<open>src/reconcilers/cnifault/cni.go\<close>). A probe gives a status and an error.
\<close>

section \<open>Definitions: control plane\<close>

datatype ControlPlaneStatus = ControlPlaneReady | ControlPlaneNotReady | ControlPlaneUnreachable | ControlPlaneError

definition unreachable_text :: "string \<Rightarrow> bool" where
  "unreachable_text msg \<longleftrightarrow>
     Contains msg ''connection refused'' \<or> Contains msg ''no such host'' \<or>
     Contains msg ''context deadline exceeded'' \<or>
     Contains msg ''server is currently unable to handle the request''"

definition isNetworkOrTimeoutError :: "env \<Rightarrow> error \<Rightarrow> bool" where
  "isNetworkOrTimeoutError en err \<longleftrightarrow>
     (if o_IsNetError (os en) err then True else unreachable_text (ToLower (err_text err)))"

fun node_not_ready :: "string \<Rightarrow> NodeCondition list \<Rightarrow> error option" where
  "node_not_ready name [] = None"
| "node_not_ready name (cond # conds) =
     (if cond_Type cond = NodeReady \<and> cond_Status cond \<noteq> ConditionTrue
      then Some (Errorf (''control-plane node '' @ name @ '' not ready ('' @ cond_Reason cond @ '': '' @
                         cond_Message cond @ '')''))
      else node_not_ready name conds)"

fun nodes_not_ready :: "Node list \<Rightarrow> error option" where
  "nodes_not_ready [] = None"
| "nodes_not_ready (node # nodes) =
     (case node_not_ready (node_Name node) (node_Conditions node) of
        Some err \<Rightarrow> Some err
      | None \<Rightarrow> nodes_not_ready nodes)"

fun pods_not_ready :: "Pod list \<Rightarrow> error option" where
  "pods_not_ready [] = None"
| "pods_not_ready (pod # pods) =
     (if \<exists>st \<in> set (pod_ReadyConditions pod). st \<noteq> ConditionTrue
      then Some (Errorf (''kube-apiserver pod '' @ pod_Name pod @ '' not ready''))
      else pods_not_ready pods)"

definition CheckControlPlaneStatus ::
  "env \<Rightarrow> kclient \<Rightarrow> hist \<Rightarrow> (ControlPlaneStatus \<times> error option) \<times> hist" where
  "CheckControlPlaneStatus en c h =
     (case rd ''NodeList'' '''' ''control-plane''
             (\<lambda>h. w_ListNodesWithLabel (wl en) h c ''node-role.kubernetes.io/control-plane'' '''') h of
        (Inl err, h) \<Rightarrow>
          (if isNetworkOrTimeoutError en err
           then ((ControlPlaneUnreachable, Some (wrapf ''API server unreachable'' err)), h)
           else ((ControlPlaneError, Some (wrapf ''failed to list control-plane nodes'' err)), h))
      | (Inr nodes, h) \<Rightarrow>
          (if nodes = [] then ((ControlPlaneError, Some (Errorf ''no control-plane nodes found'')), h)
           else case nodes_not_ready nodes of
                  Some err \<Rightarrow> ((ControlPlaneNotReady, Some err), h)
                | None \<Rightarrow>
                    (case rd ''PodList'' ''kube-system'' ''kube-apiserver''
                            (\<lambda>h. w_ListPodsWithLabel (wl en) h c ''kube-system'' ''component'' ''kube-apiserver'') h of
                       (Inl err, h) \<Rightarrow> ((ControlPlaneReady, None), h)
                     | (Inr pods, h) \<Rightarrow>
                         (case pods_not_ready pods of
                            Some err \<Rightarrow> ((ControlPlaneNotReady, Some err), h)
                          | None \<Rightarrow> ((ControlPlaneReady, None), h)))))"

section \<open>Definitions: pod network\<close>

datatype CNIStatus = CNIReady | CNINotReady | CNIUnreachable | CNIError

definition listAllPods :: "env \<Rightarrow> kclient \<Rightarrow> hist \<Rightarrow> Pod list result \<times> hist" where
  "listAllPods en c = rd ''PodList'' '''' '''' (\<lambda>h. w_ListPods (wl en) h c)"

definition listNetTestPods :: "env \<Rightarrow> kclient \<Rightarrow> hist \<Rightarrow> Pod list result \<times> hist" where
  "listNetTestPods en c h =
     (case rd ''PodList'' '''' '''' (\<lambda>h. w_ListPods (wl en) h c) h of
        (Inl err, h) \<Rightarrow> (Inl err, h)
      | (Inr pods, h) \<Rightarrow> (Inr (filter (\<lambda>p. HasPrefix (pod_Name p) ''net-test-'' \<and> pod_Phase p = PodRunning) pods), h))"

definition ping_succeeded :: "string \<Rightarrow> bool" where
  "ping_succeeded out \<longleftrightarrow>
     Contains out ''1 packets received'' \<or> Contains out ''1 received'' \<or> Contains out '', 0% packet loss''"

text \<open>The loop over the targets; the first container is read by index.\<close>

fun probe_targets :: "env \<Rightarrow> kclient \<Rightarrow> Pod \<Rightarrow> string list \<Rightarrow> hist \<Rightarrow> error option outcome \<times> hist" where
  "probe_targets en c pod [] h =
     (Ret (Some (Errorf (''all network probes failed for pod '' @ pod_Namespace pod @ ''/'' @ pod_Name pod))), h)"
| "probe_targets en c pod (target # targets) h =
     (case pod_Containers pod of
        [] \<Rightarrow> (Panic, h)
      | ctr # _ \<Rightarrow>
          (let cmd = [''ping'', ''-c'', ''1'', ''-W'', ''1'', target] in
           case rd ''executor'' (pod_Namespace pod) (pod_Name pod)
                  (\<lambda>h. w_NewExecutor (wl en) h c (pod_Namespace pod) (pod_Name pod) (ctr_Name ctr) cmd) h of
             (Inl err, h) \<Rightarrow> (Ret (Some (wrapf ''failed to create SPDY executor'' err)), h)
           | (Inr _, h) \<Rightarrow>
               (case rd ''exec'' (pod_Namespace pod) (pod_Name pod)
                       (\<lambda>h. w_Stream (wl en) h c (pod_Namespace pod) (pod_Name pod) (ctr_Name ctr) cmd) h of
                  ((deadline, r), h) \<Rightarrow>
                    (if deadline then probe_targets en c pod targets h
                     else case r of
                            Inl err \<Rightarrow> probe_targets en c pod targets h
                          | Inr out \<Rightarrow>
                              if ping_succeeded out then (Ret None, h)
                              else probe_targets en c pod targets h))))"

definition probePodNetwork :: "env \<Rightarrow> kclient \<Rightarrow> Pod \<Rightarrow> string list \<Rightarrow> hist \<Rightarrow> error option outcome \<times> hist" where
  "probePodNetwork en c pod targets h =
     (case rd ''clientset'' '''' '''' (\<lambda>h. w_NewForConfig (wl en) h c) h of
        (Inl err, h) \<Rightarrow> (Ret (Some (wrapf ''failed to create kubernetes clientset'' err)), h)
      | (Inr _, h) \<Rightarrow> probe_targets en c pod targets h)"

fun probe_sources ::
  "env \<Rightarrow> kclient \<Rightarrow> Pod list \<Rightarrow> Pod list \<Rightarrow> hist \<Rightarrow> (CNIStatus \<times> error option) outcome \<times> hist" where
  "probe_sources en c allPods [] h = (Ret (CNIReady, None), h)"
| "probe_sources en c allPods (src # srcs) h =
     (case find (\<lambda>p. pod_NodeName p \<noteq> pod_NodeName src) allPods of
        None \<Rightarrow> probe_sources en c allPods srcs h
      | Some targetPod \<Rightarrow>
          (case probePodNetwork en c src [pod_PodIP targetPod] h of
             (Panic, h) \<Rightarrow> (Panic, h)
           | (Ret (Some err), h) \<Rightarrow>
               (if Contains (err_text err) ''exec failed: context deadline exceeded'' then (Ret (CNIReady, None), h)
                else (Ret (CNINotReady,
                       Some (wrapf (''network probe failed from pod '' @ pod_Namespace src @ ''/'' @ pod_Name src @
                         '' to pod '' @ pod_Namespace targetPod @ ''/'' @ pod_Name targetPod) err)), h))
           | (Ret None, h) \<Rightarrow> probe_sources en c allPods srcs h))"

definition CheckCNIStatus :: "env \<Rightarrow> kclient \<Rightarrow> hist \<Rightarrow> (CNIStatus \<times> error option) outcome \<times> hist" where
  "CheckCNIStatus en c h =
     (case listNetTestPods en c h of
        (Inl err, h) \<Rightarrow> (Ret (CNINotReady, Some (Errorf ''no net-test pods found'')), h)
      | (Inr netTestPods, h) \<Rightarrow>
          (if netTestPods = [] then (Ret (CNINotReady, Some (Errorf ''no net-test pods found'')), h)
           else case listAllPods en c h of
                  (Inl err, h) \<Rightarrow> (Ret (CNINotReady, Some (Errorf ''no target pods found'')), h)
                | (Inr allPods, h) \<Rightarrow>
                    (if allPods = [] then (Ret (CNINotReady, Some (Errorf ''no target pods found'')), h)
                     else probe_sources en c allPods netTestPods h)))"

section \<open>Lemmas\<close>

definition node_ready :: "Node \<Rightarrow> bool" where
  "node_ready n \<longleftrightarrow> list_all (\<lambda>c. cond_Type c = NodeReady \<longrightarrow> cond_Status c = ConditionTrue) (node_Conditions n)"

definition pod_ready :: "Pod \<Rightarrow> bool" where
  "pod_ready p \<longleftrightarrow> list_all (\<lambda>st. st = ConditionTrue) (pod_ReadyConditions p)"

lemma node_not_ready_None:
  "node_not_ready name cs = None \<longleftrightarrow> list_all (\<lambda>c. cond_Type c = NodeReady \<longrightarrow> cond_Status c = ConditionTrue) cs"
  by (induction cs) auto

lemma nodes_not_ready_None: "nodes_not_ready ns = None \<longleftrightarrow> list_all node_ready ns"
proof (induction ns)
  case (Cons n ns)
  have "node_not_ready (node_Name n) (node_Conditions n) = None \<longleftrightarrow> node_ready n"
    unfolding node_ready_def by (rule node_not_ready_None)
  with Cons show ?case by (cases "node_not_ready (node_Name n) (node_Conditions n)") auto
qed simp

lemma pods_not_ready_None: "pods_not_ready ps = None \<longleftrightarrow> list_all pod_ready ps"
  by (induction ps) (auto simp: pod_ready_def list_all_iff)

lemma CheckControlPlaneStatus_emits [emits_intros]:
  assumes "\<And>k a b. P (Read k a b)"
  shows "emits P (CheckControlPlaneStatus en c)"
  unfolding CheckControlPlaneStatus_def by (auto intro!: emits_intros assms)

lemma probe_targets_emits [emits_intros]:
  assumes "\<And>k a b. P (Read k a b)"
  shows "emits P (probe_targets en c pod targets)"
proof (induction targets)
  case Nil
  then show ?case by (simp add: emits_def)
next
  case (Cons t ts)
  show ?case
  proof (cases "pod_Containers pod")
    case Nil
    then show ?thesis by (simp add: emits_def)
  next
    case c: (Cons ctr ctrs)
    let ?cmd = "[''ping'', ''-c'', ''1'', ''-W'', ''1'', t]"
    have "probe_targets en c pod (t # ts) = (\<lambda>h.
       case rd ''executor'' (pod_Namespace pod) (pod_Name pod)
                  (\<lambda>h. w_NewExecutor (wl en) h c (pod_Namespace pod) (pod_Name pod) (ctr_Name ctr) ?cmd) h of
             (Inl err, h) \<Rightarrow> (Ret (Some (wrapf ''failed to create SPDY executor'' err)), h)
           | (Inr _, h) \<Rightarrow>
               (case rd ''exec'' (pod_Namespace pod) (pod_Name pod)
                       (\<lambda>h. w_Stream (wl en) h c (pod_Namespace pod) (pod_Name pod) (ctr_Name ctr) ?cmd) h of
                  ((deadline, r), h) \<Rightarrow>
                    (if deadline then probe_targets en c pod ts h
                     else case r of
                            Inl err \<Rightarrow> probe_targets en c pod ts h
                          | Inr out \<Rightarrow>
                              if ping_succeeded out then (Ret None, h)
                              else probe_targets en c pod ts h)))"
      by (rule ext) (simp add: c Let_def)
    then show ?thesis using Cons.IH by (auto intro!: emits_intros assms)
  qed
qed

lemma probePodNetwork_emits [emits_intros]:
  assumes "\<And>k a b. P (Read k a b)"
  shows "emits P (probePodNetwork en c pod targets)"
  unfolding probePodNetwork_def by (auto intro!: emits_intros assms)

lemma probe_sources_emits [emits_intros]:
  assumes "\<And>k a b. P (Read k a b)"
  shows "emits P (probe_sources en c allPods srcs)"
proof (induction srcs)
  case Nil
  then show ?case by (simp add: emits_def)
next
  case (Cons src srcs)
  show ?case
  proof (cases "find (\<lambda>p. pod_NodeName p \<noteq> pod_NodeName src) allPods")
    case None
    then have "probe_sources en c allPods (src # srcs) = probe_sources en c allPods srcs" by (intro ext) simp
    with Cons show ?thesis by simp
  next
    case (Some t)
    have "probe_sources en c allPods (src # srcs) = (\<lambda>h.
       case probePodNetwork en c src [pod_PodIP t] h of
             (Panic, h) \<Rightarrow> (Panic, h)
           | (Ret (Some err), h) \<Rightarrow>
               (if Contains (err_text err) ''exec failed: context deadline exceeded'' then (Ret (CNIReady, None), h)
                else (Ret (CNINotReady,
                       Some (wrapf (''network probe failed from pod '' @ pod_Namespace src @ ''/'' @ pod_Name src @
                         '' to pod '' @ pod_Namespace t @ ''/'' @ pod_Name t) err)), h))
           | (Ret None, h) \<Rightarrow> probe_sources en c allPods srcs h)"
      by (rule ext) (simp add: Some)
    then show ?thesis using Cons.IH by (auto intro!: emits_intros assms)
  qed
qed

lemma CheckCNIStatus_emits [emits_intros]:
  assumes "\<And>k a b. P (Read k a b)"
  shows "emits P (CheckCNIStatus en c)"
  unfolding CheckCNIStatus_def listNetTestPods_def listAllPods_def by (auto intro!: emits_intros assms)

section \<open>Properties\<close>

text \<open>
  The control plane counts as ready exactly when its nodes could be listed, there is at
  least one, none of them has a Ready condition that is not True, and no API server pod has
  one either, a failed list of those pods counting as no objection. The error is nil exactly
  then, and the probe changes nothing.
\<close>

theorem CheckControlPlaneStatus_correct:
  "\<exists>st err h'. CheckControlPlaneStatus en c h = ((st, err), h') \<and> writes h' = writes h \<and>
     (st = ControlPlaneReady \<longleftrightarrow> err = None) \<and>
     (st = ControlPlaneReady \<longleftrightarrow>
        (\<exists>nodes. w_ListNodesWithLabel (wl en) h c ''node-role.kubernetes.io/control-plane'' '''' = Inr nodes \<and>
           nodes \<noteq> [] \<and> list_all node_ready nodes \<and>
           (case w_ListPodsWithLabel (wl en) (Read ''NodeList'' '''' ''control-plane'' # h) c ''kube-system''
                   ''component'' ''kube-apiserver'' of
              Inl _ \<Rightarrow> True
            | Inr pods \<Rightarrow> list_all pod_ready pods)))"
  unfolding CheckControlPlaneStatus_def
  by (auto simp: api_simps split: sum.splits option.splits simp flip: nodes_not_ready_None pods_not_ready_None)

text \<open>
  A probe that times out counts against the network. If the test pod and a pod on another
  node exist, the command can be prepared and its execution runs into its deadline, the
  status is NotReady: the branch that treats an execution timeout as healthy looks for a
  text that the probe does not produce.
\<close>

theorem exec_timeout_is_not_ready:
  assumes pods: "\<And>h. w_ListPods (wl en) h c = Inr pods"
    and src: "filter (\<lambda>p. HasPrefix (pod_Name p) ''net-test-'' \<and> pod_Phase p = PodRunning) pods = src # srcs"
    and other: "find (\<lambda>p. pod_NodeName p \<noteq> pod_NodeName src) pods = Some t"
    and ctr: "pod_Containers src \<noteq> []"
    and cs: "\<And>h. w_NewForConfig (wl en) h c = Inr ()"
    and ex: "\<And>h ns p ctr cmd. w_NewExecutor (wl en) h c ns p ctr cmd = Inr ()"
    and dl: "\<And>h ns p ctr cmd. fst (w_Stream (wl en) h c ns p ctr cmd)"
    and name: "\<not> Contains (''all network probes failed for pod '' @ pod_Namespace src @ ''/'' @ pod_Name src)
       ''exec failed: context deadline exceeded''"
  shows "\<exists>err h'. CheckCNIStatus en c h = (Ret (CNINotReady, Some err), h')"
proof -
  have all: "pods \<noteq> []" using src by auto
  obtain k ks where k: "pod_Containers src = k # ks" using ctr by (auto simp: neq_Nil_conv)
  have dl': "w_Stream (wl en) h c ns p ctr cmd = (True, snd (w_Stream (wl en) h c ns p ctr cmd))" for h ns p ctr cmd
    using dl [of h ns p ctr cmd] by (metis prod.collapse)
  have probe: "\<exists>h'. probePodNetwork en c src [ip] h =
      (Ret (Some (Errorf (''all network probes failed for pod '' @ pod_Namespace src @ ''/'' @ pod_Name src))), h')" for ip h
    by (simp add: probePodNetwork_def rd_def cs ex k Let_def)
      (subst dl', simp)
  then obtain h' where "probePodNetwork en c src [pod_PodIP t] (Read ''PodList'' '''' '''' # Read ''PodList'' '''' '''' # h) =
      (Ret (Some (Errorf (''all network probes failed for pod '' @ pod_Namespace src @ ''/'' @ pod_Name src))), h')" by blast
  with name show ?thesis
    by (simp add: CheckCNIStatus_def listNetTestPods_def listAllPods_def rd_def pods src all other Errorf_def)
qed

definition net_pod :: "string \<Rightarrow> string \<Rightarrow> Pod" where
  "net_pod name node = \<lparr>pod_Name = name, pod_Namespace = ''default'', pod_OwnerReferences = [], pod_NodeName = node,
     pod_Containers = [\<lparr>ctr_Name = ''busybox'', ctr_Image = ''busybox:1.35'', ctr_Args = [], ctr_Command = [], ctr_Ports = [],
       ctr_ImagePullPolicy = ''''\<rparr>],
     pod_Phase = PodRunning, pod_PodIP = ''10.0.0.2'', pod_ReadyConditions = [],
     pod_Labels = [(''app'', ''net-test'')], pod_Tolerations = [], pod_RestartPolicy = ''Never'', pod_HostNetwork = False\<rparr>"

definition slow_env :: env where
  "slow_env = down_env\<lparr>wl := down_wl\<lparr>
     w_ListPods := (\<lambda>_ _. Inr [net_pod ''net-test-cp'' ''cp'', net_pod ''web-0'' ''worker-1'']),
     w_NewForConfig := (\<lambda>_ _. Inr ()), w_NewExecutor := (\<lambda>_ _ _ _ _ _. Inr ()),
     w_Stream := (\<lambda>_ _ _ _ _ _. (True, Inl (Errorf ''context deadline exceeded'')))\<rparr>\<rparr>"

theorem exec_timeout_is_not_ready_witness:
  "\<exists>err h'. CheckCNIStatus slow_env (WorkloadClient ''k'') [] = (Ret (CNINotReady, Some err), h')"
proof (rule exec_timeout_is_not_ready)
  show "filter (\<lambda>p. HasPrefix (pod_Name p) ''net-test-'' \<and> pod_Phase p = PodRunning)
      [net_pod ''net-test-cp'' ''cp'', net_pod ''web-0'' ''worker-1''] = net_pod ''net-test-cp'' ''cp'' # []"
    by (simp add: net_pod_def HasPrefix_def)
  show "find (\<lambda>p. pod_NodeName p \<noteq> pod_NodeName (net_pod ''net-test-cp'' ''cp''))
      [net_pod ''net-test-cp'' ''cp'', net_pod ''web-0'' ''worker-1''] = Some (net_pod ''web-0'' ''worker-1'')"
    by (simp add: net_pod_def)
  show "\<not> Contains (''all network probes failed for pod '' @ pod_Namespace (net_pod ''net-test-cp'' ''cp'') @ ''/'' @
      pod_Name (net_pod ''net-test-cp'' ''cp'')) ''exec failed: context deadline exceeded''"
    by code_simp
qed (simp_all add: slow_env_def net_pod_def)

text \<open>
  A cluster whose pods all run on the nodes of the test pods is reported as ready without
  a single probe: a network failure of a one-node cluster is never detected.
\<close>

theorem one_node_network_is_always_ready:
  assumes "w_ListPods (wl en) h c = Inr pods"
    and "w_ListPods (wl en) (Read ''PodList'' '''' '''' # h) c = Inr pods"
    and "\<exists>p \<in> set pods. HasPrefix (pod_Name p) ''net-test-'' \<and> pod_Phase p = PodRunning"
    and "\<forall>p \<in> set pods. pod_NodeName p = node"
  shows "CheckCNIStatus en c h =
    (Ret (CNIReady, None), [Read ''PodList'' '''' '''', Read ''PodList'' '''' ''''] @ h)"
proof -
  let ?net = "filter (\<lambda>p. HasPrefix (pod_Name p) ''net-test-'' \<and> pod_Phase p = PodRunning) pods"
  have ne: "?net \<noteq> []" "pods \<noteq> []" using assms(3) by (auto simp: filter_empty_conv)
  have none: "probe_sources en c pods srcs g = (Ret (CNIReady, None), g)" if "set srcs \<subseteq> set pods" for srcs g
    using that
  proof (induction srcs)
    case (Cons s srcs)
    then have "find (\<lambda>p. pod_NodeName p \<noteq> pod_NodeName s) pods = None"
      using assms(4) by (auto simp: find_None_iff)
    with Cons show ?case by simp
  qed simp
  show ?thesis
    using assms(1,2) ne none [of ?net] by (simp add: CheckCNIStatus_def listNetTestPods_def listAllPods_def rd_def)
qed

theorem one_node_network_is_always_ready_witness:
  "\<exists>h'. CheckCNIStatus (down_env\<lparr>wl := down_wl\<lparr>w_ListPods := (\<lambda>_ _. Inr [net_pod ''net-test-cp'' ''cp''])\<rparr>\<rparr>)
     MgmtClient [] = (Ret (CNIReady, None), h')"
proof -
  let ?en = "down_env\<lparr>wl := down_wl\<lparr>w_ListPods := (\<lambda>_ _. Inr [net_pod ''net-test-cp'' ''cp''])\<rparr>\<rparr>"
  have "CheckCNIStatus ?en MgmtClient [] = (Ret (CNIReady, None), [Read ''PodList'' '''' '''', Read ''PodList'' '''' ''''] @ [])"
    by (rule one_node_network_is_always_ready [where pods = "[net_pod ''net-test-cp'' ''cp'']" and node = "''cp''"])
      (simp_all add: net_pod_def HasPrefix_def)
  then show ?thesis by blast
qed

end
