(* ===== verification/Fault_Latch.thy ===== *)
theory Fault_Latch
  imports Prelude
begin

text \<open>
  The contract that the three fault monitors of the operator share. A monitor observes its
  subject; a good observation resets its state, a bad one advances it and may fire the
  recovery. Firing latches: until the next good observation the monitor does not fire again.
  The control-plane and the heartbeat monitor count bad observations, the network monitor
  measures the silence.
\<close>

text \<open>How often a step fires along a list of observations.\<close>

fun fire_count :: "('o \<Rightarrow> 's \<Rightarrow> bool) \<Rightarrow> ('o \<Rightarrow> 's \<Rightarrow> 's) \<Rightarrow> 'o list \<Rightarrow> 's \<Rightarrow> nat" where
  "fire_count fires step [] s = 0"
| "fire_count fires step (ob # obs) s = (if fires ob s then 1 else 0) + fire_count fires step obs (step ob s)"

fun run_steps :: "('o \<Rightarrow> 's \<Rightarrow> 's) \<Rightarrow> 'o list \<Rightarrow> 's \<Rightarrow> 's" where
  "run_steps step [] s = s"
| "run_steps step (ob # obs) s = run_steps step obs (step ob s)"

locale fault_latch =
  fixes good :: "'o \<Rightarrow> bool"
    and triggered :: "'s \<Rightarrow> bool"
    and fires :: "'o \<Rightarrow> 's \<Rightarrow> bool"
    and step :: "'o \<Rightarrow> 's \<Rightarrow> 's"
  assumes good_resets: "good ob \<Longrightarrow> \<not> triggered (step ob s)"
    and good_silent: "good ob \<Longrightarrow> \<not> fires ob s"
    and bad_latches: "\<not> good ob \<Longrightarrow> triggered (step ob s) \<longleftrightarrow> triggered s \<or> fires ob s"
    and fires_unlatched: "fires ob s \<Longrightarrow> \<not> triggered s"
begin

lemma latched_silent:
  "triggered s \<Longrightarrow> \<forall>ob \<in> set obs. \<not> good ob \<Longrightarrow> fire_count fires step obs s = 0 \<and> triggered (run_steps step obs s)"
  by (induction obs arbitrary: s) (auto simp: bad_latches dest: fires_unlatched)

text \<open>At most one recovery per outage, and exactly one if the monitor ends up latched.\<close>

lemma one_fire_per_outage:
  "\<forall>ob \<in> set obs. \<not> good ob \<Longrightarrow>
     fire_count fires step obs s = (if triggered (run_steps step obs s) \<and> \<not> triggered s then 1 else 0)"
proof (induction obs arbitrary: s)
  case (Cons ob obs)
  then have bad: "\<not> good ob" "\<forall>ob \<in> set obs. \<not> good ob" by auto
  show ?case
  proof (cases "fires ob s")
    case True
    then have "\<not> triggered s" "triggered (step ob s)" using bad_latches [OF bad(1)] fires_unlatched by auto
    with True latched_silent [OF _ bad(2), of "step ob s"] show ?thesis by simp
  next
    case False
    then have "triggered (step ob s) = triggered s" using bad_latches [OF bad(1)] by simp
    with False Cons.IH [OF bad(2), of "step ob s"] show ?thesis by simp
  qed
qed simp

end

text \<open>A monitor that counts the bad observations since the last good one.\<close>

locale counting_monitor = fault_latch good triggered fires step
  for good :: "'o \<Rightarrow> bool" and triggered :: "'s \<Rightarrow> bool" and fires :: "'o \<Rightarrow> 's \<Rightarrow> bool" and step :: "'o \<Rightarrow> 's \<Rightarrow> 's" +
  fixes misses :: "'s \<Rightarrow> int" and threshold :: nat
  assumes good_clears: "good ob \<Longrightarrow> misses (step ob s) = 0"
    and bad_counts: "\<not> good ob \<Longrightarrow> misses (step ob s) = misses s + 1"
    and fires_iff: "\<not> good ob \<Longrightarrow> fires ob s \<longleftrightarrow> \<not> triggered s \<and> int threshold < misses s + 1"
begin

lemma misses_run:
  "\<forall>ob \<in> set obs. \<not> good ob \<Longrightarrow> misses (run_steps step obs s) = misses s + int (length obs)"
  by (induction obs arbitrary: s) (auto simp: bad_counts)

lemma triggered_run:
  assumes "\<forall>ob \<in> set obs. \<not> good ob" and "\<not> triggered s" and "misses s \<le> int threshold"
  shows "triggered (run_steps step obs s) \<longleftrightarrow> int threshold < misses s + int (length obs)"
  using assms
proof (induction obs arbitrary: s)
  case (Cons ob obs)
  then have bad: "\<not> good ob" "\<forall>ob \<in> set obs. \<not> good ob" by auto
  show ?case
  proof (cases "fires ob s")
    case True
    then have "triggered (step ob s)" using bad_latches [OF bad(1)] by simp
    with latched_silent [OF this bad(2)] True fires_iff [OF bad(1)] show ?thesis by simp
  next
    case False
    with Cons.prems fires_iff [OF bad(1)] bad_latches [OF bad(1)] have
      "\<not> triggered (step ob s)" "misses (step ob s) \<le> int threshold" by (auto simp: bad_counts bad)
    from Cons.IH [OF bad(2) this] show ?thesis by (simp add: bad_counts bad add.assoc)
  qed
qed auto

text \<open>
  Detection: after a good observation, a run of bad ones fires once if it is longer than the
  threshold, and not at all otherwise.
\<close>

lemma detection:
  assumes "good ob" and "\<forall>ob \<in> set obs. \<not> good ob"
  shows "fire_count fires step (ob # obs) s = (if threshold < length obs then 1 else 0)"
proof -
  have t: "\<not> triggered (step ob s)" and m: "misses (step ob s) = 0"
    using assms(1) good_resets good_clears by auto
  from triggered_run [OF assms(2) t] m have "triggered (run_steps step obs (step ob s)) \<longleftrightarrow> threshold < length obs"
    by simp
  with one_fire_per_outage [OF assms(2), of "step ob s"] t good_silent [OF assms(1)] show ?thesis by simp
qed

text \<open>A monitor that starts fresh behaves as after a good observation.\<close>

lemma detection_from_start:
  assumes "\<not> triggered s" and "misses s = 0" and "\<forall>ob \<in> set obs. \<not> good ob"
  shows "fire_count fires step obs s = (if threshold < length obs then 1 else 0)"
  using triggered_run [OF assms(3,1)] assms(1,2) one_fire_per_outage [OF assms(3), of s] by simp

end

end
