(* ===== verification/Monitors.thy ===== *)
theory Monitors
  imports Migration Detectors Fault_Latch
begin

text \<open>
  \<^verbatim>\<open>src/internal/controller/clusterpolicy_controller.go\<close>, the two background monitors that
  \<open>Reconcile\<close> starts for a policy's cluster: the control-plane monitor and the network
  monitor, and the registry that keeps one of each per cluster. A monitor is a loop over the
  ticks of a timer; \<open>cp_tick\<close> and \<open>cni_tick\<close> are one iteration. The change of a monitor's
  own state on an observation is a function of its own (\<open>cp_step\<close>, \<open>cni_step\<close>), and the
  \<open>fault_latch\<close> contract is established for it.
\<close>

section \<open>Definitions: the registry\<close>

text \<open>
  The package variable \<^verbatim>\<open>monitorRegistry\<close>, as the list of its keys: a monitor starts unless
  its key is there, and removes its key when it stops.
\<close>

type_synonym monitorRegistry = "string list"

definition cp_key :: "string \<Rightarrow> string" where
  "cp_key clusterName = clusterName"

definition cni_key :: "string \<Rightarrow> string" where
  "cni_key clusterName = clusterName @ ''-cni''"

definition register_monitor :: "string \<Rightarrow> monitorRegistry \<Rightarrow> bool \<times> monitorRegistry" where
  "register_monitor key reg = (if key \<in> set reg then (False, reg) else (True, key # reg))"

definition unregister_monitor :: "string \<Rightarrow> monitorRegistry \<Rightarrow> monitorRegistry" where
  "unregister_monitor key reg = filter (\<lambda>k. k \<noteq> key) reg"

definition isClusterPolicyStatusEmpty :: "ClusterPolicyStatus \<Rightarrow> bool" where
  "isClusterPolicyStatusEmpty status \<longleftrightarrow> length (cpst_TransitionedPackages status) = 0"

section \<open>Definitions: the control-plane monitor\<close>

record CPState =
  cp_TLastHeartbeat :: time
  cp_TDetected :: time
  cp_IsTriggered :: bool
  cp_MissCount :: int

text \<open>An observation: the status, the time of the tick and the time after the probe.\<close>

record cp_obs =
  cpo_status :: ControlPlaneStatus
  cpo_now :: time
  cpo_after :: time

definition cp_good :: "cp_obs \<Rightarrow> bool" where
  "cp_good ob \<longleftrightarrow> cpo_status ob = ControlPlaneReady"

definition cp_fires :: "cp_obs \<Rightarrow> CPState \<Rightarrow> bool" where
  "cp_fires ob st \<longleftrightarrow> \<not> cp_good ob \<and> \<not> cp_IsTriggered st \<and> cp_MissCount st + 1 > 2"

definition cp_step :: "cp_obs \<Rightarrow> CPState \<Rightarrow> CPState" where
  "cp_step ob st =
     (if cp_good ob
      then st\<lparr>cp_TLastHeartbeat := cpo_after ob, cp_IsTriggered := False, cp_TDetected := ZeroTime, cp_MissCount := 0\<rparr>
      else let st1 = st\<lparr>cp_MissCount := cp_MissCount st + 1,
                        cp_TDetected := (if IsZero (cp_TDetected st) then cpo_now ob else cp_TDetected st)\<rparr>
           in if cp_fires ob st then st1\<lparr>cp_IsTriggered := True, cp_TDetected := cpo_now ob\<rparr> else st1)"

definition cp_start :: "time \<Rightarrow> CPState" where
  "cp_start startupTime =
     \<lparr>cp_TLastHeartbeat = startupTime, cp_TDetected = ZeroTime, cp_IsTriggered = False, cp_MissCount = 0\<rparr>"

text \<open>What both monitors do when they fire: the policy is read again, and migrated if its status is empty.\<close>

definition recover :: "env \<Rightarrow> string \<Rightarrow> ClusterPolicy \<Rightarrow> hist \<Rightarrow> unit outcome \<times> hist" where
  "recover en clusterName clusterPolicy h =
     (case rd ''ClusterPolicy'' (cpol_Namespace clusterPolicy) (cpol_Name clusterPolicy)
             (\<lambda>h. m_GetPolicy (mgmt en) h (cpol_Namespace clusterPolicy) (cpol_Name clusterPolicy)) h of
        (Inl err, h) \<Rightarrow> (Ret (), h)
      | (Inr refreshedPolicy, h) \<Rightarrow>
          (if isClusterPolicyStatusEmpty (cpol_Status refreshedPolicy)
           then (case triggerMigrationNodeCP en clusterName h of
                   (Panic, h) \<Rightarrow> (Panic, h)
                 | (Ret _, h) \<Rightarrow> (Ret (), h))
           else (Ret (), h)))"

definition warmupPeriod_cp :: duration where "warmupPeriod_cp = 5 * Second"
definition warmupPeriod_cni :: duration where "warmupPeriod_cni = 2 * Second"
definition timeoutWindow_cni :: duration where "timeoutWindow_cni = 3 * Second"

text \<open>
  The client of the monitored cluster at a tick; \<open>None\<close> means that the tick is skipped.
\<close>

definition monitor_client :: "env \<Rightarrow> string \<Rightarrow> hist \<Rightarrow> kclient option outcome \<times> hist" where
  "monitor_client en clusterName h =
     (case GetCapiClusterFromName en clusterName ''default'' h of
        (Inl err, h) \<Rightarrow> (Ret None, h)
      | (Inr capiCluster, h) \<Rightarrow>
          (case GetClusterClient en capiCluster h of
             (Panic, h) \<Rightarrow> (Panic, h)
           | (Ret (client, ready, err), h) \<Rightarrow>
               (if err \<noteq> None \<or> \<not> ready then (Ret None, h) else (Ret client, h))))"

definition cp_tick ::
  "env \<Rightarrow> string \<Rightarrow> ClusterPolicy \<Rightarrow> time \<Rightarrow> CPState \<Rightarrow> hist \<Rightarrow> CPState outcome \<times> hist" where
  "cp_tick en clusterName clusterPolicy startupTime state h =
     (case Now en h of (now, h) \<Rightarrow>
        (if now - startupTime < warmupPeriod_cp then (Ret state, h)
         else case monitor_client en clusterName h of
                (Panic, h) \<Rightarrow> (Panic, h)
              | (Ret None, h) \<Rightarrow> (Ret state, h)
              | (Ret (Some clusterClient), h) \<Rightarrow>
                  (case CheckControlPlaneStatus en clusterClient h of ((status, err), h) \<Rightarrow>
                     (let status = (if err \<noteq> None then ControlPlaneUnreachable else status) in
                      case Now en h of (after, h) \<Rightarrow>
                        (let ob = \<lparr>cpo_status = status, cpo_now = now, cpo_after = after\<rparr> in
                         if \<not> cp_fires ob state then (Ret (cp_step ob state), h)
                         else case recover en clusterName clusterPolicy h of
                                (Panic, h) \<Rightarrow> (Panic, h)
                              | (Ret _, h) \<Rightarrow> (Ret (cp_step ob state), h))))))"

text \<open>
  The monitor's goroutine: \<open>k\<close> ticks arrive before its context is done. When it ends, it
  removes its key; the registry may have changed meanwhile.
\<close>

fun cp_ticks ::
  "env \<Rightarrow> string \<Rightarrow> ClusterPolicy \<Rightarrow> time \<Rightarrow> nat \<Rightarrow> CPState \<Rightarrow> hist \<Rightarrow> CPState outcome \<times> hist" where
  "cp_ticks en clusterName clusterPolicy startupTime 0 state h = (Ret state, h)"
| "cp_ticks en clusterName clusterPolicy startupTime (Suc k) state h =
     (case cp_tick en clusterName clusterPolicy startupTime state h of
        (Panic, h) \<Rightarrow> (Panic, h)
      | (Ret state, h) \<Rightarrow> cp_ticks en clusterName clusterPolicy startupTime k state h)"

definition cp_goroutine :: "env \<Rightarrow> ClusterPolicy \<Rightarrow> nat \<Rightarrow> hist \<Rightarrow> CPState outcome \<times> hist" where
  "cp_goroutine en clusterPolicy k h =
     (case Now en h of (startupTime, h) \<Rightarrow>
        cp_ticks en (selector_name clusterPolicy) clusterPolicy startupTime k (cp_start startupTime) h)"

text \<open>
  The start of the monitor: whether a goroutine was started, and the registry.
\<close>

definition StartWorkloadClusterControlPlaneHealthMonitor :: "ClusterPolicy \<Rightarrow> monitorRegistry \<Rightarrow> bool \<times> monitorRegistry" where
  "StartWorkloadClusterControlPlaneHealthMonitor clusterPolicy reg = register_monitor (cp_key (selector_name clusterPolicy)) reg"

section \<open>Definitions: the network monitor\<close>

record CNIState =
  cni_TLastHeartbeat :: time
  cni_TDetected :: time
  cni_IsTriggered :: bool

record cni_obs =
  cnio_status :: CNIStatus
  cnio_now :: time

definition cni_good :: "cni_obs \<Rightarrow> bool" where
  "cni_good ob \<longleftrightarrow> cnio_status ob = CNIReady"

definition cni_fires :: "cni_obs \<Rightarrow> CNIState \<Rightarrow> bool" where
  "cni_fires ob st \<longleftrightarrow>
     \<not> cni_good ob \<and> \<not> cni_IsTriggered st \<and> cnio_now ob - cni_TLastHeartbeat st > timeoutWindow_cni"

definition cni_step :: "cni_obs \<Rightarrow> CNIState \<Rightarrow> CNIState" where
  "cni_step ob st =
     (if cni_good ob
      then st\<lparr>cni_TLastHeartbeat := cnio_now ob, cni_IsTriggered := False, cni_TDetected := ZeroTime\<rparr>
      else let st1 = st\<lparr>cni_TDetected := (if IsZero (cni_TDetected st) then cnio_now ob else cni_TDetected st)\<rparr>
           in if cni_fires ob st then st1\<lparr>cni_IsTriggered := True\<rparr> else st1)"

definition cni_tick ::
  "env \<Rightarrow> string \<Rightarrow> ClusterPolicy \<Rightarrow> time \<Rightarrow> CNIState \<Rightarrow> hist \<Rightarrow> CNIState outcome \<times> hist" where
  "cni_tick en clusterName clusterPolicy startupTime state h =
     (case Now en h of (now, h) \<Rightarrow>
        (if now - startupTime < warmupPeriod_cni then (Ret state, h)
         else case monitor_client en clusterName h of
                (Panic, h) \<Rightarrow> (Panic, h)
              | (Ret None, h) \<Rightarrow> (Ret state, h)
              | (Ret (Some clusterClient), h) \<Rightarrow>
                  (case CheckCNIStatus en clusterClient h of
                     (Panic, h) \<Rightarrow> (Panic, h)
                   | (Ret (status, err), h) \<Rightarrow>
                       (let status = (if err \<noteq> None then CNINotReady else status);
                            ob = \<lparr>cnio_status = status, cnio_now = now\<rparr>
                        in if \<not> cni_fires ob state then (Ret (cni_step ob state), h)
                           else case recover en clusterName clusterPolicy h of
                                  (Panic, h) \<Rightarrow> (Panic, h)
                                | (Ret _, h) \<Rightarrow> (Ret (cni_step ob state), h)))))"

text \<open>The pods that the network monitor probes from, one per control-plane node.\<close>

definition net_test_pod :: "Node \<Rightarrow> Pod" where
  "net_test_pod node =
     \<lparr>pod_Name = ''net-test-'' @ node_Name node, pod_Namespace = ''default'', pod_OwnerReferences = [],
      pod_NodeName = node_Name node,
      pod_Containers = [\<lparr>ctr_Name = ''busybox'', ctr_Image = ''busybox:1.35'', ctr_Args = [],
        ctr_Command = [''sh'', ''-c'', ''while true; do sleep 3600; done''], ctr_Ports = [], ctr_ImagePullPolicy = ''''\<rparr>],
      pod_Phase = PodPhaseOther '''', pod_PodIP = '''', pod_ReadyConditions = [],
      pod_Labels = [(''app'', ''net-test'')],
      pod_Tolerations = [(''node-role.kubernetes.io/control-plane'', ''Exists'', ''NoSchedule'')], pod_RestartPolicy = ''Never'', pod_HostNetwork = False\<rparr>"

fun ensure_pods :: "env \<Rightarrow> kclient \<Rightarrow> Node list \<Rightarrow> hist \<Rightarrow> hist" where
  "ensure_pods en c [] h = h"
| "ensure_pods en c (node # nodes) h =
     (if \<not> mhas (node_Labels node) ''node-role.kubernetes.io/control-plane'' then ensure_pods en c nodes h
      else case rd ''Pod'' ''default'' (''net-test-'' @ node_Name node)
                  (\<lambda>h. w_GetPod (wl en) h c ''default'' (''net-test-'' @ node_Name node)) h of
             (Inr _, h) \<Rightarrow> ensure_pods en c nodes h
           | (Inl _, h) \<Rightarrow>
               (case wr (CreatedPod c (net_test_pod node)) (\<lambda>h. w_CreatePod (wl en) h c (net_test_pod node)) h of
                  (_, h) \<Rightarrow> ensure_pods en c nodes h))"

definition ensureNetTestPodsOnce :: "env \<Rightarrow> string \<Rightarrow> hist \<Rightarrow> error option outcome \<times> hist" where
  "ensureNetTestPodsOnce en clusterName h =
     (case GetCapiClusterFromName en clusterName ''default'' h of
        (Inl err, h) \<Rightarrow> (Ret (Some (wrapf ''failed to get CAPI cluster'' err)), h)
      | (Inr capiCluster, h) \<Rightarrow>
          (case GetClusterClient en capiCluster h of
             (Panic, h) \<Rightarrow> (Panic, h)
           | (Ret (_, _, Some err), h) \<Rightarrow> (Ret (Some (wrapf ''cluster not ready'' err)), h)
           | (Ret (None, _, None), h) \<Rightarrow> (Ret (Some (Errorf ''cluster not ready: %!w(<nil>)'')), h)
           | (Ret (Some c, ready, None), h) \<Rightarrow>
               (if \<not> ready then (Ret (Some (Errorf ''cluster not ready: %!w(<nil>)'')), h)
                else case rd ''NodeList'' '''' '''' (\<lambda>h. w_ListNodes (wl en) h c) h of
                       (Inl err, h) \<Rightarrow> (Ret (Some (wrapf ''failed to list nodes'' err)), h)
                     | (Inr nodes, h) \<Rightarrow> (Ret None, ensure_pods en c nodes h))))"

fun cni_ticks ::
  "env \<Rightarrow> string \<Rightarrow> ClusterPolicy \<Rightarrow> time \<Rightarrow> nat \<Rightarrow> CNIState \<Rightarrow> hist \<Rightarrow> CNIState outcome \<times> hist" where
  "cni_ticks en clusterName clusterPolicy startupTime 0 state h = (Ret state, h)"
| "cni_ticks en clusterName clusterPolicy startupTime (Suc k) state h =
     (case cni_tick en clusterName clusterPolicy startupTime state h of
        (Panic, h) \<Rightarrow> (Panic, h)
      | (Ret state, h) \<Rightarrow> cni_ticks en clusterName clusterPolicy startupTime k state h)"

text \<open>
  The preparation, retried every five seconds until the context is done (after \<open>j\<close> retries):
  whether the monitor goes on.
\<close>

fun cni_prepare :: "env \<Rightarrow> string \<Rightarrow> nat \<Rightarrow> hist \<Rightarrow> bool outcome \<times> hist" where
  "cni_prepare en clusterName j h =
     (case ensureNetTestPodsOnce en clusterName h of
        (Panic, h) \<Rightarrow> (Panic, h)
      | (Ret None, h) \<Rightarrow> (Ret True, h)
      | (Ret (Some err), h) \<Rightarrow> (case j of 0 \<Rightarrow> (Ret False, h) | Suc j \<Rightarrow> cni_prepare en clusterName j h))"

definition cni_start :: "time \<Rightarrow> CNIState" where
  "cni_start startupTime =
     \<lparr>cni_TLastHeartbeat = startupTime, cni_TDetected = ZeroTime, cni_IsTriggered = False\<rparr>"

definition cni_goroutine :: "env \<Rightarrow> ClusterPolicy \<Rightarrow> nat \<Rightarrow> nat \<Rightarrow> hist \<Rightarrow> CNIState outcome \<times> hist" where
  "cni_goroutine en clusterPolicy j k h =
     (case Now en h of (startupTime, h) \<Rightarrow>
        (case cni_prepare en (selector_name clusterPolicy) j h of
           (Panic, h) \<Rightarrow> (Panic, h)
         | (Ret False, h) \<Rightarrow> (Ret (cni_start startupTime), h)
         | (Ret True, h) \<Rightarrow>
             cni_ticks en (selector_name clusterPolicy) clusterPolicy startupTime k (cni_start startupTime) h))"

definition StartWorkloadClusterCNIHealthMonitor :: "ClusterPolicy \<Rightarrow> monitorRegistry \<Rightarrow> bool \<times> monitorRegistry" where
  "StartWorkloadClusterCNIHealthMonitor clusterPolicy reg = register_monitor (cni_key (selector_name clusterPolicy)) reg"

section \<open>The contracts of the monitors\<close>

interpretation cp_monitor: counting_monitor cp_good cp_IsTriggered cp_fires cp_step cp_MissCount 2
  by unfold_locales (auto simp: cp_step_def cp_fires_def Let_def)

interpretation cni_monitor: fault_latch cni_good cni_IsTriggered cni_fires cni_step
  by unfold_locales (auto simp: cni_step_def cni_fires_def Let_def)

section \<open>Lemmas\<close>

lemma monitor_client_emits [emits_intros]:
  assumes "\<And>k a b. P (Read k a b)"
  shows "emits P (monitor_client en n)"
  unfolding monitor_client_def by (auto intro!: emits_intros assms)

lemma monitor_client_writes: "monitor_client en n h = (x, h') \<Longrightarrow> writes h' = writes h"
  by (rule emits_reads_writes [OF monitor_client_emits]) simp_all

lemma CheckControlPlaneStatus_writes: "CheckControlPlaneStatus en c h = (x, h') \<Longrightarrow> writes h' = writes h"
  by (rule emits_reads_writes [OF CheckControlPlaneStatus_emits]) simp_all

lemma CheckCNIStatus_writes: "CheckCNIStatus en c h = (x, h') \<Longrightarrow> writes h' = writes h"
  by (rule emits_reads_writes [OF CheckCNIStatus_emits]) simp_all

lemma recover_unread:
  "m_GetPolicy (mgmt en) h (cpol_Namespace p) (cpol_Name p) = Inl e \<Longrightarrow>
     recover en n p h = (Ret (), Read ''ClusterPolicy'' (cpol_Namespace p) (cpol_Name p) # h)"
  by (simp add: recover_def api_simps)

text \<open>An observation that the control-plane check gave, in some state of the cluster.\<close>

definition cp_observed :: "env \<Rightarrow> cp_obs \<Rightarrow> bool" where
  "cp_observed en ob \<longleftrightarrow>
     (\<exists>c h status err h'. CheckControlPlaneStatus en c h = ((status, err), h') \<and>
        cpo_status ob = (if err \<noteq> None then ControlPlaneUnreachable else status))"

text \<open>One tick of the control-plane monitor: skipped, observed without firing, or fired.\<close>

lemma cp_tick_cases:
  assumes "cp_tick en n p t0 st h = (res, h')"
  obtains (skipped) "res = Ret st" "writes h' = writes h"
  | (observed) ob where "cp_observed en ob" "res = Ret (cp_step ob st)" "\<not> cp_fires ob st" "writes h' = writes h"
  | (fired) ob h1 r where "cp_observed en ob" "cp_fires ob st" "writes h1 = writes h" "recover en n p h1 = (r, h')"
      "res = (case r of Panic \<Rightarrow> Panic | Ret _ \<Rightarrow> Ret (cp_step ob st))"
  | (died) "res = Panic" "writes h' = writes h"
proof -
  let ?now = "o_Now (os en) h" and ?h1 = "Read ''clock'' '''' '''' # h"
  obtain mc h2 where mc: "monitor_client en n ?h1 = (mc, h2)" by fastforce
  note w2 = monitor_client_writes [OF mc]
  note unf = assms [unfolded cp_tick_def Now_simp, simplified prod.case]
  show thesis
  proof (cases "?now - t0 < warmupPeriod_cp")
    case True
    with unf skipped show thesis by auto
  next
    case False
    show thesis
    proof (cases mc)
      case Panic
      with False unf mc w2 died show thesis by auto
    next
      case (Ret co)
      show thesis
      proof (cases co)
        case None
        with Ret False unf mc w2 skipped show thesis by auto
      next
        case (Some c)
        obtain status err h3 where ck: "CheckControlPlaneStatus en c h2 = ((status, err), h3)"
          by (metis surj_pair)
        let ?ob = "\<lparr>cpo_status = if err \<noteq> None then ControlPlaneUnreachable else status, cpo_now = ?now,
          cpo_after = o_Now (os en) h3\<rparr>"
        let ?h4 = "Read ''clock'' '''' '''' # h3"
        have w4: "writes ?h4 = writes h" using CheckControlPlaneStatus_writes [OF ck] w2 by simp
        obtain r h5 where rc: "recover en n p ?h4 = (r, h5)" by fastforce
        have "(res, h') = (if \<not> cp_fires ?ob st then (Ret (cp_step ?ob st), ?h4)
            else (case r of Panic \<Rightarrow> Panic | Ret _ \<Rightarrow> Ret (cp_step ?ob st), h5))"
          using unf False mc Ret Some ck rc by (auto simp: Now_simp Let_def split: outcome.splits)
        moreover have "cp_observed en ?ob" unfolding cp_observed_def
          by (intro exI [of _ c] exI [of _ h2] exI [of _ status] exI [of _ err] exI [of _ h3]) (simp add: ck)
        ultimately show thesis using w4 rc observed [of ?ob] fired [of ?ob ?h4 r] by (cases "cp_fires ?ob st") auto
      qed
    qed
  qed
qed

lemma cp_ticks_refine:
  assumes "cp_ticks en n p t0 k st h = (Ret st', h')"
  shows "\<exists>obs. length obs \<le> k \<and> list_all (cp_observed en) obs \<and> st' = run_steps cp_step obs st \<and>
    (fire_count cp_fires cp_step obs st = 0 \<longrightarrow> writes h' = writes h)"
  using assms
proof (induction k arbitrary: st h)
  case (Suc k)
  obtain r h1 where t: "cp_tick en n p t0 st h = (r, h1)" by fastforce
  with Suc.prems obtain st1 where tick: "cp_tick en n p t0 st h = (Ret st1, h1)"
    and rest: "cp_ticks en n p t0 k st1 h1 = (Ret st', h')" by (cases r) auto
  from Suc.IH [OF rest] obtain obs where obs: "length obs \<le> k \<and> list_all (cp_observed en) obs \<and>
    st' = run_steps cp_step obs st1 \<and> (fire_count cp_fires cp_step obs st1 = 0 \<longrightarrow> writes h' = writes h1)" ..
  from tick show ?case
  proof (cases rule: cp_tick_cases)
    case skipped
    with obs show ?thesis by (intro exI [of _ obs]) auto
  next
    case (observed ob)
    with obs show ?thesis by (intro exI [of _ "ob # obs"]) auto
  next
    case (fired ob h2 r)
    with obs show ?thesis by (intro exI [of _ "ob # obs"]) (auto split: outcome.splits)
  next
    case died
    then show ?thesis by simp
  qed
qed simp

lemma cni_TLast_bad: "\<not> cni_good ob \<Longrightarrow> cni_TLastHeartbeat (cni_step ob st) = cni_TLastHeartbeat st"
  by (simp add: cni_step_def Let_def)

lemma cni_triggered_run:
  "\<forall>ob \<in> set obs. \<not> cni_good ob \<Longrightarrow>
     cni_IsTriggered (run_steps cni_step obs st) \<longleftrightarrow>
       cni_IsTriggered st \<or> (\<exists>ob \<in> set obs. cnio_now ob - cni_TLastHeartbeat st > timeoutWindow_cni)"
proof (induction obs arbitrary: st)
  case (Cons ob obs)
  then have bad: "\<not> cni_good ob" and "\<forall>ob \<in> set obs. \<not> cni_good ob" by auto
  with Cons.IH [of "cni_step ob st"] cni_monitor.bad_latches [OF bad, of st] show ?case
    by (auto simp: cni_TLast_bad cni_fires_def)
qed simp

section \<open>Properties\<close>

text \<open>
  C18. Control-plane detection. After a successful check, a run of failed checks fires the
  recovery exactly once if there are at least three of them, at the third, and not at all
  otherwise; a monitor that just started behaves the same. No further recovery is fired
  until a check succeeds again.
\<close>

theorem control_plane_detection:
  assumes "\<forall>ob \<in> set obs. \<not> cp_good ob"
  shows "(cp_good ob \<longrightarrow> fire_count cp_fires cp_step (ob # obs) st = (if 3 \<le> length obs then 1 else 0)) \<and>
    fire_count cp_fires cp_step obs (cp_start t) = (if 3 \<le> length obs then 1 else 0)"
  using cp_monitor.detection [OF _ assms] cp_monitor.detection_from_start [OF _ _ assms, of "cp_start t"]
  by (auto simp: cp_start_def)

definition bad_cp :: cp_obs where
  "bad_cp = \<lparr>cpo_status = ControlPlaneUnreachable, cpo_now = 1, cpo_after = 2\<rparr>"

theorem control_plane_detection_witness:
  "fire_count cp_fires cp_step [bad_cp, bad_cp, bad_cp, bad_cp] (cp_start 0) = 1 \<and>
   fire_count cp_fires cp_step [bad_cp, bad_cp] (cp_start 0) = 0"
  using control_plane_detection [of "[bad_cp, bad_cp, bad_cp, bad_cp]" bad_cp undefined 0]
    control_plane_detection [of "[bad_cp, bad_cp]" bad_cp undefined 0]
  by (simp add: bad_cp_def cp_good_def)



text \<open>
  A recovery can be lost. The monitor latches before it reads the policy again; if that
  read fails at the moment of firing, nothing is migrated, and no later failed check of the
  same outage fires again, however long the outage lasts.
\<close>

theorem lost_control_plane_recovery:
  assumes "cp_fires ob st" and "m_GetPolicy (mgmt en) h (cpol_Namespace p) (cpol_Name p) = Inl e"
    and "\<forall>ob \<in> set obs. \<not> cp_good ob"
  shows "(\<exists>h'. recover en n p h = (Ret (), h') \<and> writes h' = writes h) \<and>
    fire_count cp_fires cp_step obs (cp_step ob st) = 0"
proof -
  have "cp_IsTriggered (cp_step ob st)"
    using assms(1) by (auto simp: cp_step_def cp_fires_def Let_def)
  from cp_monitor.latched_silent [OF this assms(3)] recover_unread [OF assms(2)] show ?thesis by simp
qed

theorem lost_control_plane_recovery_witness:
  "fire_count cp_fires cp_step [bad_cp, bad_cp] (cp_step bad_cp (cp_step bad_cp (cp_step bad_cp (cp_start 0)))) = 0"
proof -
  have f: "cp_fires bad_cp (cp_step bad_cp (cp_step bad_cp (cp_start 0)))"
    by (simp add: cp_fires_def cp_step_def cp_start_def bad_cp_def cp_good_def Let_def)
  have "m_GetPolicy (mgmt down_env) [] (cpol_Namespace sample_policy) (cpol_Name sample_policy) = Inl down"
    by (simp add: down_defs)
  from lost_control_plane_recovery [OF f this, of "[bad_cp, bad_cp]"] show ?thesis
    by (simp add: bad_cp_def cp_good_def)
qed

text \<open>
  C21. Network detection. After a good observation, a run of bad ones fires the recovery
  exactly once if one of them comes more than three seconds after the good one, and not at
  all otherwise.
\<close>

theorem network_detection:
  assumes "cni_good ob" and "\<forall>ob \<in> set obs. \<not> cni_good ob"
  shows "fire_count cni_fires cni_step (ob # obs) st =
    (if \<exists>ob' \<in> set obs. cnio_now ob' - cnio_now ob > 3 * Second then 1 else 0)"
proof -
  have st: "\<not> cni_IsTriggered (cni_step ob st)" "cni_TLastHeartbeat (cni_step ob st) = cnio_now ob"
    using assms(1) by (simp_all add: cni_step_def)
  have "\<not> cni_fires ob st" using assms(1) by (rule cni_monitor.good_silent)
  with cni_monitor.one_fire_per_outage [OF assms(2), of "cni_step ob st"] cni_triggered_run [OF assms(2), of "cni_step ob st"] st
  show ?thesis by (simp add: timeoutWindow_cni_def)
qed

theorem network_detection_witness:
  "fire_count cni_fires cni_step
     [\<lparr>cnio_status = CNIReady, cnio_now = 0\<rparr>, \<lparr>cnio_status = CNINotReady, cnio_now = Second\<rparr>,
      \<lparr>cnio_status = CNINotReady, cnio_now = 4 * Second\<rparr>, \<lparr>cnio_status = CNINotReady, cnio_now = 5 * Second\<rparr>]
     \<lparr>cni_TLastHeartbeat = 0, cni_TDetected = 0, cni_IsTriggered = False\<rparr> = 1"
  by (subst network_detection) (simp_all add: cni_good_def Second_def)

text \<open>
  One monitor per key: a second start with the same key is refused until the first monitor
  has removed its key. The keys of the two kinds of monitor are not separate, though: the
  network monitor of a cluster shuts out the control-plane monitor of a cluster that has the
  first one's name with \<^verbatim>\<open>-cni\<close> appended.
\<close>

theorem monitor_registry_exclusive:
  "(case StartWorkloadClusterControlPlaneHealthMonitor p reg of (_, reg') \<Rightarrow>
      StartWorkloadClusterControlPlaneHealthMonitor p reg' = (False, reg') \<and>
      fst (StartWorkloadClusterControlPlaneHealthMonitor p (unregister_monitor (cp_key (selector_name p)) reg'))) \<and>
   (case StartWorkloadClusterCNIHealthMonitor p reg of (_, reg') \<Rightarrow>
      StartWorkloadClusterCNIHealthMonitor p reg' = (False, reg') \<and>
      (selector_name q = selector_name p @ ''-cni'' \<longrightarrow> \<not> fst (StartWorkloadClusterControlPlaneHealthMonitor q reg')))"
  by (simp add: StartWorkloadClusterControlPlaneHealthMonitor_def StartWorkloadClusterCNIHealthMonitor_def
      register_monitor_def unregister_monitor_def cp_key_def cni_key_def)

theorem monitor_registry_exclusive_witness:
  "\<not> fst (StartWorkloadClusterControlPlaneHealthMonitor
        (sample_policy\<lparr>cpol_Spec := (cpol_Spec sample_policy)\<lparr>cps_ClusterSelector :=
           (cps_ClusterSelector (cpol_Spec sample_policy))\<lparr>cs_Name := ''cluster1-azure-cni''\<rparr>\<rparr>\<rparr>)
        (snd (StartWorkloadClusterCNIHealthMonitor sample_policy [])))"
  using monitor_registry_exclusive [of sample_policy "[]"
      "sample_policy\<lparr>cpol_Spec := (cpol_Spec sample_policy)\<lparr>cps_ClusterSelector :=
         (cps_ClusterSelector (cpol_Spec sample_policy))\<lparr>cs_Name := ''cluster1-azure-cni''\<rparr>\<rparr>\<rparr>"]
  by (simp add: sample_policy_def split: prod.splits)

end
