(* ===== verification/Heartbeat.thy ===== *)
theory Heartbeat
  imports Migration Fault_Latch "HOL-Library.Multiset"
begin

text \<open>
  \<^verbatim>\<open>src/reconcilers/heartbeat/heartbeat_server.go\<close>: agents on the nodes post heartbeats, the
  server keeps the last one of each node and mirrors it in a NodeHealth resource, and a
  monitor checks every tick whether each node's heartbeat has advanced. The store is an
  association list with one entry per node; the monitor's own states are a map.
\<close>

section \<open>Definitions: store and server\<close>

record HeartbeatPayload =
  hb_NodeName :: string
  hb_IPAddress :: string
  hb_OS :: string
  hb_Arch :: string
  hb_CPUCount :: int
  hb_MemoryMB :: "64 word"
  hb_Extra :: smap
  hb_ReceivedAt :: time
  hb_ClusterName :: string
  hb_ClusterNS :: string
  hb_Machine :: string
  hb_OwnerKind :: string
  hb_OwnerName :: string
  hb_ProvidedIP :: string
  hb_CRISocket :: string
  hb_MissCount :: int

type_synonym HeartbeatStore = "(string \<times> HeartbeatPayload) list"

definition NewHeartbeatStore :: HeartbeatStore where
  "NewHeartbeatStore = []"

fun put :: "string \<Rightarrow> HeartbeatPayload \<Rightarrow> HeartbeatStore \<Rightarrow> HeartbeatStore" where
  "put k v [] = [(k, v)]"
| "put k v ((k', v') # s) = (if k' = k then (k, v) # s else (k', v') # put k v s)"

definition store_Update :: "env \<Rightarrow> HeartbeatPayload \<Rightarrow> HeartbeatStore \<Rightarrow> hist \<Rightarrow> HeartbeatStore \<times> hist" where
  "store_Update en hb s h =
     (case Now en h of (now, h) \<Rightarrow> (put (hb_NodeName hb) (hb\<lparr>hb_ReceivedAt := now, hb_MissCount := 0\<rparr>) s, h))"

definition store_Get :: "HeartbeatStore \<Rightarrow> string \<Rightarrow> HeartbeatPayload option" where
  "store_Get s node = map_of s node"

text \<open>A Go map is iterated in an order of the runtime's choice.\<close>

function range_order :: "(nat \<Rightarrow> nat) \<Rightarrow> nat \<Rightarrow> 'a list \<Rightarrow> 'a list" where
  "range_order pick n xs =
     (if xs = [] then []
      else let i = pick n mod length xs in xs ! i # range_order pick (Suc n) (remove_at i xs))"
  by pat_completeness auto
termination
  by (relation "measure (\<lambda>(pick, n, xs). length xs)") auto

declare range_order.simps [simp del]

definition store_All :: "(nat \<Rightarrow> nat) \<Rightarrow> HeartbeatStore \<Rightarrow> HeartbeatPayload list" where
  "store_All pick s = range_order pick 0 (map snd s)"

text \<open>The fields of a status that a heartbeat sets; a new resource has the zero value in the others.\<close>

definition health_status :: "HeartbeatPayload \<Rightarrow> string \<Rightarrow> NodeHealthStatus \<Rightarrow> NodeHealthStatus" where
  "health_status hb condition st =
     st\<lparr>nhst_IP := hb_IPAddress hb, nhst_OS := hb_OS hb, nhst_Arch := hb_Arch hb, nhst_CPUs := hb_CPUCount hb,
        nhst_MemTotal := hb_MemoryMB hb, nhst_LastSeen := hb_ReceivedAt hb, nhst_Condition := condition\<rparr>"

definition UpsertNodeHealth :: "env \<Rightarrow> string \<Rightarrow> HeartbeatPayload \<Rightarrow> string \<Rightarrow> hist \<Rightarrow> error option \<times> hist" where
  "UpsertNodeHealth en namespace hb condition h =
     (case rd ''NodeHealth'' namespace (hb_NodeName hb)
             (\<lambda>h. m_GetNodeHealth (mgmt en) h namespace (hb_NodeName hb)) h of
        (Inl err, h) \<Rightarrow>
          (let nh = \<lparr>nh_Name = hb_NodeName hb, nh_Namespace = namespace,
                     nh_Spec = \<lparr>nhs_NodeName = hb_NodeName hb\<rparr>,
                     nh_Status = health_status hb condition zero_NodeHealthStatus\<rparr>
           in case wr (CreatedNodeHealth nh) (\<lambda>h. m_CreateNodeHealth (mgmt en) h nh) h of
                (Inl err, h) \<Rightarrow> (Some err, h)
              | (Inr _, h) \<Rightarrow> (None, h))
      | (Inr nh, h) \<Rightarrow>
          (let nh = nh\<lparr>nh_Status := health_status hb condition (nh_Status nh)\<rparr>
           in case wr (UpdatedNodeHealthStatus nh) (\<lambda>h. m_UpdateNodeHealthStatus (mgmt en) h nh) h of
                (Inr _, h) \<Rightarrow> (None, h)
              | (Inl _, h) \<Rightarrow>
                  (case wr (UpdatedNodeHealth nh) (\<lambda>h. m_UpdateNodeHealth (mgmt en) h nh) h of
                     (Inl err, h) \<Rightarrow> (Some err, h)
                   | (Inr _, h) \<Rightarrow> (None, h))))"

text \<open>
  The handler of \<^verbatim>\<open>/heartbeat\<close>: the method, and what the JSON decoder made of the body. The
  result is the status code and the store.
\<close>

definition handle_heartbeat ::
  "env \<Rightarrow> string \<Rightarrow> string \<Rightarrow> HeartbeatPayload option \<Rightarrow> HeartbeatStore \<Rightarrow> hist \<Rightarrow> (nat \<times> HeartbeatStore) \<times> hist" where
  "handle_heartbeat en namespace method body store h =
     (if method \<noteq> ''POST'' then ((405, store), h)
      else case body of
             None \<Rightarrow> ((400, store), h)
           | Some hb \<Rightarrow>
               (case store_Update en hb store h of (store, h) \<Rightarrow>
                  (case UpsertNodeHealth en namespace hb ''Healthy'' h of (_, h) \<Rightarrow> ((204, store), h))))"

section \<open>Definitions: the monitor\<close>

record NodeState =
  ns_TLastHeartbeat :: time
  ns_TDetected :: time
  ns_IsTriggered :: bool
  ns_MissCount :: int

text \<open>What a tick sees of a node: a new heartbeat, or none since the last tick.\<close>

datatype node_obs = Beat time | Missed time

definition node_observe :: "time \<Rightarrow> HeartbeatPayload \<Rightarrow> NodeState \<Rightarrow> node_obs" where
  "node_observe now hb st =
     (if After (hb_ReceivedAt hb) (ns_TLastHeartbeat st) then Beat (hb_ReceivedAt hb) else Missed now)"

fun node_good :: "node_obs \<Rightarrow> bool" where
  "node_good (Beat _) = True"
| "node_good (Missed _) = False"

fun node_fires :: "node_obs \<Rightarrow> NodeState \<Rightarrow> bool" where
  "node_fires (Beat _) st = False"
| "node_fires (Missed now) st = (\<not> ns_IsTriggered st \<and> ns_MissCount st + 1 > 12)"

fun node_step :: "node_obs \<Rightarrow> NodeState \<Rightarrow> NodeState" where
  "node_step (Beat t) st =
     st\<lparr>ns_TLastHeartbeat := t, ns_IsTriggered := False, ns_MissCount := 0, ns_TDetected := ZeroTime\<rparr>"
| "node_step (Missed now) st =
     (let st1 = st\<lparr>ns_MissCount := ns_MissCount st + 1,
                   ns_TDetected := (if IsZero (ns_TDetected st) then now else ns_TDetected st)\<rparr>
      in if node_fires (Missed now) st then st1\<lparr>ns_IsTriggered := True\<rparr> else st1)"

definition node_start :: "time \<Rightarrow> NodeState" where
  "node_start receivedAt =
     \<lparr>ns_TLastHeartbeat = receivedAt, ns_TDetected = ZeroTime, ns_IsTriggered = False, ns_MissCount = 0\<rparr>"

text \<open>The cluster of a node's machine; \<open>None\<close> is the early return that ends the monitor.\<close>

definition last_machine :: "string \<Rightarrow> Machine list \<Rightarrow> string" where
  "last_machine nodeName ms =
     foldl (\<lambda>name m. case mach_NodeRef m of
                       None \<Rightarrow> name
                     | Some n \<Rightarrow> if n \<noteq> '''' \<and> nodeName = n then mach_Name m else name) '''' ms"

definition get_machine_cluster :: "env \<Rightarrow> string \<Rightarrow> string \<Rightarrow> hist \<Rightarrow> string \<times> hist" where
  "get_machine_cluster en namespace name h =
     (case rd ''Machine'' namespace name (\<lambda>h. m_GetMachine (mgmt en) h namespace name) h of
        (Inl err, h) \<Rightarrow> ('''', h)
      | (Inr machine, h) \<Rightarrow> (mach_ClusterName machine, h))"

definition machine_cluster :: "env \<Rightarrow> string \<Rightarrow> string \<Rightarrow> hist \<Rightarrow> string option \<times> hist" where
  "machine_cluster en namespace nodeName h =
     (if Contains nodeName ''.compute.internal''
      then (case rd ''MachineList'' namespace '''' (\<lambda>h. m_ListMachines (mgmt en) h namespace []) h of
              (Inl err, h) \<Rightarrow> (None, h)
            | (Inr machines, h) \<Rightarrow>
                (case get_machine_cluster en namespace (last_machine nodeName machines) h of (c, h) \<Rightarrow> (Some c, h)))
      else (case get_machine_cluster en namespace nodeName h of (c, h) \<Rightarrow> (Some c, h)))"

text \<open>
  One round of the loop over the nodes of a tick, and the loop: the states, and whether the
  monitor goes on. The state of a node is kept behind a pointer, so what the round wrote
  before it returns stays.
\<close>

definition check_node ::
  "env \<Rightarrow> string \<Rightarrow> time \<Rightarrow> HeartbeatPayload \<Rightarrow> (string \<rightharpoonup> NodeState) \<Rightarrow> hist \<Rightarrow>
   ((string \<rightharpoonup> NodeState) \<times> bool) outcome \<times> hist" where
  "check_node en namespace now hb states h =
     (let st = (case states (hb_NodeName hb) of None \<Rightarrow> node_start (hb_ReceivedAt hb) | Some st \<Rightarrow> st);
          ob = node_observe now hb st
      in if \<not> node_fires ob st
         then (Ret (states(hb_NodeName hb \<mapsto> node_step ob st), True), h)
         else case Now en h of (detected, h) \<Rightarrow>
                (let states = states(hb_NodeName hb \<mapsto> (node_step ob st)\<lparr>ns_TDetected := detected\<rparr>) in
                 case machine_cluster en namespace (hb_NodeName hb) h of
                   (None, h) \<Rightarrow> (Ret (states, False), h)
                 | (Some clusterName, h) \<Rightarrow>
                     (case ReconcileClusterPoliciesForNode en (hb_NodeName hb) clusterName h of
                        (Panic, h) \<Rightarrow> (Panic, h)
                      | (Ret _, h) \<Rightarrow>
                          (case UpsertNodeHealth en namespace hb ''Unhealthy'' h of
                             (_, h) \<Rightarrow> (Ret (states, True), h)))))"

fun check_nodes ::
  "env \<Rightarrow> string \<Rightarrow> time \<Rightarrow> HeartbeatPayload list \<Rightarrow> (string \<rightharpoonup> NodeState) \<Rightarrow> hist \<Rightarrow>
   ((string \<rightharpoonup> NodeState) \<times> bool) outcome \<times> hist" where
  "check_nodes en namespace now [] states h = (Ret (states, True), h)"
| "check_nodes en namespace now (hb # hbs) states h =
     (case check_node en namespace now hb states h of
        (Panic, h) \<Rightarrow> (Panic, h)
      | (Ret (states, goes_on), h) \<Rightarrow>
          (if goes_on then check_nodes en namespace now hbs states h else (Ret (states, False), h)))"

definition warmupPeriod_hb :: duration where
  "warmupPeriod_hb = 5 * Second"

definition monitor_tick ::
  "env \<Rightarrow> string \<Rightarrow> time \<Rightarrow> HeartbeatStore \<Rightarrow> (string \<rightharpoonup> NodeState) \<Rightarrow> hist \<Rightarrow>
   ((string \<rightharpoonup> NodeState) \<times> bool) outcome \<times> hist" where
  "monitor_tick en namespace startupTime store states h =
     (case Now en h of (now, h) \<Rightarrow>
        (if now - startupTime < warmupPeriod_hb then (Ret (states, True), h)
         else check_nodes en namespace now (store_All (o_Sched (os en) h) store) states h))"

section \<open>The contract of the monitor\<close>

interpretation node_monitor: counting_monitor node_good ns_IsTriggered node_fires node_step ns_MissCount 12
proof unfold_locales
  fix ob st
  show "node_good ob \<Longrightarrow> \<not> ns_IsTriggered (node_step ob st)" by (cases ob) auto
  show "node_good ob \<Longrightarrow> \<not> node_fires ob st" by (cases ob) auto
  show "\<not> node_good ob \<Longrightarrow> ns_IsTriggered (node_step ob st) = (ns_IsTriggered st \<or> node_fires ob st)"
    by (cases ob) (auto simp: Let_def)
  show "node_fires ob st \<Longrightarrow> \<not> ns_IsTriggered st" by (cases ob) auto
  show "node_good ob \<Longrightarrow> ns_MissCount (node_step ob st) = 0" by (cases ob) auto
  show "\<not> node_good ob \<Longrightarrow> ns_MissCount (node_step ob st) = ns_MissCount st + 1" by (cases ob) (auto simp: Let_def)
  show "\<not> node_good ob \<Longrightarrow> node_fires ob st = (\<not> ns_IsTriggered st \<and> int 12 < ns_MissCount st + 1)" by (cases ob) auto
qed

section \<open>Lemmas\<close>

lemma map_of_put: "map_of (put k v s) = (map_of s)(k \<mapsto> v)"
  by (induction s) (auto simp: fun_eq_iff)

lemma put_keys: "fst ` set (put k v s) = insert k (fst ` set s)"
  by (induction k v s rule: put.induct) (simp_all add: insert_commute)

lemma put_distinct: "distinct (map fst s) \<Longrightarrow> distinct (map fst (put k v s))"
proof (induction s)
  case (Cons x s)
  then show ?case using put_keys [of k v s] by (cases x) auto
qed simp

lemma mset_range_order: "mset (range_order pick n xs) = mset xs"
proof (induction pick n xs rule: range_order.induct)
  case (1 pick n xs)
  show ?case
  proof (cases "xs = []")
    case False
    define i where "i = pick n mod length xs"
    from False have i: "i < length xs" by (simp add: i_def)
    have "mset (range_order pick n xs) = add_mset (xs ! i) (mset (remove_at i xs))"
      using False 1 [OF False i_def] by (subst range_order.simps) (simp add: Let_def i_def)
    also have "\<dots> = mset xs"
      by (subst (3) split_at [OF i]) (simp add: remove_at_def)
    finally show ?thesis .
  qed (simp add: range_order.simps)
qed

lemma UpsertNodeHealth_emits [emits_intros]:
  assumes "\<And>k a b. P (Read k a b)" and "\<And>nh ok. P (CreatedNodeHealth nh ok)"
    and "\<And>nh ok. P (UpdatedNodeHealthStatus nh ok)" and "\<And>nh ok. P (UpdatedNodeHealth nh ok)"
  shows "emits P (UpsertNodeHealth en ns hb cond)"
  unfolding UpsertNodeHealth_def Let_def by (auto intro!: emits_intros assms)

lemma machine_cluster_emits [emits_intros]:
  assumes "\<And>k a b. P (Read k a b)"
  shows "emits P (machine_cluster en ns n)"
  unfolding machine_cluster_def get_machine_cluster_def by (auto intro!: emits_intros assms)

lemma check_node_emits: "emits (\<lambda>_. True) (check_node en ns now hb states)"
  unfolding check_node_def Let_def
  by (auto intro!: emits_intros emits_mono [OF ReconcileClusterPoliciesForNode_emits])

lemma UpsertNodeHealth_cases:
  assumes "UpsertNodeHealth en ns hb cond h = (res, h')"
  obtains
    (created) ok where "writes h' = CreatedNodeHealth \<lparr>nh_Name = hb_NodeName hb, nh_Namespace = ns,
        nh_Spec = \<lparr>nhs_NodeName = hb_NodeName hb\<rparr>, nh_Status = health_status hb cond zero_NodeHealthStatus\<rparr> ok # writes h"
      "res = None \<longleftrightarrow> ok"
  | (updated) nh where "m_GetNodeHealth (mgmt en) h ns (hb_NodeName hb) = Inr nh"
      "writes h' = UpdatedNodeHealthStatus (nh\<lparr>nh_Status := health_status hb cond (nh_Status nh)\<rparr>) True # writes h" "res = None"
  | (replaced) nh ok where "m_GetNodeHealth (mgmt en) h ns (hb_NodeName hb) = Inr nh"
      "writes h' = UpdatedNodeHealth (nh\<lparr>nh_Status := health_status hb cond (nh_Status nh)\<rparr>) ok #
         UpdatedNodeHealthStatus (nh\<lparr>nh_Status := health_status hb cond (nh_Status nh)\<rparr>) False # writes h" "res = None \<longleftrightarrow> ok"
proof (cases "m_GetNodeHealth (mgmt en) h ns (hb_NodeName hb)")
  case (Inl e)
  with assms created [of "res = None"] show ?thesis
    by (auto simp: UpsertNodeHealth_def Let_def api_simps split: sum.splits)
next
  case (Inr nh)
  with assms updated [of nh] replaced [of nh "res = None"] show ?thesis
    by (auto simp: UpsertNodeHealth_def Let_def api_simps split: sum.splits)
qed

text \<open>
  The store as the server builds it: one entry per node, under the node's name.
\<close>

definition store_ok :: "HeartbeatStore \<Rightarrow> bool" where
  "store_ok s \<longleftrightarrow> distinct (map fst s) \<and> (\<forall>(k, hb) \<in> set s. hb_NodeName hb = k)"

lemma put_members: "set (put k v s) \<subseteq> insert (k, v) (set s)"
  by (induction k v s rule: put.induct) auto

lemma store_ok_put: "store_ok s \<Longrightarrow> k = hb_NodeName v \<Longrightarrow> store_ok (put k v s)"
  using put_members [of k v s] by (auto simp: store_ok_def put_distinct)

lemma store_ok_names: "store_ok s \<Longrightarrow> map (hb_NodeName \<circ> snd) s = map fst s"
  by (auto simp: store_ok_def)

lemma store_All_names:
  assumes "store_ok s"
  shows "distinct (map hb_NodeName (store_All pick s))"
proof -
  have "mset (map hb_NodeName (store_All pick s)) = mset (map fst s)"
    using store_ok_names [OF assms] by (metis mset_map mset_range_order store_All_def map_map)
  from mset_eq_imp_distinct_iff [OF this] assms show ?thesis by (simp add: store_ok_def)
qed

lemma store_All_Get:
  assumes "store_ok s"
  shows "hb \<in> set (store_All pick s) \<longleftrightarrow> store_Get s (hb_NodeName hb) = Some hb"
proof -
  have "set (store_All pick s) = snd ` set s"
    by (metis mset_range_order set_map set_mset_mset store_All_def)
  moreover have "hb \<in> snd ` set s \<longleftrightarrow> (hb_NodeName hb, hb) \<in> set s"
    using assms by (force simp: store_ok_def)
  moreover have "(hb_NodeName hb, hb) \<in> set s \<longleftrightarrow> store_Get s (hb_NodeName hb) = Some hb"
    using assms by (simp add: store_ok_def store_Get_def)
  ultimately show ?thesis by simp
qed

text \<open>The state a node has when a tick reaches it.\<close>

definition node_state :: "(string \<rightharpoonup> NodeState) \<Rightarrow> HeartbeatPayload \<Rightarrow> NodeState" where
  "node_state states hb = (case states (hb_NodeName hb) of None \<Rightarrow> node_start (hb_ReceivedAt hb) | Some st \<Rightarrow> st)"

definition stepped :: "time \<Rightarrow> HeartbeatPayload \<Rightarrow> NodeState \<Rightarrow> NodeState \<Rightarrow> bool" where
  "stepped now hb st st' \<longleftrightarrow>
     (\<exists>d. st' = (node_step (node_observe now hb st) st)\<lparr>ns_TDetected := d\<rparr>) \<and>
     (\<not> node_fires (node_observe now hb st) st \<longrightarrow> st' = node_step (node_observe now hb st) st)"

lemma steppedI: "\<not> node_fires (node_observe now hb st) st \<Longrightarrow> stepped now hb st (node_step (node_observe now hb st) st)"
  unfolding stepped_def by (auto intro: exI [of _ "ns_TDetected (node_step (node_observe now hb st) st)"])

text \<open>A round that does not panic steps the machine of its node, and adds to the history only when it fires.\<close>

lemma check_node_steps:
  assumes "check_node en ns now hb states h = (Ret (states', goes_on), h')"
  obtains st' where "stepped now hb (node_state states hb) st'" "states' = states(hb_NodeName hb \<mapsto> st')"
    "\<not> node_fires (node_observe now hb (node_state states hb)) (node_state states hb) \<Longrightarrow> goes_on \<and> h' = h"
proof (cases "node_fires (node_observe now hb (node_state states hb)) (node_state states hb)")
  case False
  with assms that [OF steppedI] show ?thesis by (auto simp: check_node_def Let_def simp flip: node_state_def)
next
  case True
  with assms that show ?thesis
    by (fastforce simp: check_node_def Let_def stepped_def api_simps simp flip: node_state_def
        split: prod.splits option.splits outcome.splits)
qed

lemma check_nodes_cons:
  assumes "check_nodes en ns now (hb # hbs) states h = (Ret (states', True), h')"
  obtains st' h1 where "stepped now hb (node_state states hb) st'"
    "check_nodes en ns now hbs (states(hb_NodeName hb \<mapsto> st')) h1 = (Ret (states', True), h')"
proof -
  obtain r h1 where c: "check_node en ns now hb states h = (r, h1)" by fastforce
  with assms obtain s1 where r: "r = Ret (s1, True)"
    and rest: "check_nodes en ns now hbs s1 h1 = (Ret (states', True), h')"
    by (auto split: outcome.splits prod.splits if_splits)
  from c r obtain st' where "stepped now hb (node_state states hb) st'" "s1 = states(hb_NodeName hb \<mapsto> st')"
    by (auto elim: check_node_steps)
  with rest that show ?thesis by blast
qed

lemma check_nodes_steps:
  assumes "check_nodes en ns now hbs states h = (Ret (states', True), h')" and "distinct (map hb_NodeName hbs)"
  shows "(\<forall>hb \<in> set hbs. \<exists>st'. states' (hb_NodeName hb) = Some st' \<and> stepped now hb (node_state states hb) st') \<and>
    (\<forall>n. n \<notin> hb_NodeName ` set hbs \<longrightarrow> states' n = states n)"
  using assms
proof (induction hbs arbitrary: states h)
  case (Cons hb hbs)
  from Cons.prems(1) obtain st' h1 where st: "stepped now hb (node_state states hb) st'"
    and rest: "check_nodes en ns now hbs (states(hb_NodeName hb \<mapsto> st')) h1 = (Ret (states', True), h')"
    by (rule check_nodes_cons)
  from Cons.prems(2) have new: "hb_NodeName hb \<notin> hb_NodeName ` set hbs" and d: "distinct (map hb_NodeName hbs)" by auto
  have same: "node_state (states(hb_NodeName hb \<mapsto> st')) hb2 = node_state states hb2" if "hb2 \<in> set hbs" for hb2
  proof -
    from that new have "hb_NodeName hb2 \<noteq> hb_NodeName hb" by (metis imageI)
    then show ?thesis by (simp add: node_state_def)
  qed
  note ih = Cons.IH [OF rest d]
  from ih same have tail: "\<forall>hb \<in> set hbs. \<exists>st'. states' (hb_NodeName hb) = Some st' \<and> stepped now hb (node_state states hb) st'"
    by (simp del: fun_upd_apply)
  from ih new have "states' (hb_NodeName hb) = Some st'" by simp
  with tail ih st show ?case by simp
qed simp

section \<open>Properties\<close>



definition worker_beat :: HeartbeatPayload where
  "worker_beat = \<lparr>hb_NodeName = ''worker-1'', hb_IPAddress = ''10.0.0.5'', hb_OS = ''linux'', hb_Arch = ''amd64'',
     hb_CPUCount = 4, hb_MemoryMB = 8192, hb_Extra = [], hb_ReceivedAt = 0, hb_ClusterName = ''cluster1-azure'',
     hb_ClusterNS = ''default'', hb_Machine = ''worker-1'', hb_OwnerKind = '''', hb_OwnerName = '''',
     hb_ProvidedIP = '''', hb_CRISocket = '''', hb_MissCount = 0\<rparr>"


text \<open>
  Node detection. After a new heartbeat was seen, a run of ticks without one fires the
  recovery exactly once if there are at least thirteen of them, at the thirteenth, and not
  at all otherwise; a node seen for the first time is treated the same way.
\<close>

theorem node_failure_detection:
  assumes "\<forall>ob \<in> set obs. \<not> node_good ob"
  shows "(node_good ob \<longrightarrow> fire_count node_fires node_step (ob # obs) st = (if 13 \<le> length obs then 1 else 0)) \<and>
    fire_count node_fires node_step obs (node_start t) = (if 13 \<le> length obs then 1 else 0)"
  using node_monitor.detection [OF _ assms] node_monitor.detection_from_start [OF _ _ assms, of "node_start t"]
  by (auto simp: node_start_def)

theorem node_failure_detection_witness:
  "fire_count node_fires node_step (replicate 13 (Missed 1)) (node_start 0) = 1 \<and>
   fire_count node_fires node_step (replicate 12 (Missed 1)) (node_start 0) = 0"
  using node_failure_detection [of "replicate 13 (Missed 1)" "Beat 1" undefined 0]
    node_failure_detection [of "replicate 12 (Missed 1)" "Beat 1" undefined 0]
  by simp

text \<open>
  The store. After an update the store answers a lookup of that node with the payload, the
  time of the update and a cleared miss counter, answers every other lookup as before, and
  keeps one entry per node.
\<close>

theorem heartbeat_store_update:
  assumes "store_Update en hb s h = (s', h')"
  shows "store_Get s' (hb_NodeName hb) = Some (hb\<lparr>hb_ReceivedAt := o_Now (os en) h, hb_MissCount := 0\<rparr>) \<and>
    (\<forall>n. n \<noteq> hb_NodeName hb \<longrightarrow> store_Get s' n = store_Get s n) \<and>
    (distinct (map fst s) \<longrightarrow> distinct (map fst s'))"
  using assms by (auto simp: store_Update_def store_Get_def api_simps map_of_put put_distinct)

theorem heartbeat_store_update_witness:
  "\<exists>s' h'. store_Update down_env worker_beat NewHeartbeatStore [] = (s', h') \<and>
     store_Get s' ''worker-1'' = Some (worker_beat\<lparr>hb_ReceivedAt := 1, hb_MissCount := 0\<rparr>)"
proof -
  obtain s' h' where call: "store_Update down_env worker_beat NewHeartbeatStore [] = (s', h')" by fastforce
  have now: "o_Now (os down_env) [] = 1" by (simp add: down_defs)
  from heartbeat_store_update [OF call] call now show ?thesis by (auto simp: worker_beat_def)
qed

text \<open>
  The heartbeat handler. Anything but a POST with a decodable body is refused and changes
  nothing; an accepted heartbeat updates the store and mirrors the node as Healthy. The
  mirrored resource carries the arrival time that the agent sent in the payload, not the one
  the store recorded: the store stamps a copy.
\<close>

theorem handle_heartbeat_effect:
  assumes "handle_heartbeat en ns method body s h = ((code, s'), h')"
  shows "code = (if method \<noteq> ''POST'' then 405 else if body = None then 400 else 204) \<and>
    (code \<noteq> 204 \<longrightarrow> s' = s \<and> h' = h) \<and>
    (\<forall>hb. code = 204 \<longrightarrow> body = Some hb \<longrightarrow>
       store_Get s' (hb_NodeName hb) = Some (hb\<lparr>hb_ReceivedAt := o_Now (os en) h, hb_MissCount := 0\<rparr>) \<and>
       (\<exists>nh old ok es. nh_Status nh = health_status hb ''Healthy'' old \<and> nhst_LastSeen (nh_Status nh) = hb_ReceivedAt hb \<and>
          (writes h' = CreatedNodeHealth nh ok # writes h \<and> old = zero_NodeHealthStatus \<or>
           writes h' = es @ UpdatedNodeHealthStatus nh ok # writes h)))"
proof (cases "method = ''POST'' \<and> body \<noteq> None")
  case False
  with assms show ?thesis by (auto simp: handle_heartbeat_def split: if_splits)
next
  case True
  then obtain hb where hb: "method = ''POST''" "body = Some hb" by auto
  let ?h1 = "Read ''clock'' '''' '''' # h"
  obtain r h2 where up: "UpsertNodeHealth en ns hb ''Healthy'' ?h1 = (r, h2)" by fastforce
  from assms hb up have eq: "code = 204" "h' = h2"
    "s' = put (hb_NodeName hb) (hb\<lparr>hb_ReceivedAt := o_Now (os en) h, hb_MissCount := 0\<rparr>) s"
    by (auto simp: handle_heartbeat_def store_Update_def api_simps)
  have "\<exists>nh old ok es. nh_Status nh = health_status hb ''Healthy'' old \<and> nhst_LastSeen (nh_Status nh) = hb_ReceivedAt hb \<and>
      (writes h2 = CreatedNodeHealth nh ok # writes h \<and> old = zero_NodeHealthStatus \<or>
       writes h2 = es @ UpdatedNodeHealthStatus nh ok # writes h)"
    using up
  proof (cases rule: UpsertNodeHealth_cases)
    case (created ok)
    then show ?thesis by (intro exI conjI disjI1) (auto simp: health_status_def)
  next
    case (updated nh)
    then show ?thesis
      by (intro exI [of _ "nh\<lparr>nh_Status := health_status hb ''Healthy'' (nh_Status nh)\<rparr>"] exI [of _ "nh_Status nh"]
          exI [of _ True] exI [of _ "[]"]) (simp add: health_status_def)
  next
    case (replaced nh ok)
    then show ?thesis
      by (intro exI [of _ "nh\<lparr>nh_Status := health_status hb ''Healthy'' (nh_Status nh)\<rparr>"] exI [of _ "nh_Status nh"]
          exI [of _ False] exI [of _ "[UpdatedNodeHealth (nh\<lparr>nh_Status := health_status hb ''Healthy'' (nh_Status nh)\<rparr>) ok]"])
        (simp add: health_status_def)
  qed
  with hb eq show ?thesis by (simp add: store_Get_def map_of_put)
qed

theorem handle_heartbeat_effect_witness:
  "\<exists>s' h'. handle_heartbeat down_env ''default'' ''POST'' (Some worker_beat) NewHeartbeatStore [] = ((204, s'), h') \<and>
     store_Get s' ''worker-1'' = Some (worker_beat\<lparr>hb_ReceivedAt := 1, hb_MissCount := 0\<rparr>)"
proof -
  obtain code s' h' where call:
    "handle_heartbeat down_env ''default'' ''POST'' (Some worker_beat) NewHeartbeatStore [] = ((code, s'), h')"
    by (metis surj_pair)
  have now: "o_Now (os down_env) [] = 1" by (simp add: down_defs)
  from handle_heartbeat_effect [OF call] call now show ?thesis by (auto simp: worker_beat_def)
qed

text \<open>
  An error in listing the machines ends the monitoring of all nodes: when a node with an
  AWS name is declared unhealthy and the list fails, the loop returns, before any policy of
  the node is reconciled and with the nodes after it unchecked.
\<close>

theorem machine_list_error_stops_monitor:
  assumes "states (hb_NodeName hb) = Some st" and "\<not> After (hb_ReceivedAt hb) (ns_TLastHeartbeat st)"
    and "\<not> ns_IsTriggered st" and "12 \<le> ns_MissCount st"
    and "Contains (hb_NodeName hb) ''.compute.internal''"
    and "m_ListMachines (mgmt en) (Read ''clock'' '''' '''' # h) ns [] = Inl e"
  shows "\<exists>states' h'. check_nodes en ns now (hb # hbs) states h = (Ret (states', False), h') \<and> writes h' = writes h"
  using assms by (simp add: check_node_def node_observe_def machine_cluster_def api_simps Let_def)

theorem machine_list_error_stops_monitor_witness:
  "\<exists>states' h'. check_nodes down_env ''default'' 9 [worker_beat\<lparr>hb_NodeName := ''ip-1.compute.internal''\<rparr>, worker_beat]
     [''ip-1.compute.internal'' \<mapsto> (node_start 0)\<lparr>ns_MissCount := 12\<rparr>] [] = (Ret (states', False), h') \<and> writes h' = writes []"
proof (rule machine_list_error_stops_monitor)
  show "Contains (hb_NodeName (worker_beat\<lparr>hb_NodeName := ''ip-1.compute.internal''\<rparr>)) ''.compute.internal''"
    by (simp add: HasPrefix_def)
  show "[''ip-1.compute.internal'' \<mapsto> (node_start 0)\<lparr>ns_MissCount := 12\<rparr>]
      (hb_NodeName (worker_beat\<lparr>hb_NodeName := ''ip-1.compute.internal''\<rparr>)) = Some ((node_start 0)\<lparr>ns_MissCount := 12\<rparr>)"
    by simp
qed (simp_all add: worker_beat_def node_start_def After_def down_defs)

end
