(* ===== verification/Heartbeat_Server.thy ===== *)
theory Heartbeat_Server
  imports Heartbeat
begin

text \<open>
  \<^verbatim>\<open>StartServer\<close> and \<^verbatim>\<open>RunHeartbeatServer\<close> of \<^verbatim>\<open>src/reconcilers/heartbeat/heartbeat_server.go\<close>:
  the HTTP handlers and the node monitor, running concurrently over the store. Every request
  has a goroutine of its own, and the monitor is one more; what they share is the store,
  whose operations hold its lock. An input of the model is one atomic part of one goroutine,
  so that a list of inputs is an interleaving: the two halves of a heartbeat (the update of
  the store and the mirrored resource) may be arbitrarily far apart, and heartbeats arrive
  between any two nodes of a tick. The calls that a round of the monitor makes to the API
  servers touch no shared memory and are kept together.
\<close>

section \<open>Definitions\<close>

text \<open>
  Where the monitor's goroutine is: before it has read its start-up time, waiting for the
  ticker, in the loop over the snapshot of a tick (with the payloads that are left), or
  returned. A panic ends the whole process.
\<close>

datatype monitor_pc =
    Launched
  | Waiting time
  | Checking time time "HeartbeatPayload list"
  | Returned
  | Crashed

record server =
  sv_namespace :: string
  sv_store :: HeartbeatStore
  sv_upserts :: "HeartbeatPayload list"
    \<comment> \<open>the heartbeats whose handlers have updated the store and not yet mirrored them\<close>
  sv_monitor :: monitor_pc
  sv_states :: "string \<rightharpoonup> NodeState"
  sv_hist :: hist

datatype sv_input =
    Post string "HeartbeatPayload option"
  | Mirror nat
  | GetNodes
  | Launch
  | Tick
  | Check

datatype sv_output =
    Refused nat
  | Received string
  | Replied nat
  | Nodes "HeartbeatPayload list"
  | Started
  | WarmingUp
  | Snapshot
  | Checked string bool
  | TickDone
  | Died string

definition StartServer :: "string \<Rightarrow> hist \<Rightarrow> server" where
  "StartServer namespace h =
     \<lparr>sv_namespace = namespace, sv_store = NewHeartbeatStore, sv_upserts = [], sv_monitor = Launched,
      sv_states = Map.empty, sv_hist = h\<rparr>"

text \<open>The two handlers.\<close>

definition post_heartbeat :: "env \<Rightarrow> string \<Rightarrow> HeartbeatPayload option \<Rightarrow> server \<Rightarrow> sv_output \<times> server" where
  "post_heartbeat en method body s =
     (if method \<noteq> ''POST'' then (Refused 405, s)
      else case body of
             None \<Rightarrow> (Refused 400, s)
           | Some hb \<Rightarrow>
               (case store_Update en hb (sv_store s) (sv_hist s) of (store, h) \<Rightarrow>
                  (Received (hb_NodeName hb), s\<lparr>sv_store := store, sv_upserts := sv_upserts s @ [hb], sv_hist := h\<rparr>)))"

definition mirror_heartbeat :: "env \<Rightarrow> nat \<Rightarrow> server \<Rightarrow> (sv_output \<times> server) option" where
  "mirror_heartbeat en i s =
     (if i < length (sv_upserts s)
      then case UpsertNodeHealth en (sv_namespace s) (sv_upserts s ! i) ''Healthy'' (sv_hist s) of (_, h) \<Rightarrow>
             Some (Replied 204, s\<lparr>sv_upserts := remove_at i (sv_upserts s), sv_hist := h\<rparr>)
      else None)"

definition get_nodes :: "env \<Rightarrow> server \<Rightarrow> sv_output" where
  "get_nodes en s = Nodes (store_All (o_Sched (os en) (sv_hist s)) (sv_store s))"

text \<open>The monitor: its start, the beginning of a tick, and one round of the loop over the nodes.\<close>

definition launch_monitor :: "env \<Rightarrow> server \<Rightarrow> (sv_output \<times> server) option" where
  "launch_monitor en s =
     (case sv_monitor s of
        Launched \<Rightarrow> (case Now en (sv_hist s) of (startupTime, h) \<Rightarrow>
                       Some (Started, s\<lparr>sv_monitor := Waiting startupTime, sv_hist := h\<rparr>))
      | _ \<Rightarrow> None)"

definition start_tick :: "env \<Rightarrow> server \<Rightarrow> (sv_output \<times> server) option" where
  "start_tick en s =
     (case sv_monitor s of
        Waiting startupTime \<Rightarrow>
          (case Now en (sv_hist s) of (now, h) \<Rightarrow>
             (if now - startupTime < warmupPeriod_hb then Some (WarmingUp, s\<lparr>sv_hist := h\<rparr>)
              else Some (Snapshot, s\<lparr>sv_monitor := Checking startupTime now (store_All (o_Sched (os en) h) (sv_store s)),
                                    sv_hist := h\<rparr>)))
      | _ \<Rightarrow> None)"

definition check_next :: "env \<Rightarrow> server \<Rightarrow> (sv_output \<times> server) option" where
  "check_next en s =
     (case sv_monitor s of
        Checking startupTime now nodes \<Rightarrow>
          (case nodes of
             [] \<Rightarrow> Some (TickDone, s\<lparr>sv_monitor := Waiting startupTime\<rparr>)
           | hb # hbs \<Rightarrow>
               (case check_node en (sv_namespace s) now hb (sv_states s) (sv_hist s) of
                  (Panic, h) \<Rightarrow> Some (Died (hb_NodeName hb), s\<lparr>sv_monitor := Crashed, sv_hist := h\<rparr>)
                | (Ret (states, goes_on), h) \<Rightarrow>
                    (let st = node_state (sv_states s) hb in
                     Some (Checked (hb_NodeName hb) (node_fires (node_observe now hb st) st),
                           s\<lparr>sv_states := states, sv_hist := h,
                             sv_monitor := (if goes_on then Checking startupTime now hbs else Returned)\<rparr>))))
      | _ \<Rightarrow> None)"

definition serve :: "env \<Rightarrow> sv_input \<Rightarrow> server \<Rightarrow> (sv_output \<times> server) option" where
  "serve en inp s =
     (if sv_monitor s = Crashed then None
      else case inp of
             Post method body \<Rightarrow> Some (post_heartbeat en method body s)
           | Mirror i \<Rightarrow> mirror_heartbeat en i s
           | GetNodes \<Rightarrow> Some (get_nodes en s, s)
           | Launch \<Rightarrow> launch_monitor en s
           | Tick \<Rightarrow> start_tick en s
           | Check \<Rightarrow> check_next en s)"

text \<open>The runs of the server, with their outputs, newest first; and the run of a given list of inputs.\<close>

inductive server_run :: "env \<Rightarrow> server \<Rightarrow> sv_output list \<Rightarrow> server \<Rightarrow> bool" for en where
  run_refl: "server_run en s [] s"
| run_step: "server_run en s0 tr s \<Longrightarrow> serve en inp s = Some (out, s') \<Longrightarrow> server_run en s0 (out # tr) s'"

fun serve_all :: "env \<Rightarrow> sv_input list \<Rightarrow> sv_output list \<Rightarrow> server \<Rightarrow> (sv_output list \<times> server) option" where
  "serve_all en [] tr s = Some (tr, s)"
| "serve_all en (inp # inps) tr s =
     (case serve en inp s of None \<Rightarrow> None | Some (out, s') \<Rightarrow> serve_all en inps (out # tr) s')"

lemma serve_all_run:
  "serve_all en inps tr s = Some (tr', s') \<Longrightarrow> server_run en s0 tr s \<Longrightarrow> server_run en s0 tr' s'"
proof (induction inps arbitrary: tr s)
  case (Cons inp inps)
  then obtain out s1 where "serve en inp s = Some (out, s1)" "serve_all en inps (out # tr) s1 = Some (tr', s')"
    by (auto split: option.splits)
  with Cons show ?case by (blast intro: run_step)
qed simp

text \<open>A request that nothing overtakes is the handler of the sequential model.\<close>

lemma handler_is_two_steps:
  assumes "handle_heartbeat en (sv_namespace s) method (Some hb) (sv_store s) (sv_hist s) = ((204, store), h)"
    and "sv_monitor s \<noteq> Crashed"
  shows "serve_all en [Post method (Some hb), Mirror (length (sv_upserts s))] tr s =
    Some (Replied 204 # Received (hb_NodeName hb) # tr, s\<lparr>sv_store := store, sv_hist := h\<rparr>)"
  using assms
  by (auto simp: handle_heartbeat_def serve_def post_heartbeat_def mirror_heartbeat_def remove_at_def
      split: if_splits prod.splits)

section \<open>The steps of the server\<close>

lemma start_tick_cases:
  assumes "start_tick en s = Some (out, s')"
  obtains
    (warming) t where "out = WarmingUp" "s' = s\<lparr>sv_monitor := Waiting t, sv_hist := Read ''clock'' '''' '''' # sv_hist s\<rparr>"
  | (snapshot) t where "out = Snapshot" "sv_monitor s = Waiting t"
      "s' = s\<lparr>sv_monitor := Checking t (o_Now (os en) (sv_hist s))
                (store_All (o_Sched (os en) (Read ''clock'' '''' '''' # sv_hist s)) (sv_store s)),
              sv_hist := Read ''clock'' '''' '''' # sv_hist s\<rparr>"
proof -
  from assms obtain t where t: "sv_monitor s = Waiting t" by (auto simp: start_tick_def split: monitor_pc.splits)
  then have eq: "s\<lparr>sv_hist := h\<rparr> = s\<lparr>sv_monitor := Waiting t, sv_hist := h\<rparr>" for h by (cases s) simp
  show thesis
  proof (cases "o_Now (os en) (sv_hist s) - t < warmupPeriod_hb")
    case True
    with t assms show thesis by (intro warming [of t]) (auto simp: start_tick_def api_simps eq)
  next
    case False
    with t assms show thesis by (intro snapshot [of t]) (auto simp: start_tick_def api_simps)
  qed
qed

lemma check_next_cases:
  assumes "check_next en s = Some (out, s')"
  obtains
    (finished) t now where "out = TickDone" "sv_monitor s = Checking t now []" "s' = s\<lparr>sv_monitor := Waiting t\<rparr>"
  | (died) n es where "out = Died n" "s' = s\<lparr>sv_monitor := Crashed, sv_hist := es @ sv_hist s\<rparr>"
  | (checked) t now hb hbs st st' fired pc es where "sv_monitor s = Checking t now (hb # hbs)"
      "st = node_state (sv_states s) hb" "fired = node_fires (node_observe now hb st) st" "stepped now hb st st'"
      "out = Checked (hb_NodeName hb) fired" "pc = Checking t now hbs \<or> pc = Returned"
      "s' = s\<lparr>sv_states := (sv_states s)(hb_NodeName hb \<mapsto> st'), sv_hist := es @ sv_hist s, sv_monitor := pc\<rparr>"
proof -
  from assms obtain t now nodes where pc: "sv_monitor s = Checking t now nodes"
    by (auto simp: check_next_def split: monitor_pc.splits)
  show thesis
  proof (cases nodes)
    case Nil
    with pc assms show thesis by (intro finished) (auto simp: check_next_def)
  next
    case (Cons hb hbs)
    obtain r h where c: "check_node en (sv_namespace s) now hb (sv_states s) (sv_hist s) = (r, h)" by fastforce
    with check_node_emits obtain es where es: "h = es @ sv_hist s" by (blast dest: emits_extends)
    show thesis
    proof (cases r)
      case Panic
      with pc Cons c es assms show thesis by (intro died [of "hb_NodeName hb" es]) (auto simp: check_next_def)
    next
      case (Ret x)
      obtain states goes_on where x: "x = (states, goes_on)" by (cases x)
      with c Ret obtain st' where "stepped now hb (node_state (sv_states s) hb) st'"
        "states = (sv_states s)(hb_NodeName hb \<mapsto> st')" by (auto elim: check_node_steps)
      with pc Cons c es Ret x assms show thesis
        by (intro checked [of t now hb hbs _ _ st' "if goes_on then Checking t now hbs else Returned" es])
          (auto simp: check_next_def Let_def)
    qed
  qed
qed

lemma serve_cases:
  assumes "serve en inp s = Some (out, s')"
  obtains
    (same) "s' = s" "\<exists>c ns. out = Refused c \<or> out = Nodes ns"
  | (posted) hb now where "out = Received (hb_NodeName hb)" "now = o_Now (os en) (sv_hist s)"
      "s' = s\<lparr>sv_store := put (hb_NodeName hb) (hb\<lparr>hb_ReceivedAt := now, hb_MissCount := 0\<rparr>) (sv_store s),
              sv_upserts := sv_upserts s @ [hb], sv_hist := Read ''clock'' '''' '''' # sv_hist s\<rparr>"
  | (mirrored) es i where "out = Replied 204"
      "s' = s\<lparr>sv_upserts := remove_at i (sv_upserts s), sv_hist := es @ sv_hist s\<rparr>"
  | (clock) pc where "out = Started \<or> out = WarmingUp" "\<exists>t. pc = Waiting t"
      "s' = s\<lparr>sv_monitor := pc, sv_hist := Read ''clock'' '''' '''' # sv_hist s\<rparr>"
  | (snapshot) t now pick where "out = Snapshot" "sv_monitor s = Waiting t" "now = o_Now (os en) (sv_hist s)"
      "s' = s\<lparr>sv_monitor := Checking t now (store_All pick (sv_store s)),
              sv_hist := Read ''clock'' '''' '''' # sv_hist s\<rparr>"
  | (finished) t now where "out = TickDone" "sv_monitor s = Checking t now []" "s' = s\<lparr>sv_monitor := Waiting t\<rparr>"
  | (checked) t now hb hbs st st' fired pc es where "sv_monitor s = Checking t now (hb # hbs)"
      "st = node_state (sv_states s) hb" "fired = node_fires (node_observe now hb st) st" "stepped now hb st st'"
      "out = Checked (hb_NodeName hb) fired" "pc = Checking t now hbs \<or> pc = Returned"
      "s' = s\<lparr>sv_states := (sv_states s)(hb_NodeName hb \<mapsto> st'), sv_hist := es @ sv_hist s, sv_monitor := pc\<rparr>"
  | (died) n es where "out = Died n" "s' = s\<lparr>sv_monitor := Crashed, sv_hist := es @ sv_hist s\<rparr>"
proof -
  consider (post) m b where "inp = Post m b" | (mirror) i where "inp = Mirror i" | (get) "inp = GetNodes"
    | (launch) "inp = Launch" | (tick) "inp = Tick" | (check) "inp = Check" by (cases inp) auto
  then show thesis
  proof cases
    case (post m b)
    with assms have p: "post_heartbeat en m b s = (out, s')" by (auto simp: serve_def split: if_splits)
    show ?thesis
    proof (cases "m = ''POST'' \<and> b \<noteq> None")
      case True
      then obtain hb where "m = ''POST''" "b = Some hb" by auto
      with p show ?thesis
        by (intro posted [of hb "o_Now (os en) (sv_hist s)"]) (auto simp: post_heartbeat_def store_Update_def api_simps)
    next
      case False
      with p show ?thesis by (intro same) (auto simp: post_heartbeat_def split: if_splits)
    qed
  next
    case (mirror i)
    obtain r h where u: "UpsertNodeHealth en (sv_namespace s) (sv_upserts s ! i) ''Healthy'' (sv_hist s) = (r, h)" by fastforce
    have "emits (\<lambda>_. True) (UpsertNodeHealth en (sv_namespace s) (sv_upserts s ! i) ''Healthy'')" by (auto intro!: emits_intros)
    from emits_extends [OF this u] obtain es where "h = es @ sv_hist s" by blast
    with mirror assms u show ?thesis
      by (intro mirrored [of es i]) (auto simp: serve_def mirror_heartbeat_def split: if_splits)
  next
    case get
    with assms show ?thesis by (intro same) (auto simp: serve_def get_nodes_def split: if_splits)
  next
    case launch
    with assms show ?thesis
      by (intro clock [of "Waiting (o_Now (os en) (sv_hist s))"])
        (auto simp: serve_def launch_monitor_def api_simps split: if_splits monitor_pc.splits)
  next
    case tick
    with assms have "start_tick en s = Some (out, s')" by (auto simp: serve_def split: if_splits)
    then show ?thesis
    proof (cases rule: start_tick_cases)
      case (warming t)
      then show ?thesis by (intro clock [of "Waiting t"]) auto
    next
      case (snapshot t)
      then show ?thesis by (intro that(5) [OF _ _ refl])
    qed
  next
    case check
    with assms have "check_next en s = Some (out, s')" by (auto simp: serve_def split: if_splits)
    then show ?thesis by (cases rule: check_next_cases) (fact finished, fact died, fact checked)
  qed
qed

text \<open>What a round does to the fields of a node's state.\<close>

lemma fires_iff: "node_fires (node_observe now hb st) st \<longleftrightarrow>
    \<not> After (hb_ReceivedAt hb) (ns_TLastHeartbeat st) \<and> \<not> ns_IsTriggered st \<and> 12 < ns_MissCount st + 1"
  by (auto simp: node_observe_def)

lemma stepped_seen:
  assumes "stepped now hb st st'" and "After (hb_ReceivedAt hb) (ns_TLastHeartbeat st)"
  shows "ns_TLastHeartbeat st' = hb_ReceivedAt hb \<and> ns_MissCount st' = 0 \<and> \<not> ns_IsTriggered st'"
  using assms by (auto simp: stepped_def node_observe_def)

lemma stepped_missed:
  assumes "stepped now hb st st'" and "\<not> After (hb_ReceivedAt hb) (ns_TLastHeartbeat st)"
  shows "ns_TLastHeartbeat st' = ns_TLastHeartbeat st \<and> ns_MissCount st' = ns_MissCount st + 1 \<and>
    (ns_IsTriggered st' \<longleftrightarrow> ns_IsTriggered st \<or> 12 < ns_MissCount st + 1)"
proof -
  from assms(1) obtain d where "st' = (node_step (node_observe now hb st) st)\<lparr>ns_TDetected := d\<rparr>" by (auto simp: stepped_def)
  with assms(2) show ?thesis by (simp add: node_observe_def Let_def)
qed

lemma node_state_Some: "states (hb_NodeName hb) = Some st \<Longrightarrow> node_state states hb = st"
  by (simp add: node_state_def)

lemma node_state_None: "states (hb_NodeName hb) = None \<Longrightarrow> node_state states hb = node_start (hb_ReceivedAt hb)"
  by (simp add: node_state_def)

lemma store_Get_put: "store_Get (put k v s) n = (if n = k then Some v else store_Get s n)"
  by (simp add: store_Get_def map_of_put)

section \<open>The invariant of the server's memory\<close>

text \<open>
  The store holds one entry per node, under its name and with a cleared miss counter; the
  monitor has states for nodes of the store only, whose counters are not negative and whose
  latch is exactly "more than twelve misses"; and the snapshot of a tick names nodes of the
  store, none twice.
\<close>

definition node_ok :: "NodeState \<Rightarrow> bool" where
  "node_ok st \<longleftrightarrow> 0 \<le> ns_MissCount st \<and> (ns_IsTriggered st \<longleftrightarrow> 12 < ns_MissCount st)"

definition snapshot_ok :: "HeartbeatStore \<Rightarrow> monitor_pc \<Rightarrow> bool" where
  "snapshot_ok store pc \<longleftrightarrow>
     (case pc of Checking _ _ hbs \<Rightarrow> distinct (map hb_NodeName hbs) \<and> (\<forall>hb \<in> set hbs. store_Get store (hb_NodeName hb) \<noteq> None)
      | _ \<Rightarrow> True)"

definition server_ok :: "server \<Rightarrow> bool" where
  "server_ok s \<longleftrightarrow>
     store_ok (sv_store s) \<and> (\<forall>n hb. store_Get (sv_store s) n = Some hb \<longrightarrow> hb_MissCount hb = 0) \<and>
     (\<forall>n st. sv_states s n = Some st \<longrightarrow> store_Get (sv_store s) n \<noteq> None \<and> node_ok st) \<and>
     snapshot_ok (sv_store s) (sv_monitor s)"

lemma node_ok_step:
  assumes "stepped now hb (node_state states hb) st'" and "\<And>st. states (hb_NodeName hb) = Some st \<Longrightarrow> node_ok st"
  shows "node_ok st'"
proof -
  have "node_ok (node_state states hb)"
    using assms(2) by (cases "states (hb_NodeName hb)") (auto simp: node_state_def node_ok_def node_start_def)
  with stepped_seen [OF assms(1)] stepped_missed [OF assms(1)] show ?thesis
    by (cases "After (hb_ReceivedAt hb) (ns_TLastHeartbeat (node_state states hb))") (auto simp: node_ok_def)
qed

lemma snapshot_ok_mono:
  "snapshot_ok store pc \<Longrightarrow> (\<And>n. store_Get store n \<noteq> None \<Longrightarrow> store_Get store' n \<noteq> None) \<Longrightarrow> snapshot_ok store' pc"
  by (auto simp: snapshot_ok_def split: monitor_pc.splits)

lemma serve_ok:
  assumes "server_ok s" and "serve en inp s = Some (out, s')"
  shows "server_ok s'"
  using assms(2)
proof (cases rule: serve_cases)
  case same
  with assms(1) show ?thesis by simp
next
  case (posted hb now)
  with assms(1) show ?thesis
    by (auto simp: server_ok_def store_Get_put intro!: store_ok_put elim!: snapshot_ok_mono)
next
  case (snapshot t now pick)
  with assms(1) store_All_names [of "sv_store s" pick] store_All_Get [of "sv_store s" _ pick] show ?thesis
    by (auto simp: server_ok_def snapshot_ok_def)
next
  case (checked t now hb hbs st st' fired pc es)
  with assms(1) have "node_ok st'" by (auto simp: server_ok_def intro: node_ok_step)
  with checked assms(1) show ?thesis by (auto simp: server_ok_def snapshot_ok_def)
qed (use assms(1) in \<open>auto simp: server_ok_def snapshot_ok_def\<close>)

lemma StartServer_ok: "server_ok (StartServer ns h)"
  by (simp add: server_ok_def StartServer_def NewHeartbeatStore_def store_ok_def store_Get_def snapshot_ok_def)

lemma run_ok: "server_run en s0 tr s \<Longrightarrow> server_ok s0 \<Longrightarrow> server_ok s"
  by (induction rule: server_run.induct) (auto intro: serve_ok)

section \<open>What the monitor knows of a node\<close>

text \<open>
  Read off the outputs, newest first: the rounds of the monitor for a node since its last
  heartbeat, whether a heartbeat of the node came after the snapshot of the current tick, and
  the rounds and the alarms of a node in a whole run.
\<close>

fun checks_since :: "string \<Rightarrow> sv_output list \<Rightarrow> nat" where
  "checks_since n [] = 0"
| "checks_since n (Received m # tr) = (if m = n then 0 else checks_since n tr)"
| "checks_since n (Checked m _ # tr) = (if m = n then Suc (checks_since n tr) else checks_since n tr)"
| "checks_since n (_ # tr) = checks_since n tr"

fun received_in_tick :: "string \<Rightarrow> sv_output list \<Rightarrow> bool" where
  "received_in_tick n [] = False"
| "received_in_tick n (Snapshot # tr) = False"
| "received_in_tick n (Received m # tr) = (m = n \<or> received_in_tick n tr)"
| "received_in_tick n (_ # tr) = received_in_tick n tr"

definition rounds :: "string \<Rightarrow> sv_output list \<Rightarrow> nat" where
  "rounds n tr = length (filter (\<lambda>out. out = Checked n True \<or> out = Checked n False) tr)"

definition alarms :: "string \<Rightarrow> sv_output list \<Rightarrow> nat" where
  "alarms n tr = length (filter (\<lambda>out. out = Checked n True) tr)"

text \<open>\<^verbatim>\<open>time.Now\<close> carries a monotonic clock reading, and a later call gives a later time.\<close>

definition clock_advances :: "env \<Rightarrow> bool" where
  "clock_advances en \<longleftrightarrow> (\<forall>es h. es \<noteq> [] \<longrightarrow> o_Now (os en) h < o_Now (os en) (es @ h))"

lemma clock_advances_le: "clock_advances en \<Longrightarrow> o_Now (os en) h \<le> o_Now (os en) (es @ h)"
  by (cases "es = []") (auto simp: clock_advances_def less_imp_le)

lemma clock_advances_less: "clock_advances en \<Longrightarrow> o_Now (os en) h < o_Now (os en) (e # h)"
  unfolding clock_advances_def by (metis append_Cons append_Nil not_Cons_self2)

text \<open>
  How the monitor lags behind the store: the time it has last seen of a node is at most that
  of the store, and when it is that of the store, the miss counter is bounded by the rounds
  since the heartbeat; a payload of the snapshot is that of the store, unless a heartbeat came
  after the snapshot.
\<close>

definition lags :: "sv_output list \<Rightarrow> HeartbeatStore \<Rightarrow> string \<Rightarrow> NodeState \<Rightarrow> bool" where
  "lags tr store n st \<longleftrightarrow> (\<exists>hb. store_Get store n = Some hb \<and> ns_TLastHeartbeat st \<le> hb_ReceivedAt hb \<and>
     (hb_ReceivedAt hb \<le> ns_TLastHeartbeat st \<longrightarrow> ns_MissCount st \<le> int (checks_since n tr)))"

definition current :: "sv_output list \<Rightarrow> HeartbeatStore \<Rightarrow> HeartbeatPayload \<Rightarrow> bool" where
  "current tr store hb \<longleftrightarrow> (\<exists>hb'. store_Get store (hb_NodeName hb) = Some hb' \<and> hb_ReceivedAt hb \<le> hb_ReceivedAt hb' \<and>
     (hb' = hb \<or> received_in_tick (hb_NodeName hb) tr))"

definition timely :: "env \<Rightarrow> sv_output list \<Rightarrow> server \<Rightarrow> bool" where
  "timely en tr s \<longleftrightarrow>
     (\<forall>n hb. store_Get (sv_store s) n = Some hb \<longrightarrow> hb_ReceivedAt hb < o_Now (os en) (sv_hist s)) \<and>
     (\<forall>n st. sv_states s n = Some st \<longrightarrow> lags tr (sv_store s) n st) \<and>
     (\<forall>t now hbs. sv_monitor s = Checking t now hbs \<longrightarrow> (\<forall>hb \<in> set hbs. current tr (sv_store s) hb))"

lemma timely_time: "timely en tr s \<Longrightarrow> store_Get (sv_store s) n = Some hb \<Longrightarrow> hb_ReceivedAt hb < o_Now (os en) (sv_hist s)"
  by (simp add: timely_def)

lemma timely_lags:
  assumes "timely en tr s" and "sv_states s n = Some st"
  obtains hb where "store_Get (sv_store s) n = Some hb" "ns_TLastHeartbeat st \<le> hb_ReceivedAt hb"
    "hb_ReceivedAt hb \<le> ns_TLastHeartbeat st \<longrightarrow> ns_MissCount st \<le> int (checks_since n tr)"
proof -
  from assms have "lags tr (sv_store s) n st" by (simp add: timely_def)
  with that show thesis unfolding lags_def by blast
qed

lemma timely_current:
  assumes "timely en tr s" and "sv_monitor s = Checking t now hbs" and "hb \<in> set hbs"
  obtains hb' where "store_Get (sv_store s) (hb_NodeName hb) = Some hb'" "hb_ReceivedAt hb \<le> hb_ReceivedAt hb'"
    "hb' = hb \<or> received_in_tick (hb_NodeName hb) tr"
proof -
  from assms have "current tr (sv_store s) hb" by (simp add: timely_def)
  with that show thesis unfolding current_def by blast
qed

text \<open>Outputs that neither count as a round nor as a heartbeat nor start a tick change nothing here.\<close>

lemma timely_quiet:
  assumes "timely en tr s" and "clock_advances en" and "sv_store s' = sv_store s" and "sv_states s' = sv_states s"
    and "sv_hist s' = es @ sv_hist s" and "\<And>n. checks_since n (out # tr) = checks_since n tr"
    and "\<And>t now hbs. sv_monitor s' = Checking t now hbs \<Longrightarrow> sv_monitor s = Checking t now hbs"
    and "\<And>n. received_in_tick n (out # tr) = received_in_tick n tr"
  shows "timely en (out # tr) s'"
proof -
  have now: "o_Now (os en) (sv_hist s) \<le> o_Now (os en) (sv_hist s')" using assms(2,5) clock_advances_le by simp
  have "hb_ReceivedAt hb < o_Now (os en) (sv_hist s')" if "store_Get (sv_store s) n = Some hb" for n hb
    using timely_time [OF assms(1) that] now by simp
  then show ?thesis
    using assms(1) assms(7) by (simp add: timely_def lags_def current_def assms(3,4,6,8))
qed

lemma timely_posted:
  assumes "timely en tr s" and "clock_advances en" and "now = o_Now (os en) (sv_hist s)"
  shows "timely en (Received (hb_NodeName hb) # tr)
    (s\<lparr>sv_store := put (hb_NodeName hb) (hb\<lparr>hb_ReceivedAt := now, hb_MissCount := 0\<rparr>) (sv_store s),
       sv_upserts := us, sv_hist := Read ''clock'' '''' '''' # sv_hist s\<rparr>)"
proof -
  let ?n = "hb_NodeName hb" and ?h = "Read ''clock'' '''' '''' # sv_hist s"
  have later: "now < o_Now (os en) ?h" using assms(2,3) clock_advances_less by simp
  have old: "hb_ReceivedAt hb' < now" if "store_Get (sv_store s) m = Some hb'" for m hb'
    using timely_time [OF assms(1) that] assms(3) by simp
  have lag: "lags (Received ?n # tr) (put ?n (hb\<lparr>hb_ReceivedAt := now, hb_MissCount := 0\<rparr>) (sv_store s)) m st"
    if "sv_states s m = Some st" for m st
  proof (cases "m = ?n")
    case True
    from assms(1) that obtain hb' where hb': "store_Get (sv_store s) m = Some hb'" "ns_TLastHeartbeat st \<le> hb_ReceivedAt hb'"
      by (rule timely_lags)
    then have "ns_TLastHeartbeat st < now" using old [OF hb'(1)] by simp
    with True show ?thesis by (simp add: lags_def store_Get_put)
  next
    case False
    with assms(1) that show ?thesis by (auto simp: timely_def lags_def store_Get_put)
  qed
  have cur: "current (Received ?n # tr) (put ?n (hb\<lparr>hb_ReceivedAt := now, hb_MissCount := 0\<rparr>) (sv_store s)) hb2"
    if "sv_monitor s = Checking t w hbs" "hb2 \<in> set hbs" for t w hbs hb2
  proof -
    from assms(1) that obtain hb' where hb': "store_Get (sv_store s) (hb_NodeName hb2) = Some hb'"
      "hb_ReceivedAt hb2 \<le> hb_ReceivedAt hb'" "hb' = hb2 \<or> received_in_tick (hb_NodeName hb2) tr" by (rule timely_current)
    with old [OF hb'(1)] show ?thesis by (auto simp: current_def store_Get_put)
  qed
  show ?thesis
    using later old lag cur by (force simp: timely_def store_Get_put dest: less_trans)
qed

lemma timely_snapshot:
  assumes "timely en tr s" and "clock_advances en" and "store_ok (sv_store s)"
  shows "timely en (Snapshot # tr)
    (s\<lparr>sv_monitor := Checking t now (store_All pick (sv_store s)), sv_hist := Read ''clock'' '''' '''' # sv_hist s\<rparr>)"
proof -
  have "current (Snapshot # tr) (sv_store s) hb" if "hb \<in> set (store_All pick (sv_store s))" for hb
    using that store_All_Get [OF assms(3)] by (auto simp: current_def)
  moreover have "hb_ReceivedAt hb < o_Now (os en) (Read ''clock'' '''' '''' # sv_hist s)"
    if "store_Get (sv_store s) n = Some hb" for n hb
    using timely_time [OF assms(1) that] clock_advances_less [OF assms(2)] by (rule less_trans)
  moreover have "lags (Snapshot # tr) (sv_store s) n st" if "sv_states s n = Some st" for n st
    using assms(1) that by (auto simp: timely_def lags_def)
  ultimately show ?thesis by (simp add: timely_def)
qed

lemma lags_checked:
  assumes "timely en tr s" and "sv_monitor s = Checking t now (hb # hbs)"
    and "stepped now hb (node_state (sv_states s) hb) st'"
  shows "lags (Checked (hb_NodeName hb) fired # tr) (sv_store s) (hb_NodeName hb) st'"
proof -
  let ?st = "node_state (sv_states s) hb" and ?n = "hb_NodeName hb"
  from assms(1,2) obtain hb' where hb': "store_Get (sv_store s) ?n = Some hb'" "hb_ReceivedAt hb \<le> hb_ReceivedAt hb'"
    using timely_current [OF assms(1,2), of hb] by auto
  show ?thesis
  proof (cases "After (hb_ReceivedAt hb) (ns_TLastHeartbeat ?st)")
    case True
    with stepped_seen [OF assms(3)] hb' show ?thesis by (simp add: lags_def)
  next
    case False
    note st' = stepped_missed [OF assms(3) False]
    show ?thesis
    proof (cases "sv_states s ?n")
      case None
      with st' hb' show ?thesis by (simp add: lags_def node_state_None node_start_def)
    next
      case (Some st)
      with assms(1) obtain hb2 where "store_Get (sv_store s) ?n = Some hb2" "ns_TLastHeartbeat st \<le> hb_ReceivedAt hb2"
        "hb_ReceivedAt hb2 \<le> ns_TLastHeartbeat st \<longrightarrow> ns_MissCount st \<le> int (checks_since ?n tr)" by (rule timely_lags)
      with Some st' show ?thesis by (auto simp: lags_def node_state_Some)
    qed
  qed
qed

lemma timely_checked:
  assumes "timely en tr s" and "clock_advances en" and "sv_monitor s = Checking t now (hb # hbs)"
    and "stepped now hb (node_state (sv_states s) hb) st'" and "pc = Checking t now hbs \<or> pc = Returned"
  shows "timely en (Checked (hb_NodeName hb) fired # tr)
    (s\<lparr>sv_states := (sv_states s)(hb_NodeName hb \<mapsto> st'), sv_hist := es @ sv_hist s, sv_monitor := pc\<rparr>)"
proof -
  have "lags (Checked (hb_NodeName hb) fired # tr) (sv_store s) n st2"
    if "((sv_states s)(hb_NodeName hb \<mapsto> st')) n = Some st2" for n st2
  proof (cases "n = hb_NodeName hb")
    case True
    with that lags_checked [OF assms(1,3,4)] show ?thesis by simp
  next
    case False
    with that assms(1) have "lags tr (sv_store s) n st2" by (simp add: timely_def)
    with False show ?thesis by (simp add: lags_def)
  qed
  moreover have "hb_ReceivedAt hb2 < o_Now (os en) (es @ sv_hist s)" if "store_Get (sv_store s) n = Some hb2" for n hb2
    using timely_time [OF assms(1) that] clock_advances_le [OF assms(2)] by (rule less_le_trans)
  moreover have "current (Checked (hb_NodeName hb) fired # tr) (sv_store s) hb2" if "hb2 \<in> set hbs" for hb2
    using assms(1,3) that by (auto simp: timely_def current_def)
  ultimately show ?thesis using assms(5) by (auto simp: timely_def simp del: fun_upd_apply)
qed

lemma serve_timely:
  assumes "timely en tr s" and "clock_advances en" and "server_ok s" and "serve en inp s = Some (out, s')"
  shows "timely en (out # tr) s'"
  using assms(4)
proof (cases rule: serve_cases)
  case (posted hb now)
  with timely_posted [OF assms(1,2)] show ?thesis by simp
next
  case (snapshot t now pick)
  with timely_snapshot [OF assms(1,2)] assms(3) show ?thesis by (simp add: server_ok_def)
next
  case (checked t now hb hbs st st' fired pc es)
  with timely_checked [OF assms(1,2)] show ?thesis by simp
next
  case same
  then show ?thesis by (intro timely_quiet [OF assms(1,2), of _ "[]"]) auto
next
  case (mirrored es i)
  then show ?thesis by (intro timely_quiet [OF assms(1,2), of _ es]) auto
next
  case (clock pc)
  then show ?thesis by (intro timely_quiet [OF assms(1,2), of _ "[Read ''clock'' '''' '''']"]) auto
next
  case (finished t now)
  then show ?thesis by (intro timely_quiet [OF assms(1,2), of _ "[]"]) auto
next
  case (died n es)
  then show ?thesis by (intro timely_quiet [OF assms(1,2), of _ es]) auto
qed

lemma StartServer_timely: "timely en [] (StartServer ns h)"
  by (simp add: timely_def StartServer_def NewHeartbeatStore_def store_Get_def)

lemma run_timely: "server_run en s0 tr s \<Longrightarrow> clock_advances en \<Longrightarrow> s0 = StartServer ns h \<Longrightarrow> timely en tr s \<and> server_ok s"
  by (induction rule: server_run.induct) (auto intro: serve_timely serve_ok StartServer_timely StartServer_ok)

section \<open>A node that is silent\<close>

text \<open>
  The misses with which the monitor enters an outage of a node: none for a node it does not
  know, one less if a heartbeat is in the store that it has not seen, since the first round
  is then spent on it, and the counter otherwise.
\<close>

definition misses_before :: "HeartbeatPayload \<Rightarrow> (string \<rightharpoonup> NodeState) \<Rightarrow> int" where
  "misses_before hb states =
     (case states (hb_NodeName hb) of
        None \<Rightarrow> 0
      | Some st \<Rightarrow> if After (hb_ReceivedAt hb) (ns_TLastHeartbeat st) then - 1 else ns_MissCount st)"

text \<open>Along a run without a heartbeat of the node every further round is a miss.\<close>

definition silent :: "HeartbeatPayload \<Rightarrow> (string \<rightharpoonup> NodeState) \<Rightarrow> sv_output list \<Rightarrow> server \<Rightarrow> bool" where
  "silent hb states0 tr s \<longleftrightarrow>
     (let n = hb_NodeName hb; d = misses_before hb states0; k = int (rounds n tr) in
      store_Get (sv_store s) n = Some hb \<and>
      (\<forall>t now hbs. sv_monitor s = Checking t now hbs \<longrightarrow> (\<forall>hb' \<in> set hbs. hb_NodeName hb' = n \<longrightarrow> hb' = hb)) \<and>
      alarms n tr = (if d \<le> 12 \<and> 12 < d + k then 1 else 0) \<and>
      (if k = 0 then sv_states s n = states0 n
       else \<exists>st. sv_states s n = Some st \<and> \<not> After (hb_ReceivedAt hb) (ns_TLastHeartbeat st) \<and>
              ns_MissCount st = d + k \<and> (ns_IsTriggered st \<longleftrightarrow> 12 < d + k)))"

lemma rounds_Cons: "rounds n (out # tr) = (if \<exists>fired. out = Checked n fired then Suc (rounds n tr) else rounds n tr)"
  by (auto simp: rounds_def)

lemma alarms_Cons: "alarms n (out # tr) = (if out = Checked n True then Suc (alarms n tr) else alarms n tr)"
  by (simp add: alarms_def)

text \<open>One round: the counter, the latch and the alarm.\<close>

lemma silent_count:
  assumes "silent hb states0 tr s" and "\<And>st. states0 (hb_NodeName hb) = Some st \<Longrightarrow> node_ok st"
    and "stepped now hb (node_state (sv_states s) hb) st'"
    and "fired = node_fires (node_observe now hb (node_state (sv_states s) hb)) (node_state (sv_states s) hb)"
    and "m = misses_before hb states0 + int (rounds (hb_NodeName hb) tr)"
  shows "(fired \<longleftrightarrow> m = 12) \<and> \<not> After (hb_ReceivedAt hb) (ns_TLastHeartbeat st') \<and> ns_MissCount st' = m + 1 \<and>
    (ns_IsTriggered st' \<longleftrightarrow> 12 < m + 1)"
proof -
  let ?n = "hb_NodeName hb" and ?st = "node_state (sv_states s) hb"
  show ?thesis
  proof (cases "After (hb_ReceivedAt hb) (ns_TLastHeartbeat ?st)")
    case True
    then have k: "rounds ?n tr = 0"
      using assms(1) by (auto simp: silent_def Let_def node_state_Some split: if_splits)
    with assms(1) have eq: "sv_states s ?n = states0 ?n" by (simp add: silent_def Let_def)
    with True have "misses_before hb states0 = - 1"
      by (cases "states0 ?n") (auto simp: misses_before_def node_state_def node_start_def After_def)
    with stepped_seen [OF assms(3) True] assms(4,5) k True show ?thesis by (simp add: fires_iff After_def)
  next
    case False
    have "ns_MissCount ?st = m \<and> (ns_IsTriggered ?st \<longleftrightarrow> 12 < m)"
    proof (cases "rounds ?n tr = 0")
      case k: True
      with assms(1) have "sv_states s ?n = states0 ?n" by (simp add: silent_def Let_def)
      with False k assms(2,5) show ?thesis
        by (cases "states0 ?n") (auto simp: misses_before_def node_state_def node_start_def node_ok_def After_def)
    next
      case k: False
      with assms(1,5) show ?thesis by (auto simp: silent_def Let_def node_state_Some)
    qed
    with stepped_missed [OF assms(3) False] assms(4) False show ?thesis by (auto simp: fires_iff)
  qed
qed

lemma silent_round:
  assumes "silent hb states0 tr s" and "\<And>st. states0 (hb_NodeName hb) = Some st \<Longrightarrow> node_ok st"
    and "sv_monitor s = Checking t now (hb # hbs)" and "pc = Checking t now hbs \<or> pc = Returned"
    and "stepped now hb (node_state (sv_states s) hb) st'"
    and "fired = node_fires (node_observe now hb (node_state (sv_states s) hb)) (node_state (sv_states s) hb)"
  shows "silent hb states0 (Checked (hb_NodeName hb) fired # tr)
    (s\<lparr>sv_states := (sv_states s)(hb_NodeName hb \<mapsto> st'), sv_hist := h, sv_monitor := pc\<rparr>)"
proof -
  let ?n = "hb_NodeName hb" and ?d = "misses_before hb states0"
  note c = silent_count [OF assms(1,2,5,6) refl]
  have al: "alarms ?n tr = (if ?d \<le> 12 \<and> 12 < ?d + int (rounds ?n tr) then 1 else 0)"
    using assms(1) by (simp add: silent_def Let_def)
  have "alarms ?n (Checked ?n fired # tr) = (if ?d \<le> 12 \<and> 12 < ?d + int (Suc (rounds ?n tr)) then 1 else 0)"
    using al c by (auto simp: alarms_Cons)
  moreover have "\<forall>hb' \<in> set hbs. hb_NodeName hb' = ?n \<longrightarrow> hb' = hb" "store_Get (sv_store s) ?n = Some hb"
    using assms(1,3) by (auto simp: silent_def Let_def)
  ultimately show ?thesis
    using c assms(4) by (auto simp: silent_def Let_def rounds_Cons)
qed

lemma silent_step:
  assumes "silent hb states0 tr s" and "\<And>st. states0 (hb_NodeName hb) = Some st \<Longrightarrow> node_ok st"
    and "server_ok s" and "serve en inp s = Some (out, s')" and "out \<noteq> Received (hb_NodeName hb)"
  shows "silent hb states0 (out # tr) s'"
  using assms(4)
proof (cases rule: serve_cases)
  case (snapshot t now pick)
  with assms(1,3) store_All_Get [of "sv_store s" _ pick] show ?thesis
    by (auto simp: silent_def Let_def rounds_Cons alarms_Cons server_ok_def)
next
  case (checked t now hb' hbs st st' fired pc es)
  show ?thesis
  proof (cases "hb_NodeName hb' = hb_NodeName hb")
    case True
    with assms(1) checked(1) have "hb' = hb" by (auto simp: silent_def Let_def)
    with checked silent_round [OF assms(1,2), of t now hbs pc st' fired "es @ sv_hist s"] show ?thesis by simp
  next
    case False
    with assms(1) checked show ?thesis by (auto simp: silent_def Let_def rounds_Cons alarms_Cons)
  qed
qed (use assms(1,5) in \<open>auto simp: silent_def Let_def rounds_Cons alarms_Cons store_Get_put\<close>)

lemma silent_run:
  assumes "server_run en s0 tr s" and "server_ok s0" and "store_Get (sv_store s0) (hb_NodeName hb) = Some hb"
    and "sv_monitor s0 = Waiting t" and "Received (hb_NodeName hb) \<notin> set tr"
  shows "silent hb (sv_states s0) tr s"
  using assms
proof (induction rule: server_run.induct)
  case (run_refl s)
  then show ?case by (simp add: silent_def Let_def rounds_def alarms_def)
next
  case (run_step s0 tr s inp out s')
  have nodes: "\<And>st. sv_states s0 (hb_NodeName hb) = Some st \<Longrightarrow> node_ok st"
    using run_step.prems(1) by (auto simp: server_ok_def)
  have "server_ok s" using run_step.hyps(1) run_step.prems(1) by (rule run_ok)
  with run_step nodes show ?case by (intro silent_step [OF _ nodes]) auto
qed

section \<open>Properties\<close>

text \<open>
  C17. The memory the handlers and the monitor share is well-formed in every reachable state,
  whatever the interleaving: one entry per node in the store, under its own name; a state of
  the monitor only for a node of the store, with a counter that is not negative and a latch
  that is set exactly when the counter is above twelve; no node twice in a snapshot.
\<close>

theorem server_memory_is_typed:
  assumes "server_run en (StartServer ns h) tr s"
  shows "server_ok s"
  using assms StartServer_ok by (rule run_ok)

definition beating_env :: env where
  "beating_env = down_env\<lparr>os := down_os\<lparr>o_Now := \<lambda>h. int (length h) * Second\<rparr>\<rparr>"

lemma beating_clock: "clock_advances beating_env"
  by (simp add: clock_advances_def beating_env_def)

text \<open>A node posts one heartbeat; the monitor comes out of its warm-up and makes twelve ticks; the thirteenth begins.\<close>

definition four_ticks :: "sv_input list" where
  "four_ticks = [Tick, Check, Check, Tick, Check, Check, Tick, Check, Check, Tick, Check, Check]"

definition silent_inputs :: "sv_input list" where
  "silent_inputs = [Launch, Post ''POST'' (Some worker_beat), Tick, Tick, Tick] @ four_ticks @ four_ticks @ four_ticks @ [Tick]"

lemmas server_evals =
  serve_def launch_monitor_def post_heartbeat_def start_tick_def check_next_def StartServer_def
  NewHeartbeatStore_def store_Update_def api_simps warmupPeriod_hb_def beating_env_def down_defs Second_def
  store_All_def range_order.simps remove_at_def worker_beat_def check_node_def node_state_def node_observe_def
  After_def node_start_def Let_def machine_cluster_def get_machine_cluster_def
  ReconcileClusterPoliciesForNode_def triggerMigrationNodeCP_def UpsertNodeHealth_def HasPrefix_def IsZero_def
  ZeroTime_def

lemma silent_inputs_run:
  "\<exists>tr s. serve_all beating_env silent_inputs [] (StartServer ''default'' []) = Some (tr, s) \<and>
     checks_since ''worker-1'' tr = 12 \<and> \<not> received_in_tick ''worker-1'' tr \<and>
     (\<exists>s'. check_next beating_env s = Some (Checked ''worker-1'' True, s'))"
  by (simp add: silent_inputs_def four_ticks_def server_evals)

theorem server_memory_is_typed_witness:
  "\<exists>tr s. server_run beating_env (StartServer ''default'' []) tr s \<and> checks_since ''worker-1'' tr = 12 \<and> server_ok s"
proof -
  from silent_inputs_run obtain tr s where run: "serve_all beating_env silent_inputs [] (StartServer ''default'' []) = Some (tr, s)"
    and c: "checks_since ''worker-1'' tr = 12" by blast
  from serve_all_run [OF run run_refl] have r: "server_run beating_env (StartServer ''default'' []) tr s" .
  with server_memory_is_typed [OF r] c show ?thesis by blast
qed

text \<open>
  C15. No false alarm. When the monitor raises the alarm for a node, it has made at least
  twelve rounds for the node since the last heartbeat of the node came in, and the round of the
  alarm is the thirteenth; the only other possibility is that a heartbeat came in while the
  tick of the alarm was under way, after its snapshot of the store.
\<close>

theorem alarm_means_silence:
  assumes "clock_advances en" and "server_run en (StartServer ns h) tr s" and "serve en inp s = Some (Checked n True, s')"
  shows "12 \<le> checks_since n tr \<or> received_in_tick n tr"
proof -
  from run_timely [OF assms(2,1) refl] have tm: "timely en tr s" by simp
  from assms(3) show ?thesis
  proof (cases rule: serve_cases)
    case (checked t now hb hbs st st' fired pc es)
    then have n: "hb_NodeName hb = n" and f: "node_fires (node_observe now hb st) st" by simp_all
    from f checked(2) n obtain st0 where st0: "sv_states s n = Some st0" "st = st0"
      by (cases "sv_states s n") (auto simp: fires_iff node_state_def node_start_def)
    from tm checked(1) obtain hb' where hb': "store_Get (sv_store s) n = Some hb'" "hb' = hb \<or> received_in_tick n tr"
      using timely_current [of en tr s t now "hb # hbs" hb] n by auto
    show ?thesis
    proof (cases "hb' = hb")
      case True
      from tm st0(1) obtain hb2 where "store_Get (sv_store s) n = Some hb2"
        "hb_ReceivedAt hb2 \<le> ns_TLastHeartbeat st0 \<longrightarrow> ns_MissCount st0 \<le> int (checks_since n tr)" by (rule timely_lags)
      with True hb' f st0(2) show ?thesis by (simp add: fires_iff After_def)
    next
      case False
      with hb' show ?thesis by simp
    qed
  qed auto
qed

theorem alarm_means_silence_witness:
  "\<exists>tr s s'. server_run beating_env (StartServer ''default'' []) tr s \<and>
     serve beating_env Check s = Some (Checked ''worker-1'' True, s') \<and> 12 \<le> checks_since ''worker-1'' tr"
proof -
  from silent_inputs_run obtain tr s s' where run: "serve_all beating_env silent_inputs [] (StartServer ''default'' []) = Some (tr, s)"
    and quiet: "\<not> received_in_tick ''worker-1'' tr"
    and c: "check_next beating_env s = Some (Checked ''worker-1'' True, s')" by blast
  from serve_all_run [OF run run_refl] have r: "server_run beating_env (StartServer ''default'' []) tr s" .
  from c have step: "serve beating_env Check s = Some (Checked ''worker-1'' True, s')"
    by (auto simp: serve_def check_next_def)
  from alarm_means_silence [OF beating_clock r step] quiet r step show ?thesis by blast
qed

text \<open>
  C16. One alarm per outage. From any reachable state in which the monitor waits for a tick,
  along any run in which no heartbeat of the node comes in, the number of alarms for the node
  is one if the rounds for it carry its miss counter above twelve, and none otherwise, nor if
  the counter was above already. The counter starts from nothing for a node the monitor does
  not know, and the first round goes to a heartbeat that it has not yet seen: thirteen rounds
  for a new node, fourteen after a heartbeat.
\<close>

theorem silent_node_raises_one_alarm:
  assumes "server_run en (StartServer ns h) tr s" and "sv_monitor s = Waiting t" and "store_Get (sv_store s) n = Some hb"
    and "server_run en s seg s'" and "Received n \<notin> set seg"
  shows "alarms n seg = (if misses_before hb (sv_states s) \<le> 12 \<and>
           12 < misses_before hb (sv_states s) + int (rounds n seg) then 1 else 0)"
proof -
  from assms(1) StartServer_ok have ok: "server_ok s" by (rule run_ok)
  with assms(3) have n: "hb_NodeName hb = n" by (auto simp: server_ok_def store_ok_def store_Get_def dest: map_of_SomeD)
  with silent_run [OF assms(4) ok] assms(2,3,5) show ?thesis by (auto simp: silent_def Let_def)
qed

lemma silent_segment_run:
  "\<exists>tr s seg s'. serve_all beating_env [Launch, Post ''POST'' (Some worker_beat)] [] (StartServer ''default'' []) = Some (tr, s) \<and>
     serve_all beating_env ([Tick, Tick, Tick] @ four_ticks @ four_ticks @ four_ticks @ [Tick, Check]) [] s = Some (seg, s') \<and>
     sv_monitor s = Waiting 0 \<and> sv_states s ''worker-1'' = None \<and> rounds ''worker-1'' seg = 13 \<and>
     Received ''worker-1'' \<notin> set seg \<and> (\<exists>hb. hb_NodeName hb = ''worker-1'' \<and> store_Get (sv_store s) ''worker-1'' = Some hb)"
  by (simp add: four_ticks_def server_evals store_Get_def rounds_def)

theorem silent_node_raises_one_alarm_witness:
  "\<exists>tr s seg s'. server_run beating_env (StartServer ''default'' []) tr s \<and> server_run beating_env s seg s' \<and>
     rounds ''worker-1'' seg = 13 \<and> alarms ''worker-1'' seg = 1"
proof -
  from silent_segment_run obtain tr s seg s' hb where
    run: "serve_all beating_env [Launch, Post ''POST'' (Some worker_beat)] [] (StartServer ''default'' []) = Some (tr, s)"
    and seg: "serve_all beating_env ([Tick, Tick, Tick] @ four_ticks @ four_ticks @ four_ticks @ [Tick, Check]) [] s = Some (seg, s')"
    and w: "sv_monitor s = Waiting 0" and none: "sv_states s ''worker-1'' = None" and k: "rounds ''worker-1'' seg = 13"
    and q: "Received ''worker-1'' \<notin> set seg" and hb: "hb_NodeName hb = ''worker-1''" "store_Get (sv_store s) ''worker-1'' = Some hb"
    by blast
  note r = serve_all_run [OF run run_refl] serve_all_run [OF seg run_refl]
  from hb(1) none have "misses_before hb (sv_states s) = 0" by (simp add: misses_before_def)
  with silent_node_raises_one_alarm [OF r(1) w hb(2) r(2) q] k have "alarms ''worker-1'' seg = 1" by simp
  with r k show ?thesis by blast
qed

end
