(* ===== verification/Paths.thy ===== *)
theory Paths
  imports Prelude
begin

text \<open>
  The part of Go's \<^verbatim>\<open>path/filepath\<close> that the operator uses, on a host whose separator is
  the slash: \<^verbatim>\<open>Base\<close>, \<^verbatim>\<open>IsAbs\<close>, \<^verbatim>\<open>Clean\<close> and \<^verbatim>\<open>Join\<close>.
\<close>

fun drop_slashes :: "string \<Rightarrow> string" where
  "drop_slashes (c # s) = (if c = CHR ''/'' then drop_slashes s else c # s)"
| "drop_slashes [] = []"

definition Base :: "string \<Rightarrow> string" where
  "Base path =
     (if path = '''' then ''.''
      else let r = drop_slashes (rev path)
           in if r = [] then ''/'' else rev (takeWhile (\<lambda>c. c \<noteq> CHR ''/'') r))"

definition IsAbs :: "string \<Rightarrow> bool" where
  "IsAbs path \<longleftrightarrow> HasPrefix path ''/''"

fun split_path :: "string \<Rightarrow> string \<Rightarrow> string list" where
  "split_path [] cur = [rev cur]"
| "split_path (c # s) cur = (if c = CHR ''/'' then rev cur # split_path s [] else split_path s (c # cur))"

text \<open>
  The elements that are left, the last one first while they are collected: an element that
  goes up removes the one before it, is dropped at the root, and stays in front of a relative
  path.
\<close>

fun clean_parts :: "bool \<Rightarrow> string list \<Rightarrow> string list \<Rightarrow> string list" where
  "clean_parts rooted [] acc = rev acc"
| "clean_parts rooted (p # ps) acc =
     (if p = '''' \<or> p = ''.'' then clean_parts rooted ps acc
      else if p = ''..''
      then if acc \<noteq> [] \<and> hd acc \<noteq> ''..'' then clean_parts rooted ps (tl acc)
           else if rooted then clean_parts rooted ps acc
           else clean_parts rooted ps (p # acc)
      else clean_parts rooted ps (p # acc))"

definition Clean :: "string \<Rightarrow> string" where
  "Clean path =
     (let out = Join (clean_parts (IsAbs path) (split_path path []) []) ''/''
      in if IsAbs path then ''/'' @ out else if out = '''' then ''.'' else out)"

definition path_Join :: "string \<Rightarrow> string \<Rightarrow> string" where
  "path_Join a b = (if a \<noteq> '''' then Clean (a @ ''/'' @ b) else if b \<noteq> '''' then Clean b else '''')"

end
