(* ===== verification/Minio.thy ===== *)
theory Minio
  imports Owners Paths
begin

text \<open>
  \<^verbatim>\<open>src/reconcilers/miniohelper\<close>: the object store that the nodes upload checkpoint archives
  to. \<open>WaitForFileInMinio\<close> polls until the archive is there; the loop has no bound of its own
  but compares the clock with its start, so the model takes fuel, and the property says how
  much is enough for a clock that advances by what the goroutine sleeps. A fatal log call ends
  the process, as a panic does.
\<close>

section \<open>Definitions: the client\<close>

definition InitializeMinio :: "env \<Rightarrow> hist \<Rightarrow> string outcome \<times> hist" where
  "InitializeMinio en h =
     (let minioEndpoint = GetEnv en ''MINIO_ENDPOINT'' ''192.168.28.111:30350'';
          minioAccess = GetEnv en ''MINIO_ACCESS_KEY'' ''nephio1234'';
          minioSecret = GetEnv en ''MINIO_SECRET_KEY'' ''secret1234'';
          minioBucket = GetEnv en ''MINIO_BUCKET'' ''checkpoints''
      in case rd ''minio'' '''' minioEndpoint (\<lambda>h. e_MinioNew (ext en) h minioEndpoint minioAccess minioSecret) h of
           (Inl err, h) \<Rightarrow> (Panic, h)
         | (Inr _, h) \<Rightarrow>
             (case rd ''bucket'' '''' minioBucket (\<lambda>h. e_BucketExists (ext en) h minioBucket) h of
                (Inl err, h) \<Rightarrow> (Panic, h)
              | (Inr True, h) \<Rightarrow> (Ret minioBucket, h)
              | (Inr False, h) \<Rightarrow>
                  (case wr (MadeBucket minioBucket) (\<lambda>h. e_MakeBucket (ext en) h minioBucket) h of
                     (Inl err, h) \<Rightarrow> (Panic, h)
                   | (Inr _, h) \<Rightarrow> (Ret minioBucket, h))))"

definition FileExistsInMinio :: "env \<Rightarrow> string \<Rightarrow> string \<Rightarrow> hist \<Rightarrow> bool result \<times> hist" where
  "FileExistsInMinio en bucket localFilePath h =
     (let fileName = Base localFilePath in
      case rd ''object'' bucket fileName (\<lambda>h. e_StatObject (ext en) h bucket fileName) h of
        (Inl err, h) \<Rightarrow> (if e_ErrorCode (ext en) err = ''NoSuchKey'' then (Inr False, h) else (Inl err, h))
      | (Inr _, h) \<Rightarrow> (Inr True, h))"

definition DownloadFileFromMinio :: "env \<Rightarrow> string \<Rightarrow> string \<Rightarrow> string \<Rightarrow> hist \<Rightarrow> error option \<times> hist" where
  "DownloadFileFromMinio en bucket objectName localFilePath h =
     (case rd ''object'' bucket objectName (\<lambda>h. e_GetObject (ext en) h bucket objectName) h of
        (Inl err, h) \<Rightarrow> (Some (wrapf (''failed to get object '' @ objectName) err), h)
      | (Inr _, h) \<Rightarrow>
          (case wr (CreatedLocalFile localFilePath) (\<lambda>h. e_CreateFile (ext en) h localFilePath) h of
             (Inl err, h) \<Rightarrow> (Some (wrapf (''failed to create local file '' @ localFilePath) err), h)
           | (Inr _, h) \<Rightarrow>
               (case wr (DownloadedObject bucket objectName localFilePath)
                       (\<lambda>h. e_CopyObject (ext en) h bucket objectName localFilePath) h of
                  (Inl err, h) \<Rightarrow> (Some (wrapf (''failed to write object '' @ objectName) err), h)
                | (Inr written, h) \<Rightarrow>
                    (if written = 0 then (Some (Errorf (''downloaded file is empty: object '' @ objectName)), h)
                     else (None, h)))))"

text \<open>The loop; \<open>None\<close> means that the fuel ran out.\<close>

fun wait_loop ::
  "env \<Rightarrow> string \<Rightarrow> string \<Rightarrow> duration \<Rightarrow> duration \<Rightarrow> time \<Rightarrow> nat \<Rightarrow> hist \<Rightarrow> error option option \<times> hist" where
  "wait_loop en bucket localFilePath timeout checkInterval start 0 h = (None, h)"
| "wait_loop en bucket localFilePath timeout checkInterval start (Suc fuel) h =
     (case FileExistsInMinio en bucket localFilePath h of
        (Inl err, h) \<Rightarrow> (Some (Some (wrapf (''error checking MinIO for '' @ Base localFilePath) err)), h)
      | (Inr True, h) \<Rightarrow> (Some None, h)
      | (Inr False, h) \<Rightarrow>
          (case Now en h of (now, h) \<Rightarrow>
             (if now - start > timeout
              then (Some (Some (Errorf (''timed out waiting for file '' @ Base localFilePath))), h)
              else wait_loop en bucket localFilePath timeout checkInterval start fuel (Slept checkInterval # h))))"

definition WaitForFileInMinio ::
  "env \<Rightarrow> nat \<Rightarrow> string \<Rightarrow> string \<Rightarrow> duration \<Rightarrow> duration \<Rightarrow> hist \<Rightarrow> error option option \<times> hist" where
  "WaitForFileInMinio en fuel bucket localFilePath timeout checkInterval h =
     (case Now en h of (start, h) \<Rightarrow> wait_loop en bucket localFilePath timeout checkInterval start fuel h)"

section \<open>Lemmas\<close>

text \<open>
  What the loop relies on of the clock: it does not run backwards, and \<^verbatim>\<open>time.Sleep\<close> pauses
  at least for the time it was given.
\<close>

definition clock_law :: "env \<Rightarrow> bool" where
  "clock_law en \<longleftrightarrow>
     (\<forall>es h. o_Now (os en) h \<le> o_Now (os en) (es @ h)) \<and>
     (\<forall>d h. o_Now (os en) h + d \<le> o_Now (os en) (Slept d # h))"

lemma FileExistsInMinio_cases:
  "FileExistsInMinio en b p h =
     (case e_StatObject (ext en) h b (Base p) of
        Inl err \<Rightarrow> if e_ErrorCode (ext en) err = ''NoSuchKey'' then Inr False else Inl err
      | Inr _ \<Rightarrow> Inr True, Read ''object'' b (Base p) # h)"
  by (simp add: FileExistsInMinio_def api_simps Let_def split: sum.splits)

lemma wait_loop_emits [emits_intros]:
  assumes "\<And>k a b. P (Read k a b)" and "\<And>d. P (Slept d)"
  shows "emits P (wait_loop en b p timeout i start fuel)"
proof (induction fuel)
  case (Suc fuel)
  have tail: "emits P (\<lambda>h. wait_loop en b p timeout i start fuel (Slept i # h))"
    using Suc assms(2) by (rule emits_push)
  have "emits P (FileExistsInMinio en b p)"
    unfolding FileExistsInMinio_def Let_def by (auto intro!: emits_intros assms)
  with tail assms show ?case
    unfolding wait_loop.simps by (intro emits_intros) auto
qed (simp add: emits_ret)


lemma wait_loop_returns:
  assumes law: "clock_law en" and i: "0 < i" and "start + timeout - o_Now (os en) h < int n * i"
  shows "\<exists>r. fst (wait_loop en b p timeout i start (Suc n) h) = Some r"
  using assms(3)
proof (induction n arbitrary: h)
  case 0
  let ?h = "Read ''object'' b (Base p) # h"
  have "o_Now (os en) h \<le> o_Now (os en) ([Read ''object'' b (Base p)] @ h)" using law by (simp only: clock_law_def)
  with 0 have "timeout < o_Now (os en) ?h - start" by simp
  then show ?case by (auto simp: FileExistsInMinio_cases api_simps split: sum.splits)
next
  case (Suc n)
  let ?h = "Read ''clock'' '''' '''' # Read ''object'' b (Base p) # h"
  have "o_Now (os en) h \<le> o_Now (os en) ([Read ''clock'' '''' '''', Read ''object'' b (Base p)] @ h)"
    using law by (simp only: clock_law_def)
  moreover have "o_Now (os en) ?h + i \<le> o_Now (os en) (Slept i # ?h)" using law by (simp only: clock_law_def)
  ultimately have "start + timeout - o_Now (os en) (Slept i # ?h) < int n * i"
    using Suc.prems by (simp add: algebra_simps)
  from Suc.IH [OF this] show ?case
    by (subst wait_loop.simps) (simp del: wait_loop.simps add: FileExistsInMinio_cases api_simps split: sum.splits)
qed

lemma wait_loop_found:
  "wait_loop en b p timeout i start n h = (Some None, h') \<Longrightarrow>
     \<exists>g. e_StatObject (ext en) (g @ h) b (Base p) = Inr ()"
proof (induction n arbitrary: h)
  case (Suc n)
  show ?case
  proof (cases "e_StatObject (ext en) h b (Base p)")
    case (Inr u)
    then show ?thesis by (intro exI [of _ "[]"]) simp
  next
    case (Inl e)
    let ?g = "[Slept i, Read ''clock'' '''' '''', Read ''object'' b (Base p)]"
    from Suc.prems Inl have "wait_loop en b p timeout i start n (?g @ h) = (Some None, h')"
      by (auto simp: FileExistsInMinio_cases api_simps split: if_splits)
    from Suc.IH [OF this] obtain g where "e_StatObject (ext en) (g @ ?g @ h) b (Base p) = Inr ()" by blast
    then show ?thesis by (intro exI [of _ "g @ ?g"]) simp
  qed
qed simp

lemma WaitForFileInMinio_ends:
  assumes "clock_law en" and "0 < interval" and "0 \<le> timeout"
    and "nat (timeout div interval) + 2 \<le> fuel"
  shows "\<exists>r h'. WaitForFileInMinio en fuel bucket path timeout interval h = (Some r, h') \<and> writes h' = writes h \<and>
    (r = None \<longrightarrow> (\<exists>g. e_StatObject (ext en) (g @ h) bucket (Base path) = Inr ()))"
proof -
  let ?h = "Read ''clock'' '''' '''' # h" and ?start = "o_Now (os en) h"
  obtain n where n: "fuel = Suc n" "timeout div interval + 1 \<le> int n"
    using assms(3,4) assms(2) by (cases fuel) (auto simp: pos_imp_zdiv_nonneg_iff nat_le_iff)
  have "o_Now (os en) h \<le> o_Now (os en) ([Read ''clock'' '''' ''''] @ h)" using assms(1) by (simp only: clock_law_def)
  moreover have "timeout < (timeout div interval + 1) * interval"
    using assms(2) by (metis add.commute div_mult_mod_eq mult.commute pos_mod_bound distrib_right mult_1 add_less_cancel_left)
  moreover have "(timeout div interval + 1) * interval \<le> int n * interval"
    using n(2) assms(2) by (intro mult_right_mono) auto
  ultimately have "?start + timeout - o_Now (os en) ?h < int n * interval" by simp
  from wait_loop_returns [OF assms(1,2) this, of bucket path] n(1) obtain r h' where
    loop: "wait_loop en bucket path timeout interval ?start fuel ?h = (Some r, h')" by (metis prod.collapse)
  have "emits (\<lambda>e. \<not> is_write e) (wait_loop en bucket path timeout interval ?start fuel)"
    by (rule wait_loop_emits) simp_all
  from emits_reads_writes [OF this loop] have w: "writes h' = writes h" by simp
  have "\<exists>g. e_StatObject (ext en) (g @ h) bucket (Base path) = Inr ()" if "r = None"
  proof -
    from wait_loop_found [OF loop [unfolded that]] obtain g where
      "e_StatObject (ext en) (g @ ?h) bucket (Base path) = Inr ()" by blast
    then show ?thesis by (intro exI [of _ "g @ [Read ''clock'' '''' '''']"]) simp
  qed
  with loop w show ?thesis by (simp add: WaitForFileInMinio_def api_simps)
qed

section \<open>Properties\<close>

text \<open>
  C33. The wait for a checkpoint archive ends. On a clock that does not run backwards and
  advances by what the goroutine sleeps, \<open>timeout div interval + 2\<close> polls are enough for the
  loop to return; it changes nothing, and it reports success only if a poll found the object.
\<close>

theorem WaitForFileInMinio_returns:
  assumes "clock_law en" and "0 < interval" and "0 \<le> timeout"
    and "nat (timeout div interval) + 2 \<le> fuel"
  shows "\<exists>r h'. WaitForFileInMinio en fuel bucket path timeout interval h = (Some r, h') \<and> writes h' = writes h \<and>
    (r = None \<longrightarrow> (\<exists>g. e_StatObject (ext en) (g @ h) bucket (Base path) = Inr ()))"
  using assms by (rule WaitForFileInMinio_ends)

text \<open>A clock that counts what was slept, and a store in which the object never appears.\<close>

fun slept :: "hist \<Rightarrow> time" where
  "slept [] = 0"
| "slept (e # h) = (case e of Slept d \<Rightarrow> max 0 d | _ \<Rightarrow> 0) + slept h"

definition idle_env :: env where
  "idle_env = down_env\<lparr>os := down_os\<lparr>o_Now := slept\<rparr>, ext := down_ext\<lparr>e_ErrorCode := (\<lambda>_. ''NoSuchKey'')\<rparr>\<rparr>"

lemma slept_nonneg [simp]: "0 \<le> slept es"
  by (induction es) (auto split: event.splits)

lemma slept_append [simp]: "slept (es @ h) = slept es + slept h"
  by (induction es) auto

lemma slept_clock: "o_Now (os en) = slept \<Longrightarrow> clock_law en"
  by (auto simp: clock_law_def)

lemma idle_clock: "clock_law idle_env"
  by (rule slept_clock) (simp add: idle_env_def)

theorem WaitForFileInMinio_returns_witness:
  "\<exists>e h'. WaitForFileInMinio idle_env 602 ''checkpoints'' ''/var/a.tar'' (300 * Second) (Second div 2) [] = (Some (Some e), h') \<and>
     writes h' = []"
proof -
  have none: "e_StatObject (ext idle_env) h b n = Inl down" for h b n by (simp add: idle_env_def down_defs)
  have "\<exists>r h'. WaitForFileInMinio idle_env 602 ''checkpoints'' ''/var/a.tar'' (300 * Second) (Second div 2) [] = (Some r, h') \<and>
      writes h' = writes [] \<and> (r = None \<longrightarrow> (\<exists>g. e_StatObject (ext idle_env) (g @ []) ''checkpoints'' (Base ''/var/a.tar'') = Inr ()))"
    by (rule WaitForFileInMinio_returns [OF idle_clock]) (simp_all add: Second_def)
  then show ?thesis by (auto simp: none)
qed

end
