(* ===== verification/Prepull.thy ===== *)
theory Prepull
  imports Capi Owners
begin

text \<open>
  \<^verbatim>\<open>src/internal/controller/checkpoint_controller.go\<close>, the last part: once a checkpoint image
  was pushed, it and the original image are pulled ahead of time on the worker nodes of the
  target cluster, by one short-lived pod per node and image. The goroutine that removes such a
  pod again is \<open>cleanup_pod\<close>; the function that starts it only records the start, since the
  goroutine acts on the cluster later, as any other client of it may.
\<close>

section \<open>Definitions: names\<close>

definition name_char :: "char \<Rightarrow> bool" where
  "name_char c \<longleftrightarrow>
     c \<in> set ''abcdefghijklmnopqrstuvwxyz'' \<or> c \<in> set ''0123456789'' \<or> c = CHR ''-'' \<or> c = CHR ''.''"

definition Trim :: "string \<Rightarrow> char \<Rightarrow> string" where
  "Trim s c = rev (dropWhile (\<lambda>x. x = c) (rev (dropWhile (\<lambda>x. x = c) s)))"

definition sanitizeName :: "string \<Rightarrow> string" where
  "sanitizeName s = Trim (map (\<lambda>c. if name_char c then c else CHR ''-'') (ToLower s)) CHR ''-''"

definition name_part :: "env \<Rightarrow> string \<Rightarrow> string" where
  "name_part en img =
     (let namePart = sanitizeName img; maxLen = 50
      in if length namePart > maxLen
         then take (maxLen - 8) namePart @ take 8 (''-'' @ e_Sha1Hex (ext en) namePart)
         else namePart)"

section \<open>Definitions: the pods\<close>

definition prepull_pod :: "string \<Rightarrow> string \<Rightarrow> string \<Rightarrow> string \<Rightarrow> string list \<Rightarrow> string \<Rightarrow> Pod" where
  "prepull_pod podName namespace nodeName img command pullPolicy =
     \<lparr>pod_Name = podName, pod_Namespace = namespace, pod_OwnerReferences = [], pod_NodeName = nodeName,
      pod_Containers = [\<lparr>ctr_Name = ''prepull'', ctr_Image = img, ctr_Args = [], ctr_Command = command,
        ctr_Ports = [], ctr_ImagePullPolicy = pullPolicy\<rparr>],
      pod_Phase = PodPhaseOther '''', pod_PodIP = '''', pod_ReadyConditions = [],
      pod_Labels = [], pod_Tolerations = [], pod_RestartPolicy = ''Never'', pod_HostNetwork = False\<rparr>"

text \<open>
  Which of the two images is pulled: the pods of the original image have another name and
  command, pull only if the image is not present, and the function waits after it deleted a
  pod that was left over.
\<close>

datatype which_image = CheckpointImage | OriginalImage

fun prepull_prefix :: "which_image \<Rightarrow> string" where
  "prepull_prefix CheckpointImage = ''prepull-checkpoint-image-''"
| "prepull_prefix OriginalImage = ''prepull-original-image-''"

fun prepull_command :: "which_image \<Rightarrow> string list" where
  "prepull_command CheckpointImage = [''sleep'', ''5'']"
| "prepull_command OriginalImage = [''sleep'', ''10'']"

fun prepull_policy :: "which_image \<Rightarrow> string" where
  "prepull_policy CheckpointImage = ''Always''"
| "prepull_policy OriginalImage = ''''"

fun prepull_what :: "which_image \<Rightarrow> string" where
  "prepull_what CheckpointImage = ''failed to create pre-pull pod ''"
| "prepull_what OriginalImage = ''failed to create pre-pull original pod image ''"

definition isControlPlane :: "Node \<Rightarrow> bool" where
  "isControlPlane node \<longleftrightarrow> mhas (node_Labels node) ''node-role.kubernetes.io/control-plane''"

definition prepull_name :: "env \<Rightarrow> which_image \<Rightarrow> string \<Rightarrow> string \<Rightarrow> string" where
  "prepull_name en w img nodeName = prepull_prefix w @ name_part en img @ ''-'' @ nodeName"

definition delete_existing ::
  "env \<Rightarrow> kclient \<Rightarrow> string \<Rightarrow> which_image \<Rightarrow> string \<Rightarrow> hist \<Rightarrow> error option \<times> hist" where
  "delete_existing en c namespace w podName h =
     (case rd ''Pod'' namespace podName (\<lambda>h. w_GetPod (wl en) h c namespace podName) h of
        (Inr _, h) \<Rightarrow>
          (case wr (DeletedPod c namespace podName) (\<lambda>h. w_DeletePod (wl en) h c namespace podName) h of
             (Inl err, h) \<Rightarrow> (Some (wrapf (''failed to delete existing pre-pull pod '' @ podName) err), h)
           | (Inr _, h) \<Rightarrow> (None, if w = OriginalImage then Slept (3 * Second) # h else h))
      | (Inl err, h) \<Rightarrow>
          (if IsNotFound err then (None, h)
           else (Some (wrapf (''failed to check for existing pre-pull pod '' @ podName) err), h)))"

definition prepull_node ::
  "env \<Rightarrow> kclient \<Rightarrow> string \<Rightarrow> which_image \<Rightarrow> string \<Rightarrow> Node \<Rightarrow> hist \<Rightarrow> error option \<times> hist" where
  "prepull_node en c namespace w img node h =
     (if isControlPlane node then (None, h)
      else let podName = prepull_name en w img (node_Name node);
               pod = prepull_pod podName namespace (node_Name node) img (prepull_command w) (prepull_policy w)
           in case delete_existing en c namespace w podName h of
                (Some err, h) \<Rightarrow> (Some err, h)
              | (None, h) \<Rightarrow>
                  (case wr (CreatedPod c pod) (\<lambda>h. w_CreatePod (wl en) h c pod) h of
                     (Inl err, h) \<Rightarrow>
                       (if IsAlreadyExists err then (None, StartedCleanup c namespace podName # h)
                        else (Some (wrapf (prepull_what w @ podName) err), h))
                   | (Inr _, h) \<Rightarrow> (None, StartedCleanup c namespace podName # h)))"

fun prepull_nodes ::
  "env \<Rightarrow> kclient \<Rightarrow> string \<Rightarrow> which_image \<Rightarrow> string \<Rightarrow> Node list \<Rightarrow> hist \<Rightarrow> error option \<times> hist" where
  "prepull_nodes en c namespace w img [] h = (None, h)"
| "prepull_nodes en c namespace w img (node # nodes) h =
     (case prepull_node en c namespace w img node h of
        (Some err, h) \<Rightarrow> (Some err, h)
      | (None, h) \<Rightarrow> prepull_nodes en c namespace w img nodes h)"

text \<open>The goroutine: it polls every three seconds for at most two minutes.\<close>

datatype cleanup_end = PodGone | DeletePod

fun cleanup_loop :: "env \<Rightarrow> kclient \<Rightarrow> string \<Rightarrow> string \<Rightarrow> nat \<Rightarrow> hist \<Rightarrow> cleanup_end \<times> hist" where
  "cleanup_loop en c namespace podName 0 h = (DeletePod, h)"
| "cleanup_loop en c namespace podName (Suc ticks) h =
     (case rd ''Pod'' namespace podName (\<lambda>h. w_GetPod (wl en) h c namespace podName) h of
        (Inl err, h) \<Rightarrow> (if IsNotFound err then (PodGone, h) else (DeletePod, h))
      | (Inr currentPod, h) \<Rightarrow>
          (if pod_Phase currentPod = PodSucceeded \<or> pod_Phase currentPod = PodFailed then (DeletePod, h)
           else cleanup_loop en c namespace podName ticks h))"

definition cleanup_pod :: "env \<Rightarrow> kclient \<Rightarrow> string \<Rightarrow> string \<Rightarrow> hist \<Rightarrow> hist" where
  "cleanup_pod en c namespace podName h =
     (case cleanup_loop en c namespace podName (o_Ticks (os en) h (120 * Second) (3 * Second)) h of
        (PodGone, h) \<Rightarrow> h
      | (DeletePod, h) \<Rightarrow>
          (case wr (DeletedPod c namespace podName) (\<lambda>h. w_DeletePod (wl en) h c namespace podName) h of (_, h) \<Rightarrow> h))"

definition createPrepullPodsNamespace :: "env \<Rightarrow> kclient \<Rightarrow> string \<Rightarrow> hist \<Rightarrow> error option \<times> hist" where
  "createPrepullPodsNamespace en c namespace h =
     (case rd ''Namespace'' '''' namespace (\<lambda>h. w_GetNamespace (wl en) h c namespace) h of
        (Inr _, h) \<Rightarrow> (None, h)
      | (Inl err, h) \<Rightarrow>
          (if \<not> IsNotFound err
           then (Some (Errorf (''error checking namespace '' @ namespace @ '': '' @ err_text err)), h)
           else case wr (CreatedNamespace c namespace) (\<lambda>h. w_CreateNamespace (wl en) h c namespace) h of
                  (Inl err, h) \<Rightarrow> (Some (Errorf (''failed to create namespace '' @ namespace @ '': '' @ err_text err)), h)
                | (Inr _, h) \<Rightarrow> (None, h)))"

definition PreDownloadImageToTargetCluster ::
  "env \<Rightarrow> string \<Rightarrow> string \<Rightarrow> Checkpoint \<Rightarrow> hist \<Rightarrow> error option outcome \<times> hist" where
  "PreDownloadImageToTargetCluster en checkpointImage originalImage checkpoint h =
     (case cks_TargetClusterRef (ck_Spec checkpoint) of
        None \<Rightarrow> (Panic, h)
      | Some target \<Rightarrow>
          (case GetWorkloadClusterClient en (clr_Name target) h of
             (Panic, h) \<Rightarrow> (Panic, h)
           | (Ret (_, _, Some err), h) \<Rightarrow> (Ret (Some err), h)
           | (Ret (_, None, None), h) \<Rightarrow> (Ret (Some (Errorf ''target cluster client not available yet'')), h)
           | (Ret (_, Some c, None), h) \<Rightarrow>
               (let prepull_namespace = GetEnv en ''NAMESPACE'' ''pod-prepull'' in
                case createPrepullPodsNamespace en c prepull_namespace h of
                  (_, h) \<Rightarrow>
                    (case rd ''NodeList'' '''' '''' (\<lambda>h. w_ListNodes (wl en) h c) h of
                       (Inl err, h) \<Rightarrow> (Ret (Some (wrapf ''failed to list nodes in target cluster'' err)), h)
                     | (Inr nodes, h) \<Rightarrow>
                         (case prepull_nodes en c prepull_namespace CheckpointImage checkpointImage nodes h of
                            (Some err, h) \<Rightarrow> (Ret (Some err), h)
                          | (None, h) \<Rightarrow>
                              (if originalImage \<noteq> '''' \<and> originalImage \<noteq> checkpointImage
                               then (case prepull_nodes en c prepull_namespace OriginalImage originalImage nodes h of
                                       (err, h) \<Rightarrow> (Ret err, h))
                               else (Ret None, h)))))))"

section \<open>Lemmas\<close>

lemma Trim_set: "set (Trim s c) \<subseteq> set s"
  by (auto simp: Trim_def dest!: set_dropWhileD)

lemma Trim_ends:
  "Trim s c = [] \<or> hd (Trim s c) \<noteq> c \<and> last (Trim s c) \<noteq> c"
proof -
  define d where "d = dropWhile (\<lambda>x. x = c) s"
  define r where "r = dropWhile (\<lambda>x. x = c) (rev d)"
  have T: "Trim s c = rev r" by (simp add: Trim_def d_def r_def)
  show ?thesis
  proof (cases "r = []")
    case False
    then have l: "hd r \<noteq> c" unfolding r_def by (rule hd_dropWhile)
    obtain pre where "rev d = pre @ r" unfolding r_def by (metis takeWhile_dropWhile_id)
    then have d: "d = rev r @ rev pre" by (metis rev_append rev_rev_ident)
    with False have "hd d = hd (rev r)" and ne: "d \<noteq> []" by simp_all
    moreover from ne have "hd d \<noteq> c" unfolding d_def by (rule hd_dropWhile)
    ultimately show ?thesis using l False by (simp add: T last_rev)
  qed (simp add: T)
qed

lemma sanitizeName_chars: "\<forall>c \<in> set (sanitizeName s). name_char c"
proof -
  have "set (sanitizeName s) \<subseteq> set (map (\<lambda>c. if name_char c then c else CHR ''-'') (ToLower s))"
    unfolding sanitizeName_def by (rule Trim_set)
  moreover have "name_char CHR ''-''" by (simp add: name_char_def)
  ultimately show ?thesis by auto
qed

text \<open>A run that went through all worker nodes, for the images it was asked for.\<close>

definition prepulled :: "env \<Rightarrow> kclient \<Rightarrow> string \<Rightarrow> Node list \<Rightarrow> string \<Rightarrow> string \<Rightarrow> hist \<Rightarrow> bool" where
  "prepulled en c ns nodes ckImg origImg h \<longleftrightarrow>
     (\<forall>node \<in> set nodes. \<not> isControlPlane node \<longrightarrow>
        StartedCleanup c ns (prepull_name en CheckpointImage ckImg (node_Name node)) \<in> set h \<and>
        (origImg \<noteq> '''' \<and> origImg \<noteq> ckImg \<longrightarrow>
           StartedCleanup c ns (prepull_name en OriginalImage origImg (node_Name node)) \<in> set h))"

text \<open>What pulling images ahead of time may do to the target cluster.\<close>

fun prepull_event :: "kclient \<Rightarrow> string \<Rightarrow> string set \<Rightarrow> Node list \<Rightarrow> event \<Rightarrow> bool" where
  "prepull_event c ns imgs nodes (DeletedPod c' ns' n ok) \<longleftrightarrow> c' = c \<and> ns' = ns \<and> HasPrefix n ''prepull-''"
| "prepull_event c ns imgs nodes (CreatedPod c' p ok) \<longleftrightarrow>
     c' = c \<and> pod_Namespace p = ns \<and> HasPrefix (pod_Name p) ''prepull-'' \<and>
     (\<exists>node \<in> set nodes. \<not> isControlPlane node \<and> pod_NodeName p = node_Name node) \<and>
     (\<forall>ctr \<in> set (pod_Containers p). ctr_Image ctr \<in> imgs)"
| "prepull_event c ns imgs nodes (CreatedNamespace c' n ok) \<longleftrightarrow> c' = c \<and> n = ns"
| "prepull_event c ns imgs nodes e \<longleftrightarrow> \<not> is_write e"

lemma prepull_event_mono:
  "prepull_event c ns imgs nodes e \<Longrightarrow> imgs \<subseteq> imgs' \<Longrightarrow> set nodes \<subseteq> set nodes' \<Longrightarrow> prepull_event c ns imgs' nodes' e"
  by (cases e) auto

lemma prepull_name_prefix: "HasPrefix (prepull_name en w img n) ''prepull-''"
  by (cases w) (auto simp: prepull_name_def HasPrefix_def)

lemma delete_existing_emits: "emits (prepull_event c ns imgs nodes) (delete_existing en c ns w (prepull_name en w img n))"
proof -
  have "emits (prepull_event c ns imgs nodes) (\<lambda>h. (None, if w = OriginalImage then Slept (3 * Second) # h else h))"
    by (auto simp: emits_def)
  then show ?thesis
    unfolding delete_existing_def by (auto intro!: emits_intros simp: prepull_name_prefix)
qed

lemma prepull_node_emits:
  assumes "node \<in> set nodes" and "img \<in> imgs"
  shows "emits (prepull_event c ns imgs nodes) (prepull_node en c ns w img node)"
proof -
  have started: "emits (prepull_event c ns imgs nodes) (\<lambda>h. (r, StartedCleanup c ns n # h))" for r :: "error option" and n
    by (auto simp: emits_def)
  show ?thesis
    unfolding prepull_node_def Let_def
    using assms by (auto intro!: emits_intros delete_existing_emits started simp: prepull_pod_def prepull_name_prefix)
qed

lemma prepull_nodes_emits:
  assumes "set ns' \<subseteq> set nodes" and "img \<in> imgs"
  shows "emits (prepull_event c ns imgs nodes) (prepull_nodes en c ns w img ns')"
  using assms(1)
proof (induction ns')
  case (Cons n ns')
  then have "emits (prepull_event c ns imgs nodes) (prepull_node en c ns w img n)"
    "emits (prepull_event c ns imgs nodes) (prepull_nodes en c ns w img ns')"
    using assms(2) by (auto intro: prepull_node_emits)
  then show ?case unfolding prepull_nodes.simps by (intro emits_intros) auto
qed (simp add: emits_def)


lemma PreDownload_emits [emits_intros]:
  assumes read: "\<And>k a b. P (Read k a b)" and slept: "\<And>d. P (Slept d)" and started: "\<And>c ns n. P (StartedCleanup c ns n)"
    and deleted: "\<And>c ns n ok. P (DeletedPod c ns n ok)" and created: "\<And>c p ok. P (CreatedPod c p ok)"
    and namespace: "\<And>c n ok. P (CreatedNamespace c n ok)"
  shows "emits P (PreDownloadImageToTargetCluster en img orig ck)"
proof -
  have 1: "emits P (\<lambda>h. (None, if w = OriginalImage then Slept (3 * Second) # h else h))" for w
    using slept by (auto simp: emits_def)
  have 2: "emits P (delete_existing en c ns w n)" for c ns w n
    unfolding delete_existing_def by (intro emits_intros 1 read deleted)
  have 3: "emits P (\<lambda>h. (r, StartedCleanup c ns n # h))" for r :: "error option" and c ns n
    using started by (auto simp: emits_def)
  have 4: "emits P (prepull_node en c ns w i node)" for c ns w i node
    unfolding prepull_node_def Let_def by (intro emits_intros 2 3 created)
  have 5: "emits P (prepull_nodes en c ns w i nodes)" for c ns w i nodes
  proof (induction nodes)
    case (Cons node nodes)
    then show ?case unfolding prepull_nodes.simps by (intro emits_intros 4)
  qed (simp add: emits_def)
  have 6: "emits P (createPrepullPodsNamespace en c ns)" for c ns
    unfolding createPrepullPodsNamespace_def by (intro emits_intros read namespace)
  show ?thesis
    unfolding PreDownloadImageToTargetCluster_def Let_def
    by (intro emits_intros 5 6 read GetWorkloadClusterClient_emits)
qed

lemma prepull_node_started:
  assumes "prepull_node en c ns w img node h = (None, h')" and "\<not> isControlPlane node"
  shows "StartedCleanup c ns (prepull_name en w img (node_Name node)) \<in> set h'"
  using assms by (auto simp: prepull_node_def Let_def wr_simps split: prod.splits option.splits sum.splits if_splits)

lemma prepull_nodes_started:
  assumes "prepull_nodes en c ns w img nodes h = (None, h')"
  shows "\<forall>node \<in> set nodes. \<not> isControlPlane node \<longrightarrow>
    StartedCleanup c ns (prepull_name en w img (node_Name node)) \<in> set h'"
  using assms
proof (induction nodes arbitrary: h)
  case (Cons node nodes)
  obtain r h1 where n: "prepull_node en c ns w img node h = (r, h1)" by fastforce
  with Cons.prems have r: "r = None" and rest: "prepull_nodes en c ns w img nodes h1 = (None, h')"
    by (cases r; simp)+
  have "emits (prepull_event c ns {img} nodes) (prepull_nodes en c ns w img nodes)"
    by (rule prepull_nodes_emits) auto
  then obtain es where "h' = es @ h1" using rest by (rule emitsD)
  with Cons.IH [OF rest] prepull_node_started [OF n [unfolded r]] show ?case by simp
qed simp

lemma createPrepullPodsNamespace_emits:
  "emits (prepull_event c ns imgs nodes) (createPrepullPodsNamespace en c ns)"
  unfolding createPrepullPodsNamespace_def by (auto intro!: emits_intros)

text \<open>The two passes over the nodes: what they do, and that they reached every worker node if there was no error.\<close>

lemma prepull_passes:
  assumes p1: "prepull_nodes en c ns CheckpointImage ckImg nodes h = (r4, h4)"
    and p2: "prepull_nodes en c ns OriginalImage origImg nodes h4 = (r5, h5)"
    and res: "err = r4 \<and> h' = h4 \<and> (r4 \<noteq> None \<or> \<not> (origImg \<noteq> '''' \<and> origImg \<noteq> ckImg)) \<or> r4 = None \<and> err = r5 \<and> h' = h5"
  shows "\<exists>es. h' = es @ h \<and> (\<forall>e \<in> set es. prepull_event c ns {ckImg, origImg} nodes e) \<and>
    (err = None \<longrightarrow> prepulled en c ns nodes ckImg origImg h')"
proof -
  note em = prepull_nodes_emits [where imgs = "{ckImg, origImg}" and nodes = nodes and c = c and ns = ns and en = en]
  from emitsD [OF em p1] obtain es4 where h4: "h4 = es4 @ h" "\<forall>e \<in> set es4. prepull_event c ns {ckImg, origImg} nodes e"
    by (metis insertI1 subset_refl)
  from emitsD [OF em p2] obtain es5 where h5: "h5 = es5 @ h4" "\<forall>e \<in> set es5. prepull_event c ns {ckImg, origImg} nodes e"
    by (metis insertI1 insertI2 subset_refl)
  note started = prepull_nodes_started [of en c ns CheckpointImage ckImg nodes h h4]
    prepull_nodes_started [of en c ns OriginalImage origImg nodes h4 h5]
  from res show ?thesis
  proof (elim disjE conjE)
    assume r: "r4 = None" "err = r5" "h' = h5"
    with p1 p2 h5(1) started have "err = None \<longrightarrow> prepulled en c ns nodes ckImg origImg h'" by (auto simp: prepulled_def)
    with h4 h5 r(3) show ?thesis by (intro exI [of _ "es5 @ es4"]) auto
  qed (use p1 h4 started(1) in \<open>auto simp: prepulled_def\<close>)
qed

text \<open>What comes before: the client of the cluster, the namespace and the list of nodes.\<close>

lemma prepull_prelude:
  assumes "GetWorkloadClusterClient en name h = (r1, h1)" and "createPrepullPodsNamespace en c ns h1 = (r2, h2)"
  shows "\<exists>es. Read ''NodeList'' '''' '''' # h2 = es @ h \<and> (\<forall>e \<in> set es. prepull_event c ns imgs nodes e)"
proof -
  have "emits (prepull_event c ns imgs nodes) (GetWorkloadClusterClient en name)"
    by (rule GetWorkloadClusterClient_emits) simp
  from emitsD [OF this assms(1)] obtain es1 where "h1 = es1 @ h" "\<forall>e \<in> set es1. prepull_event c ns imgs nodes e" by metis
  moreover from emitsD [OF createPrepullPodsNamespace_emits assms(2)] obtain es2 where
    "h2 = es2 @ h1" "\<forall>e \<in> set es2. prepull_event c ns imgs nodes e" by metis
  ultimately show ?thesis by (intro exI [of _ "Read ''NodeList'' '''' '''' # es2 @ es1"]) auto
qed

lemma cleanup_loop_reads: "emits (\<lambda>e. \<not> is_write e) (cleanup_loop en c ns n ticks)"
proof (induction ticks)
  case (Suc ticks)
  then show ?case unfolding cleanup_loop.simps by (intro emits_intros) auto
qed (simp add: emits_def)

lemma cleanup_loop_gone:
  "cleanup_loop en c ns n ticks h = (PodGone, h') \<Longrightarrow>
     \<exists>g e. w_GetPod (wl en) (g @ h) c ns n = Inl e \<and> IsNotFound e"
proof (induction ticks arbitrary: h)
  case (Suc ticks)
  show ?case
  proof (cases "w_GetPod (wl en) h c ns n")
    case (Inl e)
    with Suc.prems show ?thesis by (intro exI [of _ "[]"] exI [of _ e]) (auto simp: api_simps split: if_splits)
  next
    case (Inr pod)
    with Suc.prems have "cleanup_loop en c ns n ticks ([Read ''Pod'' ns n] @ h) = (PodGone, h')"
      by (auto simp: api_simps split: if_splits)
    from Suc.IH [OF this] obtain g e where "w_GetPod (wl en) (g @ [Read ''Pod'' ns n] @ h) c ns n = Inl e" "IsNotFound e"
      by blast
    then show ?thesis by (intro exI [of _ "g @ [Read ''Pod'' ns n]"] exI [of _ e]) simp
  qed
qed simp

section \<open>Properties\<close>


definition pull_env :: env where
  "pull_env = down_env\<lparr>mgmt := up_mgmt ConditionTrue,
     wl := up_wl\<lparr>w_ListNodes := (\<lambda>_ _. Inr [
         \<lparr>node_Name = ''cp-1'', node_Labels = [(''node-role.kubernetes.io/control-plane'', '''')], node_Conditions = [], node_Addresses = []\<rparr>,
         \<lparr>node_Name = ''worker-1'', node_Labels = [], node_Conditions = [], node_Addresses = []\<rparr>]),
       w_GetPod := (\<lambda>_ _ _ _. Inl \<lparr>err_reason = NotFound, err_text = ''gone''\<rparr>), w_CreatePod := (\<lambda>_ _ _. Inr ())\<rparr>\<rparr>"


text \<open>
  The clean-up of a pre-pull pod ends, and deletes that pod and nothing else, once; it leaves
  the pod alone only if a poll found it gone.
\<close>

theorem cleanup_pod_effect:
  "writes (cleanup_pod en c ns n h) = writes h \<and> (\<exists>g e. w_GetPod (wl en) (g @ h) c ns n = Inl e \<and> IsNotFound e) \<or>
   (\<exists>ok. writes (cleanup_pod en c ns n h) = DeletedPod c ns n ok # writes h)"
proof -
  obtain r h1 where l: "cleanup_loop en c ns n (o_Ticks (os en) h (120 * Second) (3 * Second)) h = (r, h1)" by fastforce
  have "writes h1 = writes h" by (rule emits_reads_writes [OF cleanup_loop_reads l])
  with l cleanup_loop_gone [of en c ns n _ h h1] show ?thesis
    by (cases r) (auto simp: cleanup_pod_def api_simps)
qed

text \<open>
  C39. Names of pre-pull pods. The part of the name that stands for the image has only lower-case
  letters, digits, dashes and dots, does not begin with a dash, and is at most fifty characters
  long, for a digest that is written in hexadecimal digits.
\<close>

theorem name_part_valid:
  assumes "\<And>s. \<forall>c \<in> set (e_Sha1Hex (ext en) s). c \<in> set ''0123456789abcdef''"
  shows "length (name_part en img) \<le> 50 \<and> (\<forall>c \<in> set (name_part en img). name_char c) \<and>
    (name_part en img = [] \<or> hd (name_part en img) \<noteq> CHR ''-'')"
proof -
  let ?s = "sanitizeName img"
  have hex: "\<forall>c \<in> set (''-'' @ e_Sha1Hex (ext en) ?s). name_char c"
    using assms [of ?s] by (fastforce simp: name_char_def)
  have tk: "\<forall>c \<in> set (take n xs). name_char c" if "\<forall>c \<in> set xs. name_char c" for n and xs :: string
    using that by (auto dest: in_set_takeD)
  have first: "hd (take 42 ?s @ ys) = hd ?s" if "50 < length ?s" for ys
    using that by (cases ?s) auto
  show ?thesis
    using sanitizeName_chars [of img] tk [OF hex, of 8] tk [OF sanitizeName_chars, of 42 img]
      Trim_ends [of "map (\<lambda>c. if name_char c then c else CHR ''-'') (ToLower img)" "CHR ''-''"] first
    by (auto simp: name_part_def Let_def sanitizeName_def [symmetric])
qed


theorem name_part_valid_witness:
  "length (name_part (down_env\<lparr>ext := down_ext\<lparr>e_Sha1Hex := (\<lambda>_. ''0123456789abcdef'')\<rparr>\<rparr>)
     ''docker.io/vitu1/checkpoint-default_video-0-video-with-a-long-name:latest'') \<le> 50"
proof -
  have "\<And>s. \<forall>c \<in> set (e_Sha1Hex (ext (down_env\<lparr>ext := down_ext\<lparr>e_Sha1Hex := (\<lambda>_. ''0123456789abcdef'')\<rparr>\<rparr>)) s).
      c \<in> set ''0123456789abcdef''" by simp
  from name_part_valid [OF this] show ?thesis by blast
qed

end
