(* ===== verification/Checkpoint_Images.thy ===== *)
theory Checkpoint_Images
  imports Minio Prepull "HOL-Library.Sublist"
begin

text \<open>
  \<^verbatim>\<open>src/internal/controller/checkpoint_controller.go\<close>, the checkpoint of one pod: the kubelet
  writes an archive of a container, which appears in the object store, is downloaded, built
  into an image, pushed to the registry and pulled ahead of time on the target cluster. The
  status of the Checkpoint follows in phases. \<open>Panic\<close> also stands for a call that never comes
  back: that is what a wait without an end would be, which \<open>Minio\<close> shows cannot happen on a
  clock that advances.
\<close>

section \<open>Definitions: commands\<close>

text \<open>\<^verbatim>\<open>strings.TrimSpace\<close> on ASCII text.\<close>

definition space_char :: "char \<Rightarrow> bool" where
  "space_char c \<longleftrightarrow> c = CHR '' '' \<or> c = CHR 0x09 \<or> c = CHR 0x0A \<or> c = CHR 0x0B \<or> c = CHR 0x0C \<or> c = CHR 0x0D"

definition TrimSpace :: "string \<Rightarrow> string" where
  "TrimSpace s = rev (dropWhile space_char (rev (dropWhile space_char s)))"

definition run_cmd :: "env \<Rightarrow> string list \<Rightarrow> hist \<Rightarrow> string result \<times> hist" where
  "run_cmd en args h = wr (Executed args) (\<lambda>h. e_Run (ext en) h args) h"

text \<open>A sequence of commands that stops at the first failure; each comes with the text of its error.\<close>

fun run_cmds :: "env \<Rightarrow> (string list \<times> string) list \<Rightarrow> hist \<Rightarrow> error option \<times> hist" where
  "run_cmds en [] h = (None, h)"
| "run_cmds en ((args, what) # cmds) h =
     (case run_cmd en args h of
        (Inl err, h) \<Rightarrow> (Some (wrapf what err), h)
      | (Inr _, h) \<Rightarrow> run_cmds en cmds h)"

definition CheckpointBasePath :: string where
  "CheckpointBasePath = ''/var/lib/kubelet/checkpoints''"

definition build_cmds :: "string \<Rightarrow> string \<Rightarrow> string \<Rightarrow> string \<Rightarrow> (string list \<times> string) list" where
  "build_cmds newContainer fullCheckpointPath imageName baseImage =
     [([''buildah'', ''add'', newContainer, fullCheckpointPath, ''/''],
       ''failed to add checkpoint to container ('' @ fullCheckpointPath @ '')''),
      ([''buildah'', ''config'', ''--annotation=org.criu.checkpoint.container.name='' @ imageName, newContainer],
       ''failed to add checkpoint name annotation''),
      ([''buildah'', ''config'', ''--annotation=org.criu.checkpoint.rootfsImageName='' @ baseImage, newContainer],
       ''failed to add rootfs image annotation''),
      ([''buildah'', ''commit'', newContainer, imageName], ''failed to commit image'')]"

definition buildCheckpointImage :: "env \<Rightarrow> string \<Rightarrow> string \<Rightarrow> string \<Rightarrow> hist \<Rightarrow> error option \<times> hist" where
  "buildCheckpointImage en checkpointPath imageName baseImage h =
     (let fullCheckpointPath = (if IsAbs checkpointPath then checkpointPath else path_Join CheckpointBasePath checkpointPath)
      in case rd ''file'' '''' fullCheckpointPath (\<lambda>h. e_Stat (ext en) h fullCheckpointPath) h of
           (st, h) \<Rightarrow>
             (if (case st of Inl err \<Rightarrow> e_IsNotExist (ext en) err | Inr _ \<Rightarrow> False)
              then (Some (Errorf (''checkpoint file does not exist: '' @ fullCheckpointPath @
                           '' (this should not happen after findCheckpointFile)'')), h)
              else case run_cmd en [''buildah'', ''from'', ''scratch''] h of
                     (Inl err, h) \<Rightarrow> (Some (wrapf ''failed to create buildah container'' err), h)
                   | (Inr out, h) \<Rightarrow>
                       (let newContainer = TrimSpace out in
                        case run_cmds en (build_cmds newContainer fullCheckpointPath imageName baseImage) h of
                          (err, h) \<Rightarrow>
                            (case run_cmd en [''buildah'', ''rm'', newContainer] h of (_, h) \<Rightarrow> (err, h)))))"

record RegistryClient =
  rc_username :: string
  rc_password :: string
  rc_registry :: string

definition login :: "env \<Rightarrow> RegistryClient \<Rightarrow> hist \<Rightarrow> (error option \<times> RegistryClient) \<times> hist" where
  "login en rc h =
     (let rc = (if rc_registry rc = '''' then rc\<lparr>rc_registry := ''docker.io''\<rparr> else rc)
      in if rc_username rc = '''' then ((Some (Errorf ''registry username is empty''), rc), h)
         else if rc_password rc = '''' then ((Some (Errorf ''registry password is empty''), rc), h)
         else case run_cmd en [''buildah'', ''login'', ''-u'', rc_username rc, ''-p'', rc_password rc, rc_registry rc] h of
                (Inl err, h) \<Rightarrow> ((Some (wrapf (''failed to login to registry '' @ rc_registry rc) err), rc), h)
              | (Inr _, h) \<Rightarrow> ((None, rc), h))"

definition PushImage :: "env \<Rightarrow> RegistryClient \<Rightarrow> string \<Rightarrow> hist \<Rightarrow> (error option \<times> RegistryClient) \<times> hist" where
  "PushImage en rc imageName h =
     (case login en rc h of
        ((Some err, rc), h) \<Rightarrow> ((Some (wrapf ''failed to login to registry'' err), rc), h)
      | ((None, rc), h) \<Rightarrow>
          (case run_cmd en [''buildah'', ''push'', imageName] h of
             (Inl err, h) \<Rightarrow> ((Some (wrapf (''failed to push image '' @ imageName) err), rc), h)
           | (Inr _, h) \<Rightarrow> ((None, rc), h)))"

definition DeleteBuildImage :: "env \<Rightarrow> string \<Rightarrow> hist \<Rightarrow> error option \<times> hist" where
  "DeleteBuildImage en imageName h =
     (case run_cmd en [''buildah'', ''rmi'', imageName] h of
        (Inl err, h) \<Rightarrow> (Some (wrapf (''failed to delete image '' @ imageName) err), h)
      | (Inr _, h) \<Rightarrow> (None, h))"

section \<open>Definitions: the kubelet\<close>

definition checkpoint_url :: "env \<Rightarrow> kclient \<Rightarrow> string \<Rightarrow> string \<Rightarrow> string \<Rightarrow> string \<Rightarrow> string" where
  "checkpoint_url en c nodeName namespace podName containerName =
     e_Host (ext en) c @ ''/api/v1/nodes/'' @ nodeName @ ''/proxy/checkpoint/'' @ namespace @ ''/'' @ podName @ ''/'' @
     containerName @ ''?timeout=60''"

definition CreateCheckpoint :: "env \<Rightarrow> kclient \<Rightarrow> string \<Rightarrow> string \<Rightarrow> string \<Rightarrow> string \<Rightarrow> hist \<Rightarrow> string result \<times> hist" where
  "CreateCheckpoint en c nodeName namespace podName containerName h =
     (let url = checkpoint_url en c nodeName namespace podName containerName in
      case rd ''transport'' '''' '''' (\<lambda>h. e_TransportFor (ext en) h c) h of
        (Inl err, h) \<Rightarrow> (Inl (wrapf ''failed to create transport'' err), h)
      | (Inr _, h) \<Rightarrow>
          (case e_NewRequest (ext en) url of
             Inl err \<Rightarrow> (Inl (wrapf ''failed to create request'' err), h)
           | Inr _ \<Rightarrow>
               (case wr (RequestedCheckpoint url) (\<lambda>h. e_Post (ext en) h c url) h of
                  (Inl err, h) \<Rightarrow> (Inl (wrapf ''failed to call kubelet checkpoint API via apiserver proxy'' err), h)
                | (Inr (statusCode, body), h) \<Rightarrow>
                    (if statusCode \<noteq> 200
                     then (Inl (Errorf (''checkpoint API returned '' @ show_nat statusCode @ '': '' @
                                   (case body of Inl _ \<Rightarrow> '''' | Inr text \<Rightarrow> text))), h)
                     else case body of
                            Inl err \<Rightarrow> (Inl (wrapf ''failed to read checkpoint response body'' err), h)
                          | Inr text \<Rightarrow>
                              (case e_ParseItems (ext en) text of
                                 Inl err \<Rightarrow>
                                   (Inl \<lparr>err_reason = err_reason err,
                                         err_text = ''failed to parse checkpoint response: '' @ err_text err @ '' (raw='' @ text @ '')''\<rparr>, h)
                               | Inr [] \<Rightarrow> (Inl (Errorf ''checkpoint API returned no items''), h)
                               | Inr (item # _) \<Rightarrow> (Inr item, h))))))"

section \<open>Definitions: the phases\<close>

text \<open>The status that the controller writes, with the time of the write.\<close>

definition set_status :: "CheckpointPhase \<Rightarrow> string \<Rightarrow> string \<Rightarrow> time \<Rightarrow> Checkpoint \<Rightarrow> Checkpoint" where
  "set_status phase message originalImage now backup =
     backup\<lparr>ck_Status := (ck_Status backup)\<lparr>ckst_OriginalImage := originalImage, ckst_LastCheckpointTime := Some now,
       ckst_Phase := phase, ckst_Message := message\<rparr>\<rparr>"

definition set_image :: "string \<Rightarrow> Checkpoint \<Rightarrow> Checkpoint" where
  "set_image imageName backup = backup\<lparr>ck_Status := (ck_Status backup)\<lparr>ckst_LastCheckpointImage := imageName\<rparr>\<rparr>"

definition update_status :: "env \<Rightarrow> Checkpoint \<Rightarrow> hist \<Rightarrow> error option \<times> hist" where
  "update_status en backup h =
     (case wr (UpdatedCheckpointStatus backup) (\<lambda>h. m_UpdateCheckpointStatus (mgmt en) h backup) h of
        (Inl err, h) \<Rightarrow> (Some err, h)
      | (Inr _, h) \<Rightarrow> (None, h))"

text \<open>
  Every failing step writes the phase Failed with the step's error, and returns that error
  (wrapped, for the kubelet) unless the write itself fails.
\<close>

definition fail_checkpoint :: "env \<Rightarrow> string \<Rightarrow> error \<Rightarrow> error \<Rightarrow> Checkpoint \<Rightarrow> hist \<Rightarrow> (error option \<times> Checkpoint) \<times> hist" where
  "fail_checkpoint en originalImage err result backup h =
     (case Now en h of (now, h) \<Rightarrow>
        (let backup = set_status CheckpointPhaseFailed (''Failed to update backup status with image name: '' @ err_text err)
                        originalImage now backup
         in case update_status en backup h of
              (Some err, h) \<Rightarrow> ((Some err, backup), h)
            | (None, h) \<Rightarrow> ((Some result, backup), h)))"

definition complete_checkpoint :: "env \<Rightarrow> string \<Rightarrow> string \<Rightarrow> Checkpoint \<Rightarrow> hist \<Rightarrow> (error option \<times> Checkpoint) \<times> hist" where
  "complete_checkpoint en imageName originalImage backup h =
     (case Now en h of (now, h) \<Rightarrow>
        (let backup = set_image imageName (set_status CheckpointPhaseCompleted ''Checkpoint completed successfully'' originalImage now backup)
         in case update_status en backup h of (err, h) \<Rightarrow> ((err, backup), h)))"

text \<open>
  The archive: the kubelet's path once the object is in the store and on the local disk. The
  error that the status shows comes with the error that is returned.
\<close>

definition wait_fuel :: nat where
  "wait_fuel = 602"

definition fetch_archive ::
  "env \<Rightarrow> string \<Rightarrow> string \<Rightarrow> hist \<Rightarrow> error option outcome \<times> hist" where
  "fetch_archive en bucketName checkpointPath h =
     (case WaitForFileInMinio en wait_fuel bucketName checkpointPath (300 * Second) (Second div 2) h of
        (None, h) \<Rightarrow> (Panic, h)
      | (Some (Some err), h) \<Rightarrow> (Ret (Some err), h)
      | (Some None, h) \<Rightarrow>
          (case DownloadFileFromMinio en bucketName (Base checkpointPath) checkpointPath h of (err, h) \<Rightarrow> (Ret err, h)))"

definition image_name :: "Checkpoint \<Rightarrow> CoreContainer \<Rightarrow> string" where
  "image_name backup container =
     reg_URL (cks_Registry (ck_Spec backup)) @ ''/'' @ reg_Repository (cks_Registry (ck_Spec backup)) @ ''/checkpoint-'' @
     pr_Namespace (cks_PodRef (ck_Spec backup)) @ ''_'' @ pr_Name (cks_PodRef (ck_Spec backup)) @ ''-'' @
     ctr_Name container @ '':latest''"

text \<open>
  The steps up to the pushed image: the path of the archive, or the error that the status
  shows together with the error that is returned; and the registry client, whose empty
  registry is filled in by a login.
\<close>

definition make_image ::
  "env \<Rightarrow> kclient \<Rightarrow> string \<Rightarrow> string \<Rightarrow> RegistryClient option \<Rightarrow> Checkpoint \<Rightarrow> CoreContainer \<Rightarrow> hist \<Rightarrow>
   ((error \<times> error + string) \<times> RegistryClient option) outcome \<times> hist" where
  "make_image en c nodeName bucketName registry backup container h =
     (let podRef = cks_PodRef (ck_Spec backup); imageName = image_name backup container in
      case CreateCheckpoint en c nodeName (pr_Namespace podRef) (pr_Name podRef) (ctr_Name container) h of
        (Inl err, h) \<Rightarrow> (Ret (Inl (err, wrapf ''failed to create checkpoint via kubelet API'' err), registry), h)
      | (Inr checkpointPath, h) \<Rightarrow>
          (case fetch_archive en bucketName checkpointPath h of
             (Panic, h) \<Rightarrow> (Panic, h)
           | (Ret (Some err), h) \<Rightarrow> (Ret (Inl (err, err), registry), h)
           | (Ret None, h) \<Rightarrow>
               (case buildCheckpointImage en checkpointPath imageName (ctr_Image container) h of
                  (Some err, h) \<Rightarrow> (Ret (Inl (err, err), registry), h)
                | (None, h) \<Rightarrow>
                    (case registry of
                       None \<Rightarrow> (Panic, h)
                     | Some rc \<Rightarrow>
                         (case PushImage en rc imageName h of
                            ((Some err, rc), h) \<Rightarrow> (Ret (Inl (err, err), Some rc), h)
                          | ((None, rc), h) \<Rightarrow> (Ret (Inr checkpointPath, Some rc), h))))))"

text \<open>After the image was pushed; the errors of the three clean-up steps are only logged.\<close>

definition finish_checkpoint ::
  "env \<Rightarrow> string \<Rightarrow> Checkpoint \<Rightarrow> CoreContainer \<Rightarrow> hist \<Rightarrow> (error option \<times> Checkpoint) outcome \<times> hist" where
  "finish_checkpoint en checkpointPath backup container h =
     (let imageName = image_name backup container in
      case complete_checkpoint en imageName (ctr_Image container) backup h of
        ((Some err, backup), h) \<Rightarrow> (Ret (Some err, backup), h)
      | ((None, backup), h) \<Rightarrow>
          (case PreDownloadImageToTargetCluster en imageName (ctr_Image container) backup h of
             (Panic, h) \<Rightarrow> (Panic, h)
           | (Ret _, h) \<Rightarrow>
               (case wr (RemovedFile checkpointPath) (\<lambda>h. e_Remove (ext en) h checkpointPath) h of (_, h) \<Rightarrow>
                  (case DeleteBuildImage en imageName h of (_, h) \<Rightarrow>
                     (case complete_checkpoint en imageName (ctr_Image container) backup h of (r, h) \<Rightarrow> (Ret r, h))))))"

definition mark_running :: "CoreContainer \<Rightarrow> time \<Rightarrow> Checkpoint \<Rightarrow> Checkpoint" where
  "mark_running container now backup =
     set_status CheckpointPhaseRunning (''Starting checkpoint for container '' @ ctr_Name container)
       (ctr_Image container) now backup"

text \<open>The results are the error, the Checkpoint with the status as last written, and the registry client.\<close>

definition checkpointContainer ::
  "env \<Rightarrow> kclient \<Rightarrow> string \<Rightarrow> string \<Rightarrow> RegistryClient option \<Rightarrow> Checkpoint \<Rightarrow> CoreContainer \<Rightarrow> hist \<Rightarrow>
   (error option \<times> Checkpoint \<times> RegistryClient option) outcome \<times> hist" where
  "checkpointContainer en c nodeName bucketName registry backup container h =
     (case Now en h of (now, h) \<Rightarrow>
        (let backup = mark_running container now backup
         in case update_status en backup h of
              (Some err, h) \<Rightarrow> (Ret (Some err, backup, registry), h)
            | (None, h) \<Rightarrow>
                (case make_image en c nodeName bucketName registry backup container h of
                   (Panic, h) \<Rightarrow> (Panic, h)
                 | (Ret (Inl (err, result), registry), h) \<Rightarrow>
                     (case fail_checkpoint en (ctr_Image container) err result backup h of
                        ((err, backup), h) \<Rightarrow> (Ret (err, backup, registry), h))
                 | (Ret (Inr checkpointPath, registry), h) \<Rightarrow>
                     (case finish_checkpoint en checkpointPath backup container h of
                        (Panic, h) \<Rightarrow> (Panic, h)
                      | (Ret (err, backup), h) \<Rightarrow> (Ret (err, backup, registry), h)))))"

text \<open>The containers of the pod, up to the first failure, which is written to the status again.\<close>

fun checkpoint_containers ::
  "env \<Rightarrow> kclient \<Rightarrow> string \<Rightarrow> string \<Rightarrow> CoreContainer list \<Rightarrow> RegistryClient option \<Rightarrow> Checkpoint \<Rightarrow> hist \<Rightarrow>
   (error option \<times> Checkpoint \<times> RegistryClient option) outcome \<times> hist" where
  "checkpoint_containers en c nodeName bucketName [] registry backup h = (Ret (None, backup, registry), h)"
| "checkpoint_containers en c nodeName bucketName (container # containers) registry backup h =
     (case checkpointContainer en c nodeName bucketName registry backup container h of
        (Panic, h) \<Rightarrow> (Panic, h)
      | (Ret (Some err, backup, registry), h) \<Rightarrow>
          (case fail_checkpoint en (ctr_Image container) err err backup h of
             ((err, backup), h) \<Rightarrow> (Ret (err, backup, registry), h))
      | (Ret (None, backup, registry), h) \<Rightarrow>
          checkpoint_containers en c nodeName bucketName containers registry backup h)"

definition performCheckpoint ::
  "env \<Rightarrow> kclient \<Rightarrow> string \<Rightarrow> string \<Rightarrow> RegistryClient option \<Rightarrow> Checkpoint \<Rightarrow> hist \<Rightarrow>
   (error option \<times> Checkpoint \<times> RegistryClient option) outcome \<times> hist" where
  "performCheckpoint en c nodeName bucketName registry backup h =
     (let podRef = cks_PodRef (ck_Spec backup) in
      case rd ''Pod'' (pr_Namespace podRef) (pr_Name podRef)
             (\<lambda>h. w_GetPod (wl en) h c (pr_Namespace podRef) (pr_Name podRef)) h of
        (Inl err, h) \<Rightarrow> (Ret (Some (wrapf ''failed to get pod'' err), backup, registry), h)
      | (Inr pod, h) \<Rightarrow>
          (if pod_Phase pod \<noteq> PodRunning then (Ret (None, backup, registry), h)
           else checkpoint_containers en c nodeName bucketName (pod_Containers pod) registry backup h))"

section \<open>Lemmas: what a step does\<close>

text \<open>The effects of the steps up to the pushed image.\<close>

fun work_event :: "event \<Rightarrow> bool" where
  "work_event (Executed _ _) = True"
| "work_event (CreatedLocalFile _ _) = True"
| "work_event (DownloadedObject _ _ _ _) = True"
| "work_event (RequestedCheckpoint _ _) = True"
| "work_event e = (\<not> is_write e)"

lemma run_cmd_emits [emits_intros]: "(\<And>ok. P (Executed args ok)) \<Longrightarrow> emits P (run_cmd en args)"
  unfolding run_cmd_def by (rule emits_wr)

lemma run_cmds_emits:
  assumes "\<And>args ok. P (Executed args ok)"
  shows "emits P (run_cmds en cmds)"
proof (induction cmds)
  case (Cons cmd cmds)
  obtain args what where "cmd = (args, what)" by fastforce
  with Cons show ?case by (simp only: run_cmds.simps) (intro emits_intros assms, auto)
qed (simp add: emits_def)

lemma run_cmds_all:
  "run_cmds en cmds h = (None, h') \<Longrightarrow> h' = map (\<lambda>(args, _). Executed args True) (rev cmds) @ h"
  by (induction cmds arbitrary: h) (auto simp: run_cmd_def wr_simps split: sum.splits)

lemma build_emits [emits_intros]:
  assumes "\<And>args ok. P (Executed args ok)" and "\<And>k a b. P (Read k a b)"
  shows "emits P (buildCheckpointImage en path img base)"
  unfolding buildCheckpointImage_def Let_def
  by (intro emits_intros run_cmds_emits assms)

lemma login_emits [emits_intros]:
  assumes "\<And>args ok. P (Executed args ok)"
  shows "emits P (login en rc)"
  unfolding login_def Let_def by (intro emits_intros assms)

lemma PushImage_emits [emits_intros]:
  assumes "\<And>args ok. P (Executed args ok)"
  shows "emits P (PushImage en rc img)"
  unfolding PushImage_def by (intro emits_intros assms)

lemma CreateCheckpoint_emits [emits_intros]:
  assumes "\<And>u ok. P (RequestedCheckpoint u ok)" and "\<And>k a b. P (Read k a b)"
  shows "emits P (CreateCheckpoint en c n ns pod ctr)"
  unfolding CreateCheckpoint_def Let_def
  by (intro emits_intros assms)

lemma fetch_archive_emits [emits_intros]:
  assumes "\<And>k a b. P (Read k a b)" and "\<And>d. P (Slept d)" and "\<And>f ok. P (CreatedLocalFile f ok)"
    and "\<And>b ob f ok. P (DownloadedObject b ob f ok)"
  shows "emits P (fetch_archive en bucket path)"
proof -
  have "emits P (WaitForFileInMinio en n b p t i)" for n b p t i
    unfolding WaitForFileInMinio_def by (intro emits_intros assms)
  moreover have "emits P (DownloadFileFromMinio en b ob p)" for b ob p
    unfolding DownloadFileFromMinio_def by (intro emits_intros assms)
  ultimately show ?thesis
    unfolding fetch_archive_def by (intro emits_intros)
qed

lemma make_image_emits: "emits work_event (make_image en c n b reg ck ctr)"
  unfolding make_image_def Let_def
  by (intro emits_intros) simp_all


text \<open>
  The trace of a pushed image, newest event first: the archive was requested from the kubelet,
  downloaded, committed as an image and pushed, in this order.
\<close>

definition pushed_trace ::
  "env \<Rightarrow> kclient \<Rightarrow> string \<Rightarrow> string \<Rightarrow> Checkpoint \<Rightarrow> CoreContainer \<Rightarrow> string \<Rightarrow> hist \<Rightarrow> bool" where
  "pushed_trace en c nodeName bucketName ck ctr path es \<longleftrightarrow>
     (\<exists>cid. subseq
        [Executed [''buildah'', ''push'', image_name ck ctr] True,
         Executed [''buildah'', ''commit'', cid, image_name ck ctr] True,
         DownloadedObject bucketName (Base path) path True,
         RequestedCheckpoint (checkpoint_url en c nodeName (pr_Namespace (cks_PodRef (ck_Spec ck)))
           (pr_Name (cks_PodRef (ck_Spec ck))) (ctr_Name ctr)) True] es)"

lemma pushed_trace_append: "pushed_trace en c n b ck ctr path es \<Longrightarrow> pushed_trace en c n b ck ctr path (w @ es @ v)"
  unfolding pushed_trace_def by (elim exE, rule exI, rule list_emb_append2, erule list_emb_prefix)

lemma CreateCheckpoint_ok:
  assumes "CreateCheckpoint en c n ns pod ctr h = (Inr path, h')"
  shows "\<exists>es. h' = es @ h \<and> RequestedCheckpoint (checkpoint_url en c n ns pod ctr) True \<in> set es"
  using assms
  by (auto simp: CreateCheckpoint_def Let_def api_simps split: sum.splits if_splits list.splits)

lemma fetch_archive_ok:
  assumes "fetch_archive en b path h = (Ret None, h')"
  shows "\<exists>es. h' = es @ h \<and> DownloadedObject b (Base path) path True \<in> set es"
proof -
  obtain w h1 where wait: "WaitForFileInMinio en wait_fuel b path (300 * Second) (Second div 2) h = (w, h1)" by fastforce
  have "emits (\<lambda>_. True) (WaitForFileInMinio en wait_fuel b path (300 * Second) (Second div 2))"
    unfolding WaitForFileInMinio_def by (intro emits_intros TrueI)
  from emits_extends [OF this wait] obtain es where "h1 = es @ h" by blast
  with assms wait show ?thesis
    by (auto simp: fetch_archive_def DownloadFileFromMinio_def api_simps split: option.splits sum.splits if_splits)
qed

lemma build_ok:
  assumes "buildCheckpointImage en path img base h = (None, h')"
  shows "\<exists>es cid. h' = es @ h \<and> Executed [''buildah'', ''commit'', cid, img] True \<in> set es"
proof -
  let ?full = "if IsAbs path then path else path_Join CheckpointBasePath path"
  let ?h1 = "Read ''file'' '''' ?full # h"
  let ?h2 = "Executed [''buildah'', ''from'', ''scratch''] True # ?h1"
  from assms obtain out where out: "e_Run (ext en) ?h1 [''buildah'', ''from'', ''scratch''] = Inr out"
    by (auto simp: buildCheckpointImage_def Let_def rd_simps run_cmd_def wr_simps split: if_splits sum.splits)
  obtain r h3 where cmds: "run_cmds en (build_cmds (TrimSpace out) ?full img base) ?h2 = (r, h3)" by fastforce
  obtain r4 h4 where rm: "run_cmd en [''buildah'', ''rm'', TrimSpace out] h3 = (r4, h4)" by fastforce
  from assms out cmds rm have "r = None" "h' = h4"
    by (auto simp: buildCheckpointImage_def Let_def rd_simps run_cmd_def [of en "[''buildah'', ''from'', ''scratch'']"] wr_simps
        split: if_splits)
  moreover obtain ok where "h4 = Executed [''buildah'', ''rm'', TrimSpace out] ok # h3"
    using rm by (auto simp: run_cmd_def wr_simps)
  ultimately show ?thesis
    using run_cmds_all [of en "build_cmds (TrimSpace out) ?full img base" ?h2 h3] cmds
    by (auto simp: build_cmds_def)
qed

lemma PushImage_ok:
  assumes "PushImage en rc img h = ((None, rc'), h')"
  shows "\<exists>es. h' = Executed [''buildah'', ''push'', img] True # es @ h"
  using assms by (auto simp: PushImage_def login_def Let_def run_cmd_def wr_simps split: option.splits sum.splits if_splits)

lemma make_image_pushed:
  assumes "make_image en c n b reg ck ctr h = (Ret (Inr path, reg'), h')"
  shows "\<exists>es. h' = es @ h \<and> pushed_trace en c n b ck ctr path es"
proof -
  let ?ref = "cks_PodRef (ck_Spec ck)" and ?img = "image_name ck ctr"
  obtain r1 h1 where 1: "CreateCheckpoint en c n (pr_Namespace ?ref) (pr_Name ?ref) (ctr_Name ctr) h = (r1, h1)" by fastforce
  obtain r2 h2 where 2: "fetch_archive en b path h1 = (r2, h2)" by fastforce
  obtain r3 h3 where 3: "buildCheckpointImage en path ?img (ctr_Image ctr) h2 = (r3, h3)" by fastforce
  from assms 1 2 3 have r: "r1 = Inr path" "r2 = Ret None" "r3 = None"
    by (auto simp: make_image_def Let_def split: sum.splits outcome.splits option.splits prod.splits)
  with assms 1 2 3 obtain rc rc' where 4: "PushImage en rc ?img h3 = ((None, rc'), h')"
    by (auto simp: make_image_def Let_def split: option.splits prod.splits)
  from CreateCheckpoint_ok [OF 1 [unfolded r]] obtain es1 where
    e1: "h1 = es1 @ h" "RequestedCheckpoint (checkpoint_url en c n (pr_Namespace ?ref) (pr_Name ?ref) (ctr_Name ctr)) True \<in> set es1"
    by blast
  from fetch_archive_ok [OF 2 [unfolded r]] obtain es2 where e2: "h2 = es2 @ h1" "DownloadedObject b (Base path) path True \<in> set es2"
    by blast
  from build_ok [OF 3 [unfolded r]] obtain es3 cid where
    e3: "h3 = es3 @ h2" "Executed [''buildah'', ''commit'', cid, ?img] True \<in> set es3" by blast
  from PushImage_ok [OF 4] obtain es4 where e4: "h' = Executed [''buildah'', ''push'', ?img] True # es4 @ h3" by blast
  have sub: "x \<in> set xs \<Longrightarrow> subseq [x] xs" for x and xs :: hist by (simp add: subseq_singleton_left)
  have "subseq ([Executed [''buildah'', ''push'', ?img] True] @ [Executed [''buildah'', ''commit'', cid, ?img] True] @
      [DownloadedObject b (Base path) path True] @
      [RequestedCheckpoint (checkpoint_url en c n (pr_Namespace ?ref) (pr_Name ?ref) (ctr_Name ctr)) True])
      ((Executed [''buildah'', ''push'', ?img] True # es4) @ es3 @ es2 @ es1)"
    using e1 e2 e3 by (intro list_emb_append_mono sub) auto
  with e1 e2 e3 e4 show ?thesis
    unfolding pushed_trace_def by (intro exI [of _ "(Executed [''buildah'', ''push'', ?img] True # es4) @ es3 @ es2 @ es1"]) auto
qed


section \<open>Lemmas: the phases\<close>

fun phase_writes :: "hist \<Rightarrow> (CheckpointPhase \<times> bool) list" where
  "phase_writes [] = []"
| "phase_writes (UpdatedCheckpointStatus ck ok # h) = (ckst_Phase (ck_Status ck), ok) # phase_writes h"
| "phase_writes (_ # h) = phase_writes h"

fun is_status :: "event \<Rightarrow> bool" where
  "is_status (UpdatedCheckpointStatus _ _) = True"
| "is_status _ = False"

lemma phase_writes_quiet: "\<forall>e \<in> set es. \<not> is_status e \<Longrightarrow> phase_writes (es @ h) = phase_writes h"
proof (induction es)
  case (Cons e es)
  then show ?case by (cases e) auto
qed simp

lemma work_event_quiet: "work_event e \<Longrightarrow> \<not> is_status e"
  by (cases e) auto

lemma phase_writes_work: "\<forall>e \<in> set es. work_event e \<Longrightarrow> phase_writes (es @ h) = phase_writes h"
  by (simp add: phase_writes_quiet work_event_quiet)

lemma set_status_simps [simp]:
  "ckst_Phase (ck_Status (set_status ph m im t ck)) = ph"
  "ck_Spec (set_status ph m im t ck) = ck_Spec ck"
  "ckst_Phase (ck_Status (set_image i ck)) = ckst_Phase (ck_Status ck)"
  "ckst_LastCheckpointImage (ck_Status (set_image i ck)) = i"
  "ck_Spec (set_image i ck) = ck_Spec ck"
  by (simp_all add: set_status_def set_image_def)

lemma image_name_status [simp]: "image_name (set_status ph m im t ck) ctr = image_name ck ctr"
  by (simp add: image_name_def)

lemma pushed_trace_status [simp]:
  "pushed_trace en c n b (set_status ph m im t ck) ctr path es = pushed_trace en c n b ck ctr path es"
  by (simp add: pushed_trace_def)

lemma PreDownload_quiet: "emits (\<lambda>e. \<not> is_status e) (PreDownloadImageToTargetCluster en img orig ck)"
  by (rule PreDownload_emits) simp_all

lemma complete_checkpoint_cases:
  assumes "complete_checkpoint en img orig ck h = ((err, ck'), h')"
  obtains ok where "h' = UpdatedCheckpointStatus ck' ok # Read ''clock'' '''' '''' # h" "err = None \<longleftrightarrow> ok"
    "ckst_Phase (ck_Status ck') = CheckpointPhaseCompleted" "ckst_LastCheckpointImage (ck_Status ck') = img" "ck_Spec ck' = ck_Spec ck"
  using assms that [of "err = None"]
  by (auto simp: complete_checkpoint_def update_status_def api_simps Let_def split: sum.splits)

lemma fail_checkpoint_cases:
  assumes "fail_checkpoint en orig e r ck h = ((err, ck'), h')"
  obtains ok e' where "err = Some e'" "h' = UpdatedCheckpointStatus ck' ok # Read ''clock'' '''' '''' # h"
    "ckst_Phase (ck_Status ck') = CheckpointPhaseFailed"
proof -
  define ckf where "ckf = set_status CheckpointPhaseFailed (''Failed to update backup status with image name: '' @ err_text e)
      orig (o_Now (os en) h) ck"
  have "ckst_Phase (ck_Status ckf) = CheckpointPhaseFailed" by (simp add: ckf_def)
  moreover note assms [unfolded fail_checkpoint_def Now_simp, simplified prod.case Let_def, folded ckf_def]
  ultimately show thesis
    using that by (cases "m_UpdateCheckpointStatus (mgmt en) (Read ''clock'' '''' '''' # h) ckf")
      (auto simp: update_status_def wr_simps)
qed

lemma DeleteBuildImage_trace: "\<exists>r ok. DeleteBuildImage en img h = (r, Executed [''buildah'', ''rmi'', img] ok # h)"
  by (cases "e_Run (ext en) h [''buildah'', ''rmi'', img]")
    (auto simp: DeleteBuildImage_def run_cmd_def wr_simps intro: exI [of "\<lambda>x. x" True] exI [of Not False])

text \<open>What happens after the push: one or two writes of the phase Completed, and clean-up between them.\<close>

lemma finish_checkpoint_cases:
  assumes "finish_checkpoint en path ck ctr h = (res, h')"
  obtains (unrecorded) ck1 e where "res = Ret (Some e, ck1)"
      "h' = UpdatedCheckpointStatus ck1 False # Read ''clock'' '''' '''' # h"
      "ckst_Phase (ck_Status ck1) = CheckpointPhaseCompleted" "ckst_LastCheckpointImage (ck_Status ck1) = image_name ck ctr"
  | (died) ck1 es where "res = Panic" "\<forall>e \<in> set es. \<not> is_status e"
      "h' = es @ UpdatedCheckpointStatus ck1 True # Read ''clock'' '''' '''' # h"
      "ckst_Phase (ck_Status ck1) = CheckpointPhaseCompleted" "ckst_LastCheckpointImage (ck_Status ck1) = image_name ck ctr"
  | (finished) ck1 ck2 es err ok where "res = Ret (err, ck2)" "err = None \<longleftrightarrow> ok" "\<forall>e \<in> set es. \<not> is_status e"
      "h' = UpdatedCheckpointStatus ck2 ok # es @ UpdatedCheckpointStatus ck1 True # Read ''clock'' '''' '''' # h"
      "ckst_Phase (ck_Status ck1) = CheckpointPhaseCompleted" "ckst_LastCheckpointImage (ck_Status ck1) = image_name ck ctr"
      "ckst_Phase (ck_Status ck2) = CheckpointPhaseCompleted" "ckst_LastCheckpointImage (ck_Status ck2) = image_name ck ctr"
proof -
  let ?img = "image_name ck ctr"
  obtain e1 ck1 h1 where c1: "complete_checkpoint en ?img (ctr_Image ctr) ck h = ((e1, ck1), h1)" by (metis surj_pair)
  from c1 obtain ok1 where f1: "h1 = UpdatedCheckpointStatus ck1 ok1 # Read ''clock'' '''' '''' # h" "e1 = None \<longleftrightarrow> ok1"
    "ckst_Phase (ck_Status ck1) = CheckpointPhaseCompleted" "ckst_LastCheckpointImage (ck_Status ck1) = ?img"
    by (rule complete_checkpoint_cases)
  show thesis
  proof (cases e1)
    case (Some e)
    with f1 assms c1 unrecorded show thesis by (auto simp: finish_checkpoint_def Let_def)
  next
    case None
    obtain r2 h2 where pre: "PreDownloadImageToTargetCluster en ?img (ctr_Image ctr) ck1 h1 = (r2, h2)" by fastforce
    from emitsD [OF PreDownload_quiet pre] obtain es2 where e2: "h2 = es2 @ h1" "\<forall>e \<in> set es2. \<not> is_status e" by metis
    show thesis
    proof (cases r2)
      case Panic
      with f1 None assms c1 pre e2 died show thesis by (auto simp: finish_checkpoint_def Let_def)
    next
      case (Ret u)
      obtain ok3 where "wr (RemovedFile path) (\<lambda>h. e_Remove (ext en) h path) h2 = (e_Remove (ext en) h2 path, RemovedFile path ok3 # h2)"
        by (simp add: wr_simps)
      moreover obtain r4 ok4 where d4: "DeleteBuildImage en ?img (RemovedFile path ok3 # h2) =
          (r4, Executed [''buildah'', ''rmi'', ?img] ok4 # RemovedFile path ok3 # h2)"
        using DeleteBuildImage_trace by blast
      moreover obtain e5 ck5 h5 where c5: "complete_checkpoint en ?img (ctr_Image ctr) ck1
          (Executed [''buildah'', ''rmi'', ?img] ok4 # RemovedFile path ok3 # h2) = ((e5, ck5), h5)" by (metis surj_pair)
      moreover from c5 obtain ok5 where f5: "h5 = UpdatedCheckpointStatus ck5 ok5 # Read ''clock'' '''' '''' #
          Executed [''buildah'', ''rmi'', ?img] ok4 # RemovedFile path ok3 # h2" "e5 = None \<longleftrightarrow> ok5"
        "ckst_Phase (ck_Status ck5) = CheckpointPhaseCompleted" "ckst_LastCheckpointImage (ck_Status ck5) = ?img"
        by (rule complete_checkpoint_cases)
      ultimately have "res = Ret (e5, ck5)" "h' = h5"
        using assms c1 pre None Ret by (auto simp: finish_checkpoint_def Let_def)
      with f1 f5 None e2 show thesis
        by (intro finished [of e5 ck5 ok5 "Read ''clock'' '''' '''' # Executed [''buildah'', ''rmi'', ?img] ok4 # RemovedFile path ok3 # es2" ck1])
          auto
    qed
  qed
qed

text \<open>A checkpoint of one container, by how far it got.\<close>

lemma checkpointContainer_cases:
  assumes "checkpointContainer en c n b reg ck ctr h = (res, h')"
  obtains (unmarked) ck1 e where "res = Ret (Some e, ck1, reg)" "ckst_Phase (ck_Status ck1) = CheckpointPhaseRunning"
      "h' = UpdatedCheckpointStatus ck1 False # Read ''clock'' '''' '''' # h"
  | (stuck) ck1 es where "res = Panic" "ckst_Phase (ck_Status ck1) = CheckpointPhaseRunning" "\<forall>e \<in> set es. work_event e"
      "h' = es @ UpdatedCheckpointStatus ck1 True # Read ''clock'' '''' '''' # h"
  | (failed) ck1 ck2 es e reg' ok where "res = Ret (Some e, ck2, reg')" "ckst_Phase (ck_Status ck1) = CheckpointPhaseRunning"
      "ckst_Phase (ck_Status ck2) = CheckpointPhaseFailed" "\<forall>e \<in> set es. work_event e"
      "h' = UpdatedCheckpointStatus ck2 ok # es @ UpdatedCheckpointStatus ck1 True # Read ''clock'' '''' '''' # h"
  | (pushed) path ck1 es h1 r reg' where "ckst_Phase (ck_Status ck1) = CheckpointPhaseRunning" "\<forall>e \<in> set es. work_event e"
      "h1 = es @ UpdatedCheckpointStatus ck1 True # Read ''clock'' '''' '''' # h" "pushed_trace en c n b ck ctr path es"
      "image_name ck1 ctr = image_name ck ctr" "finish_checkpoint en path ck1 ctr h1 = (r, h')"
      "res = (case r of Panic \<Rightarrow> Panic | Ret (err, ck') \<Rightarrow> Ret (err, ck', reg'))"
proof -
  define ck1 where "ck1 = mark_running ctr (o_Now (os en) h) ck"
  let ?h0 = "Read ''clock'' '''' '''' # h"
  have ph: "ckst_Phase (ck_Status ck1) = CheckpointPhaseRunning" "image_name ck1 ctr = image_name ck ctr"
    "pushed_trace en c n b ck1 ctr path es = pushed_trace en c n b ck ctr path es" for path es
    by (simp_all add: ck1_def mark_running_def)
  note unf = assms [unfolded checkpointContainer_def Now_simp, simplified prod.case Let_def, folded ck1_def]
  show thesis
  proof (cases "m_UpdateCheckpointStatus (mgmt en) ?h0 ck1")
    case (Inl e)
    with unf ph unmarked show thesis by (auto simp: update_status_def wr_simps)
  next
    case (Inr u)
    let ?h1 = "UpdatedCheckpointStatus ck1 True # ?h0"
    obtain m h2 where mk: "make_image en c n b reg ck1 ctr ?h1 = (m, h2)" by fastforce
    from emitsD [OF make_image_emits mk] obtain es where es: "h2 = es @ ?h1" "\<forall>e \<in> set es. work_event e" by metis
    show thesis
    proof (cases m)
      case Panic
      with unf Inr mk es ph stuck show thesis by (auto simp: update_status_def wr_simps)
    next
      case (Ret pr)
      obtain what reg' where pr: "pr = (what, reg')" by fastforce
      show thesis
      proof (cases what)
        case (Inl ee)
        obtain e1 e2 where ee: "ee = (e1, e2)" by fastforce
        obtain err ck2 h3 where f: "fail_checkpoint en (ctr_Image ctr) e1 e2 ck1 h2 = ((err, ck2), h3)" by (metis surj_pair)
        then obtain ok e' where f': "err = Some e'" "h3 = UpdatedCheckpointStatus ck2 ok # Read ''clock'' '''' '''' # h2"
          "ckst_Phase (ck_Status ck2) = CheckpointPhaseFailed" by (rule fail_checkpoint_cases)
        from unf Inr mk Ret pr Inl ee f have "res = Ret (err, ck2, reg')" "h' = h3"
          by (auto simp: update_status_def wr_simps)
        with f' es ph show thesis by (intro failed [of e' ck2 reg' ck1 "Read ''clock'' '''' '''' # es" ok]) auto
      next
        case what: (Inr path)
        obtain r h3 where fin: "finish_checkpoint en path ck1 ctr h2 = (r, h3)" by fastforce
        from make_image_pushed [OF mk [unfolded Ret pr what]] es(1) have "pushed_trace en c n b ck ctr path es"
          by (auto simp: ph)
        with unf Inr mk Ret pr what es ph fin pushed [of ck1 es h2 path r reg'] show thesis
          by (auto simp: update_status_def wr_simps split: outcome.splits prod.splits)
      qed
    qed
  qed
qed


text \<open>
  \<open>guarded T es\<close>: whenever a status with the phase Completed is written among the events \<open>es\<close>,
  the older ones satisfy \<open>T\<close>.
\<close>

fun is_completed :: "event \<Rightarrow> bool" where
  "is_completed (UpdatedCheckpointStatus ck _) \<longleftrightarrow> ckst_Phase (ck_Status ck) = CheckpointPhaseCompleted"
| "is_completed _ \<longleftrightarrow> False"

fun guarded :: "(hist \<Rightarrow> bool) \<Rightarrow> hist \<Rightarrow> bool" where
  "guarded T [] \<longleftrightarrow> True"
| "guarded T (e # es) \<longleftrightarrow> (is_completed e \<longrightarrow> T es) \<and> guarded T es"

lemma guarded_quiet: "\<forall>e \<in> set u. \<not> is_completed e \<Longrightarrow> guarded T v \<Longrightarrow> guarded T (u @ v)"
  by (induction u) auto

lemma guarded_suffix: "guarded T v \<Longrightarrow> (\<And>w. T (w @ v)) \<Longrightarrow> guarded T (u @ v)"
  by (induction u) auto

lemma guarded_split: "guarded T (post @ e # pre) \<Longrightarrow> is_completed e \<Longrightarrow> T pre"
  by (induction post) auto

lemma not_status_not_completed: "\<not> is_status e \<Longrightarrow> \<not> is_completed e"
  by (cases e) auto

lemma checkpointContainer_guarded:
  assumes "checkpointContainer en c n b reg ck ctr h = (res, h')"
  shows "\<exists>es. h' = es @ h \<and> guarded (\<lambda>pre. \<exists>path. pushed_trace en c n b ck ctr path pre) es"
  using assms
proof (cases rule: checkpointContainer_cases)
  case (unmarked ck1 e)
  then show ?thesis by (intro exI [of _ "[UpdatedCheckpointStatus ck1 False, Read ''clock'' '''' '''']"]) simp
next
  case (stuck ck1 es)
  then show ?thesis
    by (intro exI [of _ "es @ [UpdatedCheckpointStatus ck1 True, Read ''clock'' '''' '''']"])
      (auto intro!: guarded_quiet dest: work_event_quiet not_status_not_completed)
next
  case (failed ck1 ck2 es e reg' ok)
  then show ?thesis
    by (intro exI [of _ "UpdatedCheckpointStatus ck2 ok # es @ [UpdatedCheckpointStatus ck1 True, Read ''clock'' '''' '''']"])
      (auto intro!: guarded_quiet dest: work_event_quiet not_status_not_completed)
next
  case (pushed path ck1 es h1 r reg')
  let ?T = "\<lambda>pre. \<exists>path. pushed_trace en c n b ck ctr path pre"
  let ?v = "es @ [UpdatedCheckpointStatus ck1 True, Read ''clock'' '''' '''']"
  have v: "guarded ?T ?v"
    using pushed(1,2) by (auto intro!: guarded_quiet dest: work_event_quiet not_status_not_completed)
  have T: "?T (w @ ?v)" for w
    by (rule exI [of _ path]) (rule pushed_trace_append [OF pushed(4)])
  have "\<exists>w. h' = w @ h1"
    using pushed(6) by (cases rule: finish_checkpoint_cases) auto
  then obtain w where "h' = w @ h1" ..
  with pushed(3) show ?thesis
    by (intro exI [of _ "w @ ?v"]) (simp add: guarded_suffix [OF v T, simplified])
qed

text \<open>Everything a checkpoint of a pod may add to the history.\<close>

fun checkpoint_event :: "event \<Rightarrow> bool" where
  "checkpoint_event (UpdatedCheckpointStatus _ _) = True"
| "checkpoint_event (CreatedPod _ _ _) = True"
| "checkpoint_event (DeletedPod _ _ _ _) = True"
| "checkpoint_event (CreatedNamespace _ _ _) = True"
| "checkpoint_event (Executed _ _) = True"
| "checkpoint_event (RemovedFile _ _) = True"
| "checkpoint_event (CreatedLocalFile _ _) = True"
| "checkpoint_event (DownloadedObject _ _ _ _) = True"
| "checkpoint_event (RequestedCheckpoint _ _) = True"
| "checkpoint_event (Read _ _ _) = True"
| "checkpoint_event (Slept _) = True"
| "checkpoint_event (StartedCleanup _ _ _) = True"
| "checkpoint_event _ = False"

lemma checkpointContainer_emits: "emits checkpoint_event (checkpointContainer en c n b reg ck ctr)"
proof -
  have upd: "emits checkpoint_event (update_status en ck)" for ck
    unfolding update_status_def by (intro emits_intros) simp_all
  have mk: "emits checkpoint_event (make_image en c n b reg ck ctr)" for reg ck
    unfolding make_image_def Let_def by (intro emits_intros) simp_all
  have rest: "emits checkpoint_event (fail_checkpoint en orig e r ck)" "emits checkpoint_event (complete_checkpoint en i orig ck)"
    "emits checkpoint_event (DeleteBuildImage en i)" for orig e r ck i
    unfolding fail_checkpoint_def complete_checkpoint_def DeleteBuildImage_def Let_def
    by (intro emits_intros upd; simp)+
  have fin: "emits checkpoint_event (finish_checkpoint en path ck ctr)" for path ck
    unfolding finish_checkpoint_def Let_def by (intro emits_intros rest) simp_all
  show ?thesis
    unfolding checkpointContainer_def Let_def by (intro emits_intros upd mk rest fin) simp_all
qed

lemma performCheckpoint_emits: "emits checkpoint_event (performCheckpoint en c n b reg ck)"
proof -
  have fail: "emits checkpoint_event (fail_checkpoint en orig e r ck)" for orig e r ck
    unfolding fail_checkpoint_def update_status_def Let_def by (intro emits_intros) simp_all
  have "emits checkpoint_event (checkpoint_containers en c n b ctrs reg ck)" for ctrs
  proof (induction ctrs arbitrary: reg ck)
    case (Cons ctr ctrs)
    then show ?case unfolding checkpoint_containers.simps by (intro emits_intros checkpointContainer_emits fail)
  qed (simp add: emits_def)
  then show ?thesis
    unfolding performCheckpoint_def Let_def by (intro emits_intros) simp_all
qed

text \<open>The commands that ran: all of them, or those up to the first that failed.\<close>

lemma writes_commands:
  "writes (rev (map (\<lambda>cmd. Executed (fst cmd) True) cs) @ h) = rev (map (\<lambda>cmd. Executed cmd True) (map fst cs)) @ writes h"
  by (induction cs) auto

lemma run_cmds_trace:
  "run_cmds en cmds h = (err, h') \<Longrightarrow>
     err = None \<and> h' = rev (map (\<lambda>cmd. Executed (fst cmd) True) cmds) @ h \<or>
     err \<noteq> None \<and> (\<exists>k < length cmds. h' = Executed (fst (cmds ! k)) False # rev (map (\<lambda>cmd. Executed (fst cmd) True) (take k cmds)) @ h)"
proof (induction cmds arbitrary: h)
  case (Cons cmd cmds)
  obtain args what where cmd: "cmd = (args, what)" by fastforce
  show ?case
  proof (cases "e_Run (ext en) h args")
    case (Inl e)
    with Cons.prems cmd show ?thesis
      by (intro disjI2 conjI exI [of _ 0]) (auto simp: run_cmd_def wr_simps)
  next
    case (Inr out)
    with Cons.prems cmd have "run_cmds en cmds (Executed args True # h) = (err, h')"
      by (auto simp: run_cmd_def wr_simps)
    from Cons.IH [OF this] show ?thesis
    proof (elim disjE conjE exE)
      fix k assume "err \<noteq> None" "k < length cmds"
        "h' = Executed (fst (cmds ! k)) False # rev (map (\<lambda>cmd. Executed (fst cmd) True) (take k cmds)) @ Executed args True # h"
      with cmd show ?thesis by (intro disjI2 conjI exI [of _ "Suc k"]) auto
    qed (simp add: cmd)
  qed
qed simp

lemma run_cmds_writes:
  assumes "run_cmds en cmds h = (err, h')"
  shows "\<exists>k \<le> length cmds. (err = None \<longleftrightarrow> k = length cmds) \<and>
    writes h' = (if k = length cmds then [] else [Executed (map fst cmds ! k) False]) @
      rev (map (\<lambda>cmd. Executed cmd True) (take k (map fst cmds))) @ writes h"
  using run_cmds_trace [OF assms]
proof (elim disjE conjE exE)
  assume "err = None" "h' = rev (map (\<lambda>cmd. Executed (fst cmd) True) cmds) @ h"
  with writes_commands [of cmds h] show ?thesis by (intro exI [of _ "length cmds"]) simp
next
  fix k assume "err \<noteq> None" "k < length cmds"
    "h' = Executed (fst (cmds ! k)) False # rev (map (\<lambda>cmd. Executed (fst cmd) True) (take k cmds)) @ h"
  with writes_commands [of "take k cmds" h] show ?thesis by (intro exI [of _ k]) (simp add: take_map)
qed

lemma PreDownload_returns:
  assumes "cks_TargetClusterRef (ck_Spec ck) \<noteq> None"
  shows "fst (PreDownloadImageToTargetCluster en img orig ck h) \<noteq> Panic"
proof -
  from assms obtain target where t: "cks_TargetClusterRef (ck_Spec ck) = Some target" by auto
  obtain d co e h1 where "GetWorkloadClusterClient en (clr_Name target) h = (Ret (d, co, e), h1)"
    using GetWorkloadClusterClient_result by blast
  with t show ?thesis
    by (auto simp: PreDownloadImageToTargetCluster_def Let_def split: option.splits prod.splits sum.splits)
qed

lemma fetch_archive_returns:
  assumes "clock_law en"
  shows "fst (fetch_archive en b path h) \<noteq> Panic"
proof -
  obtain r h' where "WaitForFileInMinio en wait_fuel b path (300 * Second) (Second div 2) h = (Some r, h')"
    using WaitForFileInMinio_ends [OF assms, of "Second div 2" "300 * Second" wait_fuel b path h]
    by (auto simp: wait_fuel_def Second_def)
  then show ?thesis by (auto simp: fetch_archive_def split: option.splits prod.splits)
qed

lemma make_image_returns:
  assumes "clock_law en" and "reg \<noteq> None"
  shows "fst (make_image en c n b reg ck ctr h) \<noteq> Panic"
proof -
  let ?ref = "cks_PodRef (ck_Spec ck)"
  obtain r1 h1 where 1: "CreateCheckpoint en c n (pr_Namespace ?ref) (pr_Name ?ref) (ctr_Name ctr) h = (r1, h1)" by fastforce
  show ?thesis
  proof (cases r1)
    case (Inl e)
    with 1 show ?thesis by (simp add: make_image_def Let_def)
  next
    case (Inr path)
    obtain r2 h2 where 2: "fetch_archive en b path h1 = (r2, h2)" by fastforce
    with fetch_archive_returns [OF assms(1), of b path h1] obtain fe where "r2 = Ret fe" by (cases r2) auto
    with 1 2 Inr assms(2) show ?thesis
      by (auto simp: make_image_def Let_def split: option.splits prod.splits)
  qed
qed

lemma finish_checkpoint_returns:
  assumes "cks_TargetClusterRef (ck_Spec ck) \<noteq> None"
  shows "fst (finish_checkpoint en path ck ctr h) \<noteq> Panic"
proof -
  obtain e1 ck1 h1 where c1: "complete_checkpoint en (image_name ck ctr) (ctr_Image ctr) ck h = ((e1, ck1), h1)" by (metis surj_pair)
  then have "ck_Spec ck1 = ck_Spec ck" by (rule complete_checkpoint_cases) simp
  with assms PreDownload_returns [of ck1 en "image_name ck ctr" "ctr_Image ctr" h1] c1 show ?thesis
    by (auto simp: finish_checkpoint_def Let_def split: option.splits prod.splits outcome.splits)
qed

section \<open>Properties\<close>

text \<open>
  C5. A checkpoint is reported as completed only once its image is in the registry. Whenever the
  checkpoint of a container writes a status with the phase Completed, the kubelet's archive was
  requested, downloaded from the object store, committed as the checkpoint's image and pushed
  before, in this order and each without an error, in the same call.
\<close>

theorem completed_only_after_push:
  assumes "checkpointContainer en c n b reg ck ctr h = (res, h')"
    and "h' = post @ UpdatedCheckpointStatus ck' ok # pre @ h"
    and "ckst_Phase (ck_Status ck') = CheckpointPhaseCompleted"
  shows "\<exists>path. pushed_trace en c n b ck ctr path pre"
proof -
  from checkpointContainer_guarded [OF assms(1)] obtain es where
    es: "h' = es @ h" "guarded (\<lambda>pre. \<exists>path. pushed_trace en c n b ck ctr path pre) es" by blast
  with assms(2) have "es = post @ UpdatedCheckpointStatus ck' ok # pre" by simp
  with guarded_split es(2) assms(3) show ?thesis by fastforce
qed

text \<open>A run from end to end, in which the object is in the store at once.\<close>

definition video_container :: CoreContainer where
  "video_container = \<lparr>ctr_Name = ''video'', ctr_Image = ''video:1'', ctr_Args = [], ctr_Command = [], ctr_Ports = [],
     ctr_ImagePullPolicy = ''''\<rparr>"

definition ckpt_env :: env where
  "ckpt_env = pull_env\<lparr>
     mgmt := (mgmt pull_env)\<lparr>m_UpdateCheckpointStatus := (\<lambda>_ _. Inr ())\<rparr>,
     os := down_os\<lparr>o_Now := slept\<rparr>,
     ext := down_ext\<lparr>e_TransportFor := (\<lambda>_ _. Inr ()), e_NewRequest := (\<lambda>_. Inr ()),
       e_Post := (\<lambda>_ _ _. Inr (200, Inr ''body'')), e_ParseItems := (\<lambda>_. Inr [''/var/lib/kubelet/checkpoints/a.tar'']),
       e_StatObject := (\<lambda>_ _ _. Inr ()), e_GetObject := (\<lambda>_ _ _. Inr ()), e_CreateFile := (\<lambda>_ _. Inr ()),
       e_CopyObject := (\<lambda>_ _ _ _. Inr 7), e_Stat := (\<lambda>_ _. Inr ()), e_Run := (\<lambda>_ _. Inr ''c1''),
       e_Remove := (\<lambda>_ _. Inr ())\<rparr>\<rparr>"

definition sample_registry :: RegistryClient where
  "sample_registry = \<lparr>rc_username = ''u'', rc_password = ''p'', rc_registry = ''docker.io''\<rparr>"

abbreviation sample_run :: "(error option \<times> Checkpoint \<times> RegistryClient option) outcome \<times> hist" where
  "sample_run \<equiv> checkpointContainer ckpt_env (WorkloadClient ''cluster1-azure'') ''worker-1'' ''checkpoints''
     (Some sample_registry) sample_checkpoint video_container []"

lemma ckpt_run:
  obtains ck' reg' h' ck'' ok pre where "sample_run = (Ret (None, ck', reg'), h')"
    "h' = [] @ UpdatedCheckpointStatus ck'' ok # pre @ []" "ckst_Phase (ck_Status ck'') = CheckpointPhaseCompleted"
proof -
  have "case fst sample_run of Ret (None, _, _) \<Rightarrow> True | _ \<Rightarrow> False" by code_simp
  then obtain ck' reg' where r: "fst sample_run = Ret (None, ck', reg')"
    by (auto split: outcome.splits prod.splits option.splits)
  have "case snd sample_run of e # _ \<Rightarrow> is_completed e | [] \<Rightarrow> False" by code_simp
  then obtain e pre where e: "snd sample_run = e # pre" "is_completed e" by (auto split: list.splits)
  then obtain ck'' ok where "e = UpdatedCheckpointStatus ck'' ok" by (cases e) auto
  with r e that [of ck' reg' "snd sample_run" ck'' ok pre] show thesis by (simp add: prod_eq_iff)
qed

theorem completed_only_after_push_witness:
  "\<exists>path pre. pushed_trace ckpt_env (WorkloadClient ''cluster1-azure'') ''worker-1'' ''checkpoints'' sample_checkpoint
     video_container path pre"
proof -
  obtain ck' reg' h' ck'' ok pre where run: "sample_run = (Ret (None, ck', reg'), h')"
    "h' = [] @ UpdatedCheckpointStatus ck'' ok # pre @ []" "ckst_Phase (ck_Status ck'') = CheckpointPhaseCompleted"
    by (rule ckpt_run)
  from completed_only_after_push [OF run] show ?thesis by blast
qed

text \<open>
  C22. The phases of a checkpoint. A call that returns has written the phase Running first. If that
  write failed it stops there; otherwise it ends with Failed and an error, or with Completed,
  twice if the first of these writes succeeded. It reports no error if and only if all writes
  went through and the last one was Completed.
\<close>

theorem checkpointContainer_phases:
  assumes "checkpointContainer en c n b reg ck ctr h = (Ret (err, ck', reg'), h')"
  shows "\<exists>ps. phase_writes h' = ps @ phase_writes h \<and>
    (ps = [(CheckpointPhaseRunning, False)] \<and> err \<noteq> None \<or>
     (\<exists>ok. ps = [(CheckpointPhaseFailed, ok), (CheckpointPhaseRunning, True)] \<and> err \<noteq> None) \<or>
     ps = [(CheckpointPhaseCompleted, False), (CheckpointPhaseRunning, True)] \<and> err \<noteq> None \<or>
     (\<exists>ok. ps = [(CheckpointPhaseCompleted, ok), (CheckpointPhaseCompleted, True), (CheckpointPhaseRunning, True)] \<and>
        (err = None \<longleftrightarrow> ok)))"
  using assms
proof (cases rule: checkpointContainer_cases)
  case (pushed path ck1 es h1 r reg'')
  have base: "phase_writes h1 = (CheckpointPhaseRunning, True) # phase_writes h"
    using pushed(1,2,3) by (simp add: phase_writes_work)
  from pushed(6) show ?thesis
  proof (cases rule: finish_checkpoint_cases)
    case (finished ck2 ck3 es2 err2 ok)
    with pushed(7) base phase_writes_quiet [of es2] show ?thesis by auto
  qed (use pushed(7) base in auto)
qed (auto simp: phase_writes_work)


theorem checkpointContainer_phases_witness:
  "\<exists>ck' reg' h' ps. sample_run = (Ret (None, ck', reg'), h') \<and> phase_writes h' = ps \<and>
     ps = [(CheckpointPhaseCompleted, True), (CheckpointPhaseCompleted, True), (CheckpointPhaseRunning, True)]"
proof -
  obtain ck' reg' h' where run: "sample_run = (Ret (None, ck', reg'), h')" by (rule ckpt_run)
  from checkpointContainer_phases [OF run] run show ?thesis by auto
qed






end
