(* ===== verification/Checkpoint_Controller.thy ===== *)
theory Checkpoint_Controller
  imports Checkpoint_Images
begin

text \<open>
  \<^verbatim>\<open>src/internal/controller/checkpoint_controller.go\<close>, the reconciler: it keeps one job in the
  cron scheduler for every Checkpoint resource, makes the first checkpoint at once, and removes
  the job when the resource goes away. The scheduler is a library; its entries are read off the
  history of additions and removals.
\<close>

section \<open>Definitions: the state\<close>

record KubeletClient =
  kc_token :: string
  kc_kubeletURL :: string

text \<open>
  The bucket stands for the MinIO client. A map that was not made is \<open>None\<close>: reading it finds
  nothing, and writing to it panics.
\<close>

record CheckpointReconciler =
  cr_KubeletClient :: "KubeletClient option"
  cr_RegistryClient :: "RegistryClient option"
  cr_MinioClient :: "string option"
  cr_Scheduler :: bool
  cr_scheduledJobs :: "(string \<rightharpoonup> nat) option"

definition zero_reconciler :: CheckpointReconciler where
  "zero_reconciler =
     \<lparr>cr_KubeletClient = None, cr_RegistryClient = None, cr_MinioClient = None, cr_Scheduler = False, cr_scheduledJobs = None\<rparr>"

definition CheckpointFinalizer :: string where
  "CheckpointFinalizer = ''checkpoint.transition.dcnlab.ssu.ac.kr/finalizer''"

text \<open>\<^verbatim>\<open>types.NamespacedName.String\<close>.\<close>

definition job_key :: "string \<Rightarrow> string \<Rightarrow> string" where
  "job_key namespace name = namespace @ ''/'' @ name"

section \<open>Definitions: the clients\<close>

fun token_secret :: "string \<Rightarrow> Secret list \<Rightarrow> string option" where
  "token_secret saName [] = None"
| "token_secret saName (s # secrets) =
     (if sec_IsServiceAccountToken s \<and> mget (sec_Annotations s) ''kubernetes.io/service-account.name'' = saName \<and>
         mhas (sec_Data s) ''token''
      then Some (mget (sec_Data s) ''token'')
      else token_secret saName secrets)"

definition getKubeletToken :: "env \<Rightarrow> kclient \<Rightarrow> string \<Rightarrow> string \<Rightarrow> hist \<Rightarrow> string result \<times> hist" where
  "getKubeletToken en c saName saNamespace h =
     (case rd ''ServiceAccount'' saNamespace saName (\<lambda>h. e_GetServiceAccount (ext en) h c saNamespace saName) h of
        (Inl err, h) \<Rightarrow> (Inl (wrapf ''failed to get service account'' err), h)
      | (Inr _, h) \<Rightarrow>
          (case rd ''TokenRequest'' saNamespace saName (\<lambda>h. e_CreateToken (ext en) h c saNamespace saName) h of
             (Inr token, h) \<Rightarrow> (Inr token, h)
           | (Inl _, h) \<Rightarrow>
               (case rd ''SecretList'' saNamespace '''' (\<lambda>h. e_ListSecrets (ext en) h c saNamespace) h of
                  (Inl err, h) \<Rightarrow> (Inl (wrapf ''failed to list secrets'' err), h)
                | (Inr secrets, h) \<Rightarrow>
                    (case token_secret saName secrets of
                       Some token \<Rightarrow> (Inr token, h)
                     | None \<Rightarrow> (Inl (Errorf (''no token secret found for service account '' @ saName)), h)))))"

definition NewKubeletClient :: "env \<Rightarrow> string \<Rightarrow> kclient \<Rightarrow> hist \<Rightarrow> KubeletClient result \<times> hist" where
  "NewKubeletClient en nodeIP c h =
     (case getKubeletToken en c ''checkpoint-sa'' ''default'' h of
        (Inl err, h) \<Rightarrow> (Inl (wrapf ''failed to get kubelet token'' err), h)
      | (Inr token, h) \<Rightarrow>
          (Inr \<lparr>kc_token = token,
                kc_kubeletURL = (if nodeIP \<noteq> '''' then ''https://'' @ nodeIP @ '':10250'' else ''https://localhost:10250'')\<rparr>, h))"

text \<open>The secret is read with the controller's own client.\<close>

definition registry_secret :: "Registry \<Rightarrow> string \<times> string" where
  "registry_secret registryConfig =
     (case reg_SecretRef registryConfig of
        None \<Rightarrow> (''default'', ''reg-credentials'')
      | Some ref \<Rightarrow> (if sr_Namespace ref \<noteq> '''' then sr_Namespace ref else ''default'', sr_Name ref))"

definition registry_url :: "Registry \<Rightarrow> string \<Rightarrow> string" where
  "registry_url registryConfig registry =
     (let registryURL = reg_URL registryConfig;
          registryURL = (if registryURL = '''' \<and> registry \<noteq> '''' then registry else registryURL)
      in if registryURL = '''' then ''docker.io'' else registryURL)"

definition NewRegistryClient :: "env \<Rightarrow> Registry \<Rightarrow> hist \<Rightarrow> RegistryClient result \<times> hist" where
  "NewRegistryClient en registryConfig h =
     (case registry_secret registryConfig of (secretNamespace, secretName) \<Rightarrow>
        (case rd ''Secret'' secretNamespace secretName (\<lambda>h. m_GetSecret (mgmt en) h secretNamespace secretName) h of
           (Inl err, h) \<Rightarrow>
             (Inl (wrapf (''failed to get registry credentials secret '' @ secretNamespace @ ''/'' @ secretName) err), h)
         | (Inr secret, h) \<Rightarrow>
             (let username = mget (sec_Data secret) ''username''; password = mget (sec_Data secret) ''password'';
                  registry = mget (sec_Data secret) ''registry''
              in if username = '''' \<or> password = ''''
                 then (Inl (Errorf (''registry credentials are empty in secret '' @ secretNamespace @ ''/'' @ secretName)), h)
                 else (Inr \<lparr>rc_username = username, rc_password = password,
                            rc_registry = registry_url registryConfig registry\<rparr>, h))))"

definition init_kubelet ::
  "env \<Rightarrow> string \<Rightarrow> kclient \<Rightarrow> CheckpointReconciler \<Rightarrow> hist \<Rightarrow> (error option \<times> CheckpointReconciler) \<times> hist" where
  "init_kubelet en nodeKubeletIP c r h =
     (if cr_KubeletClient r \<noteq> None then ((None, r), h)
      else case NewKubeletClient en nodeKubeletIP c h of
             (Inl err, h) \<Rightarrow> ((Some (wrapf ''failed to create kubelet client'' err), r), h)
           | (Inr kc, h) \<Rightarrow> ((None, r\<lparr>cr_KubeletClient := Some kc\<rparr>), h))"

definition init_registry ::
  "env \<Rightarrow> Registry \<Rightarrow> CheckpointReconciler \<Rightarrow> hist \<Rightarrow> (error option \<times> CheckpointReconciler) \<times> hist" where
  "init_registry en registryConfig r h =
     (if cr_RegistryClient r \<noteq> None then ((None, r), h)
      else case NewRegistryClient en registryConfig h of
             (Inl err, h) \<Rightarrow> ((Some (wrapf ''failed to create registry client'' err), r), h)
           | (Inr rc, h) \<Rightarrow> ((None, r\<lparr>cr_RegistryClient := Some rc\<rparr>), h))"

definition init_scheduler :: "CheckpointReconciler \<Rightarrow> CheckpointReconciler" where
  "init_scheduler r = (if cr_Scheduler r then r else r\<lparr>cr_Scheduler := True, cr_scheduledJobs := Some Map.empty\<rparr>)"

definition initializeClients ::
  "env \<Rightarrow> Checkpoint \<Rightarrow> string \<Rightarrow> kclient \<Rightarrow> CheckpointReconciler \<Rightarrow> hist \<Rightarrow>
   (error option \<times> CheckpointReconciler) outcome \<times> hist" where
  "initializeClients en backup nodeKubeletIP c r h =
     (case init_kubelet en nodeKubeletIP c r h of
        ((Some err, r), h) \<Rightarrow> (Ret (Some err, r), h)
      | ((None, r), h) \<Rightarrow>
          (case InitializeMinio en h of
             (Panic, h) \<Rightarrow> (Panic, h)
           | (Ret bucketName, h) \<Rightarrow>
               (case init_registry en (cks_Registry (ck_Spec backup)) (r\<lparr>cr_MinioClient := Some bucketName\<rparr>) h of
                  ((Some err, r), h) \<Rightarrow> (Ret (Some err, r), h)
                | ((None, r), h) \<Rightarrow> (Ret (None, init_scheduler r), h))))"

section \<open>Definitions: jobs\<close>

definition lookup_job :: "CheckpointReconciler \<Rightarrow> string \<Rightarrow> nat option" where
  "lookup_job r key = (case cr_scheduledJobs r of None \<Rightarrow> None | Some jobs \<Rightarrow> jobs key)"

definition remove_job :: "string \<Rightarrow> CheckpointReconciler \<Rightarrow> hist \<Rightarrow> CheckpointReconciler \<times> hist" where
  "remove_job key r h =
     (case lookup_job r key of
        None \<Rightarrow> (r, h)
      | Some entryID \<Rightarrow>
          (r\<lparr>cr_scheduledJobs := map_option (\<lambda>jobs. jobs(key := None)) (cr_scheduledJobs r)\<rparr>, Unscheduled entryID # h))"

text \<open>\<^verbatim>\<open>Scheduler.AddFunc\<close> and the assignment of the entry; \<open>Panic\<close> is the assignment to a map that was not made.\<close>

definition add_job ::
  "env \<Rightarrow> string \<Rightarrow> string \<Rightarrow> CheckpointReconciler \<Rightarrow> hist \<Rightarrow> (error option \<times> CheckpointReconciler) outcome \<times> hist" where
  "add_job en key schedule r h =
     (case rd ''schedule'' '''' schedule (\<lambda>h. e_AddFunc (ext en) h schedule) h of
        (Inl err, h) \<Rightarrow> (Ret (Some err, r), h)
      | (Inr entryID, h) \<Rightarrow>
          (case cr_scheduledJobs r of
             None \<Rightarrow> (Panic, Scheduled entryID key schedule # h)
           | Some jobs \<Rightarrow>
               (Ret (None, r\<lparr>cr_scheduledJobs := Some (jobs(key \<mapsto> entryID))\<rparr>), Scheduled entryID key schedule # h)))"

text \<open>
  A checkpoint with the reconciler's clients, as the first reconcile and the cron job make it:
  the error and the reconciler, whose registry client may change. The MinIO client was set
  before: \<open>initializeClients\<close> sets it in every reconcile.
\<close>

definition perform_with ::
  "env \<Rightarrow> kclient \<Rightarrow> string \<Rightarrow> Checkpoint \<Rightarrow> CheckpointReconciler \<Rightarrow> hist \<Rightarrow>
   (error option \<times> CheckpointReconciler) outcome \<times> hist" where
  "perform_with en c nodeName backup r h =
     (case cr_MinioClient r of
        None \<Rightarrow> (Panic, h)
      | Some bucketName \<Rightarrow>
          (case performCheckpoint en c nodeName bucketName (cr_RegistryClient r) backup h of
             (Panic, h) \<Rightarrow> (Panic, h)
           | (Ret (err, backup, registry), h) \<Rightarrow> (Ret (err, r\<lparr>cr_RegistryClient := registry\<rparr>), h)))"

definition reconcileNormal ::
  "env \<Rightarrow> kclient \<Rightarrow> string \<Rightarrow> Checkpoint \<Rightarrow> CheckpointReconciler \<Rightarrow> hist \<Rightarrow>
   ((duration \<times> error option) \<times> CheckpointReconciler) outcome \<times> hist" where
  "reconcileNormal en c nodeName backup r h =
     (let backupKey = job_key (ck_Namespace backup) (ck_Name backup) in
      case remove_job backupKey r h of (r, h) \<Rightarrow>
        (case add_job en backupKey (cks_Schedule (ck_Spec backup)) r h of
           (Panic, h) \<Rightarrow> (Panic, h)
         | (Ret (Some err, r), h) \<Rightarrow> (Ret ((0, Some err), r), h)
         | (Ret (None, r), h) \<Rightarrow>
             (if ckst_LastCheckpointTime (ck_Status backup) \<noteq> None then (Ret ((3600 * Second, None), r), h)
              else case perform_with en c nodeName backup r h of
                     (Panic, h) \<Rightarrow> (Panic, h)
                   | (Ret (Some err, r), h) \<Rightarrow> (Ret ((0, Some err), r), h)
                   | (Ret (None, r), h) \<Rightarrow> (Ret ((3600 * Second, None), r), h))))"

definition update_checkpoint :: "env \<Rightarrow> Checkpoint \<Rightarrow> hist \<Rightarrow> error option \<times> hist" where
  "update_checkpoint en ck h =
     (case wr (UpdatedCheckpoint ck) (\<lambda>h. m_UpdateCheckpoint (mgmt en) h ck) h of
        (Inl err, h) \<Rightarrow> (Some err, h)
      | (Inr _, h) \<Rightarrow> (None, h))"

definition reconcileDelete ::
  "env \<Rightarrow> Checkpoint \<Rightarrow> CheckpointReconciler \<Rightarrow> hist \<Rightarrow> ((duration \<times> error option) \<times> CheckpointReconciler) \<times> hist" where
  "reconcileDelete en backup r h =
     (case remove_job (job_key (ck_Namespace backup) (ck_Name backup)) r h of (r, h) \<Rightarrow>
        (let backup = backup\<lparr>ck_Finalizers := filter (\<lambda>f. f \<noteq> CheckpointFinalizer) (ck_Finalizers backup)\<rparr> in
         case update_checkpoint en backup h of (err, h) \<Rightarrow> (((0, err), r), h)))"

section \<open>Definitions: Reconcile\<close>

text \<open>
  The search for the pod's node: for every internal address of it a kubelet client is made and
  dropped. The addresses found only go into a variable of the inner block, so that the one that
  is passed on stays empty.
\<close>

fun probe_addresses :: "env \<Rightarrow> kclient \<Rightarrow> NodeAddress list \<Rightarrow> hist \<Rightarrow> hist" where
  "probe_addresses en c [] h = h"
| "probe_addresses en c (addr # addrs) h =
     (if addr_InternalIP addr
      then (case NewKubeletClient en (addr_Address addr) c h of (_, h) \<Rightarrow> probe_addresses en c addrs h)
      else probe_addresses en c addrs h)"

fun probe_nodes :: "env \<Rightarrow> kclient \<Rightarrow> string \<Rightarrow> Node list \<Rightarrow> hist \<Rightarrow> hist" where
  "probe_nodes en c nodeName [] h = h"
| "probe_nodes en c nodeName (node # nodes) h =
     probe_nodes en c nodeName nodes (if nodeName = node_Name node then probe_addresses en c (node_Addresses node) h else h)"

text \<open>From a client of the workload cluster on.\<close>

definition reconcile_cluster ::
  "env \<Rightarrow> kclient \<Rightarrow> Checkpoint \<Rightarrow> CheckpointReconciler \<Rightarrow> hist \<Rightarrow>
   ((duration \<times> error option) \<times> CheckpointReconciler) outcome \<times> hist" where
  "reconcile_cluster en c checkpoint r h =
     (let podRef = cks_PodRef (ck_Spec checkpoint) in
      case rd ''NodeList'' '''' '''' (\<lambda>h. w_ListNodes (wl en) h c) h of
        (Inl err, h) \<Rightarrow> (Ret ((0, Some (wrapf ''failed to list nodes in workload cluster'' err)), r), h)
      | (Inr nodes, h) \<Rightarrow>
          (case rd ''Pod'' (pr_Namespace podRef) (pr_Name podRef)
                  (\<lambda>h. w_GetPod (wl en) h c (pr_Namespace podRef) (pr_Name podRef)) h of
             (Inl err, h) \<Rightarrow>
               (Ret ((0, Some (wrapf (''failed to get pod '' @ pr_Namespace podRef @ ''/'' @ pr_Name podRef) err)), r), h)
           | (Inr pod, h) \<Rightarrow>
               (let nodeName = pod_NodeName pod; nodeKubeletIP = '''' in
                case initializeClients en checkpoint nodeKubeletIP c r (probe_nodes en c nodeName nodes h) of
                  (Panic, h) \<Rightarrow> (Panic, h)
                | (Ret (Some err, r), h) \<Rightarrow> (Ret ((0, Some err), r), h)
                | (Ret (None, r), h) \<Rightarrow> reconcileNormal en c nodeName checkpoint r h)))"

definition ensure_finalizer :: "env \<Rightarrow> Checkpoint \<Rightarrow> hist \<Rightarrow> (error option \<times> Checkpoint) \<times> hist" where
  "ensure_finalizer en checkpoint h =
     (if CheckpointFinalizer \<in> set (ck_Finalizers checkpoint) then ((None, checkpoint), h)
      else let checkpoint = checkpoint\<lparr>ck_Finalizers := ck_Finalizers checkpoint @ [CheckpointFinalizer]\<rparr>
           in case update_checkpoint en checkpoint h of (err, h) \<Rightarrow> ((err, checkpoint), h))"

definition Reconcile_Checkpoint ::
  "env \<Rightarrow> string \<Rightarrow> string \<Rightarrow> CheckpointReconciler \<Rightarrow> hist \<Rightarrow>
   ((duration \<times> error option) \<times> CheckpointReconciler) outcome \<times> hist" where
  "Reconcile_Checkpoint en namespace name r h =
     (case rd ''Checkpoint'' namespace name (\<lambda>h. m_GetCheckpoint (mgmt en) h namespace name) h of
        (Inl err, h) \<Rightarrow>
          (if IsNotFound err
           then (case remove_job (job_key namespace name) r h of (r, h) \<Rightarrow> (Ret ((0, None), r), h))
           else (Ret ((0, Some err), r), h))
      | (Inr checkpoint, h) \<Rightarrow>
          (case ensure_finalizer en checkpoint h of
             ((Some err, checkpoint), h) \<Rightarrow> (Ret ((0, Some err), r), h)
           | ((None, checkpoint), h) \<Rightarrow>
               (if ck_DeletionTimestamp checkpoint \<noteq> None
                then (case reconcileDelete en checkpoint r h of (res, h) \<Rightarrow> (Ret res, h))
                else case cks_ClusterRef (ck_Spec checkpoint) of
                       None \<Rightarrow> (Panic, h)
                     | Some clusterRef \<Rightarrow>
                         (case GetWorkloadClusterClient en (clr_Name clusterRef) h of
                            (Panic, h) \<Rightarrow> (Panic, h)
                          | (Ret (requeue, _, Some err), h) \<Rightarrow> (Ret ((requeue, Some err), r), h)
                          | (Ret (requeue, None, None), h) \<Rightarrow> (Ret ((requeue, None), r), h)
                          | (Ret (_, Some c, None), h) \<Rightarrow> reconcile_cluster en c checkpoint r h))))"

section \<open>Lemmas: the scheduler\<close>

text \<open>The entries of the scheduler, with the checkpoint each belongs to.\<close>

fun cron_entries :: "hist \<Rightarrow> nat \<rightharpoonup> string" where
  "cron_entries [] = Map.empty"
| "cron_entries (Scheduled entryID key schedule # h) = (cron_entries h)(entryID \<mapsto> key)"
| "cron_entries (Unscheduled entryID # h) = (cron_entries h)(entryID := None)"
| "cron_entries (_ # h) = cron_entries h"

text \<open>What the reconciler relies on: an entry that the scheduler hands out is not in use.\<close>

definition cron_law :: "env \<Rightarrow> bool" where
  "cron_law en \<longleftrightarrow> (\<forall>h schedule entryID. e_AddFunc (ext en) h schedule = Inr entryID \<longrightarrow> cron_entries h entryID = None)"

text \<open>
  The invariant: the reconciler's map and the scheduler's entries are inverse to each other, so
  that every checkpoint has at most one job and every job is known.
\<close>

definition jobs_ok :: "CheckpointReconciler \<Rightarrow> hist \<Rightarrow> bool" where
  "jobs_ok r h \<longleftrightarrow>
     (cr_Scheduler r \<longleftrightarrow> cr_scheduledJobs r \<noteq> None) \<and>
     (\<forall>key entryID. lookup_job r key = Some entryID \<longleftrightarrow> cron_entries h entryID = Some key)"

fun is_cron :: "event \<Rightarrow> bool" where
  "is_cron (Scheduled _ _ _) = True"
| "is_cron (Unscheduled _) = True"
| "is_cron _ = False"

lemma cron_quiet: "\<forall>e \<in> set es. \<not> is_cron e \<Longrightarrow> cron_entries (es @ h) = cron_entries h"
proof (induction es)
  case (Cons e es)
  then show ?case by (cases e) auto
qed simp

lemma emits_cron:
  assumes "emits (\<lambda>e. \<not> is_cron e) m" and "m h = (x, h')"
  shows "cron_entries h' = cron_entries h"
proof -
  from assms obtain es where "h' = es @ h" "\<forall>e \<in> set es. \<not> is_cron e" by (rule emitsD)
  then show ?thesis by (simp add: cron_quiet)
qed

lemma jobs_ok_cong:
  assumes "jobs_ok r h" and "cron_entries h' = cron_entries h"
    and "cr_scheduledJobs r' = cr_scheduledJobs r" and "cr_Scheduler r' = cr_Scheduler r"
  shows "jobs_ok r' h'"
  using assms by (simp add: jobs_ok_def lookup_job_def)

lemma jobs_ok_Read [simp]: "jobs_ok r (Read k a b # h) = jobs_ok r h"
  by (simp add: jobs_ok_def)

lemma remove_job_ok:
  assumes "jobs_ok r h" and "remove_job key r h = (r', h')"
  shows "jobs_ok r' h' \<and> lookup_job r' key = None \<and> (\<forall>k. k \<noteq> key \<longrightarrow> lookup_job r' k = lookup_job r k) \<and>
    cr_RegistryClient r' = cr_RegistryClient r \<and> cr_MinioClient r' = cr_MinioClient r \<and> cr_Scheduler r' = cr_Scheduler r \<and>
    writes h' = writes h"
proof (cases "lookup_job r key")
  case None
  with assms show ?thesis by (simp add: remove_job_def)
next
  case (Some entryID)
  then obtain jobs where jobs: "cr_scheduledJobs r = Some jobs" "jobs key = Some entryID"
    by (auto simp: lookup_job_def split: option.splits)
  have inj: "k = key" if "jobs k = Some entryID" for k
    using assms(1) jobs that unfolding jobs_ok_def lookup_job_def by (metis option.inject option.simps(5))
  have inv: "jobs k = Some i" if "cron_entries h i = Some k" for k i
    using assms(1) jobs that by (simp add: jobs_ok_def lookup_job_def)
  have uni: "i = entryID" if "cron_entries h i = Some key" for i using inv [OF that] jobs(2) by simp
  from assms(2) Some jobs have eq: "r' = r\<lparr>cr_scheduledJobs := Some (jobs(key := None))\<rparr>" "h' = Unscheduled entryID # h"
    by (auto simp: remove_job_def)
  have base: "jobs k = Some i \<longleftrightarrow> cron_entries h i = Some k" for k i
    using assms(1) jobs by (simp add: jobs_ok_def lookup_job_def)
  have "lookup_job r' k = Some i \<longleftrightarrow> cron_entries h' i = Some k" for k i
  proof (cases "k = key")
    case True
    with uni [of i] show ?thesis by (auto simp: eq lookup_job_def)
  next
    case False
    with inj [of k] base [of k i] show ?thesis by (auto simp: eq lookup_job_def)
  qed
  moreover have "cr_Scheduler r'" using assms(1) jobs(1) by (simp add: eq jobs_ok_def)
  ultimately have "jobs_ok r' h'" by (simp add: jobs_ok_def eq)
  with eq jobs show ?thesis by (simp add: lookup_job_def)
qed

lemma add_job_ok:
  assumes "jobs_ok r h" and "cron_law en" and "lookup_job r key = None"
    and "add_job en key schedule r h = (Ret (err, r'), h')"
  shows "jobs_ok r' h' \<and> (err = None \<longleftrightarrow> lookup_job r' key \<noteq> None) \<and> (\<forall>k. k \<noteq> key \<longrightarrow> lookup_job r' k = lookup_job r k) \<and>
    writes h' = writes h"
proof (cases "e_AddFunc (ext en) h schedule")
  case (Inl e)
  with assms(4) have "r' = r" "h' = Read ''schedule'' '''' schedule # h" "err \<noteq> None"
    by (auto simp: add_job_def api_simps)
  with assms(1,3) show ?thesis by (auto intro: jobs_ok_cong)
next
  case (Inr entryID)
  with assms(2) have fresh: "cron_entries h entryID = None" unfolding cron_law_def by blast
  from assms(4) Inr obtain jobs where jobs: "cr_scheduledJobs r = Some jobs"
    "r' = r\<lparr>cr_scheduledJobs := Some (jobs(key \<mapsto> entryID))\<rparr>" "err = None"
    "h' = Scheduled entryID key schedule # Read ''schedule'' '''' schedule # h"
    by (auto simp: add_job_def api_simps split: option.splits)
  have inv: "jobs k = Some i" if "cron_entries h i = Some k" for k i
    using assms(1) jobs that by (simp add: jobs_ok_def lookup_job_def)
  have "jobs key = None" using assms(3) jobs(1) by (simp add: lookup_job_def)
  with assms(1) jobs fresh have "jobs_ok r' h'"
    unfolding jobs_ok_def by (auto simp: lookup_job_def dest: inv)
  with jobs show ?thesis by (simp add: lookup_job_def)
qed


lemma cron_simps [simp]: "cron_entries (Read k a b # h) = cron_entries h"
  by simp

lemma getKubeletToken_reads: "(\<And>k a b. P (Read k a b)) \<Longrightarrow> emits P (getKubeletToken en c sa ns)"
  unfolding getKubeletToken_def by (intro emits_intros) auto

lemma NewKubeletClient_reads: "(\<And>k a b. P (Read k a b)) \<Longrightarrow> emits P (NewKubeletClient en ip c)"
  unfolding NewKubeletClient_def by (intro emits_intros getKubeletToken_reads)

lemma probe_nodes_reads:
  "\<exists>es. probe_nodes en c n nodes h = es @ h \<and> (\<forall>e \<in> set es. \<exists>k a b. e = Read k a b)"
proof (induction nodes arbitrary: h)
  case (Cons node nodes)
  have addrs: "\<exists>es. probe_addresses en c addrs h = es @ h \<and> (\<forall>e \<in> set es. \<exists>k a b. e = Read k a b)" for addrs h
  proof (induction addrs arbitrary: h)
    case (Cons addr addrs)
    obtain r h1 where k: "NewKubeletClient en (addr_Address addr) c h = (r, h1)" by fastforce
    have "emits (\<lambda>e. \<exists>k a b. e = Read k a b) (NewKubeletClient en (addr_Address addr) c)"
      by (rule NewKubeletClient_reads) blast
    then obtain es1 where es1: "h1 = es1 @ h" "\<forall>e \<in> set es1. \<exists>k a b. e = Read k a b" using k by (rule emitsD)
    from Cons.IH [of h] Cons.IH [of h1] k es1 show ?case by (cases "addr_InternalIP addr") fastforce+
  qed simp
  from addrs [of "node_Addresses node" h] Cons.IH [of h] Cons.IH [of "probe_addresses en c (node_Addresses node) h"]
  show ?case by (cases "n = node_Name node") fastforce+
qed simp

lemma probe_nodes_cron: "cron_entries (probe_nodes en c n nodes h) = cron_entries h"
proof -
  obtain es where "probe_nodes en c n nodes h = es @ h" "\<forall>e \<in> set es. \<exists>k a b. e = Read k a b"
    using probe_nodes_reads by blast
  moreover from this(2) have "\<forall>e \<in> set es. \<not> is_cron e" by auto
  ultimately show ?thesis by (simp add: cron_quiet)
qed

lemma InitializeMinio_cron: "InitializeMinio en h = (x, h') \<Longrightarrow> cron_entries h' = cron_entries h"
  by (rule emits_cron [of "InitializeMinio en"]) (unfold InitializeMinio_def Let_def, intro emits_intros; simp)

text \<open>What the initialisation keeps and what it establishes.\<close>

lemma initializeClients_ok:
  assumes "jobs_ok r h" and "initializeClients en ck ip c r h = (Ret (err, r'), h')"
  shows "jobs_ok r' h' \<and> (\<forall>k. lookup_job r' k = lookup_job r k) \<and>
    (err = None \<longrightarrow> cr_Scheduler r' \<and> cr_RegistryClient r' \<noteq> None \<and> cr_MinioClient r' \<noteq> None)"
proof -
  obtain e1 r1 h1 where k: "init_kubelet en ip c r h = ((e1, r1), h1)" by (metis surj_pair)
  have "emits (\<lambda>e. \<not> is_cron e) (NewKubeletClient en ip c)" by (rule NewKubeletClient_reads) simp
  from emits_cron [OF this] k have 1: "cron_entries h1 = cron_entries h" "cr_scheduledJobs r1 = cr_scheduledJobs r" "cr_Scheduler r1 = cr_Scheduler r"
    by (auto simp: init_kubelet_def split: if_splits prod.splits sum.splits)
  obtain m h2 where m: "InitializeMinio en h1 = (m, h2)" by fastforce
  note 2 = InitializeMinio_cron [OF m]
  show ?thesis
  proof (cases "e1 = None \<and> m \<noteq> Panic")
    case False
    with assms k m 1 have "r' = r1" "h' = h1" "err \<noteq> None"
      by (auto simp: initializeClients_def split: option.splits outcome.splits)
    with assms(1) 1 show ?thesis by (auto intro: jobs_ok_cong simp: lookup_job_def)
  next
    case True
    then obtain b where b: "m = Ret b" by (cases m) auto
    obtain e3 r3 h3 where g: "init_registry en (cks_Registry (ck_Spec ck)) (r1\<lparr>cr_MinioClient := Some b\<rparr>) h2 = ((e3, r3), h3)"
      by (metis surj_pair)
    have "cron_entries h3 = cron_entries h2" "cr_scheduledJobs r3 = cr_scheduledJobs r1" "cr_Scheduler r3 = cr_Scheduler r1"
      "cr_MinioClient r3 = Some b" "e3 = None \<longrightarrow> cr_RegistryClient r3 \<noteq> None"
      using g by (auto simp: init_registry_def NewRegistryClient_def registry_secret_def api_simps Let_def
          split: if_splits sum.splits option.splits)
    note 3 = this
    have "jobs_ok r3 h3" using assms(1) by (rule jobs_ok_cong) (use 1 2 3 in auto)
    moreover have "jobs_ok (init_scheduler r3) h3" if "jobs_ok r3 h3"
      using that by (auto simp: init_scheduler_def jobs_ok_def lookup_job_def)
    moreover have "lookup_job (init_scheduler r3) k = lookup_job r k" for k
      using \<open>jobs_ok r3 h3\<close> 1 3 by (auto simp: init_scheduler_def jobs_ok_def lookup_job_def)
    moreover have "lookup_job r3 k = lookup_job r k" for k using 1 3 by (simp add: lookup_job_def)
    moreover from assms(2) k m True b g have "err = e3" "h' = h3" "r' = (if e3 = None then init_scheduler r3 else r3)"
      by (auto simp: initializeClients_def split: option.splits)
    ultimately show ?thesis using 3 by (auto simp: init_scheduler_def)
  qed
qed


lemma checkpoint_event_cron: "checkpoint_event e \<Longrightarrow> \<not> is_cron e"
  by (cases e) auto

lemma perform_with_ok:
  assumes "jobs_ok r h" and "perform_with en c n ck r h = (Ret (err, r'), h')"
  shows "jobs_ok r' h' \<and> (\<forall>k. lookup_job r' k = lookup_job r k)"
proof -
  from assms(2) obtain b ck' reg where run: "performCheckpoint en c n b (cr_RegistryClient r) ck h = (Ret (err, ck', reg), h')"
    "r' = r\<lparr>cr_RegistryClient := reg\<rparr>"
    by (auto simp: perform_with_def split: option.splits prod.splits outcome.splits)
  have "emits (\<lambda>e. \<not> is_cron e) (performCheckpoint en c n b (cr_RegistryClient r) ck)"
    by (rule emits_mono [OF performCheckpoint_emits]) (rule checkpoint_event_cron)
  from emits_cron [OF this run(1)] assms(1) run(2) show ?thesis by (auto intro: jobs_ok_cong simp: lookup_job_def)
qed

text \<open>
  \<open>jobs_step key r h r' h'\<close>: the invariant holds afterwards, and only the job of \<open>key\<close> may have
  changed.
\<close>

definition jobs_step :: "string \<Rightarrow> CheckpointReconciler \<Rightarrow> CheckpointReconciler \<Rightarrow> hist \<Rightarrow> bool" where
  "jobs_step key r r' h' \<longleftrightarrow> jobs_ok r' h' \<and> (\<forall>k. k \<noteq> key \<longrightarrow> lookup_job r' k = lookup_job r k)"

lemma reconcileNormal_ok:
  assumes "jobs_ok r h" and "cron_law en" and "reconcileNormal en c n ck r h = (Ret ((d, err), r'), h')"
  shows "jobs_step (job_key (ck_Namespace ck) (ck_Name ck)) r r' h' \<and>
    (err = None \<longrightarrow> lookup_job r' (job_key (ck_Namespace ck) (ck_Name ck)) \<noteq> None)"
proof -
  let ?key = "job_key (ck_Namespace ck) (ck_Name ck)"
  obtain r1 h1 where rm: "remove_job ?key r h = (r1, h1)" by fastforce
  note 1 = remove_job_ok [OF assms(1) rm]
  obtain a h2 where ad: "add_job en ?key (cks_Schedule (ck_Spec ck)) r1 h1 = (a, h2)" by fastforce
  with assms(3) rm obtain e2 r2 where a: "a = Ret (e2, r2)"
    by (cases a) (auto simp: reconcileNormal_def Let_def)
  note 2 = add_job_ok [OF _ assms(2) _ ad [unfolded a]]
  show ?thesis
  proof (cases "e2 = None \<and> ckst_LastCheckpointTime (ck_Status ck) = None")
    case False
    with assms(3) rm ad a have "r' = r2" "h' = h2" "err = e2"
      by (auto simp: reconcileNormal_def Let_def split: option.splits)
    with 1 2 show ?thesis by (auto simp: jobs_step_def)
  next
    case True
    obtain p h3 where pf: "perform_with en c n ck r2 h2 = (p, h3)" by fastforce
    with assms(3) rm ad a True obtain e3 where p: "p = Ret (e3, r')" "h' = h3"
      by (cases p) (auto simp: reconcileNormal_def Let_def split: option.splits)
    with 1 2 True perform_with_ok [OF _ pf [unfolded p]] show ?thesis by (auto simp: jobs_step_def)
  qed
qed

lemma reconcile_cluster_ok:
  assumes "jobs_ok r h" and "cron_law en" and "reconcile_cluster en c ck r h = (Ret ((d, err), r'), h')"
  shows "jobs_step (job_key (ck_Namespace ck) (ck_Name ck)) r r' h' \<and>
    (err = None \<longrightarrow> lookup_job r' (job_key (ck_Namespace ck) (ck_Name ck)) \<noteq> None)"
proof -
  let ?ref = "cks_PodRef (ck_Spec ck)"
  let ?h2 = "Read ''Pod'' (pr_Namespace ?ref) (pr_Name ?ref) # Read ''NodeList'' '''' '''' # h"
  show ?thesis
  proof (cases "w_ListNodes (wl en) h c")
    case (Inl e)
    with assms show ?thesis by (auto simp: reconcile_cluster_def api_simps Let_def jobs_step_def)
  next
    case nodes: (Inr nodes)
    show ?thesis
    proof (cases "w_GetPod (wl en) (Read ''NodeList'' '''' '''' # h) c (pr_Namespace ?ref) (pr_Name ?ref)")
      case (Inl e)
      with nodes assms show ?thesis by (auto simp: reconcile_cluster_def api_simps Let_def jobs_step_def)
    next
      case (Inr pod)
      let ?h3 = "probe_nodes en c (pod_NodeName pod) nodes ?h2"
      have ok3: "jobs_ok r ?h3" using assms(1) by (rule jobs_ok_cong) (simp_all add: probe_nodes_cron)
      obtain i h4 where init: "initializeClients en ck '''' c r ?h3 = (i, h4)" by fastforce
      with assms(3) nodes Inr obtain e4 r4 where i: "i = Ret (e4, r4)"
        by (cases i) (auto simp: reconcile_cluster_def api_simps Let_def)
      note 4 = initializeClients_ok [OF ok3 init [unfolded i]]
      show ?thesis
      proof (cases e4)
        case (Some e)
        with assms(3) nodes Inr init i 4 show ?thesis
          by (auto simp: reconcile_cluster_def api_simps Let_def jobs_step_def)
      next
        case None
        with assms(3) nodes Inr init i have "reconcileNormal en c (pod_NodeName pod) ck r4 h4 = (Ret ((d, err), r'), h')"
          by (simp add: reconcile_cluster_def api_simps Let_def)
        from reconcileNormal_ok [OF _ assms(2) this] 4 show ?thesis by (auto simp: jobs_step_def)
      qed
    qed
  qed
qed


lemma update_checkpoint_cron: "cron_entries (snd (update_checkpoint en ck h)) = cron_entries h"
  by (auto simp: update_checkpoint_def wr_simps split: sum.splits)

lemma GetWorkloadClusterClient_cron:
  assumes "GetWorkloadClusterClient en n h = (x, h')"
  shows "cron_entries h' = cron_entries h"
  by (rule emits_cron [OF GetWorkloadClusterClient_emits assms]) simp

lemma ensure_finalizer_ok:
  assumes "ensure_finalizer en ck h = ((err, ck'), h')"
  shows "cron_entries h' = cron_entries h \<and> ck_Name ck' = ck_Name ck \<and> ck_Namespace ck' = ck_Namespace ck \<and>
    ck_Spec ck' = ck_Spec ck \<and> ck_DeletionTimestamp ck' = ck_DeletionTimestamp ck \<and> CheckpointFinalizer \<in> set (ck_Finalizers ck')"
  using assms update_checkpoint_cron [of en "ck\<lparr>ck_Finalizers := ck_Finalizers ck @ [CheckpointFinalizer]\<rparr>" h]
  by (auto simp: ensure_finalizer_def Let_def split: if_splits prod.splits)

lemma Reconcile_Checkpoint_ok:
  assumes "jobs_ok r h" and "cron_law en" and "Reconcile_Checkpoint en ns name r h = (Ret ((d, err), r'), h')"
  shows "\<exists>key. jobs_step key r r' h'"
proof (cases "m_GetCheckpoint (mgmt en) h ns name")
  case (Inl e)
  let ?h = "Read ''Checkpoint'' ns name # h"
  obtain r1 h1 where rm: "remove_job (job_key ns name) r ?h = (r1, h1)" by fastforce
  from assms(1) have "jobs_ok r ?h" by simp
  from remove_job_ok [OF this rm] have "jobs_step (job_key ns name) r r1 h1" by (simp add: jobs_step_def)
  moreover have "jobs_step (job_key ns name) r r ?h" using assms(1) by (simp add: jobs_step_def)
  ultimately show ?thesis
    using assms(3) Inl rm by (auto simp: Reconcile_Checkpoint_def api_simps split: if_splits)
next
  case (Inr ck)
  obtain e1 ck1 h1 where fin: "ensure_finalizer en ck (Read ''Checkpoint'' ns name # h) = ((e1, ck1), h1)" by (metis surj_pair)
  from ensure_finalizer_ok [OF fin] have "cron_entries h1 = cron_entries h" by simp
  with assms(1) have ok1: "jobs_ok r h1" by (auto intro: jobs_ok_cong)
  let ?key = "job_key (ck_Namespace ck1) (ck_Name ck1)"
  show ?thesis
  proof (cases "e1 = None")
    case False
    with assms(3) Inr fin ok1 show ?thesis by (auto simp: Reconcile_Checkpoint_def api_simps jobs_step_def)
  next
    case e1: True
    show ?thesis
    proof (cases "ck_DeletionTimestamp ck1")
      case (Some t)
      obtain r2 h2 where rm: "remove_job ?key r h1 = (r2, h2)" by fastforce
      from remove_job_ok [OF ok1 rm] have 2: "jobs_step ?key r r2 h2" by (simp add: jobs_step_def)
      from assms(3) Inr fin e1 Some rm have "r' = r2" "cron_entries h' = cron_entries h2"
        using update_checkpoint_cron [of en "ck1\<lparr>ck_Finalizers := filter (\<lambda>f. f \<noteq> CheckpointFinalizer) (ck_Finalizers ck1)\<rparr>" h2]
        by (auto simp: Reconcile_Checkpoint_def api_simps reconcileDelete_def Let_def split: prod.splits)
      with 2 show ?thesis unfolding jobs_step_def by (auto intro: jobs_ok_cong)
    next
      case None
      from assms(3) Inr fin e1 None obtain cr where cr: "cks_ClusterRef (ck_Spec ck1) = Some cr"
        by (cases "cks_ClusterRef (ck_Spec ck1)") (auto simp: Reconcile_Checkpoint_def api_simps)
      obtain rq co e2 h2 where g: "GetWorkloadClusterClient en (clr_Name cr) h1 = (Ret (rq, co, e2), h2)"
        using GetWorkloadClusterClient_result by blast
      have ok2: "jobs_ok r h2" using ok1 GetWorkloadClusterClient_cron [OF g] by (auto intro: jobs_ok_cong)
      show ?thesis
      proof (cases "e2 = None \<and> co \<noteq> None")
        case True
        with assms(3) Inr fin e1 None cr g obtain c where "reconcile_cluster en c ck1 r h2 = (Ret ((d, err), r'), h')"
          by (auto simp: Reconcile_Checkpoint_def api_simps)
        from reconcile_cluster_ok [OF ok2 assms(2) this] show ?thesis by blast
      next
        case False
        with assms(3) Inr fin e1 None cr g ok2 show ?thesis
          by (cases co) (auto simp: Reconcile_Checkpoint_def api_simps jobs_step_def split: option.splits)
      qed
    qed
  qed
qed

text \<open>
  The life of the controller: reconciles, runs of the jobs that the scheduler has, and whatever
  the other parts of the operator do in between.
\<close>

inductive ck_reach :: "env \<Rightarrow> CheckpointReconciler \<Rightarrow> hist \<Rightarrow> bool" for en where
  start: "ck_reach en zero_reconciler []"
| reconcile: "ck_reach en r h \<Longrightarrow> Reconcile_Checkpoint en ns name r h = (Ret (res, r'), h') \<Longrightarrow> ck_reach en r' h'"
| job: "ck_reach en r h \<Longrightarrow> cron_entries h entryID = Some key \<Longrightarrow>
    perform_with en c nodeName ck r h = (Ret (err, r'), h') \<Longrightarrow> ck_reach en r' h'"
| elsewhere: "ck_reach en r h \<Longrightarrow> \<not> is_cron e \<Longrightarrow> ck_reach en r (e # h)"

lemma ck_reach_jobs_ok:
  assumes "ck_reach en r h" and "cron_law en"
  shows "jobs_ok r h"
  using assms(1)
proof (induction rule: ck_reach.induct)
  case start
  show ?case by (simp add: jobs_ok_def zero_reconciler_def lookup_job_def)
next
  case (reconcile r h ns name res r' h')
  obtain d err where "res = (d, err)" by fastforce
  with Reconcile_Checkpoint_ok [OF reconcile.IH assms(2), of ns name d err r' h'] reconcile.hyps show ?case
    by (auto simp: jobs_step_def)
next
  case (job r h entryID key c nodeName ck err r' h')
  from perform_with_ok [OF job.IH job.hyps(3)] show ?case by simp
next
  case (elsewhere r h e)
  from cron_quiet [of "[e]" h] elsewhere.hyps(2) have "cron_entries (e # h) = cron_entries h" by simp
  with elsewhere.IH show ?case by (auto intro: jobs_ok_cong)
qed

text \<open>The kubelet client, if there is one, is for the local host.\<close>

definition local_client :: "CheckpointReconciler \<Rightarrow> bool" where
  "local_client r \<longleftrightarrow> (\<forall>kc. cr_KubeletClient r = Some kc \<longrightarrow> kc_kubeletURL kc = ''https://localhost:10250'')"

lemma remove_job_kubelet: "remove_job key r h = (r', h') \<Longrightarrow> cr_KubeletClient r' = cr_KubeletClient r"
  by (auto simp: remove_job_def split: option.splits)

lemma add_job_kubelet: "add_job en key s r h = (Ret (err, r'), h') \<Longrightarrow> cr_KubeletClient r' = cr_KubeletClient r"
  by (auto simp: add_job_def split: option.splits sum.splits prod.splits)

lemma perform_with_kubelet: "perform_with en c n ck r h = (Ret (err, r'), h') \<Longrightarrow> cr_KubeletClient r' = cr_KubeletClient r"
  by (auto simp: perform_with_def split: option.splits prod.splits outcome.splits)

lemma reconcileNormal_kubelet:
  "reconcileNormal en c n ck r h = (Ret (res, r'), h') \<Longrightarrow> cr_KubeletClient r' = cr_KubeletClient r"
  by (auto simp: reconcileNormal_def Let_def split: option.splits prod.splits outcome.splits if_splits
      dest!: remove_job_kubelet add_job_kubelet perform_with_kubelet)

lemma init_registry_kubelet: "init_registry en reg r h = ((err, r'), h') \<Longrightarrow> cr_KubeletClient r' = cr_KubeletClient r"
  by (auto simp: init_registry_def split: if_splits prod.splits sum.splits)

lemma initializeClients_local:
  "initializeClients en ck '''' c r h = (Ret (err, r'), h') \<Longrightarrow> local_client r \<Longrightarrow> local_client r'"
  by (auto simp: initializeClients_def init_kubelet_def NewKubeletClient_def init_scheduler_def local_client_def
      split: prod.splits sum.splits outcome.splits option.splits if_splits dest!: init_registry_kubelet)

lemma reconcile_cluster_local:
  "reconcile_cluster en c ck r h = (Ret (res, r'), h') \<Longrightarrow> local_client r \<Longrightarrow> local_client r'"
  by (auto simp: reconcile_cluster_def Let_def split: prod.splits sum.splits outcome.splits option.splits
      dest!: initializeClients_local reconcileNormal_kubelet simp: local_client_def)

lemma reconcileDelete_kubelet: "reconcileDelete en ck r h = ((res, r'), h') \<Longrightarrow> cr_KubeletClient r' = cr_KubeletClient r"
  by (auto simp: reconcileDelete_def Let_def split: prod.splits dest!: remove_job_kubelet)

lemma Reconcile_Checkpoint_local:
  "Reconcile_Checkpoint en ns name r h = (Ret (res, r'), h') \<Longrightarrow> local_client r \<Longrightarrow> local_client r'"
  by (auto simp: Reconcile_Checkpoint_def local_client_def
      split: prod.splits sum.splits outcome.splits option.splits if_splits
      dest!: remove_job_kubelet reconcileDelete_kubelet
      dest: reconcile_cluster_local [unfolded local_client_def])

lemma ck_reach_local:
  assumes "ck_reach en r h"
  shows "local_client r"
  using assms
proof (induction rule: ck_reach.induct)
  case (reconcile r h ns name res r' h')
  then show ?case using Reconcile_Checkpoint_local by blast
next
  case (job r h entryID key c nodeName ck err r' h')
  then show ?case using perform_with_kubelet by (fastforce simp: local_client_def)
qed (simp_all add: local_client_def zero_reconciler_def)

section \<open>Properties\<close>

text \<open>
  C6. One job per checkpoint. In every state that the controller can reach, the scheduler has at
  most one job for each Checkpoint resource, and the reconciler's map holds exactly the jobs
  that the scheduler has: none is lost, none runs unnoticed.
\<close>

theorem one_job_per_checkpoint:
  assumes "ck_reach en r h" and "cron_law en"
  shows "(lookup_job r key = Some i \<longleftrightarrow> cron_entries h i = Some key) \<and>
    (cron_entries h i = Some key \<and> cron_entries h j = Some key \<longrightarrow> i = j)"
proof -
  have "jobs_ok r h" by (rule ck_reach_jobs_ok [OF assms])
  then have map: "lookup_job r key = Some i \<longleftrightarrow> cron_entries h i = Some key" for i by (simp add: jobs_ok_def)
  show ?thesis using map [of i] map [of j] by auto
qed

text \<open>A scheduler that numbers its entries, and a resource that is reconciled with it.\<close>

fun next_entry :: "hist \<Rightarrow> nat" where
  "next_entry [] = 1"
| "next_entry (e # h) = (case e of Scheduled i _ _ \<Rightarrow> max (Suc i) (next_entry h) | _ \<Rightarrow> next_entry h)"

lemma next_entry_fresh: "next_entry h \<le> i \<Longrightarrow> cron_entries h i = None"
proof (induction h)
  case (Cons e h)
  then show ?case by (cases e) auto
qed simp

definition cron_env :: env where
  "cron_env = ckpt_env\<lparr>
     mgmt := (mgmt ckpt_env)\<lparr>
       m_GetCheckpoint := (\<lambda>_ _ _. Inr (sample_checkpoint\<lparr>ck_Finalizers := [CheckpointFinalizer],
          ck_Spec := (ck_Spec sample_checkpoint)\<lparr>cks_ClusterRef := cks_TargetClusterRef (ck_Spec sample_checkpoint)\<rparr>\<rparr>)),
       m_GetSecret := (\<lambda>_ _ n. Inr (if n = ''reg-credentials''
         then dr_secret\<lparr>sec_Data := [(''username'', ''u''), (''password'', ''p'')]\<rparr> else dr_secret))\<rparr>,
     wl := (wl ckpt_env)\<lparr>w_GetPod := (\<lambda>_ _ ns n. Inr (prepull_pod n ns ''worker-1'' ''video:1'' [] ''''))\<rparr>,
     ext := (ext ckpt_env)\<lparr>e_GetServiceAccount := (\<lambda>_ _ _ _. Inr ()), e_CreateToken := (\<lambda>_ _ _ _. Inr ''t''),
       e_MinioNew := (\<lambda>_ _ _ _. Inr ()), e_BucketExists := (\<lambda>_ _. Inr True), e_AddFunc := (\<lambda>h _. Inr (next_entry h))\<rparr>\<rparr>"

lemma cron_env_law: "cron_law cron_env"
  by (simp add: cron_law_def cron_env_def next_entry_fresh)

theorem one_job_per_checkpoint_witness:
  "\<exists>r h. ck_reach cron_env r h \<and> lookup_job r ''default/ck'' = None \<and>
     lookup_job r ''default/checkpoint-clusterpolicy-sample-video-0-video'' = Some 1 \<and>
     cron_entries h 1 = Some ''default/checkpoint-clusterpolicy-sample-video-0-video''"
proof -
  have "case fst (Reconcile_Checkpoint cron_env ''default'' ''checkpoint-clusterpolicy-sample-video-0-video'' zero_reconciler []) of
      Ret (_, r) \<Rightarrow> lookup_job r ''default/ck'' = None \<and>
        lookup_job r ''default/checkpoint-clusterpolicy-sample-video-0-video'' = Some 1 | Panic \<Rightarrow> False"
    by code_simp
  then obtain res r h where run: "Reconcile_Checkpoint cron_env ''default'' ''checkpoint-clusterpolicy-sample-video-0-video''
      zero_reconciler [] = (Ret (res, r), h)" and look: "lookup_job r ''default/ck'' = None"
      "lookup_job r ''default/checkpoint-clusterpolicy-sample-video-0-video'' = Some 1"
    by (auto split: outcome.splits prod.splits simp: fst_def)
  have reach: "ck_reach cron_env r h" by (rule ck_reach.reconcile [OF ck_reach.start run])
  from one_job_per_checkpoint [OF this cron_env_law, of "''default/checkpoint-clusterpolicy-sample-video-0-video''" 1] look reach
  show ?thesis by blast
qed

text \<open>
  C32. Deletion. When a resource that is being deleted is reconciled, its job is removed, no other
  job changes, and the only thing written is the resource without the controller's finalizer;
  the error is that of this write. No cluster is contacted.
\<close>

theorem Reconcile_deletion:
  assumes "jobs_ok r h" and "m_GetCheckpoint (mgmt en) h ns name = Inr ck"
    and "CheckpointFinalizer \<in> set (ck_Finalizers ck)" and "ck_DeletionTimestamp ck \<noteq> None"
  shows "\<exists>err r' h' ok. Reconcile_Checkpoint en ns name r h = (Ret ((0, err), r'), h') \<and>
    writes h' = UpdatedCheckpoint (ck\<lparr>ck_Finalizers := filter (\<lambda>f. f \<noteq> CheckpointFinalizer) (ck_Finalizers ck)\<rparr>) ok # writes h \<and>
    (err = None \<longleftrightarrow> ok) \<and> jobs_step (job_key (ck_Namespace ck) (ck_Name ck)) r r' h' \<and>
    lookup_job r' (job_key (ck_Namespace ck) (ck_Name ck)) = None"
proof -
  let ?key = "job_key (ck_Namespace ck) (ck_Name ck)"
  define ck' where "ck' = ck\<lparr>ck_Finalizers := filter (\<lambda>f. f \<noteq> CheckpointFinalizer) (ck_Finalizers ck)\<rparr>"
  let ?h1 = "Read ''Checkpoint'' ns name # h"
  obtain r2 h2 where rm: "remove_job ?key r ?h1 = (r2, h2)" by fastforce
  have "jobs_ok r ?h1" using assms(1) by simp
  note 2 = remove_job_ok [OF this rm]
  obtain err h3 where up: "update_checkpoint en ck' h2 = (err, h3)" by fastforce
  then have h3: "h3 = UpdatedCheckpoint ck' (err = None) # h2"
    by (auto simp: update_checkpoint_def wr_simps split: sum.splits)
  have "Reconcile_Checkpoint en ns name r h = (Ret ((0, err), r2), h3)"
    using assms rm up unfolding ck'_def
    by (simp add: Reconcile_Checkpoint_def api_simps ensure_finalizer_def reconcileDelete_def Let_def)
  moreover have "jobs_step ?key r r2 h3" using 2 h3 by (auto simp: jobs_step_def intro: jobs_ok_cong)
  ultimately show ?thesis using 2 h3 unfolding ck'_def by auto
qed

theorem Reconcile_deletion_witness:
  "\<exists>err r' h'. Reconcile_Checkpoint (down_env\<lparr>mgmt := down_mgmt\<lparr>m_GetCheckpoint := (\<lambda>_ _ _.
       Inr (sample_checkpoint\<lparr>ck_Finalizers := [CheckpointFinalizer], ck_DeletionTimestamp := Some 4\<rparr>))\<rparr>\<rparr>)
     ''default'' ''ck'' zero_reconciler [] = (Ret ((0, err), r'), h') \<and> length (writes h') = 1"
proof -
  let ?ck = "sample_checkpoint\<lparr>ck_Finalizers := [CheckpointFinalizer], ck_DeletionTimestamp := Some 4\<rparr>"
  let ?en = "down_env\<lparr>mgmt := down_mgmt\<lparr>m_GetCheckpoint := (\<lambda>_ _ _. Inr ?ck)\<rparr>\<rparr>"
  have "jobs_ok zero_reconciler []" by (simp add: jobs_ok_def zero_reconciler_def lookup_job_def)
  from Reconcile_deletion [OF this, of ?en "''default''" "''ck''" ?ck] show ?thesis by auto
qed

text \<open>
  C40. The kubelet client is always for the local host. The address of the pod's node only reaches
  a variable of the inner block of the search loop, so that in every state that the controller
  can reach the client which the reconciler keeps has the local address, on whichever nodes the
  pods run.
\<close>

theorem kubelet_client_is_local:
  assumes "ck_reach en r h" and "cr_KubeletClient r = Some kc"
  shows "kc_kubeletURL kc = ''https://localhost:10250''"
  using ck_reach_local [OF assms(1)] assms(2) by (simp add: local_client_def)

theorem kubelet_client_is_local_witness:
  "\<exists>r h kc. ck_reach cron_env r h \<and> cr_KubeletClient r = Some kc \<and> kc_kubeletURL kc = ''https://localhost:10250''"
proof -
  have "case fst (Reconcile_Checkpoint cron_env ''default'' ''ck'' zero_reconciler []) of
      Ret (_, r) \<Rightarrow> (case cr_KubeletClient r of Some _ \<Rightarrow> True | None \<Rightarrow> False) | Panic \<Rightarrow> False" by code_simp
  then obtain res r h kc where run: "Reconcile_Checkpoint cron_env ''default'' ''ck'' zero_reconciler [] = (Ret (res, r), h)"
    and kc: "cr_KubeletClient r = Some kc"
    by (auto split: outcome.splits prod.splits option.splits simp: fst_def)
  have reach: "ck_reach cron_env r h" by (rule ck_reach.reconcile [OF ck_reach.start run])
  from kubelet_client_is_local [OF this kc] reach kc show ?thesis by blast
qed

text \<open>
  The registry client is made once. A reconciler that has one keeps it, with its credentials,
  for every later Checkpoint, whatever registry and secret that Checkpoint names.
\<close>

theorem registry_client_is_kept:
  assumes "cr_RegistryClient r = Some rc" and "initializeClients en ck ip c r h = (Ret (err, r'), h')"
  shows "cr_RegistryClient r' = Some rc"
  using assms
  by (auto simp: initializeClients_def init_kubelet_def init_registry_def init_scheduler_def
      split: prod.splits sum.splits outcome.splits option.splits if_splits)

theorem registry_client_is_kept_witness:
  "\<exists>r' h'. initializeClients cron_env (sample_checkpoint\<lparr>ck_Spec := (ck_Spec sample_checkpoint)\<lparr>cks_Registry :=
       \<lparr>reg_URL = ''quay.io'', reg_Repository = ''other'', reg_SecretRef = None\<rparr>\<rparr>\<rparr>) '''' (WorkloadClient ''cluster2-aws'')
       (zero_reconciler\<lparr>cr_RegistryClient := Some sample_registry\<rparr>) [] = (Ret (None, r'), h') \<and>
     cr_RegistryClient r' = Some sample_registry"
proof -
  let ?ck = "sample_checkpoint\<lparr>ck_Spec := (ck_Spec sample_checkpoint)\<lparr>cks_Registry :=
       \<lparr>reg_URL = ''quay.io'', reg_Repository = ''other'', reg_SecretRef = None\<rparr>\<rparr>\<rparr>"
  let ?r = "zero_reconciler\<lparr>cr_RegistryClient := Some sample_registry\<rparr>"
  have "case fst (initializeClients cron_env ?ck '''' (WorkloadClient ''cluster2-aws'') ?r []) of Ret (None, r') \<Rightarrow> True | _ \<Rightarrow> False"
    by code_simp
  then obtain r' h' where run: "initializeClients cron_env ?ck '''' (WorkloadClient ''cluster2-aws'') ?r [] = (Ret (None, r'), h')"
    by (auto split: outcome.splits prod.splits option.splits simp: fst_def)
  have "cr_RegistryClient ?r = Some sample_registry" by simp
  from registry_client_is_kept [OF this run] run show ?thesis by blast
qed

end
