(* ===== verification/Workload_Transition.thy ===== *)
theory Workload_Transition
  imports Node_Transition
begin

text \<open>
  \<^verbatim>\<open>src/internal/controller/clusterpolicy_controller.go\<close>, the transition of one package that
  \<open>Reconcile\<close> makes for the pods of a node that is not ready: the choice of a Velero backup,
  \<open>TransitionSelectedWorkloads\<close> for ordinary packages and \<open>TransitionSelectedLiveWorkloads\<close>
  for live-state packages, which starts its calls in goroutines of two error groups.
\<close>

section \<open>Definitions: shared steps\<close>

definition GetWorkloadClusterClientByName ::
  "env \<Rightarrow> string \<Rightarrow> hist \<Rightarrow> kclient option result outcome \<times> hist" where
  "GetWorkloadClusterClientByName en clusterName h =
     (case GetCapiClusterFromName en clusterName ''default'' h of
        (Inl err, h) \<Rightarrow> (Ret (Inl err), h)
      | (Inr capiCluster, h) \<Rightarrow>
          (case GetClusterClient en capiCluster h of
             (Panic, h) \<Rightarrow> (Panic, h)
           | (Ret (clusterClient, ready, Some err), h) \<Rightarrow> (Ret (Inl err), h)
           | (Ret (clusterClient, ready, None), h) \<Rightarrow>
               (if \<not> ready then (Ret (Inl (Errorf ''cluster is not ready'')), h)
                else (Ret (Inr clusterClient), h))))"

definition record_transition ::
  "env \<Rightarrow> PackageSelector \<Rightarrow> string \<Rightarrow> PackageTransitionCondition \<Rightarrow> ClusterPolicy \<Rightarrow> hist \<Rightarrow> ClusterPolicy \<times> hist" where
  "record_transition en transitionPackage message condition clusterPolicy h =
     (case Now en h of (now, h) \<Rightarrow>
        (let clusterPolicy = append_transition
               \<lparr>tp_PackageSelectors = [transitionPackage], tp_LastTransitionTime = now,
                tp_PackageTransitionCondition = condition, tp_PackageTransitionMessage = message\<rparr> clusterPolicy
         in case wr (UpdatedPolicyStatus clusterPolicy) (\<lambda>h. m_UpdatePolicyStatus (mgmt en) h clusterPolicy) h of
              (_, h) \<Rightarrow> (clusterPolicy, h)))"

definition updateClusterPolicyStatus ::
  "env \<Rightarrow> ClusterPolicy \<Rightarrow> PackageSelector \<Rightarrow> error option \<Rightarrow> PackageTransitionCondition \<Rightarrow> hist \<Rightarrow> ClusterPolicy \<times> hist" where
  "updateClusterPolicyStatus en clusterPolicy pkg err condition h =
     (let msg = (case err of None \<Rightarrow> '''' | Some e \<Rightarrow> err_text e)
      in record_transition en pkg msg condition clusterPolicy h)"

section \<open>Definitions: the choice of a backup\<close>

definition from_schedule :: "BackupInformation \<Rightarrow> VeleroBackup \<Rightarrow> bool" where
  "from_schedule backup b \<longleftrightarrow> map_of (vb_Labels b) ''velero.io/schedule-name'' = Some (bi_Name backup)"

definition by_name :: "BackupInformation \<Rightarrow> VeleroBackup \<Rightarrow> bool" where
  "by_name backup b \<longleftrightarrow> vb_Name b = bi_Name backup"

text \<open>One iteration of the inner loop, over \<^verbatim>\<open>latestTime\<close> and \<^verbatim>\<open>backupMatching\<close>.\<close>

fun backup_step ::
  "(VeleroBackup \<Rightarrow> bool) \<Rightarrow> BackupType \<Rightarrow> time \<times> BackupInformation \<Rightarrow> VeleroBackup \<Rightarrow> time \<times> BackupInformation" where
  "backup_step matches backupType (latestTime, backupMatching) b =
     (if \<not> matches b then (latestTime, backupMatching)
      else if vb_Phase b \<noteq> ''Completed'' then (latestTime, backupMatching)
      else let created = vb_CreationTimestamp b in
           if IsZero latestTime \<or> After created latestTime
           then (created, backupMatching\<lparr>bi_Name := vb_Name b, bi_BackupType := backupType\<rparr>)
           else (latestTime, backupMatching))"

definition latest_backup ::
  "(VeleroBackup \<Rightarrow> bool) \<Rightarrow> BackupType \<Rightarrow> VeleroBackup list \<Rightarrow> BackupInformation \<Rightarrow> BackupInformation" where
  "latest_backup matches backupType items backupMatching =
     snd (foldl (backup_step matches backupType) (ZeroTime, backupMatching) items)"

text \<open>
  The outer loop over the package's backup descriptions. A failed list is logged and leaves no
  items; no items end the transition (\<open>None\<close>).
\<close>

fun find_backup ::
  "env \<Rightarrow> kclient \<Rightarrow> BackupInformation list \<Rightarrow> BackupInformation \<Rightarrow> hist \<Rightarrow> BackupInformation option \<times> hist" where
  "find_backup en c [] backupMatching h = (Some backupMatching, h)"
| "find_backup en c (backup # backups) backupMatching h =
     (case bi_BackupType backup of
        BackupTypeOther _ \<Rightarrow> find_backup en c backups backupMatching h
      | _ \<Rightarrow>
          (case rd ''BackupList'' ''velero'' '''' (\<lambda>h. w_ListBackups (wl en) h c) h of (res, h) \<Rightarrow>
             (let items = (case res of Inl err \<Rightarrow> [] | Inr items \<Rightarrow> items);
                  matches = (if bi_BackupType backup = BackupTypeSchedule then from_schedule backup else by_name backup)
              in if items = [] then (None, h)
                 else find_backup en c backups (latest_backup matches (bi_BackupType backup) items backupMatching) h)))"

section \<open>Definitions: TransitionSelectedWorkloads\<close>

text \<open>
  The first half, up to the switch: Gitea, the user, the \<^verbatim>\<open>dr\<close> repository and the target
  cluster. \<open>None\<close> is an early return.
\<close>

definition locate_selected :: "env \<Rightarrow> ClusterPolicy \<Rightarrow> hist \<Rightarrow> transition_target option outcome \<times> hist" where
  "locate_selected en clusterPolicy h =
     (case GetClient en h of (giteaClient, h) \<Rightarrow>
        (case gc_giteaClient giteaClient of
           None \<Rightarrow> (Ret None, h)
         | Some gc \<Rightarrow>
             (case rd ''gitea-user'' '''' '''' (\<lambda>h. g_GetMyUserInfo (gt en) h gc) h of
                (Inl err, h) \<Rightarrow> (Ret None, h)
              | (Inr userName, h) \<Rightarrow>
                  (if selector_repo clusterPolicy = '''' then (Ret None, h)
                   else case rd ''gitea-repos'' '''' '''' (\<lambda>h. g_ListMyRepos (gt en) h gc) h of
                          (Inl err, h) \<Rightarrow> (Ret None, h)
                        | (Inr repos, h) \<Rightarrow>
                            (case find (\<lambda>r. repo_Name r = ''dr'') repos of
                               None \<Rightarrow> (Ret None, h)
                             | Some drRepo \<Rightarrow>
                                 (case DetermineTargetRepo clusterPolicy of (targetRepoName, targetClusterName, found) \<Rightarrow>
                                    (if \<not> found then (Ret None, h)
                                     else case GetWorkloadClusterClientByName en targetClusterName h of
                                            (Panic, h) \<Rightarrow> (Panic, h)
                                          | (Ret (Inl err), h) \<Rightarrow> (Ret None, h)
                                          | (Ret (Inr targetClusterClient), h) \<Rightarrow>
                                              (Ret (Some \<lparr>tt_gitea = gc, tt_userName = userName,
                                                 tt_drRepo = repo_Name drRepo, tt_targetRepoName = targetRepoName,
                                                 tt_targetClusterName = targetClusterName,
                                                 tt_targetClusterClient = targetClusterClient\<rparr>), h))))))))"

definition finish_selected ::
  "env \<Rightarrow> transition_target \<Rightarrow> string \<Rightarrow> PackageSelector \<Rightarrow> ClusterPolicy \<Rightarrow> hist \<Rightarrow> ClusterPolicy outcome \<times> hist" where
  "finish_selected en t message transitionPackage clusterPolicy h =
     (case TriggerArgoCDSyncWithKubeClient en (tt_targetClusterClient t) (tt_targetClusterName t @ ''-dr'') ''argocd'' h of
        (Panic, h) \<Rightarrow> (Panic, h)
      | (Ret err, h) \<Rightarrow>
          (let message = (case err of None \<Rightarrow> message
                | Some _ \<Rightarrow> message @ ''; but the ArgoCD sync was not triggered successfully'') in
           case record_transition en transitionPackage message PackageTransitionConditionCompleted clusterPolicy h of
             (clusterPolicy, h) \<Rightarrow> (Ret clusterPolicy, h)))"

definition fail_selected ::
  "env \<Rightarrow> error \<Rightarrow> PackageSelector \<Rightarrow> ClusterPolicy \<Rightarrow> hist \<Rightarrow> ClusterPolicy outcome \<times> hist" where
  "fail_selected en err transitionPackage clusterPolicy h =
     (case record_transition en transitionPackage (err_text err) PackageTransitionConditionFailed clusterPolicy h of
        (clusterPolicy, h) \<Rightarrow> (Ret clusterPolicy, h))"

definition selected_stateful ::
  "env \<Rightarrow> kclient \<Rightarrow> transition_target \<Rightarrow> PackageSelector \<Rightarrow> ClusterPolicy \<Rightarrow> hist \<Rightarrow> ClusterPolicy outcome \<times> hist" where
  "selected_stateful en clusterClient t transitionPackage clusterPolicy h =
     (case find_backup en clusterClient (ps_BackupInformation transitionPackage) zero_BackupInformation h of
        (None, h) \<Rightarrow> (Ret clusterPolicy, h)
      | (Some backupMatching, h) \<Rightarrow>
          (if bi_Name backupMatching = '''' then (Ret clusterPolicy, h)
           else case CreateAndPushVeleroRestore en (tt_gitea t) (tt_userName t) (tt_drRepo t) (tt_targetRepoName t)
                       clusterPolicy transitionPackage backupMatching (tt_targetClusterClient t)
                       (tt_targetClusterName t @ ''-dr'') h of
                  (Panic, h) \<Rightarrow> (Panic, h)
                | (Ret (Inl err), h) \<Rightarrow> fail_selected en err transitionPackage clusterPolicy h
                | (Ret (Inr _), h) \<Rightarrow>
                    finish_selected en t ''Transitioned stateful package successfully'' transitionPackage clusterPolicy h))"

definition selected_stateless ::
  "env \<Rightarrow> transition_target \<Rightarrow> PackageSelector \<Rightarrow> ClusterPolicy \<Rightarrow> hist \<Rightarrow> ClusterPolicy outcome \<times> hist" where
  "selected_stateless en t transitionPackage clusterPolicy h =
     (case CreateAndPushArgoApp en (tt_gitea t) (tt_userName t) (tt_drRepo t) (tt_targetRepoName t)
             clusterPolicy transitionPackage [] h of
        (Inl err, h) \<Rightarrow> fail_selected en err transitionPackage clusterPolicy h
      | (Inr _, h) \<Rightarrow>
          finish_selected en t ''Transitioned stateless package successfully'' transitionPackage clusterPolicy h)"

definition TransitionSelectedWorkloads ::
  "env \<Rightarrow> kclient \<Rightarrow> PackageSelector \<Rightarrow> ClusterPolicy \<Rightarrow> hist \<Rightarrow> ClusterPolicy outcome \<times> hist" where
  "TransitionSelectedWorkloads en clusterClient transitionPackage clusterPolicy h =
     (case locate_selected en clusterPolicy h of
        (Panic, h) \<Rightarrow> (Panic, h)
      | (Ret None, h) \<Rightarrow> (Ret clusterPolicy, h)
      | (Ret (Some t), h) \<Rightarrow>
          (case ps_PackageType transitionPackage of
             PackageTypeStateful \<Rightarrow> selected_stateful en clusterClient t transitionPackage clusterPolicy h
           | PackageTypeStateless \<Rightarrow> selected_stateless en t transitionPackage clusterPolicy h
           | PackageTypeOther _ \<Rightarrow> (Ret clusterPolicy, h)))"

section \<open>Definitions: TransitionSelectedLiveWorkloads\<close>

text \<open>
  \<open>errgroup.WithContext\<close> replaces the context of the rest of the function by a derived one,
  which is cancelled when \<^verbatim>\<open>Wait\<close> returns. The function therefore has two environments: \<open>en\<close>
  answers the calls that do not use that context, \<open>enc\<close> those that use it after the first
  \<^verbatim>\<open>Wait\<close>. What a cancelled context does to a call is a property of \<open>enc\<close>.

  The three calls of the first group run in any order; the group fails if one of them does.
\<close>

datatype init_call = InitUser | InitRepos | InitClient

record init_state =
  init_user :: string
  init_repos :: "GiteaRepository list"
  init_client :: "kclient option"
  init_failed :: bool

definition zero_init :: init_state where
  "zero_init = \<lparr>init_user = '''', init_repos = [], init_client = None, init_failed = False\<rparr>"

fun init_job ::
  "env \<Rightarrow> gitea_client \<Rightarrow> string \<Rightarrow> init_call \<Rightarrow> init_state \<Rightarrow> hist \<Rightarrow> init_state outcome \<times> hist" where
  "init_job en gc targetClusterName InitUser st h =
     (case rd ''gitea-user'' '''' '''' (\<lambda>h. g_GetMyUserInfo (gt en) h gc) h of
        (Inl err, h) \<Rightarrow> (Ret (st\<lparr>init_failed := True\<rparr>), h)
      | (Inr u, h) \<Rightarrow> (Ret (st\<lparr>init_user := u\<rparr>), h))"
| "init_job en gc targetClusterName InitRepos st h =
     (case rd ''gitea-repos'' '''' '''' (\<lambda>h. g_ListMyRepos (gt en) h gc) h of
        (Inl err, h) \<Rightarrow> (Ret (st\<lparr>init_failed := True\<rparr>), h)
      | (Inr rps, h) \<Rightarrow> (Ret (st\<lparr>init_repos := rps\<rparr>), h))"
| "init_job en gc targetClusterName InitClient st h =
     (case GetWorkloadClusterClientByName en targetClusterName h of
        (Panic, h) \<Rightarrow> (Panic, h)
      | (Ret (Inl err), h) \<Rightarrow> (Ret (st\<lparr>init_failed := True\<rparr>), h)
      | (Ret (Inr client), h) \<Rightarrow> (Ret (st\<lparr>init_client := client\<rparr>), h))"

definition init_stage :: "env \<Rightarrow> gitea_client \<Rightarrow> string \<Rightarrow> hist \<Rightarrow> init_state outcome \<times> hist" where
  "init_stage en gc targetClusterName h =
     pool_run 4 (o_Sched (os en) h) (\<lambda>_ _. True) id (init_job en gc targetClusterName)
       0 [InitUser, InitRepos, InitClient] [] [] zero_init h"

definition locate_live :: "env \<Rightarrow> ClusterPolicy \<Rightarrow> hist \<Rightarrow> transition_target option outcome \<times> hist" where
  "locate_live en clusterPolicy h =
     (case GetClient en h of (giteaClient, h) \<Rightarrow>
        (case gc_giteaClient giteaClient of
           None \<Rightarrow> (Ret None, h)
         | Some gc \<Rightarrow>
             (if selector_repo clusterPolicy = '''' then (Ret None, h)
              else case DetermineTargetRepo clusterPolicy of (targetRepoName, targetClusterName, found) \<Rightarrow>
                (if \<not> found then (Ret None, h)
                 else case init_stage en gc targetClusterName h of
                        (Panic, h) \<Rightarrow> (Panic, h)
                      | (Ret st, h) \<Rightarrow>
                          (if init_failed st then (Ret None, h)
                           else case find (\<lambda>r. repo_Name r = ''dr'') (init_repos st) of
                                  None \<Rightarrow> (Ret None, h)
                                | Some drRepo \<Rightarrow>
                                    (Ret (Some \<lparr>tt_gitea = gc, tt_userName = init_user st,
                                       tt_drRepo = repo_Name drRepo, tt_targetRepoName = targetRepoName,
                                       tt_targetClusterName = targetClusterName,
                                       tt_targetClusterClient = init_client st\<rparr>), h))))))"

text \<open>
  The loop over the backups stops at the first scheduled one. The zero checkpoint, without a
  name, is \<open>Some None\<close>; an early return is \<open>None\<close>.
\<close>

fun scheduled_checkpoint ::
  "env \<Rightarrow> string \<Rightarrow> BackupInformation list \<Rightarrow> hist \<Rightarrow> Checkpoint option option \<times> hist" where
  "scheduled_checkpoint en checkpointName [] h = (Some None, h)"
| "scheduled_checkpoint en checkpointName (backup # backups) h =
     (if bi_BackupType backup \<noteq> BackupTypeSchedule then scheduled_checkpoint en checkpointName backups h
      else case rd ''Checkpoint'' ''default'' checkpointName (\<lambda>h. m_GetCheckpoint (mgmt en) h ''default'' checkpointName) h of
             (Inl err, h) \<Rightarrow> (None, h)
           | (Inr checkpoint, h) \<Rightarrow>
               (if ckst_LastCheckpointImage (ck_Status checkpoint) = '''' then (None, h)
                else (Some (Some checkpoint), h)))"

text \<open>
  The goroutine that commits and pushes the edited manifests is not waited for: it runs as a
  whole at one of the points \<open>0\<close> to \<open>3\<close> between the steps of the main goroutine, or after them.
\<close>

definition arrow :: string where
  "arrow = [CHR 0xE2, CHR 0x86, CHR 0x92]"

definition commit_edits :: "env \<Rightarrow> env \<Rightarrow> string \<Rightarrow> Checkpoint \<Rightarrow> hist \<Rightarrow> hist" where
  "commit_edits en enc tmpDir checkpoint h =
     (case GetGiteaSecretUserNamePassword enc h of
        (Inl err, h) \<Rightarrow> h
      | (Inr (username, password, _), h) \<Rightarrow>
          snd (CommitAndPush en tmpDir ''main'' username password
            (''Update image '' @ ckst_OriginalImage (ck_Status checkpoint) @ '' '' @ arrow @ '' '' @
             ckst_LastCheckpointImage (ck_Status checkpoint)) h))"

definition commit_at :: "nat \<Rightarrow> nat \<Rightarrow> env \<Rightarrow> env \<Rightarrow> string \<Rightarrow> Checkpoint \<Rightarrow> hist \<Rightarrow> hist" where
  "commit_at chosen here en enc tmpDir checkpoint h =
     (if chosen = here then commit_edits en enc tmpDir checkpoint h else h)"

definition finish_live ::
  "env \<Rightarrow> env \<Rightarrow> transition_target \<Rightarrow> string \<Rightarrow> (nat \<Rightarrow> hist \<Rightarrow> hist) \<Rightarrow> PackageSelector \<Rightarrow> ClusterPolicy \<Rightarrow> hist \<Rightarrow>
   ClusterPolicy outcome \<times> hist" where
  "finish_live en enc t msg between transitionPackage clusterPolicy h =
     (case TriggerArgoCDSyncWithKubeClient en (tt_targetClusterClient t) (tt_targetClusterName t @ ''-dr'') ''argocd''
             (between 1 h) of
        (Panic, h) \<Rightarrow> (Panic, h)
      | (Ret err, h) \<Rightarrow>
          (let msg = (case err of None \<Rightarrow> msg | Some _ \<Rightarrow> msg @ ''; ArgoCD sync not triggered successfully'') in
           case updateClusterPolicyStatus enc clusterPolicy transitionPackage (Some (Errorf msg))
                  PackageTransitionConditionCompleted (between 2 h) of
             (clusterPolicy, h) \<Rightarrow> (Ret clusterPolicy, between 3 h)))"

definition fail_live ::
  "env \<Rightarrow> error \<Rightarrow> (nat \<Rightarrow> hist \<Rightarrow> hist) \<Rightarrow> PackageSelector \<Rightarrow> ClusterPolicy \<Rightarrow> hist \<Rightarrow> ClusterPolicy outcome \<times> hist" where
  "fail_live enc err between transitionPackage clusterPolicy h =
     (case updateClusterPolicyStatus enc clusterPolicy transitionPackage (Some err)
             PackageTransitionConditionFailed (between 1 h) of
        (clusterPolicy, h) \<Rightarrow> (Ret clusterPolicy, between 3 (between 2 h)))"

definition live_stateful ::
  "env \<Rightarrow> env \<Rightarrow> string \<Rightarrow> transition_target \<Rightarrow> PackageSelector \<Rightarrow> ClusterPolicy \<Rightarrow> hist \<Rightarrow> ClusterPolicy outcome \<times> hist" where
  "live_stateful en enc podName t transitionPackage clusterPolicy h =
     (case scheduled_checkpoint enc (checkpoint_name clusterPolicy podName transitionPackage)
             (ps_BackupInformation transitionPackage) h of
        (None, h) \<Rightarrow> (Ret clusterPolicy, h)
      | (Some None, h) \<Rightarrow> (Ret clusterPolicy, h)
      | (Some (Some associatedCheckpoint), h) \<Rightarrow>
          (if ck_Name associatedCheckpoint = '''' then (Ret clusterPolicy, h)
           else case CheckRepoForMatchingManifests enc (selector_repo clusterPolicy) ''main''
                       (cks_ResourceRef (ck_Spec associatedCheckpoint)) h of
                  ((tmpDir, Inl err), h) \<Rightarrow> (Ret clusterPolicy, h)
                | ((tmpDir, Inr matches), h) \<Rightarrow>
                    (if matches = [] then (Ret clusterPolicy, h)
                     else case update_manifests en matches (ckst_LastCheckpointImage (ck_Status associatedCheckpoint))
                                 (ckst_OriginalImage (ck_Status associatedCheckpoint)) h of
                            (Panic, h) \<Rightarrow> (Panic, h)
                          | (Ret errs, h) \<Rightarrow>
                              (if errs \<noteq> [] then (Ret clusterPolicy, h)
                               else let between = (\<lambda>here. commit_at (o_Sched (os en) h 0 mod 4) here en enc tmpDir
                                          associatedCheckpoint) in
                                    case CreateAndPushLiveStateBackupRestore en (tt_gitea t) (tt_userName t) (tt_drRepo t)
                                           (tt_targetRepoName t) clusterPolicy transitionPackage associatedCheckpoint
                                           (between 0 h) of
                                      (Inl err, h) \<Rightarrow> fail_live enc err between transitionPackage clusterPolicy h
                                    | (Inr _, h) \<Rightarrow>
                                        finish_live en enc t ''Transitioned stateful package successfully'' between
                                          transitionPackage clusterPolicy h))))"

definition live_stateless ::
  "env \<Rightarrow> env \<Rightarrow> transition_target \<Rightarrow> PackageSelector \<Rightarrow> ClusterPolicy \<Rightarrow> hist \<Rightarrow> ClusterPolicy outcome \<times> hist" where
  "live_stateless en enc t transitionPackage clusterPolicy h =
     (case CreateAndPushArgoApp en (tt_gitea t) (tt_userName t) (tt_drRepo t) (tt_targetRepoName t)
             clusterPolicy transitionPackage [] h of
        (Inl err, h) \<Rightarrow> fail_live enc err (\<lambda>_ h. h) transitionPackage clusterPolicy h
      | (Inr _, h) \<Rightarrow>
          finish_live en enc t ''Transitioned stateless package successfully'' (\<lambda>_ h. h) transitionPackage clusterPolicy h)"

definition TransitionSelectedLiveWorkloads ::
  "env \<Rightarrow> env \<Rightarrow> string \<Rightarrow> PackageSelector \<Rightarrow> ClusterPolicy \<Rightarrow> hist \<Rightarrow> ClusterPolicy outcome \<times> hist" where
  "TransitionSelectedLiveWorkloads en enc podName transitionPackage clusterPolicy h =
     (case locate_live en clusterPolicy h of
        (Panic, h) \<Rightarrow> (Panic, h)
      | (Ret None, h) \<Rightarrow> (Ret clusterPolicy, h)
      | (Ret (Some t), h) \<Rightarrow>
          (case ps_PackageType transitionPackage of
             PackageTypeStateful \<Rightarrow> live_stateful en enc podName t transitionPackage clusterPolicy h
           | PackageTypeStateless \<Rightarrow> live_stateless en enc t transitionPackage clusterPolicy h
           | PackageTypeOther _ \<Rightarrow> (Ret clusterPolicy, h)))"

section \<open>Lemmas: shared steps\<close>

lemma ByName_emits [emits_intros]:
  assumes "\<And>k a b. P (Read k a b)"
  shows "emits P (GetWorkloadClusterClientByName en n)"
  unfolding GetWorkloadClusterClientByName_def GetCapiClusterFromName_def by (auto intro!: emits_intros assms)

text \<open>Unlike \<open>GetWorkloadClusterClient\<close>, this lookup never answers with a nil client.\<close>

lemma ByName_client:
  assumes "GetWorkloadClusterClientByName en n h = (Ret (Inr c), h')"
  obtains k where "c = Some k"
proof -
  from assms obtain r h1 where "GetCapiClusterFromName en n ''default'' h = (Inr r, h1)"
    and cl: "GetClusterClient en r h1 = (Ret (c, True, None), h')"
    by (auto simp: GetWorkloadClusterClientByName_def split: prod.splits sum.splits outcome.splits option.splits if_splits)
  with that show thesis
    by (auto simp: GetClusterClient_def getCapiClusterClient_def rd_def
        split: prod.splits sum.splits outcome.splits option.splits if_splits)
qed

text \<open>The controller's own helper and the one of the node-health transition write the same entry.\<close>

lemma updateClusterPolicyStatus_eq:
  "updateClusterPolicyStatus en p pkg err cond = UpdateClusterPolicyStatus en pkg err cond p"
  by (rule ext) (simp add: updateClusterPolicyStatus_def record_transition_def UpdateClusterPolicyStatus_def Let_def)

lemma record_transition_cases:
  obtains t ok where "record_transition en pkg msg cond p h =
      (append_transition t p, UpdatedPolicyStatus (append_transition t p) ok # Read ''clock'' '''' '''' # h)"
    "tp_PackageSelectors t = [pkg]" "tp_PackageTransitionCondition t = cond" "tp_LastTransitionTime t = o_Now (os en) h"
  by (auto simp: record_transition_def Let_def api_simps)

lemma record_transition_emits [emits_intros]:
  assumes "\<And>k a b. P (Read k a b)" and "\<And>q ok. P (UpdatedPolicyStatus q ok)"
  shows "emits P (record_transition en pkg msg cond p)"
  unfolding record_transition_def Let_def by (auto intro!: emits_intros assms)

section \<open>Lemmas: the choice of a backup\<close>

definition backup_later :: "VeleroBackup \<Rightarrow> VeleroBackup \<Rightarrow> bool" where
  "backup_later b d \<longleftrightarrow> After (vb_CreationTimestamp b) (vb_CreationTimestamp d)"

interpretation backup_pref: strict_pref backup_later
  unfolding backup_later_def After_def by (rule strict_pref_by_key)

definition usable :: "(VeleroBackup \<Rightarrow> bool) \<Rightarrow> VeleroBackup \<Rightarrow> bool" where
  "usable matches b \<longleftrightarrow> matches b \<and> vb_Phase b = ''Completed''"

fun chosen :: "BackupType \<Rightarrow> BackupInformation \<Rightarrow> VeleroBackup option \<Rightarrow> BackupInformation" where
  "chosen ty m None = m"
| "chosen ty m (Some b) = m\<lparr>bi_Name := vb_Name b, bi_BackupType := ty\<rparr>"

fun scan_state :: "BackupType \<Rightarrow> BackupInformation \<Rightarrow> VeleroBackup option \<Rightarrow> time \<times> BackupInformation" where
  "scan_state ty m None = (ZeroTime, m)"
| "scan_state ty m (Some b) = (vb_CreationTimestamp b, chosen ty m (Some b))"

lemma foldl_backup_step:
  assumes "\<forall>b \<in> set items. \<not> IsZero (vb_CreationTimestamp b)"
    and "\<And>c. cur = Some c \<Longrightarrow> \<not> IsZero (vb_CreationTimestamp c)"
  shows "foldl (backup_step matches ty) (scan_state ty m cur) items =
    scan_state ty m (first_best backup_later cur (filter (usable matches) items))"
  using assms
proof (induction items arbitrary: cur)
  case (Cons b items)
  let ?cur = "if usable matches b then first_best backup_later cur [b] else cur"
  have step: "backup_step matches ty (scan_state ty m cur) b = scan_state ty m ?cur"
    using Cons.prems by (cases cur) (auto simp: usable_def Let_def backup_later_def IsZero_def)
  have "\<not> IsZero (vb_CreationTimestamp c)" if "?cur = Some c" for c
    using that Cons.prems by (cases cur) (auto split: if_splits)
  with Cons.IH [of ?cur] Cons.prems(1) step show ?case by (cases cur) (auto split: if_splits)
qed simp

lemma latest_backup_first_best:
  assumes "\<forall>b \<in> set items. \<not> IsZero (vb_CreationTimestamp b)"
  shows "latest_backup matches ty items m = chosen ty m (first_best backup_later None (filter (usable matches) items))"
  using foldl_backup_step [of items None matches ty m] assms
  by (cases "first_best backup_later None (filter (usable matches) items)") (simp_all add: latest_backup_def)

lemma find_backup_reads [emits_intros]:
  assumes "\<And>k a b. P (Read k a b)"
  shows "emits P (find_backup en c backups m)"
proof (induction backups arbitrary: m)
  case Nil
  then show ?case by (simp add: emits_def)
next
  case (Cons b bs)
  let ?list = "\<lambda>matches h. case rd ''BackupList'' ''velero'' '''' (\<lambda>h. w_ListBackups (wl en) h c) h of (res, h) \<Rightarrow>
     (if (case res of Inl err \<Rightarrow> [] | Inr items \<Rightarrow> items) = [] then (None, h)
      else find_backup en c bs (latest_backup matches (bi_BackupType b) (case res of Inl err \<Rightarrow> [] | Inr items \<Rightarrow> items) m) h)"
  have "emits P (?list matches)" for matches by (intro emits_intros Cons.IH assms)
  moreover have "find_backup en c (b # bs) m =
      (case bi_BackupType b of BackupTypeOther _ \<Rightarrow> find_backup en c bs m
       | _ \<Rightarrow> ?list (if bi_BackupType b = BackupTypeSchedule then from_schedule b else by_name b))"
    by (rule ext) (auto simp: Let_def split: BackupType.splits)
  ultimately show ?case using Cons.IH by (cases "bi_BackupType b") simp_all
qed

section \<open>Lemmas: outcomes\<close>

fun app_created :: "event \<Rightarrow> bool" where
  "app_created (CreatedFile _ _ _ _ message ok) \<longleftrightarrow> ok \<and> HasPrefix message ''ArgoCD app: ''"
| "app_created _ \<longleftrightarrow> False"

text \<open>
  How a transition of a selected workload can end: nothing was written; or one entry for the
  package was appended to the status and sent, Completed with the application created last
  and every file created, or Failed with no application created.
\<close>

definition selected_outcome ::
  "ClusterPolicy \<Rightarrow> PackageSelector \<Rightarrow> hist \<Rightarrow> ClusterPolicy outcome \<Rightarrow> hist \<Rightarrow> bool" where
  "selected_outcome p pkg h res h' \<longleftrightarrow>
     (res = Ret p \<or> res = Panic) \<and> writes h' = writes h \<or>
     (\<exists>t ok fs. res = Ret (append_transition t p) \<and> tp_PackageSelectors t = [pkg] \<and>
        statuses h' = UpdatedPolicyStatus (append_transition t p) ok # statuses h \<and> files h' = fs @ files h \<and>
        (tp_PackageTransitionCondition t = PackageTransitionConditionCompleted \<and> fs \<noteq> [] \<and> app_created (hd fs) \<and>
           list_all succeeded fs \<and> length fs = (if ps_PackageType pkg = PackageTypeStateful then 2 else 1) \<or>
         tp_PackageTransitionCondition t = PackageTransitionConditionFailed \<and> \<not> list_ex app_created fs))"

lemma app_files [simp]:
  "app_created (argo_file en u r f p pkg d h ok) \<longleftrightarrow> ok"
  "\<not> app_created (restore_file en u r f p pkg d h ok)"
  "succeeded (argo_file en u r f p pkg d h ok) \<longleftrightarrow> ok"
  "succeeded (restore_file en u r f p pkg d h ok) \<longleftrightarrow> ok"
  "\<not> is_status_update (argo_file en u r f p pkg d h ok)"
  "\<not> is_status_update (restore_file en u r f p pkg d h ok)"
  by (simp_all add: argo_file_def restore_file_def HasPrefix_def)

lemma emits_statuses:
  assumes "emits (\<lambda>e. \<not> is_status_update e) m" and "m h = (x, h')"
  shows "statuses h' = statuses h"
proof -
  from assms obtain es where "h' = es @ h" and "\<forall>e \<in> set es. \<not> is_status_update e" by (rule emitsD)
  then show ?thesis by (simp add: statuses_def)
qed

lemma fail_selected_cases:
  obtains t ok where "fail_selected en err pkg p h =
      (Ret (append_transition t p), UpdatedPolicyStatus (append_transition t p) ok # Read ''clock'' '''' '''' # h)"
    "tp_PackageSelectors t = [pkg]" "tp_PackageTransitionCondition t = PackageTransitionConditionFailed"
  by (rule record_transition_cases [of en pkg "err_text err" PackageTransitionConditionFailed p h])
    (auto simp: fail_selected_def)

lemma finish_selected_cases:
  assumes "tt_targetClusterClient tt = Some c"
  obtains t ok h1 where "finish_selected en tt msg pkg p h =
      (Ret (append_transition t p), UpdatedPolicyStatus (append_transition t p) ok # Read ''clock'' '''' '''' # h1)"
    "tp_PackageSelectors t = [pkg]" "tp_PackageTransitionCondition t = PackageTransitionConditionCompleted"
    "files h1 = files h" "statuses h1 = statuses h"
proof -
  let ?sync = "TriggerArgoCDSyncWithKubeClient en (Some c) (tt_targetClusterName tt @ ''-dr'') ''argocd''"
  obtain r h1 where tr: "?sync h = (Ret r, h1)"
    using TriggerArgoCDSync_Some_returns by blast
  have "emits (\<lambda>e. \<not> is_status_update e) ?sync" by (rule TriggerArgoCDSync_emits) simp_all
  note st = emits_statuses [OF this tr]
  let ?msg = "case r of None \<Rightarrow> msg | Some _ \<Rightarrow> msg @ ''; but the ArgoCD sync was not triggered successfully''"
  obtain t ok where "record_transition en pkg ?msg PackageTransitionConditionCompleted p h1 =
      (append_transition t p, UpdatedPolicyStatus (append_transition t p) ok # Read ''clock'' '''' '''' # h1)"
    "tp_PackageSelectors t = [pkg]" "tp_PackageTransitionCondition t = PackageTransitionConditionCompleted"
    by (rule record_transition_cases)
  with tr assms st TriggerArgoCDSync_files [OF tr] that show thesis by (simp add: finish_selected_def Let_def)
qed

text \<open>The two ends of a transition, after the files \<open>fs\<close> were attempted.\<close>

lemma fail_selected_outcome:
  assumes "fail_selected en err pkg p h1 = (res, h')" and "statuses h1 = statuses h" and "files h1 = fs @ files h"
    and "\<not> list_ex app_created fs"
  shows "selected_outcome p pkg h res h'"
proof -
  obtain t ok where "fail_selected en err pkg p h1 =
      (Ret (append_transition t p), UpdatedPolicyStatus (append_transition t p) ok # Read ''clock'' '''' '''' # h1)"
    "tp_PackageSelectors t = [pkg]" "tp_PackageTransitionCondition t = PackageTransitionConditionFailed"
    by (rule fail_selected_cases)
  with assms show ?thesis
    by (auto simp: selected_outcome_def intro!: exI [of _ t] exI [of _ ok] exI [of _ fs])
qed

lemma finish_selected_outcome:
  assumes "finish_selected en tt msg pkg p h1 = (res, h')" and "tt_targetClusterClient tt = Some c"
    and "statuses h1 = statuses h" and "files h1 = fs @ files h" and "fs \<noteq> []" and "app_created (hd fs)"
    and "list_all succeeded fs" and "length fs = (if ps_PackageType pkg = PackageTypeStateful then 2 else 1)"
  shows "selected_outcome p pkg h res h'"
proof -
  obtain t ok h2 where "finish_selected en tt msg pkg p h1 =
      (Ret (append_transition t p), UpdatedPolicyStatus (append_transition t p) ok # Read ''clock'' '''' '''' # h2)"
    "tp_PackageSelectors t = [pkg]" "tp_PackageTransitionCondition t = PackageTransitionConditionCompleted"
    "files h2 = files h1" "statuses h2 = statuses h1"
    by (rule finish_selected_cases [OF assms(2)])
  with assms show ?thesis
    by (auto simp: selected_outcome_def intro!: exI [of _ t] exI [of _ ok] exI [of _ fs])
qed

lemma selected_stateless_outcome:
  assumes "selected_stateless en tt pkg p h = (res, h')" and "tt_targetClusterClient tt = Some c"
    and "ps_PackageType pkg = PackageTypeStateless"
  shows "selected_outcome p pkg h res h'"
proof -
  obtain ar h1 where push: "CreateAndPushArgoApp en (tt_gitea tt) (tt_userName tt) (tt_drRepo tt) (tt_targetRepoName tt)
      p pkg [] h = (ar, h1)" by fastforce
  have st: "statuses h1 = statuses h" by (rule emits_statuses [OF CreateAndPushArgoApp_emits push]) simp_all
  from assms(1) push have run: "(case ar of Inl err \<Rightarrow> fail_selected en err pkg p h1
      | Inr _ \<Rightarrow> finish_selected en tt ''Transitioned stateless package successfully'' pkg p h1) = (res, h')"
    by (simp add: selected_stateless_def split: sum.splits)
  let ?file = "\<lambda>data ok. argo_file en (tt_userName tt) (tt_drRepo tt) (tt_targetRepoName tt) p pkg data h ok"
  from push show ?thesis
  proof (cases rule: CreateAndPushArgoApp_cases)
    case (marshal err)
    then have "fail_selected en (wrapf ''failed to marshal Argo application YAML'' err) pkg p h1 = (res, h')" using run by simp
    then show ?thesis by (rule fail_selected_outcome [where fs = "[]"]) (use marshal in simp_all)
  next
    case (rejected data err)
    then have "fail_selected en (wrapf ''failed to create file in Gitea'' err) pkg p h1 = (res, h')" using run by simp
    then show ?thesis
      by (rule fail_selected_outcome [where fs = "[?file data False]"]) (use rejected in simp_all)
  next
    case (pushed data)
    then have "finish_selected en tt ''Transitioned stateless package successfully'' pkg p h1 = (res, h')" using run by simp
    then show ?thesis
      by (rule finish_selected_outcome [where fs = "[?file data True]"]) (use pushed assms in simp_all)
  qed
qed

lemma selected_stateful_outcome:
  assumes "selected_stateful en k tt pkg p h = (res, h')" and "tt_targetClusterClient tt = Some c"
    and "ps_PackageType pkg = PackageTypeStateful"
  shows "selected_outcome p pkg h res h'"
proof -
  obtain bi h0 where fb: "find_backup en k (ps_BackupInformation pkg) zero_BackupInformation h = (bi, h0)" by fastforce
  have em: "emits (\<lambda>e. \<not> is_write e \<and> \<not> is_created_file e \<and> \<not> is_status_update e)
      (find_backup en k (ps_BackupInformation pkg) zero_BackupInformation)" by (rule find_backup_reads) simp
  from em fb obtain es where "h0 = es @ h" "\<forall>e \<in> set es. \<not> is_write e \<and> \<not> is_created_file e \<and> \<not> is_status_update e"
    by (rule emitsD)
  then have same: "writes h0 = writes h" "files h0 = files h" "statuses h0 = statuses h"
    by (simp_all add: writes_def files_def statuses_def)
  show ?thesis
  proof (cases "bi = None \<or> (\<exists>b. bi = Some b \<and> bi_Name b = '''')")
    case True
    with assms(1) fb same show ?thesis by (auto simp: selected_stateful_def selected_outcome_def)
  next
    case False
    then obtain b where b: "bi = Some b" "bi_Name b \<noteq> ''''" by auto
    let ?push = "CreateAndPushVeleroRestore en (tt_gitea tt) (tt_userName tt) (tt_drRepo tt) (tt_targetRepoName tt)
      p pkg b (Some c) (tt_targetClusterName tt @ ''-dr'')"
    obtain ar h1 where push: "?push h0 = (ar, h1)" by fastforce
    have "statuses h1 = statuses h0" by (rule emits_statuses [OF CreateAndPushVeleroRestore_emits push]) simp_all
    with same have st: "statuses h1 = statuses h" by simp
    let ?restore = "\<lambda>data ok. restore_file en (tt_userName tt) (tt_drRepo tt) (tt_targetRepoName tt) p pkg data h0 ok"
    let ?argo = "\<lambda>data h2 ok. argo_file en (tt_userName tt) (tt_drRepo tt) (tt_targetRepoName tt) p pkg data h2 ok"
    have fail: "selected_outcome p pkg h res h'" if "ar = Ret (Inl err)" "files h1 = fs @ files h" "\<not> list_ex app_created fs" for err fs
      by (rule fail_selected_outcome [of en err pkg p h1 res h' h fs])
        (use assms fb b push st that in \<open>simp_all add: selected_stateful_def\<close>)
    from push show ?thesis
    proof (cases rule: CreateAndPushVeleroRestore_cases)
      case (marshal err)
      with same show ?thesis by (intro fail [of err "[]"]) simp_all
    next
      case (rejected data err)
      with same show ?thesis by (intro fail [of err "[?restore data False]"]) simp_all
    next
      case (unrestored data err)
      with same show ?thesis by (intro fail [of err "[?restore data True]"]) simp_all
    next
      case (restored data h2 h3 c' argo)
      from restored(5) show ?thesis
      proof (cases rule: CreateAndPushArgoApp_cases)
        case (marshal err)
        with restored same show ?thesis by (intro fail [of _ "[?restore data True]"]) simp_all
      next
        case (rejected adata err)
        with restored same show ?thesis by (intro fail [of _ "[?argo adata h3 False, ?restore data True]"]) simp_all
      next
        case (pushed adata)
        show ?thesis
          by (rule finish_selected_outcome [of en tt "''Transitioned stateful package successfully''" pkg p h1 res h' c h
                "[?argo adata h3 True, ?restore data True]"])
            (use assms fb b push st restored pushed same in \<open>simp_all add: selected_stateful_def\<close>)
      qed
    qed simp
  qed
qed

lemma locate_selected_emits [emits_intros]:
  assumes "\<And>k a b. P (Read k a b)" and "\<And>c. P (StartedGitea c)"
  shows "emits P (locate_selected en p)"
  unfolding locate_selected_def by (auto intro!: emits_intros assms)

lemma locate_selected_same:
  assumes "locate_selected en p h = (x, h')"
  shows "files h' = files h" "statuses h' = statuses h" "writes h' = writes h"
proof -
  have "emits (\<lambda>e. \<not> is_created_file e \<and> \<not> is_status_update e \<and> \<not> is_write e) (locate_selected en p)"
    by (rule locate_selected_emits) simp_all
  then obtain es where "h' = es @ h" "\<forall>e \<in> set es. \<not> is_created_file e \<and> \<not> is_status_update e \<and> \<not> is_write e"
    using assms by (rule emitsD)
  then show "files h' = files h" "statuses h' = statuses h" "writes h' = writes h"
    by (simp_all add: files_def statuses_def writes_def)
qed

lemma locate_selected_client:
  assumes "locate_selected en p h = (Ret (Some t), h')"
  obtains c where "tt_targetClusterClient t = Some c"
  using assms
  by (auto simp: locate_selected_def elim: ByName_client split: prod.splits option.splits sum.splits outcome.splits if_splits)

lemma selected_outcome_cong:
  assumes "files h1 = files h" "statuses h1 = statuses h" "writes h1 = writes h"
  shows "selected_outcome p pkg h1 res h' = selected_outcome p pkg h res h'"
  using assms by (simp add: selected_outcome_def)

lemma Selected_outcome:
  assumes "TransitionSelectedWorkloads en k pkg p h = (res, h')"
  shows "selected_outcome p pkg h res h'"
proof -
  obtain l h1 where loc: "locate_selected en p h = (l, h1)" by fastforce
  note same = locate_selected_same [OF loc]
  show ?thesis
  proof (cases "\<exists>t. l = Ret (Some t)")
    case False
    then have "l = Panic \<or> l = Ret None" by (metis not_None_eq outcome.exhaust)
    with assms loc same show ?thesis by (auto simp: TransitionSelectedWorkloads_def selected_outcome_def)
  next
    case True
    then obtain t where t: "l = Ret (Some t)" by blast
    with loc obtain c where c: "tt_targetClusterClient t = Some c" by (auto elim: locate_selected_client)
    have "selected_outcome p pkg h1 res h'"
    proof (cases "ps_PackageType pkg")
      case PackageTypeStateless
      with assms loc t show ?thesis
        by (intro selected_stateless_outcome [OF _ c]) (simp_all add: TransitionSelectedWorkloads_def)
    next
      case PackageTypeStateful
      with assms loc t show ?thesis
        by (intro selected_stateful_outcome [OF _ c, of en k]) (simp_all add: TransitionSelectedWorkloads_def)
    next
      case (PackageTypeOther s)
      with assms loc t show ?thesis by (simp add: TransitionSelectedWorkloads_def selected_outcome_def)
    qed
    with selected_outcome_cong [OF same] show ?thesis by simp
  qed
qed

section \<open>Lemmas: the cancelled context\<close>

text \<open>
  What is documented of a cancelled context: a clone and a request to the API server that are
  made with it fail.
\<close>

definition cancelled :: "env \<Rightarrow> bool" where
  "cancelled enc \<longleftrightarrow>
     (\<forall>h url branch dir. is_err (o_GitClone (os enc) h url branch dir)) \<and>
     (\<forall>h p. is_err (m_UpdatePolicyStatus (mgmt enc) h p))"

interpretation init_pool: pool_job "init_job en gc n" "\<lambda>_. True" "\<lambda>e. \<exists>k a b. e = Read k a b"
proof unfold_locales
  fix c st h
  have "emits (\<lambda>e. \<exists>k a b. e = Read k a b) (\<lambda>h. init_job en gc n c st h)"
    by (cases c; simp only: init_job.simps; auto intro!: emits_intros)
  then show "\<exists>es. snd (init_job en gc n c st h) = es @ h \<and> (\<forall>e \<in> set es. \<exists>k a b. e = Read k a b)"
    by (simp add: emits_def)
qed simp

lemma init_stage_emits [emits_intros]:
  assumes "\<And>k a b. P (Read k a b)"
  shows "emits P (init_stage en gc n)"
proof -
  have "emits (\<lambda>e. \<exists>k a b. e = Read k a b) (init_stage en gc n)"
    unfolding init_stage_def emits_def by (intro allI init_pool.pool_events) simp_all
  then show ?thesis by (rule emits_mono) (use assms in auto)
qed

lemma locate_live_emits [emits_intros]:
  assumes "\<And>k a b. P (Read k a b)" and "\<And>c. P (StartedGitea c)"
  shows "emits P (locate_live en p)"
  unfolding locate_live_def by (auto intro!: emits_intros assms)

lemma emits_wr_fails:
  assumes "\<And>h. is_err (f h)" and "P (ev False)"
  shows "emits P (wr ev f)"
  using assms by (auto simp: emits_def wr_def)

lemma lost_status_emits:
  assumes "cancelled enc" and "\<And>k a b. P (Read k a b)" and "\<And>q. P (UpdatedPolicyStatus q False)"
  shows "emits P (updateClusterPolicyStatus enc p pkg err cond)"
proof -
  have "emits P (record_transition enc pkg msg cond p)" for msg
    unfolding record_transition_def Let_def
    by (intro emits_bind emits_Now emits_ret emits_wr_fails assms(2,3)) (use assms(1) in \<open>simp add: cancelled_def\<close>)
  then show ?thesis unfolding updateClusterPolicyStatus_def Let_def .
qed

lemma live_stateless_emits:
  assumes "cancelled enc" and "\<And>k a b. P (Read k a b)" and "\<And>q. P (UpdatedPolicyStatus q False)"
    and "\<And>u r f d m ok. P (CreatedFile u r f d m ok)" and "\<And>c app ok. P (UpdatedApplication c app ok)"
  shows "emits P (live_stateless en enc t pkg p)"
  unfolding live_stateless_def finish_live_def fail_live_def Let_def
  by (auto intro!: emits_intros assms lost_status_emits [OF assms(1)])

lemma scheduled_checkpoint_emits [emits_intros]:
  assumes "\<And>k a b. P (Read k a b)"
  shows "emits P (scheduled_checkpoint en name backups)"
proof (induction backups)
  case Nil
  then show ?case by (simp add: emits_def)
next
  case (Cons b bs)
  have "scheduled_checkpoint en name (b # bs) = (\<lambda>h.
     (if bi_BackupType b \<noteq> BackupTypeSchedule then scheduled_checkpoint en name bs h
      else case rd ''Checkpoint'' ''default'' name (\<lambda>h. m_GetCheckpoint (mgmt en) h ''default'' name) h of
             (Inl err, h) \<Rightarrow> (None, h)
           | (Inr checkpoint, h) \<Rightarrow>
               (if ckst_LastCheckpointImage (ck_Status checkpoint) = '''' then (None, h)
                else (Some (Some checkpoint), h))))"
    by (rule ext) simp
  then show ?case by (auto intro!: emits_intros Cons.IH assms)
qed

text \<open>With the cancelled context the clone fails, and the stateful case ends there.\<close>

lemma cancelled_clone:
  assumes "cancelled enc"
  obtains dir err h1 where "CheckRepoForMatchingManifests enc repo branch ref h = ((dir, Inl err), h1)"
    "writes h1 = writes h \<or> (\<exists>d. writes h1 = Cloned repo branch d False # writes h)"
proof -
  let ?h = "Read ''tempdir'' '''' '''' # h"
  show thesis
  proof (cases "o_MkdirTemp (os enc) h")
    case (Inl e)
    with that show thesis by (auto simp: CheckRepoForMatchingManifests_def api_simps)
  next
    case (Inr d)
    from assms have "is_err (o_GitClone (os enc) ?h repo branch d)" by (simp add: cancelled_def)
    then obtain e where "o_GitClone (os enc) ?h repo branch d = Inl e"
      by (cases "o_GitClone (os enc) ?h repo branch d") (simp_all add: is_err_def)
    with Inr that [of "''''" _ "Cloned repo branch d False # ?h"] show thesis
      by (simp add: CheckRepoForMatchingManifests_def api_simps is_err_def)
  qed
qed

lemma live_stateful_lost:
  assumes "cancelled enc" and "live_stateful en enc pod t pkg p h = (res, h')"
  shows "res = Ret p \<and> (writes h' = writes h \<or> (\<exists>d. writes h' = Cloned (selector_repo p) ''main'' d False # writes h)) \<and>
    (\<exists>es. h' = es @ h \<and> (\<forall>e \<in> set es. \<not> is_status_update e))"
proof -
  let ?sched = "scheduled_checkpoint enc (checkpoint_name p pod pkg) (ps_BackupInformation pkg)"
  obtain ck h1 where sc: "?sched h = (ck, h1)" by fastforce
  have "emits (\<lambda>e. \<not> is_write e \<and> \<not> is_status_update e) ?sched" by (rule scheduled_checkpoint_emits) simp
  then obtain es where es: "h1 = es @ h" "\<forall>e \<in> set es. \<not> is_write e \<and> \<not> is_status_update e" using sc by (rule emitsD)
  then have w: "writes h1 = writes h" by (simp add: writes_def)
  show ?thesis
  proof (cases "\<exists>c. ck = Some (Some c) \<and> ck_Name c \<noteq> ''''")
    case False
    with assms(2) sc have "res = Ret p" "h' = h1" by (auto simp: live_stateful_def split: option.splits)
    with w es show ?thesis by auto
  next
    case True
    then obtain c where c: "ck = Some (Some c)" "ck_Name c \<noteq> ''''" by blast
    let ?check = "CheckRepoForMatchingManifests enc (selector_repo p) ''main'' (cks_ResourceRef (ck_Spec c))"
    obtain dir err h2 where cl: "?check h1 = ((dir, Inl err), h2)"
        "writes h2 = writes h1 \<or> (\<exists>d. writes h2 = Cloned (selector_repo p) ''main'' d False # writes h1)"
      using cancelled_clone [OF assms(1)] by metis
    have "emits (\<lambda>e. \<not> is_status_update e) ?check" by (rule CheckRepo_emits) simp_all
    then obtain fs where fs: "h2 = fs @ h1" "\<forall>e \<in> set fs. \<not> is_status_update e" using cl(1) by (rule emitsD)
    from assms(2) sc c cl have "res = Ret p" "h' = h2" by (auto simp: live_stateful_def)
    with w cl(2) es fs show ?thesis by (auto intro!: exI [of _ "fs @ es"])
  qed
qed

lemma Live_lost:
  assumes "cancelled enc" and "TransitionSelectedLiveWorkloads en enc pod pkg p h = (res, h')"
  shows "(\<exists>es. h' = es @ h \<and> (\<forall>q ok. UpdatedPolicyStatus q ok \<in> set es \<longrightarrow> \<not> ok)) \<and>
    (ps_PackageType pkg = PackageTypeStateful \<longrightarrow> (res = Ret p \<or> res = Panic) \<and>
       (writes h' = writes h \<or> (\<exists>d. writes h' = Cloned (selector_repo p) ''main'' d False # writes h)))"
proof -
  let ?P = "\<lambda>e. \<forall>q ok. e = UpdatedPolicyStatus q ok \<longrightarrow> \<not> ok"
  obtain l h1 where loc: "locate_live en p h = (l, h1)" by fastforce
  have "emits (\<lambda>e. \<not> is_write e \<and> \<not> is_status_update e) (locate_live en p)" by (rule locate_live_emits) simp_all
  then obtain es where es: "h1 = es @ h" "\<forall>e \<in> set es. \<not> is_write e \<and> \<not> is_status_update e" using loc by (rule emitsD)
  then have w: "writes h1 = writes h" by (simp add: writes_def)
  show ?thesis
  proof (cases "(\<exists>t. l = Ret (Some t)) \<and> (\<nexists>s. ps_PackageType pkg = PackageTypeOther s)")
    case False
    then have "res = Ret p \<or> res = Panic" "h' = h1"
      using assms(2) loc
      by (auto simp: TransitionSelectedLiveWorkloads_def split: outcome.splits option.splits PackageType.splits)
    with w es show ?thesis by auto
  next
    case True
    then obtain t where t: "l = Ret (Some t)" by blast
    from True consider "ps_PackageType pkg = PackageTypeStateful" | "ps_PackageType pkg = PackageTypeStateless"
      by (cases "ps_PackageType pkg") auto
    then show ?thesis
    proof cases
      case 1
      with assms(2) loc t have "live_stateful en enc pod t pkg p h1 = (res, h')"
        by (simp add: TransitionSelectedLiveWorkloads_def)
      note lost = live_stateful_lost [OF assms(1) this, unfolded w]
      then obtain fs where "h' = fs @ h1" "\<forall>e \<in> set fs. \<not> is_status_update e" by blast
      with es have "h' = (fs @ es) @ h" "\<forall>q ok. UpdatedPolicyStatus q ok \<in> set (fs @ es) \<longrightarrow> \<not> ok" by auto
      with lost show ?thesis by blast
    next
      case 2
      with assms(2) loc t have run: "live_stateless en enc t pkg p h1 = (res, h')"
        by (simp add: TransitionSelectedLiveWorkloads_def)
      have "emits ?P (live_stateless en enc t pkg p)" by (rule live_stateless_emits [OF assms(1)]) simp_all
      then obtain fs where "h' = fs @ h1" "\<forall>e \<in> set fs. ?P e" using run by (rule emitsD)
      with es 2 show ?thesis by (auto intro!: exI [of _ "fs @ es"])
    qed
  qed
qed

section \<open>Properties\<close>

text \<open>
  C13. The latest completed backup is restored. When the API server stamps every backup, the
  loop over Velero's backups does what its reference does: it takes the first of the newest
  ones among those that belong to the description and have completed, and leaves the
  description found so far untouched if there is none.
\<close>

theorem latest_backup_correct:
  assumes "\<forall>b \<in> set items. \<not> IsZero (vb_CreationTimestamp b)"
  shows "(\<nexists>b. b \<in> set items \<and> usable matches b) \<and> latest_backup matches ty items m = m \<or>
    (\<exists>us b vs. items = us @ b # vs \<and> usable matches b \<and>
       (\<forall>u \<in> set us. usable matches u \<longrightarrow> vb_CreationTimestamp u < vb_CreationTimestamp b) \<and>
       (\<forall>v \<in> set vs. usable matches v \<longrightarrow> vb_CreationTimestamp v \<le> vb_CreationTimestamp b) \<and>
       latest_backup matches ty items m = m\<lparr>bi_Name := vb_Name b, bi_BackupType := ty\<rparr>)"
proof (cases "first_best backup_later None (filter (usable matches) items)")
  case None
  with latest_backup_first_best [OF assms, of matches ty m] show ?thesis
    by (auto simp: first_best_None_iff filter_empty_conv)
next
  case (Some b)
  then have "is_first_best backup_later (filter (usable matches) items) b" by (rule backup_pref.scan_correct)
  then obtain us vs where "items = us @ b # vs" "usable matches b"
    "\<forall>u \<in> set us. usable matches u \<longrightarrow> backup_later b u" "\<forall>v \<in> set vs. usable matches v \<longrightarrow> \<not> backup_later v b"
    by (rule is_first_best_filter)
  with Some latest_backup_first_best [OF assms, of matches ty m] show ?thesis
    by (intro disjI2 exI [of _ us] exI [of _ b] exI [of _ vs]) (auto simp: backup_later_def After_def)
qed

definition nightly :: "string \<Rightarrow> string \<Rightarrow> time \<Rightarrow> VeleroBackup" where
  "nightly name phase created = \<lparr>vb_Name = name, vb_Labels = [(''velero.io/schedule-name'', ''my-test-backup'')],
     vb_Phase = phase, vb_CreationTimestamp = created\<rparr>"

theorem latest_backup_correct_witness:
  "bi_Name (latest_backup (from_schedule sample_backup) BackupTypeSchedule
     [nightly ''n1'' ''Completed'' 10, nightly ''n3'' ''Failed'' 30, nightly ''n2'' ''Completed'' 20] zero_BackupInformation) = ''n2''"
proof -
  let ?items = "[nightly ''n1'' ''Completed'' 10, nightly ''n3'' ''Failed'' 30, nightly ''n2'' ''Completed'' 20]"
  have "\<forall>b \<in> set ?items. \<not> IsZero (vb_CreationTimestamp b)" by (simp add: nightly_def IsZero_def ZeroTime_def)
  note cor = latest_backup_correct [OF this, of "from_schedule sample_backup" BackupTypeSchedule zero_BackupInformation]
  have n2: "usable (from_schedule sample_backup) (nightly ''n2'' ''Completed'' 20)"
    by (simp add: usable_def nightly_def from_schedule_def sample_backup_def)
  then have "\<exists>b. b \<in> set ?items \<and> usable (from_schedule sample_backup) b" by auto
  with cor
  obtain us b vs where sp: "?items = us @ b # vs" and b: "usable (from_schedule sample_backup) b"
    and us: "\<forall>u \<in> set us. usable (from_schedule sample_backup) u \<longrightarrow> vb_CreationTimestamp u < vb_CreationTimestamp b"
    and vs: "\<forall>v \<in> set vs. usable (from_schedule sample_backup) v \<longrightarrow> vb_CreationTimestamp v \<le> vb_CreationTimestamp b"
    and res: "latest_backup (from_schedule sample_backup) BackupTypeSchedule ?items zero_BackupInformation =
      zero_BackupInformation\<lparr>bi_Name := vb_Name b, bi_BackupType := BackupTypeSchedule\<rparr>"
    by blast
  have "b \<in> set ?items" "nightly ''n2'' ''Completed'' 20 \<in> set us \<union> {b} \<union> set vs"
    using arg_cong [OF sp, of set] by auto
  with b us vs n2 have "vb_Name b = ''n2''" by (fastforce simp: usable_def nightly_def)
  with res show ?thesis by simp
qed

text \<open>
  C3. The outcome of the transition of a selected workload. Either nothing is written, and the
  policy is unchanged unless the process dies; or exactly one entry for the package is appended
  to the status and sent: Completed, when every file was created, the application last, or
  Failed, when no application was created. Unlike the transition of the monitors, it cannot
  die between the two.
\<close>

theorem TransitionSelectedWorkloads_outcome:
  assumes "TransitionSelectedWorkloads en k pkg p h = (res, h')"
  shows "selected_outcome p pkg h res h'"
  using assms by (rule Selected_outcome)

theorem TransitionSelectedWorkloads_outcome_witness:
  "\<exists>t h'. TransitionSelectedWorkloads (dr_env ConditionTrue) (WorkloadClient ''k'') web_pkg sample_policy dr_history =
     (Ret (append_transition t sample_policy), h') \<and> length (files h') = 1 \<and>
     tp_PackageTransitionCondition t = PackageTransitionConditionCompleted"
proof -
  have "(case TransitionSelectedWorkloads (dr_env ConditionTrue) (WorkloadClient ''k'') web_pkg sample_policy dr_history of
      (Ret p', h') \<Rightarrow> map tp_PackageTransitionCondition (transitioned p') = [PackageTransitionConditionCompleted] | _ \<Rightarrow> False)"
    by code_simp
  then obtain p' h' where run: "TransitionSelectedWorkloads (dr_env ConditionTrue) (WorkloadClient ''k'') web_pkg sample_policy
      dr_history = (Ret p', h')" and cond: "map tp_PackageTransitionCondition (transitioned p') = [PackageTransitionConditionCompleted]"
    by (fastforce split: prod.splits outcome.splits)
  have p: "transitioned sample_policy = []" by (simp add: sample_policy_def)
  from TransitionSelectedWorkloads_outcome [OF run] cond p run show ?thesis
    by (auto simp: selected_outcome_def web_pkg_def)
qed

text \<open>
  C24. A live-state transition from \<open>Reconcile\<close> is lost. The calls after the first error group
  use a context that is already cancelled, with which a clone and a status update fail.
  Therefore a stateful package is never moved: nothing but the failed clone is attempted, and
  the policy is unchanged. For a stateless package the application may be pushed, but no
  status update succeeds, so the transition is never recorded.
\<close>

theorem live_transition_is_lost:
  assumes "cancelled enc" and "TransitionSelectedLiveWorkloads en enc pod pkg p h = (res, h')"
  shows "(\<exists>es. h' = es @ h \<and> (\<forall>q ok. UpdatedPolicyStatus q ok \<in> set es \<longrightarrow> \<not> ok)) \<and>
    (ps_PackageType pkg = PackageTypeStateful \<longrightarrow> (res = Ret p \<or> res = Panic) \<and>
       (writes h' = writes h \<or> (\<exists>d. writes h' = Cloned (selector_repo p) ''main'' d False # writes h)))"
  using assms by (rule Live_lost)

theorem live_transition_is_lost_witness:
  "\<exists>res h'. TransitionSelectedLiveWorkloads (dr_env ConditionTrue) down_env ''video-0'' video_pkg sample_policy dr_history =
     (res, h') \<and> (\<forall>e \<in> set (writes h'). \<exists>u b d. e = Cloned u b d False)"
proof -
  have c: "cancelled down_env" by (simp add: cancelled_def down_defs is_err_def)
  obtain res h' where run: "TransitionSelectedLiveWorkloads (dr_env ConditionTrue) down_env ''video-0'' video_pkg
      sample_policy dr_history = (res, h')" by fastforce
  have "ps_PackageType video_pkg = PackageTypeStateful" by (simp add: video_pkg_def)
  with live_transition_is_lost [OF c run] have "writes h' = [] \<or>
      (\<exists>d. writes h' = [Cloned (selector_repo sample_policy) ''main'' d False])" by simp
  then have "\<forall>e \<in> set (writes h'). \<exists>u b d. e = Cloned u b d False" by (elim disjE exE) simp_all
  with run show ?thesis by (intro exI [of _ res] exI [of _ h'] conjI)
qed

end
