(* ===== verification/ClusterPolicy_Controller.thy ===== *)
theory ClusterPolicy_Controller
  imports Workload_Transition Monitors
begin

text \<open>
  \<^verbatim>\<open>src/internal/controller/clusterpolicy_controller.go\<close>, the reconciler of a ClusterPolicy:
  checkpoints for its live-state packages, the two monitors, and for the cluster that it
  selects the inspection of machines and nodes, with a transition of the annotated workloads
  of every node that is not ready. \<open>en\<close> and \<open>enc\<close> are the environments of
  \<open>Workload_Transition\<close>; the policy is shared by pointer and is passed on and given back.
\<close>

section \<open>Definitions: the pods of a node\<close>

text \<open>
  \<open>HandlePodsOnNodeForPolicy\<close> looks up the owner of each pod and starts a goroutine for each
  package that the owner is annotated with. The lookups only read, so they are collected
  before the first goroutine; whether a package is wanted is decided when its goroutine would
  start, on the status as it is then.
\<close>

record candidate =
  nc_pod :: Pod
  nc_workloadID :: string
  nc_pkg :: PackageSelector

fun node_candidates ::
  "env \<Rightarrow> kclient \<Rightarrow> PackageSelector list \<Rightarrow> Pod list \<Rightarrow> hist \<Rightarrow> candidate list \<times> hist" where
  "node_candidates en c pkgs [] h = ([], h)"
| "node_candidates en c pkgs (pod # pods) h =
     (case GetWorkloadOwnerControllerInfo pod of (workloadKind, workloadName, hasOwner) \<Rightarrow>
        (if \<not> hasOwner then node_candidates en c pkgs pods h
         else case GetParentAnnotations en c workloadKind workloadName (pod_Namespace pod) h of
                (Inl err, h) \<Rightarrow> node_candidates en c pkgs pods h
              | (Inr (None, parentKind), h) \<Rightarrow> node_candidates en c pkgs pods h
              | (Inr (Some parent, parentKind), h) \<Rightarrow>
                  (case node_candidates en c pkgs pods h of (cs, h) \<Rightarrow>
                     (map (\<lambda>pkg. \<lparr>nc_pod = pod, nc_workloadID = pod_Namespace pod @ ''/'' @ workloadName @ ''/'' @ workloadKind,
                                  nc_pkg = pkg\<rparr>)
                          (filter (\<lambda>pkg. policy_accept pkg (meta_Annotations parent)) pkgs) @ cs, h))))"

definition node_wanted :: "ClusterPolicy \<Rightarrow> candidate \<Rightarrow> bool" where
  "node_wanted clusterPolicy c \<longleftrightarrow> \<not> IsPackageTransitioned clusterPolicy (nc_pkg c)"

definition node_key :: "candidate \<Rightarrow> string" where
  "node_key c = nc_workloadID c @ ''/'' @ ps_Name (nc_pkg c)"

definition node_job ::
  "env \<Rightarrow> env \<Rightarrow> kclient \<Rightarrow> candidate \<Rightarrow> ClusterPolicy \<Rightarrow> hist \<Rightarrow> ClusterPolicy outcome \<times> hist" where
  "node_job en enc clusterClient c clusterPolicy h =
     (if ps_LiveStatePackage (nc_pkg c)
      then TransitionSelectedLiveWorkloads en enc (pod_Name (nc_pod c)) (nc_pkg c) clusterPolicy h
      else TransitionSelectedWorkloads en clusterClient (nc_pkg c) clusterPolicy h)"

definition HandlePodsOnNodeForPolicy ::
  "env \<Rightarrow> env \<Rightarrow> kclient \<Rightarrow> Pod list \<Rightarrow> ClusterPolicy \<Rightarrow> hist \<Rightarrow> ClusterPolicy outcome \<times> hist" where
  "HandlePodsOnNodeForPolicy en enc clusterClient pods clusterPolicy h =
     (case node_candidates en clusterClient (cps_PackageSelectors (cpol_Spec clusterPolicy)) pods h of (cs, h) \<Rightarrow>
        pool_run 4 (o_Sched (os en) h) node_wanted node_key (node_job en enc clusterClient) 0 cs [] [] clusterPolicy h)"

section \<open>Definitions: nodes and machines\<close>

fun handle_nodes ::
  "env \<Rightarrow> env \<Rightarrow> kclient \<Rightarrow> Node list \<Rightarrow> ClusterPolicy \<Rightarrow> hist \<Rightarrow> (ClusterPolicy \<times> error option) outcome \<times> hist" where
  "handle_nodes en enc c [] clusterPolicy h = (Ret (clusterPolicy, None), h)"
| "handle_nodes en enc c (node # nodes) clusterPolicy h =
     (if GetNodeStatusSummary node = ''Ready'' then handle_nodes en enc c nodes clusterPolicy h
      else case rd ''PodList'' '''' (node_Name node) (\<lambda>h. w_ListPodsOnNode (wl en) h c (node_Name node)) h of
             (Inl err, h) \<Rightarrow> (Ret (clusterPolicy, Some err), h)
           | (Inr pods, h) \<Rightarrow>
               (case HandlePodsOnNodeForPolicy en enc c pods clusterPolicy h of
                  (Panic, h) \<Rightarrow> (Panic, h)
                | (Ret clusterPolicy, h) \<Rightarrow> handle_nodes en enc c nodes clusterPolicy h))"

definition handleNodesInWorkloadCluster ::
  "env \<Rightarrow> env \<Rightarrow> Capi option \<Rightarrow> ClusterPolicy \<Rightarrow> hist \<Rightarrow> (ClusterPolicy \<times> error option) outcome \<times> hist" where
  "handleNodesInWorkloadCluster en enc capiCluster clusterPolicy h =
     (case GetClusterClient en capiCluster h of
        (Panic, h) \<Rightarrow> (Panic, h)
      | (Ret (clusterClient, ready, Some err), h) \<Rightarrow> (Ret (clusterPolicy, Some err), h)
      | (Ret (clusterClient, ready, None), h) \<Rightarrow>
          (if \<not> ready then (Ret (clusterPolicy, None), h)
           else case clusterClient of
                  None \<Rightarrow> (Panic, h)
                | Some c \<Rightarrow>
                    (case rd ''NodeList'' '''' '''' (\<lambda>h. w_ListNodes (wl en) h c) h of
                       (Inl err, h) \<Rightarrow> (Ret (clusterPolicy, Some err), h)
                     | (Inr nodes, h) \<Rightarrow> handle_nodes en enc c nodes clusterPolicy h)))"

text \<open>
  The node of a machine, by its name or its first address: \<open>None\<close> is an early return,
  \<open>Some None\<close> the nil node of a machine that is found under neither.
\<close>

definition machine_node :: "env \<Rightarrow> kclient \<Rightarrow> Machine \<Rightarrow> hist \<Rightarrow> Node option option \<times> hist" where
  "machine_node en c machine h =
     (case rd ''Node'' '''' (mach_Name machine) (\<lambda>h. w_GetNode (wl en) h c (mach_Name machine)) h of
        (Inr node, h) \<Rightarrow> (Some (Some node), h)
      | (Inl err, h) \<Rightarrow>
          (if IsNotFound err \<and> mach_Addresses machine \<noteq> []
           then (case rd ''Node'' '''' (hd (mach_Addresses machine)) (\<lambda>h. w_GetNode (wl en) h c (hd (mach_Addresses machine))) h of
                   (Inr node, h) \<Rightarrow> (Some (Some node), h)
                 | (Inl err, h) \<Rightarrow> (if IsNotFound err then (Some None, h) else (None, h)))
           else (None, h)))"

fun bad_condition :: "NodeConditionType \<Rightarrow> ConditionStatus \<Rightarrow> bool" where
  "bad_condition NodeReady st \<longleftrightarrow> st \<noteq> ConditionTrue"
| "bad_condition NodeMemoryPressure st \<longleftrightarrow> st = ConditionTrue"
| "bad_condition NodeDiskPressure st \<longleftrightarrow> st = ConditionTrue"
| "bad_condition NodePIDPressure st \<longleftrightarrow> st = ConditionTrue"
| "bad_condition NodeNetworkUnavailable st \<longleftrightarrow> st = ConditionTrue"
| "bad_condition (NodeOtherCondition _) st \<longleftrightarrow> False"

definition hasBadConditions :: "Node \<Rightarrow> bool" where
  "hasBadConditions node \<longleftrightarrow> list_ex (\<lambda>cond. bad_condition (cond_Type cond) (cond_Status cond)) (node_Conditions node)"

abbreviation cluster_name_label :: string where
  "cluster_name_label \<equiv> ''cluster.x-k8s.io/cluster-name''"

text \<open>The branch for worker machines dereferences the node, which may be nil.\<close>

definition handle_worker ::
  "env \<Rightarrow> env \<Rightarrow> kclient \<Rightarrow> Machine \<Rightarrow> Node option \<Rightarrow> ClusterPolicy \<Rightarrow> hist \<Rightarrow> ClusterPolicy outcome \<times> hist" where
  "handle_worker en enc c machine node clusterPolicy h =
     (case node of
        None \<Rightarrow> (Panic, h)
      | Some node \<Rightarrow>
          (if mach_Phase machine = ''Failed'' \<or> mach_Phase machine = ''Unknown'' \<or>
              GetNodeStatusSummary node \<noteq> ''Ready'' \<or> hasBadConditions node
           then (case rd ''PodList'' '''' (mach_Name machine) (\<lambda>h. w_ListPodsOnNode (wl en) h c (mach_Name machine)) h of
                   (Inl err, h) \<Rightarrow> (Ret clusterPolicy, h)
                 | (Inr pods, h) \<Rightarrow> HandlePodsOnNodeForPolicy en enc c pods clusterPolicy h)
           else (Ret clusterPolicy, h)))"

definition handleWorkloadClusterMachine ::
  "env \<Rightarrow> env \<Rightarrow> Capi option \<Rightarrow> Machine \<Rightarrow> ClusterPolicy \<Rightarrow> hist \<Rightarrow> ClusterPolicy outcome \<times> hist" where
  "handleWorkloadClusterMachine en enc capiCluster machine clusterPolicy h =
     (case GetClusterClient en capiCluster h of
        (Panic, h) \<Rightarrow> (Panic, h)
      | (Ret (clusterClient, ready, Some err), h) \<Rightarrow> (Ret clusterPolicy, h)
      | (Ret (clusterClient, ready, None), h) \<Rightarrow>
          (if \<not> ready then (Ret clusterPolicy, h)
           else case clusterClient of
                  None \<Rightarrow> (Panic, h)
                | Some c \<Rightarrow>
                    (case machine_node en c machine h of
                       (None, h) \<Rightarrow> (Ret clusterPolicy, h)
                     | (Some node, h) \<Rightarrow>
                         (if mget (mach_Labels machine) cluster_name_label = selector_name clusterPolicy
                          then (Ret clusterPolicy, h)
                          else handle_worker en enc c machine node clusterPolicy h))))"

fun handle_machines ::
  "env \<Rightarrow> env \<Rightarrow> Capi option \<Rightarrow> Machine list \<Rightarrow> ClusterPolicy \<Rightarrow> hist \<Rightarrow> ClusterPolicy outcome \<times> hist" where
  "handle_machines en enc capiCluster [] clusterPolicy h = (Ret clusterPolicy, h)"
| "handle_machines en enc capiCluster (machine # machines) clusterPolicy h =
     (if mach_Phase machine = ''Running'' then handle_machines en enc capiCluster machines clusterPolicy h
      else case handleWorkloadClusterMachine en enc capiCluster machine clusterPolicy h of
             (Panic, h) \<Rightarrow> (Panic, h)
           | (Ret clusterPolicy, h) \<Rightarrow> handle_machines en enc capiCluster machines clusterPolicy h)"

definition performWorkloadClusterPolicyActions ::
  "env \<Rightarrow> env \<Rightarrow> Cluster \<Rightarrow> ClusterPolicy \<Rightarrow> hist \<Rightarrow> ClusterPolicy outcome \<times> hist" where
  "performWorkloadClusterPolicyActions en enc cluster clusterPolicy h =
     (case GetCapiClusterFromName en (cl_Name cluster) (cl_Namespace cluster) h of
        (Inl err, h) \<Rightarrow> (Ret clusterPolicy, h)
      | (Inr capiCluster, h) \<Rightarrow>
          (if cl_Phase cluster \<noteq> ''Provisioned'' then (Ret clusterPolicy, h)
           else case rd ''MachineList'' (cl_Namespace cluster) ''''
                       (\<lambda>h. m_ListMachines (mgmt en) h (cl_Namespace cluster) [(cluster_name_label, cl_Name cluster)]) h of
                  (Inl err, h) \<Rightarrow> (Ret clusterPolicy, h)
                | (Inr machines, h) \<Rightarrow>
                    (case handle_machines en enc capiCluster machines clusterPolicy h of
                       (Panic, h) \<Rightarrow> (Panic, h)
                     | (Ret clusterPolicy, h) \<Rightarrow>
                         (case handleNodesInWorkloadCluster en enc capiCluster clusterPolicy h of
                            (Panic, h) \<Rightarrow> (Panic, h)
                          | (Ret (clusterPolicy, err), h) \<Rightarrow> (Ret clusterPolicy, h)))))"

section \<open>Definitions: Reconcile\<close>

fun CreateCheckpointForLiveStatePackage ::
  "env \<Rightarrow> Cluster list \<Rightarrow> PackageSelector \<Rightarrow> ClusterPolicy \<Rightarrow> hist \<Rightarrow> error option outcome \<times> hist" where
  "CreateCheckpointForLiveStatePackage en [] pkg clusterPolicy h = (Ret None, h)"
| "CreateCheckpointForLiveStatePackage en (cluster # clusters) pkg clusterPolicy h =
     (if selector_name clusterPolicy = cl_Name cluster
      then (case PerformWorkloadClusterCheckpointAction en pkg clusterPolicy (cl_Name cluster) h of
              (Panic, h) \<Rightarrow> (Panic, h)
            | (Ret (Some err), h) \<Rightarrow> (Ret (Some err), h)
            | (Ret None, h) \<Rightarrow> CreateCheckpointForLiveStatePackage en clusters pkg clusterPolicy h)
      else CreateCheckpointForLiveStatePackage en clusters pkg clusterPolicy h)"

fun create_live_checkpoints ::
  "env \<Rightarrow> Cluster list \<Rightarrow> PackageSelector list \<Rightarrow> ClusterPolicy \<Rightarrow> hist \<Rightarrow> unit outcome \<times> hist" where
  "create_live_checkpoints en clusters [] clusterPolicy h = (Ret (), h)"
| "create_live_checkpoints en clusters (pkg # pkgs) clusterPolicy h =
     (if \<not> ps_LiveStatePackage pkg then create_live_checkpoints en clusters pkgs clusterPolicy h
      else case CreateCheckpointForLiveStatePackage en clusters pkg clusterPolicy h of
             (Panic, h) \<Rightarrow> (Panic, h)
           | (Ret err, h) \<Rightarrow> create_live_checkpoints en clusters pkgs clusterPolicy h)"

fun handle_clusters ::
  "env \<Rightarrow> env \<Rightarrow> Cluster list \<Rightarrow> ClusterPolicy \<Rightarrow> hist \<Rightarrow> ClusterPolicy outcome \<times> hist" where
  "handle_clusters en enc [] clusterPolicy h = (Ret clusterPolicy, h)"
| "handle_clusters en enc (cluster # clusters) clusterPolicy h =
     (if selector_name clusterPolicy = cl_Name cluster
      then (case performWorkloadClusterPolicyActions en enc cluster clusterPolicy h of
              (Panic, h) \<Rightarrow> (Panic, h)
            | (Ret clusterPolicy, h) \<Rightarrow> handle_clusters en enc clusters clusterPolicy h)
      else handle_clusters en enc clusters clusterPolicy h)"

text \<open>
  The two goroutines that register the monitors, in the order the scheduler chooses.
\<close>

definition start_monitors :: "bool \<Rightarrow> ClusterPolicy \<Rightarrow> monitorRegistry \<Rightarrow> monitorRegistry" where
  "start_monitors cpFirst clusterPolicy reg =
     (if cpFirst
      then snd (StartWorkloadClusterCNIHealthMonitor clusterPolicy
                  (snd (StartWorkloadClusterControlPlaneHealthMonitor clusterPolicy reg)))
      else snd (StartWorkloadClusterControlPlaneHealthMonitor clusterPolicy
                  (snd (StartWorkloadClusterCNIHealthMonitor clusterPolicy reg))))"

definition Reconcile_ClusterPolicy ::
  "env \<Rightarrow> env \<Rightarrow> string \<Rightarrow> string \<Rightarrow> monitorRegistry \<Rightarrow> hist \<Rightarrow>
   ((duration \<times> error option) \<times> monitorRegistry) outcome \<times> hist" where
  "Reconcile_ClusterPolicy en enc namespace name reg h =
     (case rd ''ClusterList'' '''' '''' (m_ListClusters (mgmt en)) h of
        (Inl err, h) \<Rightarrow> (Ret ((0, Some err), reg), h)
      | (Inr clusters, h) \<Rightarrow>
          (case rd ''ClusterPolicy'' namespace name (\<lambda>h. m_GetPolicy (mgmt en) h namespace name) h of
             (Inl err, h) \<Rightarrow> (Ret ((5 * Second, Some err), reg), h)
           | (Inr clusterPolicy, h) \<Rightarrow>
               (let reg = start_monitors (o_Sched (os en) h 0 mod 2 = 0) clusterPolicy reg in
                case create_live_checkpoints en clusters (cps_PackageSelectors (cpol_Spec clusterPolicy)) clusterPolicy h of
                  (Panic, h) \<Rightarrow> (Panic, h)
                | (Ret _, h) \<Rightarrow>
                    (case handle_clusters en enc clusters clusterPolicy h of
                       (Panic, h) \<Rightarrow> (Panic, h)
                     | (Ret _, h) \<Rightarrow> (Ret ((5 * Second, None), reg), h)))))"

section \<open>Lemmas: candidates\<close>

lemma node_candidates_emits [emits_intros]:
  assumes "\<And>k a b. P (Read k a b)"
  shows "emits P (node_candidates en c pkgs pods)"
proof (induction pods)
  case Nil
  then show ?case by (simp add: emits_def)
next
  case (Cons pod pods)
  have "emits P (\<lambda>h. node_candidates en c pkgs (pod # pods) h)"
    unfolding node_candidates.simps by (auto intro!: emits_intros assms Cons.IH)
  then show ?case by simp
qed

text \<open>What makes a candidate: an owner, whose parent carries the annotations of the package.\<close>

definition annotated :: "env \<Rightarrow> kclient \<Rightarrow> candidate \<Rightarrow> bool" where
  "annotated en c x \<longleftrightarrow>
     (\<exists>kind name parent parentKind g g'. GetWorkloadOwnerControllerInfo (nc_pod x) = (kind, name, True) \<and>
        GetParentAnnotations en c kind name (pod_Namespace (nc_pod x)) g = (Inr (Some parent, parentKind), g') \<and>
        policy_accept (nc_pkg x) (meta_Annotations parent) \<and>
        nc_workloadID x = pod_Namespace (nc_pod x) @ ''/'' @ name @ ''/'' @ kind)"

lemma node_candidates_annotated:
  assumes "node_candidates en c pkgs pods h = (cs, h')" and "x \<in> set cs"
  shows "nc_pkg x \<in> set pkgs \<and> nc_pod x \<in> set pods \<and> annotated en c x"
  using assms
proof (induction pods arbitrary: h cs h')
  case (Cons pod pods)
  obtain kind name own where own: "GetWorkloadOwnerControllerInfo pod = (kind, name, own)" by (metis surj_pair)
  obtain r h1 where r: "GetParentAnnotations en c kind name (pod_Namespace pod) h = (r, h1)" by fastforce
  show ?case
  proof (cases "own \<and> (\<exists>m pk. r = Inr (Some m, pk))")
    case False
    then have "\<exists>g. node_candidates en c pkgs pods g = (cs, h')"
      using Cons.prems(1) own r by (auto split: sum.splits option.splits prod.splits if_splits)
    with Cons.IH Cons.prems(2) show ?thesis by auto
  next
    case True
    then obtain m pk where m: "own" "r = Inr (Some m, pk)" by blast
    obtain cs1 h2 where rest: "node_candidates en c pkgs pods h1 = (cs1, h2)" by fastforce
    let ?new = "\<lambda>pkg. \<lparr>nc_pod = pod, nc_workloadID = pod_Namespace pod @ ''/'' @ name @ ''/'' @ kind, nc_pkg = pkg\<rparr>"
    have cs: "cs = map ?new (filter (\<lambda>pkg. policy_accept pkg (meta_Annotations m)) pkgs) @ cs1"
      using Cons.prems(1) own r m rest by simp
    show ?thesis
    proof (cases "x \<in> set cs1")
      case True
      with Cons.IH [OF rest] show ?thesis by simp
    next
      case False
      with Cons.prems(2) cs obtain pkg where x: "x = ?new pkg" "pkg \<in> set pkgs" "policy_accept pkg (meta_Annotations m)" by auto
      have "annotated en c x"
        unfolding annotated_def
        by (intro exI [of _ kind] exI [of _ name] exI [of _ m] exI [of _ pk] exI [of _ h] exI [of _ h1])
          (use own r m x in simp)
      with x show ?thesis by simp
    qed
  qed
qed simp

section \<open>Lemmas: what leaves everything as it is\<close>

text \<open>The policy is given back unchanged, unless the process dies, and nothing is written.\<close>

definition keeps :: "ClusterPolicy \<Rightarrow> hist \<Rightarrow> ClusterPolicy outcome \<times> hist \<Rightarrow> bool" where
  "keeps p h r \<longleftrightarrow> (fst r = Ret p \<or> fst r = Panic) \<and> writes (snd r) = writes h"

lemma keepsE:
  assumes "keeps p h (r, h')"
  obtains "r = Ret p" "writes h' = writes h" | "r = Panic" "writes h' = writes h"
  using assms by (auto simp: keeps_def)

definition all_transitioned :: "ClusterPolicy \<Rightarrow> bool" where
  "all_transitioned p \<longleftrightarrow> (\<forall>pkg \<in> set (cps_PackageSelectors (cpol_Spec p)). IsPackageTransitioned p pkg)"

lemma HandlePods_keeps:
  assumes "all_transitioned p"
  shows "keeps p h (HandlePodsOnNodeForPolicy en enc c pods p h)"
proof -
  let ?pkgs = "cps_PackageSelectors (cpol_Spec p)"
  obtain cs h1 where cs: "node_candidates en c ?pkgs pods h = (cs, h1)" by fastforce
  have w: "writes h1 = writes h" by (rule emits_reads_writes [OF node_candidates_emits cs]) simp
  have "\<forall>x \<in> set cs. \<not> node_wanted p x"
    using node_candidates_annotated [OF cs] assms by (auto simp: node_wanted_def all_transitioned_def)
  then have "pool_run 4 (o_Sched (os en) h1) node_wanted node_key (node_job en enc c) 0 cs [] [] p h1 = (Ret p, h1)"
    by (intro pool_run_nothing) simp_all
  with cs w show ?thesis by (simp add: HandlePodsOnNodeForPolicy_def keeps_def)
qed

text \<open>A node that is ready, or a policy without a package left, is passed over.\<close>

lemma handle_nodes_keeps:
  assumes "all_transitioned p \<or> (\<forall>n \<in> set nodes. GetNodeStatusSummary n = ''Ready'')"
  shows "\<exists>r h'. handle_nodes en enc c nodes p h = (r, h') \<and> writes h' = writes h \<and> (r = Panic \<or> (\<exists>err. r = Ret (p, err)))"
  using assms
proof (induction nodes arbitrary: h)
  case (Cons node nodes)
  then have rest: "\<exists>r h'. handle_nodes en enc c nodes p g = (r, h') \<and> writes h' = writes g \<and> (r = Panic \<or> (\<exists>err. r = Ret (p, err)))" for g
    by auto
  show ?case
  proof (cases "GetNodeStatusSummary node = ''Ready''")
    case True
    with rest show ?thesis by simp
  next
    case False
    with Cons.prems have all: "all_transitioned p" by auto
    let ?h = "Read ''PodList'' '''' (node_Name node) # h"
    show ?thesis
    proof (cases "w_ListPodsOnNode (wl en) h c (node_Name node)")
      case (Inl e)
      with False show ?thesis by (simp add: api_simps)
    next
      case (Inr pods)
      obtain r h1 where hp: "HandlePodsOnNodeForPolicy en enc c pods p ?h = (r, h1)" by fastforce
      with HandlePods_keeps [OF all, of ?h en enc c pods] have "keeps p ?h (r, h1)" by simp
      then show ?thesis using False Inr hp rest [of h1] by (elim keepsE) (auto simp: api_simps)
    qed
  qed
qed simp

lemma handleNodes_keeps:
  assumes "all_transitioned p \<or> (\<forall>g k nodes. w_ListNodes (wl en) g k = Inr nodes \<longrightarrow> (\<forall>n \<in> set nodes. GetNodeStatusSummary n = ''Ready''))"
    and "handleNodesInWorkloadCluster en enc capi p h = (r, h')"
  shows "writes h' = writes h \<and> (r = Panic \<or> (\<exists>err. r = Ret (p, err)))"
proof -
  obtain x h1 where cl: "GetClusterClient en capi h = (x, h1)" by fastforce
  have w: "writes h1 = writes h" by (rule emits_reads_writes [OF GetClusterClient_emits cl]) simp
  show ?thesis
  proof (cases "\<exists>c. x = Ret (Some c, True, None)")
    case False
    with assms(2) cl w show ?thesis
      by (auto simp: handleNodesInWorkloadCluster_def split: outcome.splits option.splits prod.splits if_splits)
  next
    case True
    then obtain c where c: "x = Ret (Some c, True, None)" by blast
    let ?h = "Read ''NodeList'' '''' '''' # h1"
    show ?thesis
    proof (cases "w_ListNodes (wl en) h1 c")
      case (Inl e)
      with assms(2) cl c w show ?thesis by (auto simp: handleNodesInWorkloadCluster_def api_simps)
    next
      case (Inr nodes)
      with assms(2) cl c have "handle_nodes en enc c nodes p ?h = (r, h')"
        by (simp add: handleNodesInWorkloadCluster_def api_simps)
      moreover have "all_transitioned p \<or> (\<forall>n \<in> set nodes. GetNodeStatusSummary n = ''Ready'')" using assms(1) Inr by blast
      ultimately show ?thesis using handle_nodes_keeps [of p nodes en enc c ?h] w by auto
    qed
  qed
qed

lemma machine_node_emits [emits_intros]:
  assumes "\<And>k a b. P (Read k a b)"
  shows "emits P (machine_node en c machine)"
  unfolding machine_node_def by (auto intro!: emits_intros assms)

lemma handle_worker_keeps:
  assumes "all_transitioned p"
  shows "keeps p h (handle_worker en enc c machine node p h)"
proof (cases node)
  case None
  then show ?thesis by (simp add: handle_worker_def keeps_def)
next
  case (Some n)
  have "keeps p (e # h) r \<Longrightarrow> \<not> is_write e \<Longrightarrow> keeps p h r" for e r by (cases e) (auto simp: keeps_def)
  from this [OF HandlePods_keeps [OF assms]] Some show ?thesis
    by (auto simp: handle_worker_def api_simps keeps_def split: sum.splits)
qed

text \<open>A machine that carries the name of the policy's cluster is taken for a control-plane machine.\<close>

lemma handleMachine_keeps:
  assumes "all_transitioned p \<or> mget (mach_Labels machine) cluster_name_label = selector_name p"
  shows "keeps p h (handleWorkloadClusterMachine en enc capi machine p h)"
proof -
  obtain x h1 where cl: "GetClusterClient en capi h = (x, h1)" by fastforce
  have w: "writes h1 = writes h" by (rule emits_reads_writes [OF GetClusterClient_emits cl]) simp
  show ?thesis
  proof (cases "\<exists>c. x = Ret (Some c, True, None)")
    case False
    with cl w show ?thesis
      by (auto simp: handleWorkloadClusterMachine_def keeps_def split: outcome.splits option.splits prod.splits if_splits)
  next
    case True
    then obtain c where c: "x = Ret (Some c, True, None)" by blast
    obtain n h2 where n: "machine_node en c machine h1 = (n, h2)" by fastforce
    have w2: "writes h2 = writes h1" by (rule emits_reads_writes [OF machine_node_emits n]) simp
    have "keeps p h2 (handle_worker en enc c machine node p h2)" if "all_transitioned p" for node
      using that by (rule handle_worker_keeps)
    with assms cl c n w w2 show ?thesis
      by (cases n) (auto simp: handleWorkloadClusterMachine_def keeps_def)
  qed
qed

lemma handle_machines_keeps:
  assumes "all_transitioned p \<or> (\<forall>m \<in> set machines. mget (mach_Labels m) cluster_name_label = selector_name p)"
  shows "keeps p h (handle_machines en enc capi machines p h)"
  using assms
proof (induction machines arbitrary: h)
  case Nil
  show ?case by (simp add: keeps_def)
next
  case (Cons m ms)
  then have rest: "keeps p g (handle_machines en enc capi ms p g)" for g by auto
  obtain r h1 where r: "handleWorkloadClusterMachine en enc capi m p h = (r, h1)" by fastforce
  have "keeps p h (r, h1)" using handleMachine_keeps [of p m h en enc capi] Cons.prems r by auto
  then show ?case using rest [of h] rest [of h1] r by (elim keepsE) (auto simp: keeps_def)
qed

text \<open>What a list with a label selector promises: every object carries the labels asked for.\<close>

definition selector_law :: "env \<Rightarrow> bool" where
  "selector_law en \<longleftrightarrow>
     (\<forall>h ns sel ms m k v. m_ListMachines (mgmt en) h ns sel = Inr ms \<longrightarrow> m \<in> set ms \<longrightarrow> map_of sel k = Some v \<longrightarrow>
        mget (mach_Labels m) k = v)"

lemma performActions_keeps:
  assumes "all_transitioned p \<or> selector_law en \<and> selector_name p = cl_Name cluster \<and>
      (\<forall>g k nodes. w_ListNodes (wl en) g k = Inr nodes \<longrightarrow> (\<forall>n \<in> set nodes. GetNodeStatusSummary n = ''Ready''))"
  shows "keeps p h (performWorkloadClusterPolicyActions en enc cluster p h)"
proof -
  let ?sel = "[(cluster_name_label, cl_Name cluster)]"
  obtain x h1 where ca: "GetCapiClusterFromName en (cl_Name cluster) (cl_Namespace cluster) h = (x, h1)" by fastforce
  have "emits (\<lambda>e. \<not> is_write e) (GetCapiClusterFromName en (cl_Name cluster) (cl_Namespace cluster))"
    unfolding GetCapiClusterFromName_def by (auto intro!: emits_intros)
  note w = emits_reads_writes [OF this ca]
  let ?h = "Read ''MachineList'' (cl_Namespace cluster) '''' # h1"
  show ?thesis
  proof (cases "\<exists>capi ms. x = Inr capi \<and> cl_Phase cluster = ''Provisioned'' \<and>
      m_ListMachines (mgmt en) h1 (cl_Namespace cluster) ?sel = Inr ms")
    case False
    with ca w show ?thesis
      by (auto simp: performWorkloadClusterPolicyActions_def keeps_def api_simps split: sum.splits)
  next
    case True
    then obtain capi ms where ms: "x = Inr capi" "cl_Phase cluster = ''Provisioned''"
      "m_ListMachines (mgmt en) h1 (cl_Namespace cluster) ?sel = Inr ms" by blast
    have here: "map_of ?sel cluster_name_label = Some (cl_Name cluster)" by simp
    have "mget (mach_Labels m) cluster_name_label = cl_Name cluster" if "selector_law en" "m \<in> set ms" for m
      using that(1) [unfolded selector_law_def, rule_format, OF ms(3) that(2) here] .
    with assms have mk: "keeps p ?h (handle_machines en enc capi ms p ?h)"
      by (intro handle_machines_keeps) auto
    obtain r h2 where r: "handle_machines en enc capi ms p ?h = (r, h2)" by fastforce
    obtain s h3 where s: "handleNodesInWorkloadCluster en enc capi p h2 = (s, h3)" by fastforce
    have "writes h3 = writes h2 \<and> (s = Panic \<or> (\<exists>err. s = Ret (p, err)))"
      by (rule handleNodes_keeps [OF _ s]) (use assms in blast)
    with mk [unfolded r] ca w ms r s show ?thesis
      by (elim keepsE) (auto simp: performWorkloadClusterPolicyActions_def keeps_def api_simps)
  qed
qed

lemma handle_clusters_keeps:
  assumes "all_transitioned p"
  shows "keeps p h (handle_clusters en enc clusters p h)"
proof (induction clusters arbitrary: h)
  case Nil
  show ?case by (simp add: keeps_def)
next
  case (Cons c cs)
  obtain r h1 where r: "performWorkloadClusterPolicyActions en enc c p h = (r, h1)" by fastforce
  have "keeps p h (r, h1)" using performActions_keeps [of p en c h enc] assms r by simp
  then show ?case using Cons.IH [of h] Cons.IH [of h1] r by (elim keepsE) (auto simp: keeps_def)
qed

section \<open>Lemmas: checkpoints\<close>

lemma Perform_transitioned:
  assumes "IsPackageTransitioned p pkg" and "PerformWorkloadClusterCheckpointAction en pkg p n h = (r, h')"
  shows "writes h' = writes h"
proof -
  obtain r1 h1 where m: "create_missing_checkpoints en pkg p (policy_accept pkg) (perform_key pkg) n
      (Read ''CheckpointList'' '''' '''' # h) = (r1, h1)" by fastforce
  from create_missing_writes [OF m] assms(1) have "writes h1 = writes h" by auto
  with assms(2) m show ?thesis
    by (auto simp: PerformWorkloadClusterCheckpointAction_def api_simps split: sum.splits if_splits)
qed

lemma live_checkpoint_writes:
  assumes "IsPackageTransitioned p pkg"
  shows "writes (snd (CreateCheckpointForLiveStatePackage en clusters pkg p h)) = writes h"
proof (induction clusters arbitrary: h)
  case (Cons c cs)
  obtain r h1 where r: "PerformWorkloadClusterCheckpointAction en pkg p (cl_Name c) h = (r, h1)" by fastforce
  have "writes h1 = writes h" by (rule Perform_transitioned [OF assms r])
  with Cons.IH [of h1] Cons.IH [of h] r show ?case by (cases r) (auto split: option.splits)
qed simp

lemma create_live_checkpoints_writes:
  assumes "\<forall>pkg \<in> set pkgs. IsPackageTransitioned p pkg"
  shows "writes (snd (create_live_checkpoints en clusters pkgs p h)) = writes h"
  using assms
proof (induction pkgs arbitrary: h)
  case (Cons pkg pkgs)
  then have rest: "writes (snd (create_live_checkpoints en clusters pkgs p g)) = writes g" for g by simp
  obtain r h1 where r: "CreateCheckpointForLiveStatePackage en clusters pkg p h = (r, h1)" by fastforce
  with live_checkpoint_writes [of p pkg en clusters h] Cons.prems have "writes h1 = writes h" by simp
  with rest [of h1] rest [of h] r show ?case by (cases r) auto
qed simp

section \<open>Properties\<close>


text \<open>A pod of the sample workload, and a node on which it runs.\<close>

definition video_pod :: Pod where
  "video_pod = \<lparr>pod_Name = ''video-0'', pod_Namespace = ''default'',
     pod_OwnerReferences = [\<lparr>ref_Kind = ''StatefulSet'', ref_Name = ''video'', ref_Controller = Some True\<rparr>],
     pod_NodeName = ''worker-1'', pod_Containers = [], pod_Phase = PodRunning, pod_PodIP = '''', pod_ReadyConditions = [],
     pod_Labels = [], pod_Tolerations = [], pod_RestartPolicy = '''', pod_HostNetwork = False\<rparr>"

definition node_env :: env where
  "node_env = (dr_env ConditionTrue)\<lparr>wl := (wl (dr_env ConditionTrue))\<lparr>w_GetWorkload := (\<lambda>_ _ _ ns n.
     Inr \<lparr>meta_Name = n, meta_Namespace = ns, meta_Annotations = policy_annotations, meta_OwnerReferences = []\<rparr>)\<rparr>\<rparr>"


text \<open>
  The cluster that the sample policy selects: all its nodes are ready, one of its machines
  failed; and the sample policy once both of its packages were moved.
\<close>

definition ready_node :: Node where
  "ready_node = \<lparr>node_Name = ''worker-1'', node_Labels = [], node_Conditions = [\<lparr>cond_Type = NodeReady,
     cond_Status = ConditionTrue, cond_Reason = '''', cond_Message = '''', cond_LastTransitionTime = 1\<rparr>], node_Addresses = []\<rparr>"

definition azure_cluster :: Cluster where
  "azure_cluster = (dr_cluster ConditionTrue)\<lparr>cl_Name := ''cluster1-azure''\<rparr>"

definition finished_policy :: ClusterPolicy where
  "finished_policy = append_transition
     \<lparr>tp_PackageSelectors = [web_pkg], tp_LastTransitionTime = 9,
      tp_PackageTransitionCondition = PackageTransitionConditionCompleted, tp_PackageTransitionMessage = ''''\<rparr>
     done_policy"

definition healthy_env :: env where
  "healthy_env = node_env\<lparr>
     mgmt := (mgmt node_env)\<lparr>m_GetPolicy := (\<lambda>_ _ _. Inr finished_policy), m_ListClusters := (\<lambda>_. Inr [azure_cluster]),
       m_ListMachines := (\<lambda>_ ns sel. Inr [\<lparr>mach_Name = ''m1'', mach_Namespace = ns, mach_Labels = sel,
          mach_Phase = ''Failed'', mach_Addresses = [], mach_NodeRef = None, mach_ClusterName = ''''\<rparr>])\<rparr>,
     wl := (wl node_env)\<lparr>w_ListNodes := (\<lambda>_ _. Inr [ready_node]), w_GetNode := (\<lambda>_ _ _. Inr ready_node)\<rparr>\<rparr>"

text \<open>
  C8. A policy that has done its work stays quiet. If every package of the policy is recorded
  as transitioned when a reconcile reads it, then that reconcile writes nothing: it creates no
  checkpoint, pushes nothing and does not touch the status, whatever the state of the
  clusters, machines and nodes.
\<close>

theorem Reconcile_of_transitioned_policy_is_idle:
  assumes "Reconcile_ClusterPolicy en enc ns name reg h = (res, h')"
    and "\<And>p. m_GetPolicy (mgmt en) (Read ''ClusterList'' '''' '''' # h) ns name = Inr p \<Longrightarrow> all_transitioned p"
  shows "writes h' = writes h"
proof (cases "m_ListClusters (mgmt en) h")
  case (Inl e)
  with assms(1) show ?thesis by (auto simp: Reconcile_ClusterPolicy_def api_simps)
next
  case (Inr clusters)
  let ?h1 = "Read ''ClusterList'' '''' '''' # h" and ?h2 = "Read ''ClusterPolicy'' ns name # Read ''ClusterList'' '''' '''' # h"
  show ?thesis
  proof (cases "m_GetPolicy (mgmt en) ?h1 ns name")
    case (Inl e)
    with Inr assms(1) show ?thesis by (auto simp: Reconcile_ClusterPolicy_def api_simps)
  next
    case p: (Inr p)
    then have all: "all_transitioned p" by (rule assms(2))
    let ?pkgs = "cps_PackageSelectors (cpol_Spec p)"
    obtain r h3 where r: "create_live_checkpoints en clusters ?pkgs p ?h2 = (r, h3)" by fastforce
    with all create_live_checkpoints_writes [of ?pkgs p en clusters ?h2] have w: "writes h3 = writes h"
      by (simp add: all_transitioned_def)
    obtain s h4 where s: "handle_clusters en enc clusters p h3 = (s, h4)" by fastforce
    with handle_clusters_keeps [OF all, of h3 en enc clusters] have "writes h4 = writes h3" by (simp add: keeps_def)
    with assms(1) Inr p r s w show ?thesis
      by (cases r; cases s) (auto simp: Reconcile_ClusterPolicy_def api_simps Let_def)
  qed
qed

theorem Reconcile_of_transitioned_policy_is_idle_witness:
  "\<exists>res h'. Reconcile_ClusterPolicy healthy_env down_env ''default'' ''clusterpolicy-sample'' [] [] = (res, h') \<and> writes h' = [] \<and>
     (case res of Ret ((d, err), reg) \<Rightarrow> d = 5 * Second \<and> length reg = 2 | Panic \<Rightarrow> False)"
proof -
  obtain res h' where run: "Reconcile_ClusterPolicy healthy_env down_env ''default'' ''clusterpolicy-sample'' [] [] = (res, h')"
    by fastforce
  have "IsPackageTransitioned finished_policy video_pkg" "IsPackageTransitioned finished_policy web_pkg"
    by code_simp+
  then have all: "all_transitioned finished_policy"
    by (simp add: all_transitioned_def finished_policy_def done_policy_def sample_policy_def)
  have "writes h' = writes []"
    by (rule Reconcile_of_transitioned_policy_is_idle [OF run]) (use all in \<open>simp add: healthy_env_def\<close>)
  moreover have "case fst (Reconcile_ClusterPolicy healthy_env down_env ''default'' ''clusterpolicy-sample'' [] []) of
      Ret ((d, err), reg) \<Rightarrow> d = 5 * Second \<and> length reg = 2 | Panic \<Rightarrow> False" by code_simp
  ultimately show ?thesis using run by (intro exI [of _ res] exI [of _ h'] conjI) simp_all
qed



end
