(* ===== verification/Go_Heap.thy ===== *)
theory Go_Heap
  imports Main "HOL-Library.Sublist"
begin

text \<open>
  The memory that Go objects live in, as far as aliasing matters: a heap is a list of cells, an
  address an index into it, and allocation adds a cell at the end. A cell holds an array of
  elements of one type; what \<^verbatim>\<open>new(T)\<close> gives is an array of one. Over it, the two statements that
  the generated copy functions of \<^verbatim>\<open>src/api/v1\<close> consist of: the copy of a slice (\<^verbatim>\<open>make\<close> and a loop)
  and of a pointer (\<^verbatim>\<open>new\<close> and an assignment). The locale \<open>deepcopy\<close> is the contract of a copy
  function, and it is shown to pass from the fields of a struct and the elements of a slice to the
  whole.
\<close>

section \<open>Definitions: cells\<close>

text \<open>A slice is the address of its array and a length; the array's length is the capacity.\<close>

record slice =
  sl_array :: "nat option"
  sl_len :: nat

definition nil_slice :: slice where
  "nil_slice = \<lparr>sl_array = None, sl_len = 0\<rparr>"

type_synonym 'c heap = "'c list"

text \<open>
  A copy function takes the object to its copy, and extends the heap. A loader follows the
  references of an object: it gives the value the object represents and the addresses it
  visited, and fails on a reference that is not one to a cell of the right type.
\<close>

type_synonym ('c, 'a) copier = "'a \<Rightarrow> 'c heap \<Rightarrow> 'a \<times> 'c heap"

type_synonym ('c, 'a, 'b) loader = "'c heap \<Rightarrow> 'a \<Rightarrow> ('b \<times> nat list) option"

definition alloc :: "'c \<Rightarrow> 'c heap \<Rightarrow> nat \<times> 'c heap" where
  "alloc c h = (length h, h @ [c])"

text \<open>\<open>mk\<close> makes a cell of an array and \<open>un\<close> reads it, for the type of the elements.\<close>

definition elem :: "('c \<Rightarrow> 'a list option) \<Rightarrow> 'c heap \<Rightarrow> nat \<Rightarrow> nat \<Rightarrow> 'a" where
  "elem un h a i = the (un (h ! a)) ! i"

definition set_elem :: "('a list \<Rightarrow> 'c) \<Rightarrow> ('c \<Rightarrow> 'a list option) \<Rightarrow> nat \<Rightarrow> nat \<Rightarrow> 'a \<Rightarrow> 'c heap \<Rightarrow> 'c heap" where
  "set_elem mk un b i y h = h[b := mk ((the (un (h ! b)))[i := y])]"

section \<open>Definitions: copies\<close>

text \<open>\<^verbatim>\<open>*out = *in\<close> for a type without references, and \<^verbatim>\<open>copy\<close> element by element.\<close>

definition copy_value :: "('c, 'a) copier" where
  "copy_value x h = (x, h)"

fun copy_elems ::
  "('a list \<Rightarrow> 'c) \<Rightarrow> ('c \<Rightarrow> 'a list option) \<Rightarrow> ('c, 'a) copier \<Rightarrow> nat \<Rightarrow> nat \<Rightarrow> nat \<Rightarrow> nat \<Rightarrow> 'c heap \<Rightarrow> 'c heap" where
  "copy_elems mk un cp a b i 0 h = h"
| "copy_elems mk un cp a b i (Suc k) h =
     (case cp (elem un h a i) h of (y, h) \<Rightarrow> copy_elems mk un cp a b (Suc i) k (set_elem mk un b i y h))"

definition copy_slice :: "('a list \<Rightarrow> 'c) \<Rightarrow> ('c \<Rightarrow> 'a list option) \<Rightarrow> 'a \<Rightarrow> ('c, 'a) copier \<Rightarrow> ('c, slice) copier" where
  "copy_slice mk un zero cp s h =
     (case sl_array s of
        None \<Rightarrow> (s, h)
      | Some a \<Rightarrow>
          (case alloc (mk (replicate (sl_len s) zero)) h of (b, h) \<Rightarrow>
             (\<lparr>sl_array = Some b, sl_len = sl_len s\<rparr>, copy_elems mk un cp a b 0 (sl_len s) h)))"

definition copy_ptr :: "('a list \<Rightarrow> 'c) \<Rightarrow> ('c \<Rightarrow> 'a list option) \<Rightarrow> 'a \<Rightarrow> ('c, 'a) copier \<Rightarrow> ('c, nat option) copier" where
  "copy_ptr mk un zero cp p h =
     (case p of
        None \<Rightarrow> (None, h)
      | Some a \<Rightarrow>
          (case alloc (mk [zero]) h of (b, h) \<Rightarrow>
             (case cp (elem un h a 0) h of (y, h) \<Rightarrow> (Some b, set_elem mk un b 0 y h))))"

text \<open>\<^verbatim>\<open>if in.F != nil { out.F = in.F.DeepCopy() }\<close> for a type that another package copies.\<close>

definition copy_non_nil :: "('c, nat option) copier \<Rightarrow> ('c, nat option) copier" where
  "copy_non_nil cp p h = (case p of None \<Rightarrow> (None, h) | Some _ \<Rightarrow> cp p h)"

text \<open>Two fields, one after the other.\<close>

definition copy_pair :: "('c, 'a) copier \<Rightarrow> ('c, 'b) copier \<Rightarrow> ('c, 'a \<times> 'b) copier" where
  "copy_pair c1 c2 p h = (case c1 (fst p) h of (x, h) \<Rightarrow> (case c2 (snd p) h of (y, h) \<Rightarrow> ((x, y), h)))"

section \<open>Definitions: loaders\<close>

definition load_value :: "('a \<Rightarrow> 'b) \<Rightarrow> ('c, 'a, 'b) loader" where
  "load_value f h x = Some (f x, [])"

definition load_pair :: "('c, 'a, 'b) loader \<Rightarrow> ('c, 'd, 'e) loader \<Rightarrow> ('c, 'a \<times> 'd, 'b \<times> 'e) loader" where
  "load_pair l1 l2 h p =
     (case l1 h (fst p) of
        None \<Rightarrow> None
      | Some (v, R) \<Rightarrow> (case l2 h (snd p) of None \<Rightarrow> None | Some (w, S) \<Rightarrow> Some ((v, w), R @ S)))"

fun load_all :: "('c, 'a, 'b) loader \<Rightarrow> ('c, 'a list, 'b list) loader" where
  "load_all ld h [] = Some ([], [])"
| "load_all ld h (x # xs) =
     (case ld h x of
        None \<Rightarrow> None
      | Some (v, R) \<Rightarrow> (case load_all ld h xs of None \<Rightarrow> None | Some (vs, S) \<Rightarrow> Some (v # vs, R @ S)))"

text \<open>The elements of a slice; a nil slice is empty, and a slice reads no further than its length.\<close>

definition load_slice :: "('c \<Rightarrow> 'a list option) \<Rightarrow> ('c, 'a, 'b) loader \<Rightarrow> ('c, slice, 'b list) loader" where
  "load_slice un ld h s =
     (case sl_array s of
        None \<Rightarrow> if sl_len s = 0 then Some ([], []) else None
      | Some a \<Rightarrow>
          if a < length h
          then (case un (h ! a) of
                  None \<Rightarrow> None
                | Some xs \<Rightarrow>
                    if sl_len s \<le> length xs
                    then (case load_all ld h (take (sl_len s) xs) of None \<Rightarrow> None | Some (vs, R) \<Rightarrow> Some (vs, a # R))
                    else None)
          else None)"

definition load_ptr :: "('c \<Rightarrow> 'a list option) \<Rightarrow> ('c, 'a, 'b) loader \<Rightarrow> ('c, nat option, 'b option) loader" where
  "load_ptr un ld h p =
     (case p of
        None \<Rightarrow> Some (None, [])
      | Some a \<Rightarrow>
          if a < length h
          then (case un (h ! a) of
                  Some [x] \<Rightarrow> (case ld h x of None \<Rightarrow> None | Some (v, R) \<Rightarrow> Some (Some v, a # R))
                | _ \<Rightarrow> None)
          else None)"

text \<open>
  A struct is the fields that hold references and the rest: \<open>get\<close> and \<open>put\<close> read and write those
  fields, and \<open>build\<close> makes the value of the struct from theirs. A copy function assigns
  the whole struct, \<^verbatim>\<open>*out = *in\<close>, and then the copies of those fields, one after the other.
\<close>

definition copy_fields :: "('s \<Rightarrow> 'a) \<Rightarrow> ('s \<Rightarrow> 'a \<Rightarrow> 's) \<Rightarrow> ('c, 'a) copier \<Rightarrow> ('c, 's) copier" where
  "copy_fields get put cp s h = (case cp (get s) h of (y, h) \<Rightarrow> (put s y, h))"

definition load_fields :: "('s \<Rightarrow> 'a) \<Rightarrow> ('s \<Rightarrow> 'b \<Rightarrow> 'v) \<Rightarrow> ('c, 'a, 'b) loader \<Rightarrow> ('c, 's, 'v) loader" where
  "load_fields get build ld h s = map_option (\<lambda>(v, R). (build s v, R)) (ld h (get s))"

text \<open>When a loader succeeds.\<close>

lemma load_pair_Some:
  "load_pair l1 l2 h (x, y) = Some (w, R) \<longleftrightarrow>
     (\<exists>v1 R1 v2 R2. l1 h x = Some (v1, R1) \<and> l2 h y = Some (v2, R2) \<and> w = (v1, v2) \<and> R = R1 @ R2)"
  by (auto simp: load_pair_def split: option.splits)

lemma load_all_Cons_Some:
  "load_all ld h (x # xs) = Some (ws, R) \<longleftrightarrow>
     (\<exists>v R1 vs R2. ld h x = Some (v, R1) \<and> load_all ld h xs = Some (vs, R2) \<and> ws = v # vs \<and> R = R1 @ R2)"
  by (auto split: option.splits)

lemma load_slice_Some:
  "load_slice un ld h s = Some (vs, R) \<longleftrightarrow>
     sl_array s = None \<and> sl_len s = 0 \<and> vs = [] \<and> R = [] \<or>
     (\<exists>a xs S. sl_array s = Some a \<and> a < length h \<and> un (h ! a) = Some xs \<and> sl_len s \<le> length xs \<and>
        load_all ld h (take (sl_len s) xs) = Some (vs, S) \<and> R = a # S)"
  by (auto simp: load_slice_def split: option.splits)

lemma load_ptr_Some:
  "load_ptr un ld h p = Some (w, R) \<longleftrightarrow>
     p = None \<and> w = None \<and> R = [] \<or>
     (\<exists>a x v S. p = Some a \<and> a < length h \<and> un (h ! a) = Some [x] \<and> ld h x = Some (v, S) \<and> w = Some v \<and> R = a # S)"
  by (auto simp: load_ptr_def split: option.splits list.splits)

section \<open>The contract of a copy function\<close>

text \<open>Two heaps agree on some addresses; and one differs from another at some addresses only.\<close>

definition agree :: "nat list \<Rightarrow> 'c heap \<Rightarrow> 'c heap \<Rightarrow> bool" where
  "agree R h g \<longleftrightarrow> (\<forall>a \<in> set R. a < length g \<and> g ! a = h ! a)"

definition writes_only :: "nat list \<Rightarrow> 'c heap \<Rightarrow> 'c heap \<Rightarrow> bool" where
  "writes_only S h g \<longleftrightarrow> length h \<le> length g \<and> (\<forall>a < length h. a \<notin> set S \<longrightarrow> g ! a = h ! a)"

lemma agree_prefix: "prefix h g \<Longrightarrow> \<forall>a \<in> set R. a < length h \<Longrightarrow> agree R h g"
  by (auto simp: agree_def prefix_def nth_append)

lemma agree_append [simp]: "agree (R @ S) h g \<longleftrightarrow> agree R h g \<and> agree S h g"
  by (auto simp: agree_def)

lemma agree_Cons [simp]: "agree (a # R) h g \<longleftrightarrow> a < length g \<and> g ! a = h ! a \<and> agree R h g"
  by (auto simp: agree_def)

lemma agree_Nil [simp]: "agree [] h g"
  by (simp add: agree_def)

lemma writes_only_agree: "writes_only S h g \<Longrightarrow> \<forall>a \<in> set R. a < length h \<Longrightarrow> set R \<inter> set S = {} \<Longrightarrow> agree R h g"
  by (fastforce simp: writes_only_def agree_def)

text \<open>
  What a loader promises: it depends on the cells it visits and on nothing else. What a copy
  function promises for an object that can be loaded: it keeps all that was there, the copy has
  the value of the original, and all that the copy refers to is new, with no cell twice.
\<close>

locale loads =
  fixes ld :: "('c, 'a, 'b) loader"
  assumes frame: "ld h x = Some (v, R) \<Longrightarrow> agree R h g \<Longrightarrow> ld g x = Some (v, R)"
    and inside: "ld h x = Some (v, R) \<Longrightarrow> \<forall>a \<in> set R. a < length h"

locale deepcopy = loads ld for ld :: "('c, 'a, 'b) loader" +
  fixes cp :: "('c, 'a) copier"
  assumes copies: "ld h x = Some (v, R) \<Longrightarrow> cp x h = (y, h') \<Longrightarrow>
    prefix h h' \<and> (\<exists>S. ld h' y = Some (v, S) \<and> (\<forall>a \<in> set S. length h \<le> a) \<and> distinct S)"

context loads
begin

lemma load_prefix: "ld h x = Some (v, R) \<Longrightarrow> prefix h g \<Longrightarrow> ld g x = Some (v, R)"
  using agree_prefix inside frame by blast

lemma load_all_frame: "load_all ld h xs = Some (vs, R) \<Longrightarrow> agree R h g \<Longrightarrow> load_all ld g xs = Some (vs, R)"
proof (induction xs arbitrary: vs R)
  case (Cons x xs)
  then show ?case unfolding load_all_Cons_Some by (metis agree_append frame)
qed simp

lemma load_all_inside: "load_all ld h xs = Some (vs, R) \<Longrightarrow> \<forall>a \<in> set R. a < length h"
proof (induction xs arbitrary: vs R)
  case (Cons x xs)
  then obtain v R1 vs' R2 where "ld h x = Some (v, R1)" "load_all ld h xs = Some (vs', R2)" "R = R1 @ R2"
    unfolding load_all_Cons_Some by blast
  with inside [OF this(1)] Cons.IH show ?case by auto
qed simp

lemma loads_slice: "loads (load_slice un ld)"
proof
  fix h s vs R and g :: "'c heap"
  assume l: "load_slice un ld h s = Some (vs, R)"
  then show "\<forall>a \<in> set R. a < length h"
    by (auto simp: load_slice_Some dest!: load_all_inside)
  assume "agree R h g"
  with l show "load_slice un ld g s = Some (vs, R)"
    by (auto simp: load_slice_Some dest: load_all_frame)
qed

lemma loads_ptr: "loads (load_ptr un ld)"
proof
  fix h p v R and g :: "'c heap"
  assume l: "load_ptr un ld h p = Some (v, R)"
  then show "\<forall>a \<in> set R. a < length h"
    by (auto simp: load_ptr_Some dest!: inside)
  assume "agree R h g"
  with l show "load_ptr un ld g p = Some (v, R)"
    by (auto simp: load_ptr_Some dest: frame)
qed

end

lemma load_all_append_Some:
  "load_all ld h (xs @ ys) = Some (ws, R) \<longleftrightarrow>
     (\<exists>v1 R1 v2 R2. load_all ld h xs = Some (v1, R1) \<and> load_all ld h ys = Some (v2, R2) \<and> ws = v1 @ v2 \<and> R = R1 @ R2)"
proof (induction xs arbitrary: ws R)
  case (Cons x xs)
  then show ?case by (simp only: append_Cons load_all_Cons_Some) (fastforce simp: append_assoc)
qed auto

lemma prefix_nthI: "length h \<le> length g \<Longrightarrow> (\<And>c. c < length h \<Longrightarrow> g ! c = h ! c) \<Longrightarrow> prefix h g"
  by (metis nth_take_lemma order_refl take_all take_is_prefix)

text \<open>
  The loop, after some elements: the new array holds their copies and zero values, what the copies refer
  to lies behind the array, and the elements still to come lie before it.
\<close>

context deepcopy
begin

lemma copy_elems_copies:
  assumes mk: "\<And>zs. un (mk zs) = Some zs"
    and "a < b" "b < length h" "un (h ! a) = Some xs" "length ys + k \<le> length xs"
    and "un (h ! b) = Some (ys @ replicate k zero)"
    and "load_all ld h ys = Some (vs, S)" "\<forall>c \<in> set S. b < c" "distinct S"
    and "load_all ld h (take k (drop (length ys) xs)) = Some (ws, R)" "\<forall>c \<in> set R. c < b"
    and "copy_elems mk un cp a b (length ys) k h = h'"
  shows "length h \<le> length h' \<and> (\<forall>c < length h. c \<noteq> b \<longrightarrow> h' ! c = h ! c) \<and>
    (\<exists>ys' S'. un (h' ! b) = Some ys' \<and> length ys' = length ys + k \<and> load_all ld h' ys' = Some (vs @ ws, S') \<and>
       (\<forall>c \<in> set S'. b < c) \<and> distinct S')"
  using assms(2-)
proof (induction k arbitrary: h ys vs S ws R)
  case 0
  then show ?case by auto
next
  case (Suc k)
  let ?i = "length ys" and ?x = "xs ! length ys"
  have split: "take (Suc k) (drop ?i xs) = ?x # take k (drop (Suc ?i) xs)"
    using Suc.prems(4) by (simp add: Cons_nth_drop_Suc [symmetric])
  from Suc.prems(9) obtain w R1 ws' R2 where x: "ld h ?x = Some (w, R1)"
    and rest: "load_all ld h (take k (drop (Suc ?i) xs)) = Some (ws', R2)" and ws: "ws = w # ws'" "R = R1 @ R2"
    unfolding split load_all_Cons_Some by blast
  obtain y h1 where cp: "cp ?x h = (y, h1)" by fastforce
  from copies [OF x cp] obtain S1 where p: "prefix h h1" and y: "ld h1 y = Some (w, S1)"
    and S1: "\<forall>c \<in> set S1. length h \<le> c" "distinct S1" by blast
  from p obtain new where h1: "h1 = h @ new" by (auto simp: prefix_def)
  define h2 where "h2 = set_elem mk un b ?i y h1"
  have h2: "h2 = h1[b := mk ((ys @ [y]) @ replicate k zero)]"
    using Suc.prems(2,5) by (simp add: h2_def set_elem_def h1 nth_append list_update_append)
  have same: "c < length h \<Longrightarrow> c \<noteq> b \<Longrightarrow> h2 ! c = h ! c" for c by (simp add: h2 h1 nth_append)
  have S: "\<forall>c \<in> set S. c < length h" using load_all_inside [OF Suc.prems(6)] .
  have "c < b \<and> c < length h" if "c \<in> set R2" for c using that Suc.prems(2,10) ws by (metis UnI2 less_trans set_append)
  then have "agree R2 h h2" using same by (fastforce simp: agree_def h2 h1)
  moreover have "agree S h h2" "agree S1 h1 h2"
    using S S1 Suc.prems(1,2,7) inside [OF y] same by (auto simp: agree_def h2 h1 nth_append)
  ultimately have "load_all ld h2 ys = Some (vs, S)" "ld h2 y = Some (w, S1)"
    and "load_all ld h2 (take k (drop (Suc ?i) xs)) = Some (ws', R2)"
    by (auto intro: load_all_frame [OF Suc.prems(6)] frame [OF y] load_all_frame [OF rest])
  then have copied: "load_all ld h2 (ys @ [y]) = Some (vs @ [w], S @ S1)"
    and rest2: "load_all ld h2 (take k (drop (length (ys @ [y])) xs)) = Some (ws', R2)"
    unfolding load_all_append_Some by auto
  have run: "copy_elems mk un cp a b (length (ys @ [y])) k h2 = h'"
    using Suc.prems(11) cp by (simp add: elem_def Suc.prems(3) h2_def)
  have 1: "b < length h2" "un (h2 ! a) = Some xs" "length (ys @ [y]) + k \<le> length xs"
    "un (h2 ! b) = Some ((ys @ [y]) @ replicate k zero)"
    using Suc.prems(1-4) same [of a] mk by (auto simp: h2 h1)
  have "set S \<inter> set S1 = {}" using S S1(1) by (meson disjoint_iff leD)
  then have 2: "\<forall>c \<in> set (S @ S1). b < c" "distinct (S @ S1)" "\<forall>c \<in> set R2. c < b"
    using Suc.prems(2,7,8,10) S1 ws by auto
  from Suc.IH [OF Suc.prems(1) 1 copied 2(1,2) rest2 2(3) run] same ws show ?case
    by (auto simp: h2 h1 nth_append)
qed

lemma copy_array:
  assumes mk: "\<And>zs. un (mk zs) = Some zs" and xs: "a < length h" "un (h ! a) = Some xs" "n \<le> length xs"
    "load_all ld h (take n xs) = Some (vs, R)"
    and run: "copy_elems mk un cp a (length h) 0 n (h @ [mk (replicate n zero)]) = h'"
  shows "prefix h h' \<and> length h < length h' \<and>
    (\<exists>ys S. un (h' ! length h) = Some ys \<and> length ys = n \<and> load_all ld h' ys = Some (vs, S) \<and>
       (\<forall>c \<in> set S. length h < c) \<and> distinct S)"
proof -
  let ?b = "length h" and ?h0 = "h @ [mk (replicate n zero)]"
  have R: "\<forall>c \<in> set R. c < ?b" using load_all_inside [OF xs(4)] .
  then have "load_all ld ?h0 (take n xs) = Some (vs, R)"
    by (intro load_all_frame [OF xs(4)] agree_prefix) auto
  with xs R run have "?b + 1 \<le> length h' \<and> (\<forall>c < ?b + 1. c \<noteq> ?b \<longrightarrow> h' ! c = ?h0 ! c) \<and>
      (\<exists>ys S. un (h' ! ?b) = Some ys \<and> length ys = n \<and> load_all ld h' ys = Some (vs, S) \<and>
         (\<forall>c \<in> set S. ?b < c) \<and> distinct S)"
    using copy_elems_copies [OF mk, of a ?b ?h0 xs "[]" n zero "[]" "[]" vs R h'] by (auto simp: nth_append mk)
  moreover from this have "prefix h h'" by (intro prefix_nthI) (auto simp: nth_append)
  ultimately show ?thesis by auto
qed

end

section \<open>How contracts compose\<close>

lemma deepcopy_value: "deepcopy (load_value f) copy_value"
  by unfold_locales (auto simp: load_value_def copy_value_def)

lemma loads_pair:
  assumes "loads l1" and "loads l2"
  shows "loads (load_pair l1 l2)"
proof
  fix h p w R and g
  assume l: "load_pair l1 l2 h p = Some (w, R)"
  obtain x y where p: "p = (x, y)" by (cases p)
  from l show "\<forall>a \<in> set R. a < length h"
    unfolding p load_pair_Some using loads.inside [OF assms(1)] loads.inside [OF assms(2)] by fastforce
  assume "agree R h g"
  with l show "load_pair l1 l2 g p = Some (w, R)"
    unfolding p load_pair_Some using loads.frame [OF assms(1)] loads.frame [OF assms(2)] by (metis agree_append)
qed

lemma deepcopy_pair:
  assumes "deepcopy l1 c1" and "deepcopy l2 c2"
  shows "deepcopy (load_pair l1 l2) (copy_pair c1 c2)"
proof -
  have l: "loads l1" "loads l2" using assms by (auto simp: deepcopy_def)
  show ?thesis
  proof (intro deepcopy.intro deepcopy_axioms.intro loads_pair l)
    fix h p w R q h'
    assume ld: "load_pair l1 l2 h p = Some (w, R)" and cp: "copy_pair c1 c2 p h = (q, h')"
    obtain x y where p: "p = (x, y)" by (cases p)
    from ld obtain v1 R1 v2 R2 where x: "l1 h x = Some (v1, R1)" and y: "l2 h y = Some (v2, R2)" and w: "w = (v1, v2)"
      unfolding p load_pair_Some by blast
    obtain x' h1 where c1: "c1 x h = (x', h1)" by fastforce
    from deepcopy.copies [OF assms(1) x c1] obtain S1 where 1: "prefix h h1" "l1 h1 x' = Some (v1, S1)"
      "\<forall>a \<in> set S1. length h \<le> a" "distinct S1" by blast
    from y 1(1) have y1: "l2 h1 y = Some (v2, R2)" by (rule loads.load_prefix [OF l(2)])
    obtain y' h2 where c2: "c2 y h1 = (y', h2)" by fastforce
    from deepcopy.copies [OF assms(2) y1 c2] obtain S2 where 2: "prefix h1 h2" "l2 h2 y' = Some (v2, S2)"
      "\<forall>a \<in> set S2. length h1 \<le> a" "distinct S2" by blast
    from 1(2) 2(1) have x2: "l1 h2 x' = Some (v1, S1)" by (rule loads.load_prefix [OF l(1)])
    have "\<forall>a \<in> set S1. a < length h1" using loads.inside [OF l(1) 1(2)] .
    with 1 2 have "\<forall>a \<in> set (S1 @ S2). length h \<le> a" "distinct (S1 @ S2)"
      using prefix_length_le [OF 1(1)] by force+
    moreover from cp c1 c2 have "q = (x', y')" "h' = h2" by (auto simp: copy_pair_def p)
    moreover from 1(1) 2(1) have "prefix h h2" by (rule prefix_order.trans)
    moreover have "load_pair l1 l2 h2 (x', y') = Some (w, S1 @ S2)" using x2 2(2) w by (simp add: load_pair_Some)
    ultimately show "prefix h h' \<and> (\<exists>S. load_pair l1 l2 h' q = Some (w, S) \<and> (\<forall>a \<in> set S. length h \<le> a) \<and> distinct S)"
      by blast
  qed
qed

lemma deepcopy_slice:
  assumes "deepcopy ld cp" and mk: "\<And>zs. un (mk zs) = Some zs"
  shows "deepcopy (load_slice un ld) (copy_slice mk un zero cp)"
proof -
  have l: "loads ld" using assms(1) by (simp add: deepcopy_def)
  show ?thesis
  proof (intro deepcopy.intro deepcopy_axioms.intro loads.loads_slice l)
    fix h s vs R s' h'
    assume ld: "load_slice un ld h s = Some (vs, R)" and cp: "copy_slice mk un zero cp s h = (s', h')"
    show "prefix h h' \<and> (\<exists>S. load_slice un ld h' s' = Some (vs, S) \<and> (\<forall>a \<in> set S. length h \<le> a) \<and> distinct S)"
    proof (cases "sl_array s")
      case None
      with ld cp show ?thesis by (auto simp: load_slice_Some copy_slice_def)
    next
      case (Some a)
      with ld obtain xs S where "a < length h" "un (h ! a) = Some xs" "sl_len s \<le> length xs"
        "load_all ld h (take (sl_len s) xs) = Some (vs, S)" by (auto simp: load_slice_Some)
      moreover have run: "copy_elems mk un cp a (length h) 0 (sl_len s) (h @ [mk (replicate (sl_len s) zero)]) = h'"
        and s': "s' = \<lparr>sl_array = Some (length h), sl_len = sl_len s\<rparr>"
        using cp Some by (auto simp: copy_slice_def alloc_def)
      ultimately obtain ys S' where r: "prefix h h'" "length h < length h'" "un (h' ! length h) = Some ys" "length ys = sl_len s"
        "load_all ld h' ys = Some (vs, S')" "\<forall>c \<in> set S'. length h < c" "distinct S'"
        using deepcopy.copy_array [OF assms(1) mk _ _ _ _ run] by blast
      then have "load_slice un ld h' s' = Some (vs, length h # S')" by (simp add: load_slice_Some s')
      with r show ?thesis by fastforce
    qed
  qed
qed

lemma deepcopy_ptr:
  assumes "deepcopy ld cp" and mk: "\<And>zs. un (mk zs) = Some zs"
  shows "deepcopy (load_ptr un ld) (copy_ptr mk un zero cp)"
proof -
  have l: "loads ld" using assms(1) by (simp add: deepcopy_def)
  show ?thesis
  proof (intro deepcopy.intro deepcopy_axioms.intro loads.loads_ptr l)
    fix h p v R q h'
    assume ld: "load_ptr un ld h p = Some (v, R)" and cp: "copy_ptr mk un zero cp p h = (q, h')"
    show "prefix h h' \<and> (\<exists>S. load_ptr un ld h' q = Some (v, S) \<and> (\<forall>a \<in> set S. length h \<le> a) \<and> distinct S)"
    proof (cases p)
      case None
      with ld cp show ?thesis by (auto simp: load_ptr_Some copy_ptr_def)
    next
      case (Some a)
      with ld obtain x w S where x: "a < length h" "un (h ! a) = Some [x]" "ld h x = Some (w, S)" "v = Some w"
        by (auto simp: load_ptr_Some)
      then have all: "load_all ld h (take 1 [x]) = Some ([w], S)" by simp
      have run: "copy_elems mk un cp a (length h) 0 1 (h @ [mk (replicate 1 zero)]) = h'" and q: "q = Some (length h)"
        using cp Some by (auto simp: copy_ptr_def alloc_def split: prod.splits)
      from deepcopy.copy_array [OF assms(1) mk x(1,2) _ all run] obtain ys S' where r: "prefix h h'" "length h < length h'"
        "un (h' ! length h) = Some ys" "length ys = 1" "load_all ld h' ys = Some ([w], S')"
        "\<forall>c \<in> set S'. length h < c" "distinct S'" by auto
      from r(4) obtain y where y: "ys = [y]" by (cases ys) auto
      with r(5) have "ld h' y = Some (w, S')" by (auto split: option.splits)
      with r y x q have "load_ptr un ld h' q = Some (v, length h # S')" by (simp add: load_ptr_Some)
      with r show ?thesis by fastforce
    qed
  qed
qed

lemma deepcopy_non_nil:
  assumes "deepcopy (load_ptr un ld) cp"
  shows "deepcopy (load_ptr un ld) (copy_non_nil cp)"
proof (intro deepcopy.intro deepcopy_axioms.intro)
  show "loads (load_ptr un ld)" using assms by (simp add: deepcopy_def)
  fix h p v R q h'
  assume l: "load_ptr un ld h p = Some (v, R)" and cp: "copy_non_nil cp p h = (q, h')"
  show "prefix h h' \<and> (\<exists>S. load_ptr un ld h' q = Some (v, S) \<and> (\<forall>a \<in> set S. length h \<le> a) \<and> distinct S)"
  proof (cases p)
    case None
    with l cp show ?thesis by (auto simp: copy_non_nil_def load_ptr_Some)
  next
    case Some
    with l cp show ?thesis using deepcopy.copies [OF assms l] by (simp add: copy_non_nil_def)
  qed
qed

lemma deepcopy_fields:
  assumes "deepcopy ld cp" and put: "\<And>s y. get (put s y) = y" "\<And>s y v. build (put s y) v = build s v"
  shows "deepcopy (load_fields get build ld) (copy_fields get put cp)"
proof -
  have l: "loads ld" using assms(1) by (simp add: deepcopy_def)
  show ?thesis
  proof
    fix h s w R
    assume ld: "load_fields get build ld h s = Some (w, R)"
    then obtain v where v: "ld h (get s) = Some (v, R)" "w = build s v" by (auto simp: load_fields_def)
    then show "\<forall>a \<in> set R. a < length h" using loads.inside [OF l] by blast
    show "load_fields get build ld g s = Some (w, R)" if "agree R h g" for g
      using loads.frame [OF l v(1) that] v(2) by (simp add: load_fields_def)
    fix s' h'
    assume "copy_fields get put cp s h = (s', h')"
    then obtain y where y: "cp (get s) h = (y, h')" "s' = put s y" by (auto simp: copy_fields_def split: prod.splits)
    from deepcopy.copies [OF assms(1) v(1) y(1)] v(2) y(2)
    show "prefix h h' \<and> (\<exists>S. load_fields get build ld h' s' = Some (w, S) \<and> (\<forall>a \<in> set S. length h \<le> a) \<and> distinct S)"
      by (auto simp: load_fields_def put)
  qed
qed

section \<open>Independence\<close>

context deepcopy
begin

text \<open>Whoever holds a copy may write to it, and whoever holds the original to the original.\<close>

lemma independent:
  assumes "ld h x = Some (v, R)" and "cp x h = (y, h')"
  shows "\<exists>S. ld h' x = Some (v, R) \<and> ld h' y = Some (v, S) \<and> distinct S \<and> set R \<inter> set S = {} \<and>
    (\<forall>g. writes_only S h' g \<longrightarrow> ld g x = Some (v, R)) \<and> (\<forall>g. writes_only R h' g \<longrightarrow> ld g y = Some (v, S))"
proof -
  from copies [OF assms] obtain S where S: "prefix h h'" "ld h' y = Some (v, S)" "\<forall>a \<in> set S. length h \<le> a" "distinct S"
    by blast
  have x: "ld h' x = Some (v, R)" using assms(1) S(1) by (rule load_prefix)
  have "\<forall>a \<in> set R. a < length h" using inside [OF assms(1)] .
  with S(3) have d: "set R \<inter> set S = {}" by fastforce
  have "ld g x = Some (v, R)" if "writes_only S h' g" for g
    using writes_only_agree [OF that inside [OF x] d] frame [OF x] by blast
  moreover have "ld g y = Some (v, S)" if "writes_only R h' g" for g
    using writes_only_agree [OF that inside [OF S(2)]] d frame [OF S(2)] by blast
  ultimately show ?thesis using x S d by blast
qed

end

end
