(* ===== verification/Process_Setup.thy ===== *)
theory Process_Setup
  imports Paths Go_Heap
begin

text \<open>
  \<^verbatim>\<open>src/cmd/main.go\<close> with the \<^verbatim>\<open>SetupWithManager\<close> functions: the process reads its flags,
  assembles the TLS options of the webhook and the metrics server, creates the manager,
  registers the four controllers, starts the heartbeat server and then the manager. Every
  error ends the process with code 1. The manager is controller-runtime's and a parameter; what
  the process did is kept as a trace.

  The TLS options are Go slices. \<^verbatim>\<open>append\<close> writes into the array of its argument when that has
  room, and two slices made from one then share the element; so the model has a memory of
  arrays, and the capacity of a new array is a parameter of the runtime.
\<close>

section \<open>Definitions: slices\<close>

text \<open>The arrays of one element type; a cell beyond the length of every slice is unused.\<close>

type_synonym 'a memory = "'a option list list"

definition sl_cells :: "'a memory \<Rightarrow> slice \<Rightarrow> 'a option list" where
  "sl_cells m s = (case sl_array s of None \<Rightarrow> [] | Some a \<Rightarrow> m ! a)"

definition sl_content :: "'a memory \<Rightarrow> slice \<Rightarrow> 'a option list" where
  "sl_content m s = take (sl_len s) (sl_cells m s)"

text \<open>\<open>grow n\<close> is the capacity of the array that the runtime allocates for \<open>n\<close> elements.\<close>

definition go_append :: "(nat \<Rightarrow> nat) \<Rightarrow> 'a memory \<Rightarrow> slice \<Rightarrow> 'a \<Rightarrow> slice \<times> 'a memory" where
  "go_append grow m s x =
     (let n = sl_len s; cells = sl_cells m s in
      if n < length cells
      then case sl_array s of
             None \<Rightarrow> (s, m)
           | Some a \<Rightarrow> (s\<lparr>sl_len := Suc n\<rparr>, m[a := cells[n := Some x]])
      else (\<lparr>sl_array = Some (length m), sl_len = Suc n\<rparr>,
            m @ [take n cells @ [Some x] @ replicate (grow (Suc n) - Suc n) None]))"

section \<open>Definitions: flags and options\<close>

record main_flags =
  fl_metricsAddr :: string
  fl_probeAddr :: string
  fl_enableLeaderElection :: bool
  fl_secureMetrics :: bool
  fl_webhookCertPath :: string
  fl_webhookCertName :: string
  fl_webhookCertKey :: string
  fl_metricsCertPath :: string
  fl_metricsCertName :: string
  fl_metricsCertKey :: string
  fl_enableHTTP2 :: bool

definition default_flags :: main_flags where
  "default_flags =
     \<lparr>fl_metricsAddr = ''0'', fl_probeAddr = '':8081'', fl_enableLeaderElection = False, fl_secureMetrics = True,
      fl_webhookCertPath = '''', fl_webhookCertName = ''tls.crt'', fl_webhookCertKey = ''tls.key'',
      fl_metricsCertPath = '''', fl_metricsCertName = ''tls.crt'', fl_metricsCertKey = ''tls.key'',
      fl_enableHTTP2 = False\<rparr>"

text \<open>A certificate watcher is known by its two files; a TLS option is one of the two closures.\<close>

type_synonym cert_watcher = "string \<times> string"

datatype tls_opt = DisableHTTP2 | GetCertificate cert_watcher

record metrics_options =
  mo_BindAddress :: string
  mo_SecureServing :: bool
  mo_TLSOpts :: slice
  mo_Filter :: bool

record manager_options =
  mg_Metrics :: metrics_options
  mg_WebhookTLSOpts :: slice
  mg_HealthProbeBindAddress :: string
  mg_LeaderElection :: bool
  mg_LeaderElectionID :: string

text \<open>
  What a controller is registered with: the kind it reconciles, its name, and the kinds it
  watches, each with the function from an object's name to the requests an event enqueues.
\<close>

record controller =
  ct_For :: string
  ct_Named :: "string option"
  ct_Watches :: "(string \<times> (string \<Rightarrow> (string \<times> string) list)) list"

definition mapClusterToClusterPolicy :: "string \<Rightarrow> (string \<times> string) list" where
  "mapClusterToClusterPolicy obj = []"

definition SetupWithManager_PackagePolicy :: controller where
  "SetupWithManager_PackagePolicy = \<lparr>ct_For = ''PackagePolicy'', ct_Named = Some ''packagepolicy'', ct_Watches = []\<rparr>"

definition SetupWithManager_ClusterPolicy :: controller where
  "SetupWithManager_ClusterPolicy =
     \<lparr>ct_For = ''ClusterPolicy'', ct_Named = None,
      ct_Watches = [(''Cluster'', mapClusterToClusterPolicy), (''Application'', mapClusterToClusterPolicy)]\<rparr>"

definition SetupWithManager_Checkpoint :: controller where
  "SetupWithManager_Checkpoint = \<lparr>ct_For = ''Checkpoint'', ct_Named = Some ''checkpoint'', ct_Watches = []\<rparr>"

definition SetupWithManager_NodeHealth :: controller where
  "SetupWithManager_NodeHealth = \<lparr>ct_For = ''NodeHealth'', ct_Named = Some ''nodehealth'', ct_Watches = []\<rparr>"


section \<open>Definitions: the process\<close>

datatype setup_event =
    MadeCertWatcher cert_watcher
  | MadeManager manager_options
  | Registered controller
  | StartedHeartbeat string string
  | AddedWatcher cert_watcher
  | AddedHealthz string
  | AddedReadyz string
  | StartedManager
  | StoppedManager

record manager_api =
  a_CertWatcher :: "cert_watcher \<Rightarrow> unit result"
  a_GetConfig :: "unit result"
  a_NewManager :: "manager_options \<Rightarrow> unit result"
  a_Complete :: "controller \<Rightarrow> unit result"
  a_Add :: "cert_watcher \<Rightarrow> unit result"
  a_AddHealthz :: "string \<Rightarrow> unit result"
  a_AddReadyz :: "string \<Rightarrow> unit result"
  a_Start :: "unit result"
  a_Getenv :: "string \<Rightarrow> string"

text \<open>
  The state of \<^verbatim>\<open>main\<close>: the memory of its slices and the trace, newest first. \<open>Inl\<close> is an
  exit with the given code.
\<close>

record main_state =
  ms_memory :: "tls_opt memory"
  ms_trace :: "setup_event list"

type_synonym 'a main = "main_state \<Rightarrow> (nat + 'a) \<times> main_state"

definition attempt :: "unit result \<Rightarrow> setup_event \<Rightarrow> unit main" where
  "attempt answer ev s =
     (case answer of Inl err \<Rightarrow> (Inl 1, s) | Inr _ \<Rightarrow> (Inr (), s\<lparr>ms_trace := ev # ms_trace s\<rparr>))"

fun attempt_all :: "(unit result \<times> setup_event) list \<Rightarrow> unit main" where
  "attempt_all [] s = (Inr (), s)"
| "attempt_all ((answer, ev) # rest) s =
     (case attempt answer ev s of (Inl code, s) \<Rightarrow> (Inl code, s) | (Inr _, s) \<Rightarrow> attempt_all rest s)"

text \<open>A certificate watcher and the option that reads it, appended to the given options.\<close>

definition watch_certs ::
  "(nat \<Rightarrow> nat) \<Rightarrow> manager_api \<Rightarrow> string \<Rightarrow> string \<Rightarrow> string \<Rightarrow> slice \<Rightarrow> (slice \<times> cert_watcher option) main" where
  "watch_certs grow api path name key opts s =
     (if path = '''' then (Inr (opts, None), s)
      else let w = (path_Join path name, path_Join path key) in
           case attempt (a_CertWatcher api w) (MadeCertWatcher w) s of
             (Inl code, s) \<Rightarrow> (Inl code, s)
           | (Inr _, s) \<Rightarrow>
               (case go_append grow (ms_memory s) opts (GetCertificate w) of
                  (opts, m) \<Rightarrow> (Inr (opts, Some w), s\<lparr>ms_memory := m\<rparr>)))"

definition base_tls_opts :: "(nat \<Rightarrow> nat) \<Rightarrow> main_flags \<Rightarrow> slice \<times> tls_opt memory" where
  "base_tls_opts grow fl = (if fl_enableHTTP2 fl then (nil_slice, []) else go_append grow [] nil_slice DisableHTTP2)"

definition manager_opts :: "main_flags \<Rightarrow> slice \<Rightarrow> slice \<Rightarrow> manager_options" where
  "manager_opts fl webhookTLSOpts metricsTLSOpts =
     \<lparr>mg_Metrics = \<lparr>mo_BindAddress = fl_metricsAddr fl, mo_SecureServing = fl_secureMetrics fl,
                    mo_TLSOpts = metricsTLSOpts, mo_Filter = fl_secureMetrics fl\<rparr>,
      mg_WebhookTLSOpts = webhookTLSOpts, mg_HealthProbeBindAddress = fl_probeAddr fl,
      mg_LeaderElection = fl_enableLeaderElection fl, mg_LeaderElectionID = ''74b2dfed.dcnlab.ssu.ac.kr''\<rparr>"

definition heartbeat_namespace :: "manager_api \<Rightarrow> string" where
  "heartbeat_namespace api = (let ns = a_Getenv api ''NAMESPACE'' in if ns = '''' then ''default'' else ns)"

definition controllers :: "controller list" where
  "controllers = [SetupWithManager_PackagePolicy, SetupWithManager_ClusterPolicy, SetupWithManager_Checkpoint,
     SetupWithManager_NodeHealth]"

definition present :: "cert_watcher option \<Rightarrow> cert_watcher list" where
  "present w = (case w of None \<Rightarrow> [] | Some w \<Rightarrow> [w])"

text \<open>
  What follows once the two sets of options are there. \<^verbatim>\<open>mgr.Start\<close> blocks; an error it
  comes back with ends the process.
\<close>

definition run_manager ::
  "manager_api \<Rightarrow> main_flags \<Rightarrow> slice \<Rightarrow> slice \<Rightarrow> cert_watcher option \<Rightarrow> cert_watcher option \<Rightarrow> unit main" where
  "run_manager api fl webhookTLSOpts metricsTLSOpts webhookCertWatcher metricsCertWatcher s =
     (let options = manager_opts fl webhookTLSOpts metricsTLSOpts in
      case a_GetConfig api of
           Inl err \<Rightarrow> (Inl 1, s)
         | Inr _ \<Rightarrow>
             (case attempt_all
                     ((a_NewManager api options, MadeManager options) #
                      map (\<lambda>c. (a_Complete api c, Registered c)) controllers) s of
                (Inl code, s) \<Rightarrow> (Inl code, s)
              | (Inr _, s) \<Rightarrow>
                  attempt_all
                    (map (\<lambda>w. (a_Add api w, AddedWatcher w)) (present metricsCertWatcher @ present webhookCertWatcher) @
                     [(a_AddHealthz api ''healthz'', AddedHealthz ''healthz''), (a_AddReadyz api ''readyz'', AddedReadyz ''readyz''),
                      (Inr (), StartedManager), (a_Start api, StoppedManager)])
                    (s\<lparr>ms_trace := StartedHeartbeat (heartbeat_namespace api) '':8090'' # ms_trace s\<rparr>)))"

definition main :: "(nat \<Rightarrow> nat) \<Rightarrow> manager_api \<Rightarrow> main_flags \<Rightarrow> (nat + unit) \<times> main_state" where
  "main grow api fl =
     (case base_tls_opts grow fl of (tlsOpts, m) \<Rightarrow>
        (case watch_certs grow api (fl_webhookCertPath fl) (fl_webhookCertName fl) (fl_webhookCertKey fl) tlsOpts
                \<lparr>ms_memory = m, ms_trace = []\<rparr> of
           (Inl code, s) \<Rightarrow> (Inl code, s)
         | (Inr (webhookTLSOpts, webhookCertWatcher), s) \<Rightarrow>
             (case watch_certs grow api (fl_metricsCertPath fl) (fl_metricsCertName fl) (fl_metricsCertKey fl) tlsOpts s of
                (Inl code, s) \<Rightarrow> (Inl code, s)
              | (Inr (metricsTLSOpts, metricsCertWatcher), s) \<Rightarrow>
                  run_manager api fl webhookTLSOpts metricsTLSOpts webhookCertWatcher metricsCertWatcher s)))"

text \<open>
  The reconcilers of the other two kinds are scaffolding: they return an empty result and no
  error.
\<close>

definition Reconcile_PackagePolicy :: "string \<Rightarrow> string \<Rightarrow> duration \<times> error option" where
  "Reconcile_PackagePolicy ns name = (0, None)"

definition Reconcile_NodeHealth :: "string \<Rightarrow> string \<Rightarrow> duration \<times> error option" where
  "Reconcile_NodeHealth ns name = (0, None)"

section \<open>Lemmas: the trace\<close>

text \<open>A list of attempts adds a prefix of its events, all of them if it goes through.\<close>

definition follows :: "setup_event list \<Rightarrow> nat + unit \<Rightarrow> setup_event list \<Rightarrow> bool" where
  "follows evs res plan \<longleftrightarrow> prefix evs plan \<and> (res = Inl 1 \<or> res = Inr () \<and> evs = plan)"

lemma follows_Nil: "follows [] (Inl 1) plan"
  by (simp add: follows_def)

lemma follows_append: "follows evs res plan \<Longrightarrow> follows (es @ evs) res (es @ plan)"
  by (auto simp: follows_def)

lemma follows_failed: "follows evs (Inl 1) plan \<Longrightarrow> follows evs (Inl 1) (plan @ rest)"
  by (auto simp: follows_def prefix_def)

lemma attempt_all_follows:
  assumes "attempt_all xs s = (res, s')"
  obtains evs where "follows evs res (map snd xs)" "ms_trace s' = rev evs @ ms_trace s" "ms_memory s' = ms_memory s"
proof -
  have "\<exists>evs. follows evs res (map snd xs) \<and> ms_trace s' = rev evs @ ms_trace s \<and> ms_memory s' = ms_memory s"
    using assms
  proof (induction xs arbitrary: s)
    case (Cons x xs)
    obtain answer ev where x: "x = (answer, ev)" by (cases x)
    show ?case
    proof (cases answer)
      case (Inl e)
      with Cons.prems x show ?thesis by (intro exI [of _ "[]"]) (simp add: attempt_def follows_def)
    next
      case (Inr u)
      with Cons.prems x have "attempt_all xs (s\<lparr>ms_trace := ev # ms_trace s\<rparr>) = (res, s')" by (simp add: attempt_def)
      from Cons.IH [OF this] obtain evs where evs: "follows evs res (map snd xs)" "ms_trace s' = rev evs @ ev # ms_trace s"
        "ms_memory s' = ms_memory s" by auto
      with x follows_append [OF evs(1), of "[ev]"] show ?thesis by (intro exI [of _ "ev # evs"]) simp
    qed
  qed (simp add: follows_def)
  with that show thesis by blast
qed

definition cert_files :: "string \<Rightarrow> string \<Rightarrow> string \<Rightarrow> cert_watcher list" where
  "cert_files path name key = (if path = '''' then [] else [(path_Join path name, path_Join path key)])"

lemma watch_certs_result:
  assumes "watch_certs grow api path name key opts s = (res, s')"
  obtains
    (none) "path = ''''" "res = Inr (opts, None)" "s' = s"
  | (failed) "path \<noteq> ''''" "res = Inl 1" "s' = s"
  | (made) w opts' m where "path \<noteq> ''''" "cert_files path name key = [w]" "res = Inr (opts', Some w)"
      "go_append grow (ms_memory s) opts (GetCertificate w) = (opts', m)"
      "s' = s\<lparr>ms_trace := MadeCertWatcher w # ms_trace s, ms_memory := m\<rparr>"
proof (cases "path = ''''")
  case True
  with assms none show thesis by (simp add: watch_certs_def)
next
  case False
  let ?w = "(path_Join path name, path_Join path key)"
  obtain opts' m where ap: "go_append grow (ms_memory s) opts (GetCertificate ?w) = (opts', m)" by fastforce
  show thesis
  proof (cases "a_CertWatcher api ?w")
    case (Inl e)
    with False assms failed show thesis by (simp add: watch_certs_def attempt_def Let_def)
  next
    case (Inr u)
    with False assms ap have "res = Inr (opts', Some ?w)" "s' = s\<lparr>ms_trace := MadeCertWatcher ?w # ms_trace s, ms_memory := m\<rparr>"
      by (auto simp: watch_certs_def attempt_def Let_def)
    with False ap show thesis by (intro made [of ?w opts' m]) (auto simp: cert_files_def)
  qed
qed

text \<open>The steps of a set-up without errors, in order.\<close>

definition manager_plan :: "manager_api \<Rightarrow> manager_options \<Rightarrow> cert_watcher list \<Rightarrow> setup_event list" where
  "manager_plan api options ws =
     MadeManager options # map Registered controllers @ [StartedHeartbeat (heartbeat_namespace api) '':8090''] @
     map AddedWatcher ws @ [AddedHealthz ''healthz'', AddedReadyz ''readyz'', StartedManager, StoppedManager]"

definition webhook_certs :: "main_flags \<Rightarrow> cert_watcher list" where
  "webhook_certs fl = cert_files (fl_webhookCertPath fl) (fl_webhookCertName fl) (fl_webhookCertKey fl)"

definition metrics_certs :: "main_flags \<Rightarrow> cert_watcher list" where
  "metrics_certs fl = cert_files (fl_metricsCertPath fl) (fl_metricsCertName fl) (fl_metricsCertKey fl)"

definition setup_plan :: "manager_api \<Rightarrow> main_flags \<Rightarrow> manager_options \<Rightarrow> setup_event list" where
  "setup_plan api fl options =
     map MadeCertWatcher (webhook_certs fl @ metrics_certs fl) @ manager_plan api options (metrics_certs fl @ webhook_certs fl)"

lemma run_manager_follows:
  assumes "run_manager api fl w m wc mc s = (res, s')"
  obtains evs where "follows evs res (manager_plan api (manager_opts fl w m) (present mc @ present wc))"
    "ms_trace s' = rev evs @ ms_trace s" "ms_memory s' = ms_memory s"
proof (cases "a_GetConfig api")
  case (Inl e)
  with assms that [of "[]"] show thesis by (auto simp: run_manager_def Let_def follows_def)
next
  case (Inr u)
  let ?o = "manager_opts fl w m" and ?hb = "StartedHeartbeat (heartbeat_namespace api) '':8090''"
  let ?xs = "(a_NewManager api ?o, MadeManager ?o) # map (\<lambda>c. (a_Complete api c, Registered c)) controllers"
  let ?ys = "map (\<lambda>w. (a_Add api w, AddedWatcher w)) (present mc @ present wc) @
    [(a_AddHealthz api ''healthz'', AddedHealthz ''healthz''), (a_AddReadyz api ''readyz'', AddedReadyz ''readyz''),
     (Inr (), StartedManager), (a_Start api, StoppedManager)]"
  have plan: "manager_plan api ?o (present mc @ present wc) = map snd ?xs @ [?hb] @ map snd ?ys"
    by (simp add: manager_plan_def comp_def)
  obtain r1 s1 where 1: "attempt_all ?xs s = (r1, s1)" by fastforce
  then obtain evs1 where e1: "follows evs1 r1 (map snd ?xs)" "ms_trace s1 = rev evs1 @ ms_trace s" "ms_memory s1 = ms_memory s"
    by (rule attempt_all_follows)
  show thesis
  proof (cases "r1 = Inl 1")
    case True
    with assms Inr 1 have "res = Inl 1" "s' = s1" by (auto simp: run_manager_def Let_def simp del: attempt_all.simps)
    from True e1(1) have "follows evs1 (Inl 1) (map snd ?xs)" by (simp only:)
    then have "follows evs1 (Inl 1) (manager_plan api ?o (present mc @ present wc))" unfolding plan by (rule follows_failed)
    with \<open>res = Inl 1\<close> \<open>s' = s1\<close> e1 show thesis by (intro that [of evs1]) auto
  next
    case False
    with e1 have r1: "r1 = Inr ()" "evs1 = map snd ?xs" by (auto simp: follows_def)
    with assms Inr 1 have "attempt_all ?ys (s1\<lparr>ms_trace := ?hb # ms_trace s1\<rparr>) = (res, s')"
      by (simp add: run_manager_def Let_def del: attempt_all.simps)
    then obtain evs2 where e2: "follows evs2 res (map snd ?ys)" "ms_trace s' = rev evs2 @ ?hb # ms_trace s1"
      "ms_memory s' = ms_memory s1" by (auto elim: attempt_all_follows)
    from follows_append [OF e2(1), of "map snd ?xs @ [?hb]"] plan
    have "follows (map snd ?xs @ [?hb] @ evs2) res (manager_plan api ?o (present mc @ present wc))" by simp
    with e1 e2 r1 show thesis by (intro that [of "map snd ?xs @ [?hb] @ evs2"]) simp_all
  qed
qed

section \<open>Properties\<close>


definition ready_api :: manager_api where
  "ready_api =
     \<lparr>a_CertWatcher = (\<lambda>_. Inr ()), a_GetConfig = Inr (), a_NewManager = (\<lambda>_. Inr ()), a_Complete = (\<lambda>_. Inr ()),
      a_Add = (\<lambda>_. Inr ()), a_AddHealthz = (\<lambda>_. Inr ()), a_AddReadyz = (\<lambda>_. Inr ()), a_Start = Inr (),
      a_Getenv = (\<lambda>_. '''')\<rparr>"


text \<open>
  The two servers have their own TLS options. With a runtime that gives the first append
  to a nil slice of pointers an array of one element, the webhook server reads its options at
  start-up as HTTP/2 disabled, unless it is enabled, and then its own certificate if there is
  one, and the metrics server likewise.
\<close>

definition tls_expected :: "main_flags \<Rightarrow> cert_watcher list \<Rightarrow> tls_opt list" where
  "tls_expected fl ws = (if fl_enableHTTP2 fl then [] else [DisableHTTP2]) @ map GetCertificate ws"

theorem tls_options_are_separate:
  assumes "main grow api fl = (Inr (), s)" and "grow 1 = 1" and "MadeManager opts \<in> set (ms_trace s)"
  shows "sl_content (ms_memory s) (mg_WebhookTLSOpts opts) = map Some (tls_expected fl (webhook_certs fl)) \<and>
    sl_content (ms_memory s) (mo_TLSOpts (mg_Metrics opts)) = map Some (tls_expected fl (metrics_certs fl))"
proof -
  obtain tls m0 where b: "base_tls_opts grow fl = (tls, m0)" by fastforce
  with assms(1) obtain wo wc s1 mo mc s2 where
    w1: "watch_certs grow api (fl_webhookCertPath fl) (fl_webhookCertName fl) (fl_webhookCertKey fl) tls
      \<lparr>ms_memory = m0, ms_trace = []\<rparr> = (Inr (wo, wc), s1)"
    and w2: "watch_certs grow api (fl_metricsCertPath fl) (fl_metricsCertName fl) (fl_metricsCertKey fl) tls s1 = (Inr (mo, mc), s2)"
    and run: "run_manager api fl wo mo wc mc s2 = (Inr (), s)"
    by (auto simp: main_def split: prod.splits sum.splits)
  from run obtain evs where "follows evs (Inr ()) (manager_plan api (manager_opts fl wo mo) (present mc @ present wc))"
    and trace: "ms_trace s = rev evs @ ms_trace s2" and mem: "ms_memory s = ms_memory s2" by (rule run_manager_follows)
  moreover have "MadeManager opts \<notin> set (ms_trace s2)"
    using w1 w2 by (auto elim!: watch_certs_result)
  ultimately have opts: "opts = manager_opts fl wo mo"
    using assms(3) by (auto simp: follows_def manager_plan_def)
  have "sl_content (ms_memory s2) wo = map Some (tls_expected fl (webhook_certs fl)) \<and>
      sl_content (ms_memory s2) mo = map Some (tls_expected fl (metrics_certs fl))"
    using w1
  proof (cases rule: watch_certs_result)
    case none
    from w2 show ?thesis
      by (cases rule: watch_certs_result; cases "fl_enableHTTP2 fl")
        (use none b assms(2) in \<open>auto simp: base_tls_opts_def go_append_def sl_content_def sl_cells_def nil_slice_def
          tls_expected_def webhook_certs_def metrics_certs_def cert_files_def Let_def\<close>)
  next
    case (made w opts' m)
    from w2 show ?thesis
      by (cases rule: watch_certs_result; cases "fl_enableHTTP2 fl")
        (use made b assms(2) in \<open>auto simp: base_tls_opts_def go_append_def sl_content_def sl_cells_def nil_slice_def
          tls_expected_def webhook_certs_def metrics_certs_def cert_files_def Let_def nth_append\<close>)
  qed simp
  with opts mem show ?thesis by (simp add: manager_opts_def)
qed

definition cert_flags :: main_flags where
  "cert_flags = default_flags\<lparr>fl_webhookCertPath := ''/wh'', fl_metricsCertPath := ''/metrics''\<rparr>"

text \<open>With room in the first array, the second append overwrites what the first one wrote.\<close>

theorem tls_options_can_be_shared:
  "\<exists>s opts. main (\<lambda>n. 2 * n) ready_api cert_flags = (Inr (), s) \<and> MadeManager opts \<in> set (ms_trace s) \<and>
     sl_content (ms_memory s) (mg_WebhookTLSOpts opts) = map Some (tls_expected cert_flags (metrics_certs cert_flags))"
  by (simp add: main_def base_tls_opts_def go_append_def nil_slice_def sl_cells_def cert_flags_def default_flags_def watch_certs_def
      run_manager_def ready_api_def attempt_def present_def controllers_def manager_opts_def sl_content_def tls_expected_def
      metrics_certs_def cert_files_def Let_def)

theorem tls_options_are_separate_witness:
  "\<exists>s opts. main (\<lambda>n. n) ready_api cert_flags = (Inr (), s) \<and> MadeManager opts \<in> set (ms_trace s) \<and>
     sl_content (ms_memory s) (mg_WebhookTLSOpts opts) = map Some [DisableHTTP2, GetCertificate (''/wh/tls.crt'', ''/wh/tls.key'')] \<and>
     sl_content (ms_memory s) (mo_TLSOpts (mg_Metrics opts)) =
       map Some [DisableHTTP2, GetCertificate (''/metrics/tls.crt'', ''/metrics/tls.key'')]"
proof -
  have "\<exists>s opts. main (\<lambda>n. n) ready_api cert_flags = (Inr (), s) \<and> MadeManager opts \<in> set (ms_trace s)"
    by (simp add: main_def base_tls_opts_def go_append_def nil_slice_def sl_cells_def cert_flags_def default_flags_def
        watch_certs_def run_manager_def ready_api_def attempt_def present_def controllers_def Let_def)
  then obtain s opts where run: "main (\<lambda>n. n) ready_api cert_flags = (Inr (), s)" "MadeManager opts \<in> set (ms_trace s)" by blast
  have certs: "tls_expected cert_flags (webhook_certs cert_flags) = [DisableHTTP2, GetCertificate (''/wh/tls.crt'', ''/wh/tls.key'')]"
    "tls_expected cert_flags (metrics_certs cert_flags) = [DisableHTTP2, GetCertificate (''/metrics/tls.crt'', ''/metrics/tls.key'')]"
    by (simp_all add: tls_expected_def cert_flags_def default_flags_def webhook_certs_def metrics_certs_def cert_files_def
        path_Join_def Clean_def IsAbs_def HasPrefix_def Let_def)
  from tls_options_are_separate [OF run(1) _ run(2)] run certs show ?thesis by auto
qed

end
