(* ===== verification/Auxiliary.thy ===== *)
theory Auxiliary
  imports Gitea_Client Detectors Gitops Manifests Minio
begin

text \<open>
  Functions of the repository that its other code does not call: the methods of the Gitea
  client and the wait for its initialization (\<^verbatim>\<open>gitaclient/giteaclient.go\<close>), two lists of
  pods for a network probe (\<^verbatim>\<open>cnifault/cni.go\<close>), the other ways to trigger a
  synchronization of Argo CD (\<^verbatim>\<open>gitaclient/gitea.go\<close>, \<^verbatim>\<open>helpers/clusterpolicy_helpers.go\<close>),
  and the pod that was once written to restore a checkpoint.
\<close>

section \<open>Definitions: the Gitea client\<close>

text \<open>
  The methods that call the SDK of Gitea with the stored client, nil if it was never started.
  The SDK is a parameter, of a type of answers of its own.
\<close>

datatype gitea_call =
    GetMyUserInfo
  | DeleteRepo string string
  | GetRepo string string
  | CreateRepo string
  | EditRepo string string string
  | DeleteAccessToken string
  | ListAccessTokens
  | CreateAccessToken string

type_synonym 'a gitea_sdk = "hist \<Rightarrow> gitea_client option \<Rightarrow> gitea_call \<Rightarrow> 'a outcome"

definition Get :: "gc \<Rightarrow> gitea_client option" where
  "Get r = gc_giteaClient r"

definition gitea_method :: "'a gitea_sdk \<Rightarrow> gc \<Rightarrow> gitea_call \<Rightarrow> hist \<Rightarrow> 'a outcome" where
  "gitea_method sdk r call h = sdk h (gc_giteaClient r) call"

text \<open>
  The wait. \<open>r\<close> is the instance at a point of the history, \<open>cancelled_at\<close> the error of the
  context if it is done before the second has passed; the first component of the result is
  \<open>None\<close> when the fuel ran out.
\<close>

fun init_loop ::
  "env \<Rightarrow> (hist \<Rightarrow> gc) \<Rightarrow> (hist \<Rightarrow> error option) \<Rightarrow> duration \<Rightarrow> time \<Rightarrow> nat \<Rightarrow> hist \<Rightarrow> error option option \<times> hist" where
  "init_loop en r cancelled_at timeout start 0 h = (None, h)"
| "init_loop en r cancelled_at timeout start (Suc fuel) h =
     (if IsInitialized (r h) then (Some None, h)
      else case Now en h of (now, h) \<Rightarrow>
        (if now - start > timeout then (Some (Some (Errorf ''timeout waiting for gitea client initialization'')), h)
         else case cancelled_at h of
                Some err \<Rightarrow> (Some (Some err), h)
              | None \<Rightarrow> init_loop en r cancelled_at timeout start fuel (Slept Second # h)))"

definition WaitForInitialization ::
  "env \<Rightarrow> (hist \<Rightarrow> gc) \<Rightarrow> (hist \<Rightarrow> error option) \<Rightarrow> duration \<Rightarrow> nat \<Rightarrow> hist \<Rightarrow> error option option \<times> hist" where
  "WaitForInitialization en r cancelled_at timeout fuel h =
     (case Now en h of (start, h) \<Rightarrow> init_loop en r cancelled_at timeout start fuel h)"

section \<open>Definitions: pods to probe\<close>

definition cniNamespaces :: "string list" where
  "cniNamespaces = [''kube-system'', ''kube-flannel'', ''cilium-system'', ''calico-system'']"

definition cniLabels :: "(string \<times> string) list" where
  "cniLabels = [(''app'', ''calico-node''), (''k8s-app'', ''cilium''), (''app'', ''flannel''), (''app'', ''weave'')]"

fun list_cni :: "env \<Rightarrow> kclient \<Rightarrow> (string \<times> string \<times> string) list \<Rightarrow> Pod list \<Rightarrow> hist \<Rightarrow> Pod list \<times> hist" where
  "list_cni en c [] pods h = (pods, h)"
| "list_cni en c ((ns, k, v) # sel) pods h =
     (case rd ''PodList'' ns v (\<lambda>h. w_ListPodsWithLabel (wl en) h c ns k v) h of
        (Inl err, h) \<Rightarrow> list_cni en c sel pods h
      | (Inr items, h) \<Rightarrow> list_cni en c sel (pods @ items) h)"

definition listCNIPods :: "env \<Rightarrow> kclient \<Rightarrow> hist \<Rightarrow> Pod list result \<times> hist" where
  "listCNIPods en c h =
     (case list_cni en c (List.product cniNamespaces cniLabels) [] h of (pods, h) \<Rightarrow> (Inr pods, h))"

text \<open>
  The list of at most \<open>limit\<close> pods is the API server's: the argument \<open>list_limited\<close>. The loop
  stops as soon as it has \<open>limit\<close> pods.
\<close>

definition samples_well :: "Pod \<Rightarrow> bool" where
  "samples_well p \<longleftrightarrow> pod_Phase p = PodRunning \<and> \<not> pod_HostNetwork p \<and> pod_PodIP p \<noteq> ''''"

fun sample_loop :: "int \<Rightarrow> Pod list \<Rightarrow> Pod list \<Rightarrow> Pod list" where
  "sample_loop limit pods [] = pods"
| "sample_loop limit pods (p # ps) =
     (if samples_well p
      then let pods = pods @ [p] in if int (length pods) \<ge> limit then pods else sample_loop limit pods ps
      else sample_loop limit pods ps)"

definition sampleAppPods ::
  "(hist \<Rightarrow> kclient \<Rightarrow> int \<Rightarrow> Pod list result) \<Rightarrow> kclient \<Rightarrow> int \<Rightarrow> hist \<Rightarrow> Pod list result \<times> hist" where
  "sampleAppPods list_limited c limit h =
     (case rd ''PodList'' '''' '''' (\<lambda>h. list_limited h c limit) h of
        (Inl err, h) \<Rightarrow> (Inl err, h)
      | (Inr items, h) \<Rightarrow> (Inr (sample_loop limit [] items), h))"

definition cni_isNetworkOrTimeoutError :: "error \<Rightarrow> bool" where
  "cni_isNetworkOrTimeoutError err \<longleftrightarrow>
     (let msg = ToLower (err_text err) in
      Contains msg ''connection refused'' \<or> Contains msg ''no such host'' \<or> Contains msg ''context deadline exceeded'' \<or>
      Contains msg ''server is currently unable to handle the request'')"

section \<open>Definitions: Argo CD\<close>

text \<open>The copy of \<open>TriggerArgoCDSyncWithKubeClient\<close> in \<^verbatim>\<open>gitea.go\<close>.\<close>

definition gitea_TriggerArgoCDSyncWithKubeClient ::
  "env \<Rightarrow> kclient option \<Rightarrow> string \<Rightarrow> string \<Rightarrow> hist \<Rightarrow> error option outcome \<times> hist" where
  "gitea_TriggerArgoCDSyncWithKubeClient en k8sClient appName namespace h =
     (case k8sClient of
        None \<Rightarrow> (Panic, h)
      | Some c \<Rightarrow>
          (case rd ''Application'' namespace appName (\<lambda>h. w_GetApplication (wl en) h c namespace appName) h of
             (Inl err, h) \<Rightarrow> (Ret (Some (wrapf ''failed to get Argo CD application'' err)), h)
           | (Inr app, h) \<Rightarrow>
               (let app = app\<lparr>app_Operation :=
                      Some \<lparr>sync_Revision = ''HEAD'', sync_Force = True, sync_InitiatedBy = ''gitea-client''\<rparr>\<rparr> in
                case wr (UpdatedApplication c app) (\<lambda>h. w_UpdateApplication (wl en) h c app) h of
                  (Inl err, h) \<Rightarrow> (Ret (Some (wrapf ''failed to update application with sync operation'' err)), h)
                | (Inr _, h) \<Rightarrow> (Ret None, h))))"

text \<open>The applications that are found are only logged.\<close>

definition ListArgoApplications :: "(hist \<Rightarrow> kclient \<Rightarrow> string \<Rightarrow> 'a list result) \<Rightarrow> kclient \<Rightarrow> hist \<Rightarrow> error option \<times> hist" where
  "ListArgoApplications list_applications c h =
     (case rd ''ApplicationList'' ''argocd'' '''' (\<lambda>h. list_applications h c ''argocd'') h of
        (Inl err, h) \<Rightarrow> (Some err, h)
      | (Inr _, h) \<Rightarrow> (None, h))"

text \<open>
  The variant over unstructured objects: the client's read of an object as a tree, the JSON
  encoder and the patch request. \<^verbatim>\<open>SetNestedMap\<close> with a single field cannot fail.
\<close>

record unstructured_api =
  u_Get :: "hist \<Rightarrow> kclient \<Rightarrow> string \<Rightarrow> string \<Rightarrow> (string \<times> yval) list result"
  u_Marshal :: "(string \<times> yval) list \<Rightarrow> string result"
  u_Patch :: "hist \<Rightarrow> kclient \<Rightarrow> string \<Rightarrow> unit result"

definition patch_operation :: yval where
  "patch_operation =
     YMap [(''sync'', YMap [(''revision'', YStr ''HEAD'')]), (''initiatedBy'', YMap [(''username'', YStr ''gitea-client'')])]"

definition TriggerArgoCDSync ::
  "unstructured_api \<Rightarrow> kclient option \<Rightarrow> string \<Rightarrow> string \<Rightarrow> hist \<Rightarrow> error option outcome \<times> hist" where
  "TriggerArgoCDSync u k8sClient appName namespace h =
     (case k8sClient of
        None \<Rightarrow> (Panic, h)
      | Some c \<Rightarrow>
          (case rd ''Application'' namespace appName (\<lambda>h. u_Get u h c namespace appName) h of
             (Inl err, h) \<Rightarrow> (Ret (Some (wrapf ''failed to get Argo CD application'' err)), h)
           | (Inr app, h) \<Rightarrow>
               (case u_Marshal u (yset app ''operation'' patch_operation) of
                  Inl err \<Rightarrow> (Ret (Some err), h)
                | Inr modifiedJSON \<Rightarrow>
                    (case wr (PatchedApplication c modifiedJSON) (\<lambda>h. u_Patch u h c modifiedJSON) h of
                       (Inl err, h) \<Rightarrow> (Ret (Some err), h)
                     | (Inr _, h) \<Rightarrow> (Ret None, h)))))"

section \<open>Definitions: the pod of a checkpoint\<close>

definition clean_port :: "ContainerPort \<Rightarrow> yval" where
  "clean_port p =
     YMap ((''containerPort'', YOther (Itoa (port_ContainerPort p))) #
           (if port_Protocol p \<noteq> '''' then [(''protocol'', YStr (port_Protocol p))] else []))"

definition clean_container :: "string \<Rightarrow> CoreContainer \<Rightarrow> yval" where
  "clean_container img c =
     YMap ([(''name'', YStr (ctr_Name c)), (''image'', YStr img)] @
           (if ctr_Args c \<noteq> [] then [(''args'', YSeq (map YStr (ctr_Args c)))] else []) @
           (if ctr_Ports c \<noteq> [] then [(''ports'', YSeq (map clean_port (ctr_Ports c)))] else []))"

definition buildCleanPodFromCheckpoint :: "Checkpoint \<Rightarrow> (string \<times> yval) list" where
  "buildCleanPodFromCheckpoint cp =
     (let containers = map (clean_container (ckst_LastCheckpointImage (ck_Status cp)))
            (cref_Containers (pr_ContainerRef (cks_PodRef (ck_Spec cp)))) in
      [(''apiVersion'', YStr ''v1''),
       (''kind'', YStr ''Pod''),
       (''metadata'', YMap [(''name'', YStr (pr_Name (cks_PodRef (ck_Spec cp)))),
                           (''namespace'', YStr (pr_Namespace (cks_PodRef (ck_Spec cp)))),
                           (''labels'', YMap [(''checkpoint'', YStr (ck_Name cp))])]),
       (''spec'', YMap [(''containers'', YSeq containers)])])"

section \<open>Lemmas\<close>

lemma init_loop_returns:
  assumes law: "clock_law en" and "start + timeout - o_Now (os en) h < int n * Second"
  shows "\<exists>r'. fst (init_loop en r ca timeout start (Suc n) h) = Some r'"
  using assms(2)
proof (induction n arbitrary: h)
  case 0
  then have "timeout < o_Now (os en) h - start" by simp
  then show ?case by (simp add: api_simps)
next
  case (Suc n)
  let ?h = "Read ''clock'' '''' '''' # h"
  have "o_Now (os en) h \<le> o_Now (os en) ([Read ''clock'' '''' ''''] @ h)" using law by (simp only: clock_law_def)
  moreover have "o_Now (os en) ?h + Second \<le> o_Now (os en) (Slept Second # ?h)" using law by (simp only: clock_law_def)
  ultimately have "start + timeout - o_Now (os en) (Slept Second # ?h) < int n * Second"
    using Suc.prems by (simp add: algebra_simps)
  from Suc.IH [OF this] show ?case
    by (subst init_loop.simps) (simp del: init_loop.simps add: api_simps split: option.splits)
qed

lemma init_loop_initialized:
  "init_loop en r ca timeout start n h = (Some None, h') \<Longrightarrow> IsInitialized (r h')"
  by (induction n arbitrary: h) (auto simp: api_simps split: if_splits option.splits)

lemma sample_loop_take:
  "int (length pods) < max 1 limit \<Longrightarrow>
     sample_loop limit pods ps = pods @ take (nat (max 1 limit) - length pods) (filter samples_well ps)"
proof (induction ps arbitrary: pods)
  case (Cons p ps)
  show ?case
  proof (cases "samples_well p \<and> int (length pods) + 1 < limit")
    case True
    with Cons.IH [of "pods @ [p]"] have "sample_loop limit (pods @ [p]) ps =
        (pods @ [p]) @ take (nat (max 1 limit) - Suc (length pods)) (filter samples_well ps)" by simp
    with True show ?thesis by (auto simp: Let_def take_Cons' nat_diff_distrib)
  next
    case False
    with Cons show ?thesis by (auto simp: Let_def take_Cons')
  qed
qed simp


lemma list_cni_spec:
  "\<exists>items es. list_cni en c sel pods h = (pods @ items, es @ h) \<and> length es = length sel \<and> (\<forall>e \<in> set es. \<not> is_write e)"
proof (induction sel arbitrary: pods h)
  case (Cons x sel)
  obtain ns k v where x: "x = (ns, k, v)" by (cases x)
  let ?h = "Read ''PodList'' ns v # h" and ?r = "w_ListPodsWithLabel (wl en) h c ns k v"
  obtain items es where "list_cni en c sel (case ?r of Inl _ \<Rightarrow> pods | Inr is \<Rightarrow> pods @ is) ?h =
      ((case ?r of Inl _ \<Rightarrow> pods | Inr is \<Rightarrow> pods @ is) @ items, es @ ?h)" "length es = length sel" "\<forall>e \<in> set es. \<not> is_write e"
    using Cons.IH by blast
  then show ?case
    by (intro exI [of _ "(case ?r of Inl _ \<Rightarrow> [] | Inr is \<Rightarrow> is) @ items"] exI [of _ "es @ [Read ''PodList'' ns v]"])
      (auto simp: x api_simps split: sum.splits)
qed simp

section \<open>Properties\<close>

text \<open>
  The wait for the Gitea client ends. On a clock that advances with the sleeps, a fuel of two
  more than the timeout in seconds is enough; the wait reports success only when the instance
  has a client. An instance whose start failed never gets one, so that waiting for it is always
  an error.
\<close>

theorem WaitForInitialization_returns:
  assumes "clock_law en" and "timeout < int n * Second"
  shows "\<exists>res h'. WaitForInitialization en r ca timeout (Suc n) h = (Some res, h') \<and>
    (res = None \<longrightarrow> IsInitialized (r h')) \<and> ((\<forall>g. \<not> IsInitialized (r g)) \<longrightarrow> res \<noteq> None)"
proof -
  let ?h = "Read ''clock'' '''' '''' # h"
  have "o_Now (os en) h \<le> o_Now (os en) ([Read ''clock'' '''' ''''] @ h)" using assms(1) by (simp only: clock_law_def)
  with assms(2) have "o_Now (os en) h + timeout - o_Now (os en) ?h < int n * Second" by simp
  from init_loop_returns [OF assms(1) this] obtain res h' where
    l: "init_loop en r ca timeout (o_Now (os en) h) (Suc n) ?h = (Some res, h')" by (metis fst_conv surj_pair)
  then have "WaitForInitialization en r ca timeout (Suc n) h = (Some res, h')"
    by (simp add: WaitForInitialization_def api_simps del: init_loop.simps)
  moreover have "res = None \<longrightarrow> IsInitialized (r h')" using init_loop_initialized l by blast
  ultimately show ?thesis by blast
qed

theorem WaitForInitialization_returns_witness:
  "\<exists>err h'. WaitForInitialization idle_env (\<lambda>_. \<lparr>gc_giteaClient = None\<rparr>) (\<lambda>_. None) (30 * Second) 32 [] = (Some (Some err), h')"
proof -
  have "30 * Second < int 31 * Second" by (simp add: Second_def)
  from WaitForInitialization_returns [OF idle_clock this, of "\<lambda>_. \<lparr>gc_giteaClient = None\<rparr>" "\<lambda>_. None" "[]"]
  obtain res h' where w: "WaitForInitialization idle_env (\<lambda>_. \<lparr>gc_giteaClient = None\<rparr>) (\<lambda>_. None) (30 * Second) (Suc 31) [] = (Some res, h')"
    "res \<noteq> None" by (auto simp: IsInitialized_def)
  moreover have "Suc 31 = 32" by simp
  ultimately show ?thesis by (auto simp only:)
qed

text \<open>
  A sample consists of the first running pods with an address of their own, at most \<open>limit\<close> of
  them, and still one if the limit is not positive.
\<close>

theorem sampleAppPods_correct:
  "sampleAppPods list_limited c limit h =
     (case list_limited h c limit of
        Inl err \<Rightarrow> Inl err
      | Inr items \<Rightarrow> Inr (take (nat (max 1 limit)) (filter samples_well items)), Read ''PodList'' '''' '''' # h)"
  by (auto simp: sampleAppPods_def api_simps sample_loop_take split: sum.splits)

text \<open>The list of network pods never fails: it makes sixteen reads and skips the ones that do.\<close>

theorem listCNIPods_total:
  "\<exists>pods es. listCNIPods en c h = (Inr pods, es @ h) \<and> length es = 16 \<and> (\<forall>e \<in> set es. \<not> is_write e)"
proof -
  obtain items es where "list_cni en c (List.product cniNamespaces cniLabels) [] h = ([] @ items, es @ h)"
    "length es = length (List.product cniNamespaces cniLabels)" "\<forall>e \<in> set es. \<not> is_write e"
    using list_cni_spec by blast
  then show ?thesis by (auto simp: listCNIPods_def cniNamespaces_def cniLabels_def simp del: list_cni.simps)
qed

text \<open>The two copies of the trigger do the same.\<close>

theorem gitea_trigger_is_the_other_one:
  "gitea_TriggerArgoCDSyncWithKubeClient en k app ns h = TriggerArgoCDSyncWithKubeClient en k app ns h"
  unfolding gitea_TriggerArgoCDSyncWithKubeClient_def TriggerArgoCDSyncWithKubeClient_def sync_operation_def ..

text \<open>
  The variant that patches sends at most one request, with the encoding of the object it read,
  of which only the operation differs.
\<close>

theorem TriggerArgoCDSync_effect:
  assumes "TriggerArgoCDSync u (Some c) app ns h = (res, h')"
  shows "(\<exists>e. res = Ret (Some e) \<and> writes h' = writes h) \<or>
    (\<exists>obj json ok. u_Get u h c ns app = Inr obj \<and> u_Marshal u (yset obj ''operation'' patch_operation) = Inr json \<and>
       writes h' = PatchedApplication c json ok # writes h \<and> (res = Ret None \<longleftrightarrow> ok) \<and> (\<exists>e. res = Ret e) \<and>
       (\<forall>k. k \<noteq> ''operation'' \<longrightarrow> yget (yset obj ''operation'' patch_operation) k = yget obj k))"
  using assms by (auto simp: TriggerArgoCDSync_def api_simps split: sum.splits)

text \<open>
  Every container of the clean pod runs the image of the checkpoint, which is the one that was
  pushed last: with several containers, the images of the others are lost.
\<close>

theorem clean_pod_images:
  assumes "cs = cref_Containers (pr_ContainerRef (cks_PodRef (ck_Spec cp)))"
  shows "\<exists>ys. yget (buildCleanPodFromCheckpoint cp) ''spec'' = Some (YMap [(''containers'', YSeq ys)]) \<and>
    list_all2 (\<lambda>c y. \<exists>m. y = YMap m \<and> yget m ''name'' = Some (YStr (ctr_Name c)) \<and>
      yget m ''image'' = Some (YStr (ckst_LastCheckpointImage (ck_Status cp)))) cs ys"
  using assms by (auto simp: buildCleanPodFromCheckpoint_def yget_def Let_def clean_container_def list_all2_map2 intro!: list_all2_refl)

end
