(* ===== verification/Api_Memory.thy ===== *)
theory Api_Memory
  imports Api_Types Go_Heap "HOL-Library.Char_ord" "HOL-Library.List_Lexorder"
begin

text \<open>
  The custom resources of \<^verbatim>\<open>src/api/v1\<close> as they lie in memory: one record per struct that holds a
  slice, a map or a pointer, with the reference in the field; a cell per array, pointee and map; the zero
  values that \<^verbatim>\<open>new\<close> and \<^verbatim>\<open>make\<close> fill in; and for each type the loader that follows the references
  and gives the value of \<open>Api_Types\<close>. Structs without references are their values. Of the Kubernetes
  types that the resources embed, the fields are those the development uses throughout.
\<close>

section \<open>Definitions: embedded Kubernetes types\<close>

record TypeMeta =
  tm_Kind :: string
  tm_APIVersion :: string

record ObjectMeta =
  om_Name :: string
  om_Namespace :: string
  om_Finalizers :: "string list"
  om_DeletionTimestamp :: "time option"

record ListMeta =
  lm_SelfLink :: string
  lm_ResourceVersion :: string
  lm_Continue :: string
  lm_RemainingItemCount :: "int64 option"

text \<open>Their layouts in memory, with that of a core container.\<close>

record ObjectMetaMem =
  omm_Name :: string
  omm_Namespace :: string
  omm_Finalizers :: slice
  omm_DeletionTimestamp :: "nat option"

record ListMetaMem =
  lmm_SelfLink :: string
  lmm_ResourceVersion :: string
  lmm_Continue :: string
  lmm_RemainingItemCount :: "nat option"

record CoreContainerMem =
  ccm_Name :: string
  ccm_Image :: string
  ccm_Args :: slice
  ccm_Command :: slice
  ccm_Ports :: slice
  ccm_ImagePullPolicy :: string

section \<open>Definitions: the structs of the API\<close>

text \<open>\<^verbatim>\<open>Containers\<close> embeds a core container and nothing uses it but its copy functions.\<close>

record Containers =
  cons_Container :: CoreContainer

record ContainersMem =
  consm_Container :: CoreContainerMem

record PackageSelectorMem =
  psm_Name :: string
  psm_PackagePath :: string
  psm_PackageType :: PackageType
  psm_LiveStatePackage :: bool
  psm_BackupInformation :: slice

record TargetClusterPolicyMem =
  tcm_PreferClusters :: slice
  tcm_AvoidClusters :: slice

record ClusterPolicySpecMem =
  cpsm_ClusterSelector :: ClusterSelector
  cpsm_PackageSelectors :: slice
  cpsm_TargetClusterPolicy :: TargetClusterPolicyMem

record TransitionedPackagesMem =
  tpm_PackageSelectors :: slice
  tpm_LastTransitionTime :: time
  tpm_PackageTransitionCondition :: PackageTransitionCondition
  tpm_PackageTransitionMessage :: string

record ClusterPolicyStatusMem =
  cpstm_TransitionedPackages :: slice

record ContainerRefMem =
  crm_Containers :: slice

record PodRefMem =
  prm_Namespace :: string
  prm_Name :: string
  prm_ContainerRef :: ContainerRefMem

record ResourceRefMem =
  rrm_APIVersion :: string
  rrm_Kind :: string
  rrm_Namespace :: string
  rrm_Name :: string
  rrm_Annotations :: "nat option"

record RegistryMem =
  regm_URL :: string
  regm_Repository :: string
  regm_SecretRef :: "nat option"

record CheckpointSpecMem =
  cksm_Schedule :: string
  cksm_ClusterRef :: "nat option"
  cksm_TargetClusterRef :: "nat option"
  cksm_PodRef :: PodRefMem
  cksm_ResourceRef :: ResourceRefMem
  cksm_Registry :: RegistryMem
  cksm_Containers :: slice

record CheckpointStatusMem =
  ckstm_Phase :: CheckpointPhase
  ckstm_LastCheckpointTime :: "nat option"
  ckstm_Message :: string
  ckstm_ObservedGeneration :: int64
  ckstm_LastCheckpointImage :: string
  ckstm_OriginalImage :: string
  ckstm_Conditions :: slice

record NodeHealthStatusMem =
  nhstm_Conditions :: slice
  nhstm_IP :: string
  nhstm_OS :: string
  nhstm_Arch :: string
  nhstm_CPUs :: int
  nhstm_CPUUsage :: string
  nhstm_MemTotal :: "64 word"
  nhstm_MemUsed :: "64 word"
  nhstm_LastSeen :: time
  nhstm_Condition :: string
  nhstm_ClusterName :: string
  nhstm_ClusterNS :: string
  nhstm_Machine :: string
  nhstm_OwnerKind :: string
  nhstm_OwnerName :: string
  nhstm_ProvidedIP :: string
  nhstm_CRISocket :: string

text \<open>The root kinds and their lists.\<close>

record ClusterPolicyMem =
  cpm_TypeMeta :: TypeMeta
  cpm_ObjectMeta :: ObjectMetaMem
  cpm_Spec :: ClusterPolicySpecMem
  cpm_Status :: ClusterPolicyStatusMem

record ClusterPolicyListMem =
  cpml_TypeMeta :: TypeMeta
  cpml_ListMeta :: ListMetaMem
  cpml_Items :: slice

record CheckpointMem =
  ckm_TypeMeta :: TypeMeta
  ckm_ObjectMeta :: ObjectMetaMem
  ckm_Spec :: CheckpointSpecMem
  ckm_Status :: CheckpointStatusMem

record CheckpointListMem =
  ckml_TypeMeta :: TypeMeta
  ckml_ListMeta :: ListMetaMem
  ckml_Items :: slice

record NodeHealthMem =
  nhm_TypeMeta :: TypeMeta
  nhm_ObjectMeta :: ObjectMetaMem
  nhm_Spec :: NodeHealthSpec
  nhm_Status :: NodeHealthStatusMem

record NodeHealthListMem =
  nhml_TypeMeta :: TypeMeta
  nhml_ListMeta :: ListMetaMem
  nhml_Items :: slice

record PackagePolicyMem =
  ppm_TypeMeta :: TypeMeta
  ppm_ObjectMeta :: ObjectMetaMem
  ppm_Spec :: PackagePolicySpec
  ppm_Status :: PackagePolicyStatus

record PackagePolicyListMem =
  ppml_TypeMeta :: TypeMeta
  ppml_ListMeta :: ListMetaMem
  ppml_Items :: slice

section \<open>Definitions: cells\<close>

text \<open>An array of each type, and a map of strings.\<close>

datatype cell =
    A_string "string list"
  | A_int64 "int64 list"
  | A_time "time list"
  | A_ContainerPort "ContainerPort list"
  | A_CoreContainer "CoreContainerMem list"
  | A_Condition "StatusCondition list"
  | A_BackupInformation "BackupInformation list"
  | A_BackupRef "BackupRef list"
  | A_ClusterRef "ClusterRef list"
  | A_ClusterSelector "ClusterSelector list"
  | A_Container "Container list"
  | A_NodeHealthSpec "NodeHealthSpec list"
  | A_PackagePolicySpec "PackagePolicySpec list"
  | A_PackagePolicyStatus "PackagePolicyStatus list"
  | A_PackageRetentionPolicy "PackageRetentionPolicy list"
  | A_PreferredCluster "PreferredCluster list"
  | A_SecretRef "SecretRef list"
  | A_Containers "ContainersMem list"
  | A_PackageSelector "PackageSelectorMem list"
  | A_TargetClusterPolicy "TargetClusterPolicyMem list"
  | A_ClusterPolicySpec "ClusterPolicySpecMem list"
  | A_TransitionedPackages "TransitionedPackagesMem list"
  | A_ClusterPolicyStatus "ClusterPolicyStatusMem list"
  | A_ContainerRef "ContainerRefMem list"
  | A_PodRef "PodRefMem list"
  | A_ResourceRef "ResourceRefMem list"
  | A_Registry "RegistryMem list"
  | A_CheckpointSpec "CheckpointSpecMem list"
  | A_CheckpointStatus "CheckpointStatusMem list"
  | A_NodeHealthStatus "NodeHealthStatusMem list"
  | A_ClusterPolicy "ClusterPolicyMem list"
  | A_ClusterPolicyList "ClusterPolicyListMem list"
  | A_Checkpoint "CheckpointMem list"
  | A_CheckpointList "CheckpointListMem list"
  | A_NodeHealth "NodeHealthMem list"
  | A_NodeHealthList "NodeHealthListMem list"
  | A_PackagePolicy "PackagePolicyMem list"
  | A_PackagePolicyList "PackagePolicyListMem list"
  | A_StringMap smap

definition un_string :: "cell \<Rightarrow> string list option" where
  "un_string c = (case c of A_string xs \<Rightarrow> Some xs | _ \<Rightarrow> None)"

definition un_int64 :: "cell \<Rightarrow> int64 list option" where
  "un_int64 c = (case c of A_int64 xs \<Rightarrow> Some xs | _ \<Rightarrow> None)"

definition un_time :: "cell \<Rightarrow> time list option" where
  "un_time c = (case c of A_time xs \<Rightarrow> Some xs | _ \<Rightarrow> None)"

definition un_ContainerPort :: "cell \<Rightarrow> ContainerPort list option" where
  "un_ContainerPort c = (case c of A_ContainerPort xs \<Rightarrow> Some xs | _ \<Rightarrow> None)"

definition un_CoreContainer :: "cell \<Rightarrow> CoreContainerMem list option" where
  "un_CoreContainer c = (case c of A_CoreContainer xs \<Rightarrow> Some xs | _ \<Rightarrow> None)"

definition un_Condition :: "cell \<Rightarrow> StatusCondition list option" where
  "un_Condition c = (case c of A_Condition xs \<Rightarrow> Some xs | _ \<Rightarrow> None)"

definition un_BackupInformation :: "cell \<Rightarrow> BackupInformation list option" where
  "un_BackupInformation c = (case c of A_BackupInformation xs \<Rightarrow> Some xs | _ \<Rightarrow> None)"

definition un_BackupRef :: "cell \<Rightarrow> BackupRef list option" where
  "un_BackupRef c = (case c of A_BackupRef xs \<Rightarrow> Some xs | _ \<Rightarrow> None)"

definition un_ClusterRef :: "cell \<Rightarrow> ClusterRef list option" where
  "un_ClusterRef c = (case c of A_ClusterRef xs \<Rightarrow> Some xs | _ \<Rightarrow> None)"

definition un_ClusterSelector :: "cell \<Rightarrow> ClusterSelector list option" where
  "un_ClusterSelector c = (case c of A_ClusterSelector xs \<Rightarrow> Some xs | _ \<Rightarrow> None)"

definition un_Container :: "cell \<Rightarrow> Container list option" where
  "un_Container c = (case c of A_Container xs \<Rightarrow> Some xs | _ \<Rightarrow> None)"

definition un_NodeHealthSpec :: "cell \<Rightarrow> NodeHealthSpec list option" where
  "un_NodeHealthSpec c = (case c of A_NodeHealthSpec xs \<Rightarrow> Some xs | _ \<Rightarrow> None)"

definition un_PackagePolicySpec :: "cell \<Rightarrow> PackagePolicySpec list option" where
  "un_PackagePolicySpec c = (case c of A_PackagePolicySpec xs \<Rightarrow> Some xs | _ \<Rightarrow> None)"

definition un_PackagePolicyStatus :: "cell \<Rightarrow> PackagePolicyStatus list option" where
  "un_PackagePolicyStatus c = (case c of A_PackagePolicyStatus xs \<Rightarrow> Some xs | _ \<Rightarrow> None)"

definition un_PackageRetentionPolicy :: "cell \<Rightarrow> PackageRetentionPolicy list option" where
  "un_PackageRetentionPolicy c = (case c of A_PackageRetentionPolicy xs \<Rightarrow> Some xs | _ \<Rightarrow> None)"

definition un_PreferredCluster :: "cell \<Rightarrow> PreferredCluster list option" where
  "un_PreferredCluster c = (case c of A_PreferredCluster xs \<Rightarrow> Some xs | _ \<Rightarrow> None)"

definition un_SecretRef :: "cell \<Rightarrow> SecretRef list option" where
  "un_SecretRef c = (case c of A_SecretRef xs \<Rightarrow> Some xs | _ \<Rightarrow> None)"

definition un_Containers :: "cell \<Rightarrow> ContainersMem list option" where
  "un_Containers c = (case c of A_Containers xs \<Rightarrow> Some xs | _ \<Rightarrow> None)"

definition un_PackageSelector :: "cell \<Rightarrow> PackageSelectorMem list option" where
  "un_PackageSelector c = (case c of A_PackageSelector xs \<Rightarrow> Some xs | _ \<Rightarrow> None)"

definition un_TargetClusterPolicy :: "cell \<Rightarrow> TargetClusterPolicyMem list option" where
  "un_TargetClusterPolicy c = (case c of A_TargetClusterPolicy xs \<Rightarrow> Some xs | _ \<Rightarrow> None)"

definition un_ClusterPolicySpec :: "cell \<Rightarrow> ClusterPolicySpecMem list option" where
  "un_ClusterPolicySpec c = (case c of A_ClusterPolicySpec xs \<Rightarrow> Some xs | _ \<Rightarrow> None)"

definition un_TransitionedPackages :: "cell \<Rightarrow> TransitionedPackagesMem list option" where
  "un_TransitionedPackages c = (case c of A_TransitionedPackages xs \<Rightarrow> Some xs | _ \<Rightarrow> None)"

definition un_ClusterPolicyStatus :: "cell \<Rightarrow> ClusterPolicyStatusMem list option" where
  "un_ClusterPolicyStatus c = (case c of A_ClusterPolicyStatus xs \<Rightarrow> Some xs | _ \<Rightarrow> None)"

definition un_ContainerRef :: "cell \<Rightarrow> ContainerRefMem list option" where
  "un_ContainerRef c = (case c of A_ContainerRef xs \<Rightarrow> Some xs | _ \<Rightarrow> None)"

definition un_PodRef :: "cell \<Rightarrow> PodRefMem list option" where
  "un_PodRef c = (case c of A_PodRef xs \<Rightarrow> Some xs | _ \<Rightarrow> None)"

definition un_ResourceRef :: "cell \<Rightarrow> ResourceRefMem list option" where
  "un_ResourceRef c = (case c of A_ResourceRef xs \<Rightarrow> Some xs | _ \<Rightarrow> None)"

definition un_Registry :: "cell \<Rightarrow> RegistryMem list option" where
  "un_Registry c = (case c of A_Registry xs \<Rightarrow> Some xs | _ \<Rightarrow> None)"

definition un_CheckpointSpec :: "cell \<Rightarrow> CheckpointSpecMem list option" where
  "un_CheckpointSpec c = (case c of A_CheckpointSpec xs \<Rightarrow> Some xs | _ \<Rightarrow> None)"

definition un_CheckpointStatus :: "cell \<Rightarrow> CheckpointStatusMem list option" where
  "un_CheckpointStatus c = (case c of A_CheckpointStatus xs \<Rightarrow> Some xs | _ \<Rightarrow> None)"

definition un_NodeHealthStatus :: "cell \<Rightarrow> NodeHealthStatusMem list option" where
  "un_NodeHealthStatus c = (case c of A_NodeHealthStatus xs \<Rightarrow> Some xs | _ \<Rightarrow> None)"

definition un_ClusterPolicy :: "cell \<Rightarrow> ClusterPolicyMem list option" where
  "un_ClusterPolicy c = (case c of A_ClusterPolicy xs \<Rightarrow> Some xs | _ \<Rightarrow> None)"

definition un_ClusterPolicyList :: "cell \<Rightarrow> ClusterPolicyListMem list option" where
  "un_ClusterPolicyList c = (case c of A_ClusterPolicyList xs \<Rightarrow> Some xs | _ \<Rightarrow> None)"

definition un_Checkpoint :: "cell \<Rightarrow> CheckpointMem list option" where
  "un_Checkpoint c = (case c of A_Checkpoint xs \<Rightarrow> Some xs | _ \<Rightarrow> None)"

definition un_CheckpointList :: "cell \<Rightarrow> CheckpointListMem list option" where
  "un_CheckpointList c = (case c of A_CheckpointList xs \<Rightarrow> Some xs | _ \<Rightarrow> None)"

definition un_NodeHealth :: "cell \<Rightarrow> NodeHealthMem list option" where
  "un_NodeHealth c = (case c of A_NodeHealth xs \<Rightarrow> Some xs | _ \<Rightarrow> None)"

definition un_NodeHealthList :: "cell \<Rightarrow> NodeHealthListMem list option" where
  "un_NodeHealthList c = (case c of A_NodeHealthList xs \<Rightarrow> Some xs | _ \<Rightarrow> None)"

definition un_PackagePolicy :: "cell \<Rightarrow> PackagePolicyMem list option" where
  "un_PackagePolicy c = (case c of A_PackagePolicy xs \<Rightarrow> Some xs | _ \<Rightarrow> None)"

definition un_PackagePolicyList :: "cell \<Rightarrow> PackagePolicyListMem list option" where
  "un_PackagePolicyList c = (case c of A_PackagePolicyList xs \<Rightarrow> Some xs | _ \<Rightarrow> None)"

definition un_StringMap :: "cell \<Rightarrow> smap option" where
  "un_StringMap c = (case c of A_StringMap m \<Rightarrow> Some m | _ \<Rightarrow> None)"

lemma un_cell [simp]:
  "\<And>xs. un_string (A_string xs) = Some xs"
  "\<And>xs. un_int64 (A_int64 xs) = Some xs"
  "\<And>xs. un_time (A_time xs) = Some xs"
  "\<And>xs. un_ContainerPort (A_ContainerPort xs) = Some xs"
  "\<And>xs. un_CoreContainer (A_CoreContainer xs) = Some xs"
  "\<And>xs. un_Condition (A_Condition xs) = Some xs"
  "\<And>xs. un_BackupInformation (A_BackupInformation xs) = Some xs"
  "\<And>xs. un_BackupRef (A_BackupRef xs) = Some xs"
  "\<And>xs. un_ClusterRef (A_ClusterRef xs) = Some xs"
  "\<And>xs. un_ClusterSelector (A_ClusterSelector xs) = Some xs"
  "\<And>xs. un_Container (A_Container xs) = Some xs"
  "\<And>xs. un_NodeHealthSpec (A_NodeHealthSpec xs) = Some xs"
  "\<And>xs. un_PackagePolicySpec (A_PackagePolicySpec xs) = Some xs"
  "\<And>xs. un_PackagePolicyStatus (A_PackagePolicyStatus xs) = Some xs"
  "\<And>xs. un_PackageRetentionPolicy (A_PackageRetentionPolicy xs) = Some xs"
  "\<And>xs. un_PreferredCluster (A_PreferredCluster xs) = Some xs"
  "\<And>xs. un_SecretRef (A_SecretRef xs) = Some xs"
  "\<And>xs. un_Containers (A_Containers xs) = Some xs"
  "\<And>xs. un_PackageSelector (A_PackageSelector xs) = Some xs"
  "\<And>xs. un_TargetClusterPolicy (A_TargetClusterPolicy xs) = Some xs"
  "\<And>xs. un_ClusterPolicySpec (A_ClusterPolicySpec xs) = Some xs"
  "\<And>xs. un_TransitionedPackages (A_TransitionedPackages xs) = Some xs"
  "\<And>xs. un_ClusterPolicyStatus (A_ClusterPolicyStatus xs) = Some xs"
  "\<And>xs. un_ContainerRef (A_ContainerRef xs) = Some xs"
  "\<And>xs. un_PodRef (A_PodRef xs) = Some xs"
  "\<And>xs. un_ResourceRef (A_ResourceRef xs) = Some xs"
  "\<And>xs. un_Registry (A_Registry xs) = Some xs"
  "\<And>xs. un_CheckpointSpec (A_CheckpointSpec xs) = Some xs"
  "\<And>xs. un_CheckpointStatus (A_CheckpointStatus xs) = Some xs"
  "\<And>xs. un_NodeHealthStatus (A_NodeHealthStatus xs) = Some xs"
  "\<And>xs. un_ClusterPolicy (A_ClusterPolicy xs) = Some xs"
  "\<And>xs. un_ClusterPolicyList (A_ClusterPolicyList xs) = Some xs"
  "\<And>xs. un_Checkpoint (A_Checkpoint xs) = Some xs"
  "\<And>xs. un_CheckpointList (A_CheckpointList xs) = Some xs"
  "\<And>xs. un_NodeHealth (A_NodeHealth xs) = Some xs"
  "\<And>xs. un_NodeHealthList (A_NodeHealthList xs) = Some xs"
  "\<And>xs. un_PackagePolicy (A_PackagePolicy xs) = Some xs"
  "\<And>xs. un_PackagePolicyList (A_PackagePolicyList xs) = Some xs"
  "\<And>m. un_StringMap (A_StringMap m) = Some m"
  by (simp_all add: un_string_def un_int64_def un_time_def un_ContainerPort_def un_CoreContainer_def un_Condition_def
    un_BackupInformation_def un_BackupRef_def un_ClusterRef_def un_ClusterSelector_def un_Container_def
    un_NodeHealthSpec_def un_PackagePolicySpec_def un_PackagePolicyStatus_def un_PackageRetentionPolicy_def
    un_PreferredCluster_def un_SecretRef_def un_Containers_def un_PackageSelector_def un_TargetClusterPolicy_def
    un_ClusterPolicySpec_def un_TransitionedPackages_def un_ClusterPolicyStatus_def un_ContainerRef_def
    un_PodRef_def un_ResourceRef_def un_Registry_def un_CheckpointSpec_def un_CheckpointStatus_def
    un_NodeHealthStatus_def un_ClusterPolicy_def un_ClusterPolicyList_def un_Checkpoint_def
    un_CheckpointList_def un_NodeHealth_def un_NodeHealthList_def un_PackagePolicy_def un_PackagePolicyList_def
    un_StringMap_def)

section \<open>Definitions: zero values\<close>

definition zero_TypeMeta :: TypeMeta where
  "zero_TypeMeta = \<lparr>tm_Kind = '''', tm_APIVersion = ''''\<rparr>"

definition zero_ContainerPort :: ContainerPort where
  "zero_ContainerPort = \<lparr>port_ContainerPort = 0, port_Protocol = ''''\<rparr>"

definition zero_Condition :: StatusCondition where
  "zero_Condition =
     \<lparr>sc_Type = '''', sc_Status = ConditionOther '''', sc_ObservedGeneration = 0, sc_LastTransitionTime = ZeroTime,
      sc_Reason = '''', sc_Message = ''''\<rparr>"

definition zero_BackupRef :: BackupRef where
  "zero_BackupRef = \<lparr>bref_Name = ''''\<rparr>"

definition zero_ClusterRef :: ClusterRef where
  "zero_ClusterRef = \<lparr>clr_Name = '''', clr_Repository = '''', clr_PackageName = ''''\<rparr>"

definition zero_ClusterSelector :: ClusterSelector where
  "zero_ClusterSelector = \<lparr>cs_Name = '''', cs_Repo = '''', cs_RepoType = '''', cs_Provider = ''''\<rparr>"

definition zero_Container :: Container where
  "zero_Container = \<lparr>cont_Name = '''', cont_Image = ''''\<rparr>"

definition zero_NodeHealthSpec :: NodeHealthSpec where
  "zero_NodeHealthSpec = \<lparr>nhs_NodeName = ''''\<rparr>"

definition zero_PackagePolicySpec :: PackagePolicySpec where
  "zero_PackagePolicySpec = \<lparr>pps_Foo = ''''\<rparr>"

definition zero_PackagePolicyStatus :: PackagePolicyStatus where
  "zero_PackagePolicyStatus = ()"

definition zero_PackageRetentionPolicy :: PackageRetentionPolicy where
  "zero_PackageRetentionPolicy = \<lparr>prp_RetainOnSource = False, prp_DeleteAfterTransition = False\<rparr>"

definition zero_PreferredCluster :: PreferredCluster where
  "zero_PreferredCluster = \<lparr>pc_Name = '''', pc_RepoType = '''', pc_Weight = 0\<rparr>"

definition zero_SecretRef :: SecretRef where
  "zero_SecretRef = \<lparr>sr_Name = '''', sr_Namespace = ''''\<rparr>"

definition zero_ObjectMetaMem :: ObjectMetaMem where
  "zero_ObjectMetaMem =
     \<lparr>omm_Name = '''', omm_Namespace = '''', omm_Finalizers = nil_slice, omm_DeletionTimestamp = None\<rparr>"

definition zero_ListMetaMem :: ListMetaMem where
  "zero_ListMetaMem =
     \<lparr>lmm_SelfLink = '''', lmm_ResourceVersion = '''', lmm_Continue = '''', lmm_RemainingItemCount = None\<rparr>"

definition zero_CoreContainerMem :: CoreContainerMem where
  "zero_CoreContainerMem =
     \<lparr>ccm_Name = '''', ccm_Image = '''', ccm_Args = nil_slice, ccm_Command = nil_slice, ccm_Ports = nil_slice,
      ccm_ImagePullPolicy = ''''\<rparr>"

definition zero_ContainersMem :: ContainersMem where
  "zero_ContainersMem = \<lparr>consm_Container = zero_CoreContainerMem\<rparr>"

definition zero_PackageSelectorMem :: PackageSelectorMem where
  "zero_PackageSelectorMem =
     \<lparr>psm_Name = '''', psm_PackagePath = '''', psm_PackageType = PackageTypeOther '''',
      psm_LiveStatePackage = False, psm_BackupInformation = nil_slice\<rparr>"

definition zero_TargetClusterPolicyMem :: TargetClusterPolicyMem where
  "zero_TargetClusterPolicyMem =
     \<lparr>tcm_PreferClusters = nil_slice, tcm_AvoidClusters = nil_slice\<rparr>"

definition zero_ClusterPolicySpecMem :: ClusterPolicySpecMem where
  "zero_ClusterPolicySpecMem =
     \<lparr>cpsm_ClusterSelector = zero_ClusterSelector, cpsm_PackageSelectors = nil_slice,
      cpsm_TargetClusterPolicy = zero_TargetClusterPolicyMem\<rparr>"

definition zero_TransitionedPackagesMem :: TransitionedPackagesMem where
  "zero_TransitionedPackagesMem =
     \<lparr>tpm_PackageSelectors = nil_slice, tpm_LastTransitionTime = ZeroTime,
      tpm_PackageTransitionCondition = PackageTransitionConditionOther '''', tpm_PackageTransitionMessage = ''''\<rparr>"

definition zero_ClusterPolicyStatusMem :: ClusterPolicyStatusMem where
  "zero_ClusterPolicyStatusMem =
     \<lparr>cpstm_TransitionedPackages = nil_slice\<rparr>"

definition zero_ContainerRefMem :: ContainerRefMem where
  "zero_ContainerRefMem =
     \<lparr>crm_Containers = nil_slice\<rparr>"

definition zero_PodRefMem :: PodRefMem where
  "zero_PodRefMem =
     \<lparr>prm_Namespace = '''', prm_Name = '''', prm_ContainerRef = zero_ContainerRefMem\<rparr>"

definition zero_ResourceRefMem :: ResourceRefMem where
  "zero_ResourceRefMem =
     \<lparr>rrm_APIVersion = '''', rrm_Kind = '''', rrm_Namespace = '''', rrm_Name = '''', rrm_Annotations = None\<rparr>"

definition zero_RegistryMem :: RegistryMem where
  "zero_RegistryMem =
     \<lparr>regm_URL = '''', regm_Repository = '''', regm_SecretRef = None\<rparr>"

definition zero_CheckpointSpecMem :: CheckpointSpecMem where
  "zero_CheckpointSpecMem =
     \<lparr>cksm_Schedule = '''', cksm_ClusterRef = None, cksm_TargetClusterRef = None, cksm_PodRef = zero_PodRefMem,
      cksm_ResourceRef = zero_ResourceRefMem, cksm_Registry = zero_RegistryMem, cksm_Containers = nil_slice\<rparr>"

definition zero_CheckpointStatusMem :: CheckpointStatusMem where
  "zero_CheckpointStatusMem =
     \<lparr>ckstm_Phase = CheckpointPhaseUnset, ckstm_LastCheckpointTime = None, ckstm_Message = '''',
      ckstm_ObservedGeneration = 0, ckstm_LastCheckpointImage = '''', ckstm_OriginalImage = '''',
      ckstm_Conditions = nil_slice\<rparr>"

definition zero_NodeHealthStatusMem :: NodeHealthStatusMem where
  "zero_NodeHealthStatusMem =
     \<lparr>nhstm_Conditions = nil_slice, nhstm_IP = '''', nhstm_OS = '''', nhstm_Arch = '''', nhstm_CPUs = 0,
      nhstm_CPUUsage = '''', nhstm_MemTotal = 0, nhstm_MemUsed = 0, nhstm_LastSeen = ZeroTime,
      nhstm_Condition = '''', nhstm_ClusterName = '''', nhstm_ClusterNS = '''', nhstm_Machine = '''',
      nhstm_OwnerKind = '''', nhstm_OwnerName = '''', nhstm_ProvidedIP = '''', nhstm_CRISocket = ''''\<rparr>"

definition zero_ClusterPolicyMem :: ClusterPolicyMem where
  "zero_ClusterPolicyMem =
     \<lparr>cpm_TypeMeta = zero_TypeMeta, cpm_ObjectMeta = zero_ObjectMetaMem, cpm_Spec = zero_ClusterPolicySpecMem,
      cpm_Status = zero_ClusterPolicyStatusMem\<rparr>"

definition zero_ClusterPolicyListMem :: ClusterPolicyListMem where
  "zero_ClusterPolicyListMem =
     \<lparr>cpml_TypeMeta = zero_TypeMeta, cpml_ListMeta = zero_ListMetaMem, cpml_Items = nil_slice\<rparr>"

definition zero_CheckpointMem :: CheckpointMem where
  "zero_CheckpointMem =
     \<lparr>ckm_TypeMeta = zero_TypeMeta, ckm_ObjectMeta = zero_ObjectMetaMem, ckm_Spec = zero_CheckpointSpecMem,
      ckm_Status = zero_CheckpointStatusMem\<rparr>"

definition zero_CheckpointListMem :: CheckpointListMem where
  "zero_CheckpointListMem =
     \<lparr>ckml_TypeMeta = zero_TypeMeta, ckml_ListMeta = zero_ListMetaMem, ckml_Items = nil_slice\<rparr>"

definition zero_NodeHealthMem :: NodeHealthMem where
  "zero_NodeHealthMem =
     \<lparr>nhm_TypeMeta = zero_TypeMeta, nhm_ObjectMeta = zero_ObjectMetaMem, nhm_Spec = zero_NodeHealthSpec,
      nhm_Status = zero_NodeHealthStatusMem\<rparr>"

definition zero_NodeHealthListMem :: NodeHealthListMem where
  "zero_NodeHealthListMem =
     \<lparr>nhml_TypeMeta = zero_TypeMeta, nhml_ListMeta = zero_ListMetaMem, nhml_Items = nil_slice\<rparr>"

definition zero_PackagePolicyMem :: PackagePolicyMem where
  "zero_PackagePolicyMem =
     \<lparr>ppm_TypeMeta = zero_TypeMeta, ppm_ObjectMeta = zero_ObjectMetaMem, ppm_Spec = zero_PackagePolicySpec,
      ppm_Status = zero_PackagePolicyStatus\<rparr>"

definition zero_PackagePolicyListMem :: PackagePolicyListMem where
  "zero_PackagePolicyListMem =
     \<lparr>ppml_TypeMeta = zero_TypeMeta, ppml_ListMeta = zero_ListMetaMem, ppml_Items = nil_slice\<rparr>"

section \<open>Definitions: loaders\<close>

text \<open>
  A Go map has no order: its value lists the entries by key, whatever order the cell has them
  in. A map has a key once.
\<close>

definition load_map :: "(cell, nat option, smap) loader" where
  "load_map h p =
     (case p of
        None \<Rightarrow> Some ([], [])
      | Some a \<Rightarrow>
          if a < length h
          then (case un_StringMap (h ! a) of
                  None \<Rightarrow> None
                | Some m \<Rightarrow> if distinct (map fst m) then Some (sort_key fst m, [a]) else None)
          else None)"

definition load_Time :: "(cell, time, time) loader" where
  "load_Time = load_value id"

definition load_Condition :: "(cell, StatusCondition, StatusCondition) loader" where
  "load_Condition = load_value id"

definition load_ObjectMeta :: "(cell, ObjectMetaMem, ObjectMeta) loader" where
  "load_ObjectMeta =
     load_fields (\<lambda>s. (omm_Finalizers s, omm_DeletionTimestamp s))
       (\<lambda>s (f, dt).
        \<lparr>om_Name = omm_Name s, om_Namespace = omm_Namespace s, om_Finalizers = f, om_DeletionTimestamp = dt\<rparr>)
       (load_pair (load_slice un_string (load_value id))
         (load_ptr un_time (load_value id)))"

definition load_ListMeta :: "(cell, ListMetaMem, ListMeta) loader" where
  "load_ListMeta =
     load_fields (\<lambda>s. lmm_RemainingItemCount s)
       (\<lambda>s ric.
        \<lparr>lm_SelfLink = lmm_SelfLink s, lm_ResourceVersion = lmm_ResourceVersion s, lm_Continue = lmm_Continue s,
         lm_RemainingItemCount = ric\<rparr>)
       (load_ptr un_int64 (load_value id))"

definition load_CoreContainer :: "(cell, CoreContainerMem, CoreContainer) loader" where
  "load_CoreContainer =
     load_fields (\<lambda>s. (ccm_Args s, ccm_Command s, ccm_Ports s))
       (\<lambda>s (a, c, p).
        \<lparr>ctr_Name = ccm_Name s, ctr_Image = ccm_Image s, ctr_Args = a, ctr_Command = c, ctr_Ports = p,
         ctr_ImagePullPolicy = ccm_ImagePullPolicy s\<rparr>)
       (load_pair (load_slice un_string (load_value id))
         (load_pair (load_slice un_string (load_value id))
           (load_slice un_ContainerPort (load_value id))))"

definition load_Containers :: "(cell, ContainersMem, Containers) loader" where
  "load_Containers = load_fields consm_Container (\<lambda>s c. \<lparr>cons_Container = c\<rparr>) load_CoreContainer"

definition load_PackageSelector :: "(cell, PackageSelectorMem, PackageSelector) loader" where
  "load_PackageSelector =
     load_fields (\<lambda>s. psm_BackupInformation s)
       (\<lambda>s bi.
        \<lparr>ps_Name = psm_Name s, ps_PackagePath = psm_PackagePath s, ps_PackageType = psm_PackageType s,
         ps_LiveStatePackage = psm_LiveStatePackage s, ps_BackupInformation = bi\<rparr>)
       (load_slice un_BackupInformation (load_value id))"

definition load_TargetClusterPolicy :: "(cell, TargetClusterPolicyMem, TargetClusterPolicy) loader" where
  "load_TargetClusterPolicy =
     load_fields (\<lambda>s. (tcm_PreferClusters s, tcm_AvoidClusters s))
       (\<lambda>s (pc, ac).
        \<lparr>tcp_PreferClusters = pc, tcp_AvoidClusters = ac\<rparr>)
       (load_pair (load_slice un_PreferredCluster (load_value id))
         (load_slice un_PreferredCluster (load_value id)))"

definition load_ClusterPolicySpec :: "(cell, ClusterPolicySpecMem, ClusterPolicySpec) loader" where
  "load_ClusterPolicySpec =
     load_fields (\<lambda>s. (cpsm_PackageSelectors s, cpsm_TargetClusterPolicy s))
       (\<lambda>s (ps, tcp).
        \<lparr>cps_ClusterSelector = cpsm_ClusterSelector s, cps_PackageSelectors = ps, cps_TargetClusterPolicy = tcp\<rparr>)
       (load_pair (load_slice un_PackageSelector load_PackageSelector)
         load_TargetClusterPolicy)"

definition load_TransitionedPackages :: "(cell, TransitionedPackagesMem, TransitionedPackages) loader" where
  "load_TransitionedPackages =
     load_fields (\<lambda>s. (tpm_PackageSelectors s, tpm_LastTransitionTime s))
       (\<lambda>s (ps, ltt).
        \<lparr>tp_PackageSelectors = ps, tp_LastTransitionTime = ltt,
         tp_PackageTransitionCondition = tpm_PackageTransitionCondition s,
         tp_PackageTransitionMessage = tpm_PackageTransitionMessage s\<rparr>)
       (load_pair (load_slice un_PackageSelector load_PackageSelector)
         load_Time)"

definition load_ClusterPolicyStatus :: "(cell, ClusterPolicyStatusMem, ClusterPolicyStatus) loader" where
  "load_ClusterPolicyStatus =
     load_fields (\<lambda>s. cpstm_TransitionedPackages s)
       (\<lambda>s tp.
        \<lparr>cpst_TransitionedPackages = tp\<rparr>)
       (load_slice un_TransitionedPackages load_TransitionedPackages)"

definition load_ContainerRef :: "(cell, ContainerRefMem, ContainerRef) loader" where
  "load_ContainerRef =
     load_fields (\<lambda>s. crm_Containers s)
       (\<lambda>s c.
        \<lparr>cref_Containers = c\<rparr>)
       (load_slice un_CoreContainer load_CoreContainer)"

definition load_PodRef :: "(cell, PodRefMem, PodRef) loader" where
  "load_PodRef =
     load_fields (\<lambda>s. prm_ContainerRef s)
       (\<lambda>s cr.
        \<lparr>pr_Namespace = prm_Namespace s, pr_Name = prm_Name s, pr_ContainerRef = cr\<rparr>)
       load_ContainerRef"

definition load_ResourceRef :: "(cell, ResourceRefMem, ResourceRef) loader" where
  "load_ResourceRef =
     load_fields (\<lambda>s. rrm_Annotations s)
       (\<lambda>s a.
        \<lparr>rr_APIVersion = rrm_APIVersion s, rr_Kind = rrm_Kind s, rr_Namespace = rrm_Namespace s,
         rr_Name = rrm_Name s, rr_Annotations = a\<rparr>)
       load_map"

definition load_Registry :: "(cell, RegistryMem, Registry) loader" where
  "load_Registry =
     load_fields (\<lambda>s. regm_SecretRef s)
       (\<lambda>s sr.
        \<lparr>reg_URL = regm_URL s, reg_Repository = regm_Repository s, reg_SecretRef = sr\<rparr>)
       (load_ptr un_SecretRef (load_value id))"

definition load_CheckpointSpec :: "(cell, CheckpointSpecMem, CheckpointSpec) loader" where
  "load_CheckpointSpec =
     load_fields (\<lambda>s. (cksm_ClusterRef s, cksm_TargetClusterRef s, cksm_PodRef s, cksm_ResourceRef s, cksm_Registry s,
        cksm_Containers s))
       (\<lambda>s (cr, tcr, pr, rr, r, c).
        \<lparr>cks_Schedule = cksm_Schedule s, cks_ClusterRef = cr, cks_TargetClusterRef = tcr, cks_PodRef = pr,
         cks_ResourceRef = rr, cks_Registry = r, cks_Containers = c\<rparr>)
       (load_pair (load_ptr un_ClusterRef (load_value id))
         (load_pair (load_ptr un_ClusterRef (load_value id))
           (load_pair load_PodRef
             (load_pair load_ResourceRef
               (load_pair load_Registry
                 (load_slice un_Container (load_value id)))))))"

definition load_CheckpointStatus :: "(cell, CheckpointStatusMem, CheckpointStatus) loader" where
  "load_CheckpointStatus =
     load_fields (\<lambda>s. (ckstm_LastCheckpointTime s, ckstm_Conditions s))
       (\<lambda>s (lct, c).
        \<lparr>ckst_Phase = ckstm_Phase s, ckst_LastCheckpointTime = lct, ckst_Message = ckstm_Message s,
         ckst_ObservedGeneration = ckstm_ObservedGeneration s,
         ckst_LastCheckpointImage = ckstm_LastCheckpointImage s, ckst_OriginalImage = ckstm_OriginalImage s,
         ckst_Conditions = c\<rparr>)
       (load_pair (load_ptr un_time load_Time)
         (load_slice un_Condition load_Condition))"

definition load_NodeHealthStatus :: "(cell, NodeHealthStatusMem, NodeHealthStatus) loader" where
  "load_NodeHealthStatus =
     load_fields (\<lambda>s. (nhstm_Conditions s, nhstm_LastSeen s))
       (\<lambda>s (c, ls).
        \<lparr>nhst_Conditions = c, nhst_IP = nhstm_IP s, nhst_OS = nhstm_OS s, nhst_Arch = nhstm_Arch s,
         nhst_CPUs = nhstm_CPUs s, nhst_CPUUsage = nhstm_CPUUsage s, nhst_MemTotal = nhstm_MemTotal s,
         nhst_MemUsed = nhstm_MemUsed s, nhst_LastSeen = ls, nhst_Condition = nhstm_Condition s,
         nhst_ClusterName = nhstm_ClusterName s, nhst_ClusterNS = nhstm_ClusterNS s,
         nhst_Machine = nhstm_Machine s, nhst_OwnerKind = nhstm_OwnerKind s, nhst_OwnerName = nhstm_OwnerName s,
         nhst_ProvidedIP = nhstm_ProvidedIP s, nhst_CRISocket = nhstm_CRISocket s\<rparr>)
       (load_pair (load_slice un_Condition load_Condition)
         load_Time)"

text \<open>
  The value of a root kind is its type, its metadata and the record of \<open>Api_Types\<close>; that of a
  list its type, the metadata of the list and the items.
\<close>

type_synonym 'a root = "TypeMeta \<times> ObjectMeta \<times> 'a"
type_synonym 'a items = "TypeMeta \<times> ListMeta \<times> 'a root list"

definition load_ClusterPolicy :: "(cell, ClusterPolicyMem, ClusterPolicy root) loader" where
  "load_ClusterPolicy =
     load_fields (\<lambda>s. (cpm_ObjectMeta s, cpm_Spec s, cpm_Status s))
       (\<lambda>s (om, spec, stat).
        (cpm_TypeMeta s, om,
         \<lparr>cpol_Name = om_Name om, cpol_Namespace = om_Namespace om, cpol_Spec = spec, cpol_Status = stat\<rparr>))
       (load_pair load_ObjectMeta
         (load_pair load_ClusterPolicySpec
           load_ClusterPolicyStatus))"

definition load_ClusterPolicyList :: "(cell, ClusterPolicyListMem, ClusterPolicy items) loader" where
  "load_ClusterPolicyList =
     load_fields (\<lambda>s. (cpml_ListMeta s, cpml_Items s))
       (\<lambda>s (lm, i).
        (cpml_TypeMeta s, lm, i))
       (load_pair load_ListMeta
         (load_slice un_ClusterPolicy load_ClusterPolicy))"

definition load_Checkpoint :: "(cell, CheckpointMem, Checkpoint root) loader" where
  "load_Checkpoint =
     load_fields (\<lambda>s. (ckm_ObjectMeta s, ckm_Spec s, ckm_Status s))
       (\<lambda>s (om, spec, stat).
        (ckm_TypeMeta s, om,
         \<lparr>ck_Name = om_Name om, ck_Namespace = om_Namespace om, ck_Finalizers = om_Finalizers om,
          ck_DeletionTimestamp = om_DeletionTimestamp om, ck_Spec = spec, ck_Status = stat\<rparr>))
       (load_pair load_ObjectMeta
         (load_pair load_CheckpointSpec
           load_CheckpointStatus))"

definition load_CheckpointList :: "(cell, CheckpointListMem, Checkpoint items) loader" where
  "load_CheckpointList =
     load_fields (\<lambda>s. (ckml_ListMeta s, ckml_Items s))
       (\<lambda>s (lm, i).
        (ckml_TypeMeta s, lm, i))
       (load_pair load_ListMeta
         (load_slice un_Checkpoint load_Checkpoint))"

definition load_NodeHealth :: "(cell, NodeHealthMem, NodeHealth root) loader" where
  "load_NodeHealth =
     load_fields (\<lambda>s. (nhm_ObjectMeta s, nhm_Status s))
       (\<lambda>s (om, stat).
        (nhm_TypeMeta s, om,
         \<lparr>nh_Name = om_Name om, nh_Namespace = om_Namespace om, nh_Spec = nhm_Spec s, nh_Status = stat\<rparr>))
       (load_pair load_ObjectMeta
         load_NodeHealthStatus)"

definition load_NodeHealthList :: "(cell, NodeHealthListMem, NodeHealth items) loader" where
  "load_NodeHealthList =
     load_fields (\<lambda>s. (nhml_ListMeta s, nhml_Items s))
       (\<lambda>s (lm, i).
        (nhml_TypeMeta s, lm, i))
       (load_pair load_ListMeta
         (load_slice un_NodeHealth load_NodeHealth))"

definition load_PackagePolicy :: "(cell, PackagePolicyMem, PackagePolicy root) loader" where
  "load_PackagePolicy =
     load_fields (\<lambda>s. ppm_ObjectMeta s)
       (\<lambda>s om.
        (ppm_TypeMeta s, om,
         \<lparr>pp_Name = om_Name om, pp_Namespace = om_Namespace om, pp_Spec = ppm_Spec s, pp_Status = ppm_Status s\<rparr>))
       load_ObjectMeta"

definition load_PackagePolicyList :: "(cell, PackagePolicyListMem, PackagePolicy items) loader" where
  "load_PackagePolicyList =
     load_fields (\<lambda>s. (ppml_ListMeta s, ppml_Items s))
       (\<lambda>s (lm, i).
        (ppml_TypeMeta s, lm, i))
       (load_pair load_ListMeta
         (load_slice un_PackagePolicy load_PackagePolicy))"

end
