(* ===== verification/Deep_Copy.thy ===== *)
theory Deep_Copy
  imports Api_Memory "HOL-Library.Multiset"
begin

text \<open>
  The generated copy functions of \<^verbatim>\<open>src/api/v1/zz_generated.deepcopy.go\<close>: for every struct of the API
  \<open>DeepCopyInto_T\<close> and \<open>DeepCopy_T\<close>, for the root kinds and their lists \<open>DeepCopyObject_T\<close>, over the
  memory of \<open>Api_Memory\<close>. The copy functions of the embedded Kubernetes types are not part of the
  repository; they are the parameter \<open>ext_copy\<close>, and what is relied on is the locale \<open>external_copies\<close>.
  Under it every copy has the value of its original and shares no cell with it, so that the
  controllers may change what they got from a cache after copying it.
\<close>

section \<open>Definitions: the copy functions of other packages\<close>

text \<open>
  \<^verbatim>\<open>DeepCopyInto\<close> of \<^verbatim>\<open>metav1.ObjectMeta\<close>, \<^verbatim>\<open>metav1.ListMeta\<close>, \<^verbatim>\<open>corev1.Container\<close>, \<^verbatim>\<open>metav1.Condition\<close> and
  \<^verbatim>\<open>metav1.Time\<close>, and \<^verbatim>\<open>DeepCopy\<close> of the last. \<open>x_range\<close> is the order in which a \<^verbatim>\<open>range\<close> over a map
  visits it at some moment, which Go leaves open.
\<close>

record ext_copy =
  x_ObjectMeta :: "(cell, ObjectMetaMem) copier"
  x_ListMeta :: "(cell, ListMetaMem) copier"
  x_Container :: "(cell, CoreContainerMem) copier"
  x_Condition :: "(cell, StatusCondition) copier"
  x_Time :: "(cell, time) copier"
  x_TimePtr :: "(cell, nat option) copier"
  x_range :: "cell heap \<Rightarrow> smap \<Rightarrow> smap"

section \<open>Definitions: the copy of a map\<close>

text \<open>\<^verbatim>\<open>make\<close> and the loop \<^verbatim>\<open>for key, val := range *in { (*out)[key] = val }\<close>.\<close>

definition map_set :: "string \<Rightarrow> string \<Rightarrow> smap \<Rightarrow> smap" where
  "map_set k v m = (if k \<in> set (map fst m) then map (\<lambda>(l, w). if l = k then (l, v) else (l, w)) m else m @ [(k, v)])"

fun set_entries :: "nat \<Rightarrow> smap \<Rightarrow> cell heap \<Rightarrow> cell heap" where
  "set_entries b [] h = h"
| "set_entries b ((k, v) # kvs) h =
     set_entries b kvs (h[b := A_StringMap (map_set k v (the (un_StringMap (h ! b))))])"

definition copy_map :: "(cell heap \<Rightarrow> smap \<Rightarrow> smap) \<Rightarrow> (cell, nat option) copier" where
  "copy_map rng p h =
     (case p of
        None \<Rightarrow> (None, h)
      | Some a \<Rightarrow>
          (case alloc (A_StringMap []) h of (b, h) \<Rightarrow>
             (Some b, set_entries b (rng h (the (un_StringMap (h ! a)))) h)))"

section \<open>Definitions: DeepCopyInto\<close>

text \<open>Structs without references: \<^verbatim>\<open>*out = *in\<close>.\<close>

definition DeepCopyInto_BackupInformation :: "(cell, BackupInformation) copier" where
  "DeepCopyInto_BackupInformation = copy_value"

definition DeepCopyInto_BackupRef :: "(cell, BackupRef) copier" where
  "DeepCopyInto_BackupRef = copy_value"

definition DeepCopyInto_ClusterRef :: "(cell, ClusterRef) copier" where
  "DeepCopyInto_ClusterRef = copy_value"

definition DeepCopyInto_ClusterSelector :: "(cell, ClusterSelector) copier" where
  "DeepCopyInto_ClusterSelector = copy_value"

definition DeepCopyInto_Container :: "(cell, Container) copier" where
  "DeepCopyInto_Container = copy_value"

definition DeepCopyInto_NodeHealthSpec :: "(cell, NodeHealthSpec) copier" where
  "DeepCopyInto_NodeHealthSpec = copy_value"

definition DeepCopyInto_PackagePolicySpec :: "(cell, PackagePolicySpec) copier" where
  "DeepCopyInto_PackagePolicySpec = copy_value"

definition DeepCopyInto_PackagePolicyStatus :: "(cell, PackagePolicyStatus) copier" where
  "DeepCopyInto_PackagePolicyStatus = copy_value"

definition DeepCopyInto_PackageRetentionPolicy :: "(cell, PackageRetentionPolicy) copier" where
  "DeepCopyInto_PackageRetentionPolicy = copy_value"

definition DeepCopyInto_PreferredCluster :: "(cell, PreferredCluster) copier" where
  "DeepCopyInto_PreferredCluster = copy_value"

definition DeepCopyInto_SecretRef :: "(cell, SecretRef) copier" where
  "DeepCopyInto_SecretRef = copy_value"

text \<open>
  The others. A field of a type without references is copied by assignment, alone as \<^verbatim>\<open>**out = **in\<close> and in a
  slice by \<^verbatim>\<open>copy\<close>, and the others by the copy function of their type.
\<close>

definition DeepCopyInto_Containers :: "ext_copy \<Rightarrow> (cell, ContainersMem) copier" where
  "DeepCopyInto_Containers x = copy_fields consm_Container (\<lambda>s c. s\<lparr>consm_Container := c\<rparr>) (x_Container x)"

definition DeepCopyInto_PackageSelector :: "(cell, PackageSelectorMem) copier" where
  "DeepCopyInto_PackageSelector =
     copy_fields (\<lambda>s. psm_BackupInformation s)
       (\<lambda>s bi. s\<lparr>psm_BackupInformation := bi\<rparr>)
       (copy_slice A_BackupInformation un_BackupInformation zero_BackupInformation copy_value)"

definition DeepCopyInto_TargetClusterPolicy :: "(cell, TargetClusterPolicyMem) copier" where
  "DeepCopyInto_TargetClusterPolicy =
     copy_fields (\<lambda>s. (tcm_PreferClusters s, tcm_AvoidClusters s))
       (\<lambda>s (pc, ac). s\<lparr>tcm_PreferClusters := pc, tcm_AvoidClusters := ac\<rparr>)
       (copy_pair (copy_slice A_PreferredCluster un_PreferredCluster zero_PreferredCluster copy_value)
         (copy_slice A_PreferredCluster un_PreferredCluster zero_PreferredCluster copy_value))"

definition DeepCopyInto_ClusterPolicySpec :: "(cell, ClusterPolicySpecMem) copier" where
  "DeepCopyInto_ClusterPolicySpec =
     copy_fields (\<lambda>s. (cpsm_PackageSelectors s, cpsm_TargetClusterPolicy s))
       (\<lambda>s (ps, tcp). s\<lparr>cpsm_PackageSelectors := ps, cpsm_TargetClusterPolicy := tcp\<rparr>)
       (copy_pair (copy_slice A_PackageSelector un_PackageSelector zero_PackageSelectorMem DeepCopyInto_PackageSelector)
         DeepCopyInto_TargetClusterPolicy)"

definition DeepCopyInto_TransitionedPackages :: "ext_copy \<Rightarrow> (cell, TransitionedPackagesMem) copier" where
  "DeepCopyInto_TransitionedPackages x =
     copy_fields (\<lambda>s. (tpm_PackageSelectors s, tpm_LastTransitionTime s))
       (\<lambda>s (ps, ltt). s\<lparr>tpm_PackageSelectors := ps, tpm_LastTransitionTime := ltt\<rparr>)
       (copy_pair (copy_slice A_PackageSelector un_PackageSelector zero_PackageSelectorMem DeepCopyInto_PackageSelector)
         (x_Time x))"

definition DeepCopyInto_ClusterPolicyStatus :: "ext_copy \<Rightarrow> (cell, ClusterPolicyStatusMem) copier" where
  "DeepCopyInto_ClusterPolicyStatus x =
     copy_fields (\<lambda>s. cpstm_TransitionedPackages s)
       (\<lambda>s tp. s\<lparr>cpstm_TransitionedPackages := tp\<rparr>)
       (copy_slice A_TransitionedPackages un_TransitionedPackages zero_TransitionedPackagesMem (DeepCopyInto_TransitionedPackages x))"

definition DeepCopyInto_ContainerRef :: "ext_copy \<Rightarrow> (cell, ContainerRefMem) copier" where
  "DeepCopyInto_ContainerRef x =
     copy_fields (\<lambda>s. crm_Containers s)
       (\<lambda>s c. s\<lparr>crm_Containers := c\<rparr>)
       (copy_slice A_CoreContainer un_CoreContainer zero_CoreContainerMem (x_Container x))"

definition DeepCopyInto_PodRef :: "ext_copy \<Rightarrow> (cell, PodRefMem) copier" where
  "DeepCopyInto_PodRef x =
     copy_fields (\<lambda>s. prm_ContainerRef s)
       (\<lambda>s cr. s\<lparr>prm_ContainerRef := cr\<rparr>)
       (DeepCopyInto_ContainerRef x)"

definition DeepCopyInto_ResourceRef :: "ext_copy \<Rightarrow> (cell, ResourceRefMem) copier" where
  "DeepCopyInto_ResourceRef x =
     copy_fields (\<lambda>s. rrm_Annotations s)
       (\<lambda>s a. s\<lparr>rrm_Annotations := a\<rparr>)
       (copy_map (x_range x))"

definition DeepCopyInto_Registry :: "(cell, RegistryMem) copier" where
  "DeepCopyInto_Registry =
     copy_fields (\<lambda>s. regm_SecretRef s)
       (\<lambda>s sr. s\<lparr>regm_SecretRef := sr\<rparr>)
       (copy_ptr A_SecretRef un_SecretRef zero_SecretRef copy_value)"

definition DeepCopyInto_CheckpointSpec :: "ext_copy \<Rightarrow> (cell, CheckpointSpecMem) copier" where
  "DeepCopyInto_CheckpointSpec x =
     copy_fields (\<lambda>s. (cksm_ClusterRef s, cksm_TargetClusterRef s, cksm_PodRef s, cksm_ResourceRef s, cksm_Registry s,
        cksm_Containers s))
       (\<lambda>s (cr, tcr, pr, rr, r, c).
          s\<lparr>cksm_ClusterRef := cr, cksm_TargetClusterRef := tcr, cksm_PodRef := pr, cksm_ResourceRef := rr,
          cksm_Registry := r, cksm_Containers := c\<rparr>)
       (copy_pair (copy_ptr A_ClusterRef un_ClusterRef zero_ClusterRef copy_value)
         (copy_pair (copy_ptr A_ClusterRef un_ClusterRef zero_ClusterRef copy_value)
           (copy_pair (DeepCopyInto_PodRef x)
             (copy_pair (DeepCopyInto_ResourceRef x)
               (copy_pair DeepCopyInto_Registry
                 (copy_slice A_Container un_Container zero_Container copy_value))))))"

definition DeepCopyInto_CheckpointStatus :: "ext_copy \<Rightarrow> (cell, CheckpointStatusMem) copier" where
  "DeepCopyInto_CheckpointStatus x =
     copy_fields (\<lambda>s. (ckstm_LastCheckpointTime s, ckstm_Conditions s))
       (\<lambda>s (lct, c). s\<lparr>ckstm_LastCheckpointTime := lct, ckstm_Conditions := c\<rparr>)
       (copy_pair (copy_non_nil (x_TimePtr x))
         (copy_slice A_Condition un_Condition zero_Condition (x_Condition x)))"

definition DeepCopyInto_NodeHealthStatus :: "ext_copy \<Rightarrow> (cell, NodeHealthStatusMem) copier" where
  "DeepCopyInto_NodeHealthStatus x =
     copy_fields (\<lambda>s. (nhstm_Conditions s, nhstm_LastSeen s))
       (\<lambda>s (c, ls). s\<lparr>nhstm_Conditions := c, nhstm_LastSeen := ls\<rparr>)
       (copy_pair (copy_slice A_Condition un_Condition zero_Condition (x_Condition x))
         (x_Time x))"

text \<open>The root kinds and their lists.\<close>

definition DeepCopyInto_ClusterPolicy :: "ext_copy \<Rightarrow> (cell, ClusterPolicyMem) copier" where
  "DeepCopyInto_ClusterPolicy x =
     copy_fields (\<lambda>s. (cpm_ObjectMeta s, cpm_Spec s, cpm_Status s))
       (\<lambda>s (om, spec, stat). s\<lparr>cpm_ObjectMeta := om, cpm_Spec := spec, cpm_Status := stat\<rparr>)
       (copy_pair (x_ObjectMeta x)
         (copy_pair DeepCopyInto_ClusterPolicySpec
           (DeepCopyInto_ClusterPolicyStatus x)))"

definition DeepCopyInto_ClusterPolicyList :: "ext_copy \<Rightarrow> (cell, ClusterPolicyListMem) copier" where
  "DeepCopyInto_ClusterPolicyList x =
     copy_fields (\<lambda>s. (cpml_ListMeta s, cpml_Items s))
       (\<lambda>s (lm, i). s\<lparr>cpml_ListMeta := lm, cpml_Items := i\<rparr>)
       (copy_pair (x_ListMeta x)
         (copy_slice A_ClusterPolicy un_ClusterPolicy zero_ClusterPolicyMem (DeepCopyInto_ClusterPolicy x)))"

definition DeepCopyInto_Checkpoint :: "ext_copy \<Rightarrow> (cell, CheckpointMem) copier" where
  "DeepCopyInto_Checkpoint x =
     copy_fields (\<lambda>s. (ckm_ObjectMeta s, ckm_Spec s, ckm_Status s))
       (\<lambda>s (om, spec, stat). s\<lparr>ckm_ObjectMeta := om, ckm_Spec := spec, ckm_Status := stat\<rparr>)
       (copy_pair (x_ObjectMeta x)
         (copy_pair (DeepCopyInto_CheckpointSpec x)
           (DeepCopyInto_CheckpointStatus x)))"

definition DeepCopyInto_CheckpointList :: "ext_copy \<Rightarrow> (cell, CheckpointListMem) copier" where
  "DeepCopyInto_CheckpointList x =
     copy_fields (\<lambda>s. (ckml_ListMeta s, ckml_Items s))
       (\<lambda>s (lm, i). s\<lparr>ckml_ListMeta := lm, ckml_Items := i\<rparr>)
       (copy_pair (x_ListMeta x)
         (copy_slice A_Checkpoint un_Checkpoint zero_CheckpointMem (DeepCopyInto_Checkpoint x)))"

definition DeepCopyInto_NodeHealth :: "ext_copy \<Rightarrow> (cell, NodeHealthMem) copier" where
  "DeepCopyInto_NodeHealth x =
     copy_fields (\<lambda>s. (nhm_ObjectMeta s, nhm_Status s))
       (\<lambda>s (om, stat). s\<lparr>nhm_ObjectMeta := om, nhm_Status := stat\<rparr>)
       (copy_pair (x_ObjectMeta x)
         (DeepCopyInto_NodeHealthStatus x))"

definition DeepCopyInto_NodeHealthList :: "ext_copy \<Rightarrow> (cell, NodeHealthListMem) copier" where
  "DeepCopyInto_NodeHealthList x =
     copy_fields (\<lambda>s. (nhml_ListMeta s, nhml_Items s))
       (\<lambda>s (lm, i). s\<lparr>nhml_ListMeta := lm, nhml_Items := i\<rparr>)
       (copy_pair (x_ListMeta x)
         (copy_slice A_NodeHealth un_NodeHealth zero_NodeHealthMem (DeepCopyInto_NodeHealth x)))"

definition DeepCopyInto_PackagePolicy :: "ext_copy \<Rightarrow> (cell, PackagePolicyMem) copier" where
  "DeepCopyInto_PackagePolicy x =
     copy_fields (\<lambda>s. ppm_ObjectMeta s)
       (\<lambda>s om. s\<lparr>ppm_ObjectMeta := om\<rparr>)
       (x_ObjectMeta x)"

definition DeepCopyInto_PackagePolicyList :: "ext_copy \<Rightarrow> (cell, PackagePolicyListMem) copier" where
  "DeepCopyInto_PackagePolicyList x =
     copy_fields (\<lambda>s. (ppml_ListMeta s, ppml_Items s))
       (\<lambda>s (lm, i). s\<lparr>ppml_ListMeta := lm, ppml_Items := i\<rparr>)
       (copy_pair (x_ListMeta x)
         (copy_slice A_PackagePolicy un_PackagePolicy zero_PackagePolicyMem (DeepCopyInto_PackagePolicy x)))"

section \<open>Definitions: DeepCopy\<close>

text \<open>Nil for nil, and otherwise \<^verbatim>\<open>new\<close> and \<^verbatim>\<open>DeepCopyInto\<close>.\<close>

definition DeepCopy_BackupInformation :: "(cell, nat option) copier" where
  "DeepCopy_BackupInformation =
     copy_ptr A_BackupInformation un_BackupInformation zero_BackupInformation DeepCopyInto_BackupInformation"

definition DeepCopy_BackupRef :: "(cell, nat option) copier" where
  "DeepCopy_BackupRef =
     copy_ptr A_BackupRef un_BackupRef zero_BackupRef DeepCopyInto_BackupRef"

definition DeepCopy_ClusterRef :: "(cell, nat option) copier" where
  "DeepCopy_ClusterRef =
     copy_ptr A_ClusterRef un_ClusterRef zero_ClusterRef DeepCopyInto_ClusterRef"

definition DeepCopy_ClusterSelector :: "(cell, nat option) copier" where
  "DeepCopy_ClusterSelector =
     copy_ptr A_ClusterSelector un_ClusterSelector zero_ClusterSelector DeepCopyInto_ClusterSelector"

definition DeepCopy_Container :: "(cell, nat option) copier" where
  "DeepCopy_Container =
     copy_ptr A_Container un_Container zero_Container DeepCopyInto_Container"

definition DeepCopy_NodeHealthSpec :: "(cell, nat option) copier" where
  "DeepCopy_NodeHealthSpec =
     copy_ptr A_NodeHealthSpec un_NodeHealthSpec zero_NodeHealthSpec DeepCopyInto_NodeHealthSpec"

definition DeepCopy_PackagePolicySpec :: "(cell, nat option) copier" where
  "DeepCopy_PackagePolicySpec =
     copy_ptr A_PackagePolicySpec un_PackagePolicySpec zero_PackagePolicySpec DeepCopyInto_PackagePolicySpec"

definition DeepCopy_PackagePolicyStatus :: "(cell, nat option) copier" where
  "DeepCopy_PackagePolicyStatus =
     copy_ptr A_PackagePolicyStatus un_PackagePolicyStatus zero_PackagePolicyStatus DeepCopyInto_PackagePolicyStatus"

definition DeepCopy_PackageRetentionPolicy :: "(cell, nat option) copier" where
  "DeepCopy_PackageRetentionPolicy =
     copy_ptr A_PackageRetentionPolicy un_PackageRetentionPolicy zero_PackageRetentionPolicy DeepCopyInto_PackageRetentionPolicy"

definition DeepCopy_PreferredCluster :: "(cell, nat option) copier" where
  "DeepCopy_PreferredCluster =
     copy_ptr A_PreferredCluster un_PreferredCluster zero_PreferredCluster DeepCopyInto_PreferredCluster"

definition DeepCopy_SecretRef :: "(cell, nat option) copier" where
  "DeepCopy_SecretRef =
     copy_ptr A_SecretRef un_SecretRef zero_SecretRef DeepCopyInto_SecretRef"

definition DeepCopy_Containers :: "ext_copy \<Rightarrow> (cell, nat option) copier" where
  "DeepCopy_Containers x =
     copy_ptr A_Containers un_Containers zero_ContainersMem (DeepCopyInto_Containers x)"

definition DeepCopy_PackageSelector :: "(cell, nat option) copier" where
  "DeepCopy_PackageSelector =
     copy_ptr A_PackageSelector un_PackageSelector zero_PackageSelectorMem DeepCopyInto_PackageSelector"

definition DeepCopy_TargetClusterPolicy :: "(cell, nat option) copier" where
  "DeepCopy_TargetClusterPolicy =
     copy_ptr A_TargetClusterPolicy un_TargetClusterPolicy zero_TargetClusterPolicyMem DeepCopyInto_TargetClusterPolicy"

definition DeepCopy_ClusterPolicySpec :: "(cell, nat option) copier" where
  "DeepCopy_ClusterPolicySpec =
     copy_ptr A_ClusterPolicySpec un_ClusterPolicySpec zero_ClusterPolicySpecMem DeepCopyInto_ClusterPolicySpec"

definition DeepCopy_TransitionedPackages :: "ext_copy \<Rightarrow> (cell, nat option) copier" where
  "DeepCopy_TransitionedPackages x =
     copy_ptr A_TransitionedPackages un_TransitionedPackages zero_TransitionedPackagesMem (DeepCopyInto_TransitionedPackages x)"

definition DeepCopy_ClusterPolicyStatus :: "ext_copy \<Rightarrow> (cell, nat option) copier" where
  "DeepCopy_ClusterPolicyStatus x =
     copy_ptr A_ClusterPolicyStatus un_ClusterPolicyStatus zero_ClusterPolicyStatusMem (DeepCopyInto_ClusterPolicyStatus x)"

definition DeepCopy_ContainerRef :: "ext_copy \<Rightarrow> (cell, nat option) copier" where
  "DeepCopy_ContainerRef x =
     copy_ptr A_ContainerRef un_ContainerRef zero_ContainerRefMem (DeepCopyInto_ContainerRef x)"

definition DeepCopy_PodRef :: "ext_copy \<Rightarrow> (cell, nat option) copier" where
  "DeepCopy_PodRef x =
     copy_ptr A_PodRef un_PodRef zero_PodRefMem (DeepCopyInto_PodRef x)"

definition DeepCopy_ResourceRef :: "ext_copy \<Rightarrow> (cell, nat option) copier" where
  "DeepCopy_ResourceRef x =
     copy_ptr A_ResourceRef un_ResourceRef zero_ResourceRefMem (DeepCopyInto_ResourceRef x)"

definition DeepCopy_Registry :: "(cell, nat option) copier" where
  "DeepCopy_Registry =
     copy_ptr A_Registry un_Registry zero_RegistryMem DeepCopyInto_Registry"

definition DeepCopy_CheckpointSpec :: "ext_copy \<Rightarrow> (cell, nat option) copier" where
  "DeepCopy_CheckpointSpec x =
     copy_ptr A_CheckpointSpec un_CheckpointSpec zero_CheckpointSpecMem (DeepCopyInto_CheckpointSpec x)"

definition DeepCopy_CheckpointStatus :: "ext_copy \<Rightarrow> (cell, nat option) copier" where
  "DeepCopy_CheckpointStatus x =
     copy_ptr A_CheckpointStatus un_CheckpointStatus zero_CheckpointStatusMem (DeepCopyInto_CheckpointStatus x)"

definition DeepCopy_NodeHealthStatus :: "ext_copy \<Rightarrow> (cell, nat option) copier" where
  "DeepCopy_NodeHealthStatus x =
     copy_ptr A_NodeHealthStatus un_NodeHealthStatus zero_NodeHealthStatusMem (DeepCopyInto_NodeHealthStatus x)"

definition DeepCopy_ClusterPolicy :: "ext_copy \<Rightarrow> (cell, nat option) copier" where
  "DeepCopy_ClusterPolicy x =
     copy_ptr A_ClusterPolicy un_ClusterPolicy zero_ClusterPolicyMem (DeepCopyInto_ClusterPolicy x)"

definition DeepCopy_ClusterPolicyList :: "ext_copy \<Rightarrow> (cell, nat option) copier" where
  "DeepCopy_ClusterPolicyList x =
     copy_ptr A_ClusterPolicyList un_ClusterPolicyList zero_ClusterPolicyListMem (DeepCopyInto_ClusterPolicyList x)"

definition DeepCopy_Checkpoint :: "ext_copy \<Rightarrow> (cell, nat option) copier" where
  "DeepCopy_Checkpoint x =
     copy_ptr A_Checkpoint un_Checkpoint zero_CheckpointMem (DeepCopyInto_Checkpoint x)"

definition DeepCopy_CheckpointList :: "ext_copy \<Rightarrow> (cell, nat option) copier" where
  "DeepCopy_CheckpointList x =
     copy_ptr A_CheckpointList un_CheckpointList zero_CheckpointListMem (DeepCopyInto_CheckpointList x)"

definition DeepCopy_NodeHealth :: "ext_copy \<Rightarrow> (cell, nat option) copier" where
  "DeepCopy_NodeHealth x =
     copy_ptr A_NodeHealth un_NodeHealth zero_NodeHealthMem (DeepCopyInto_NodeHealth x)"

definition DeepCopy_NodeHealthList :: "ext_copy \<Rightarrow> (cell, nat option) copier" where
  "DeepCopy_NodeHealthList x =
     copy_ptr A_NodeHealthList un_NodeHealthList zero_NodeHealthListMem (DeepCopyInto_NodeHealthList x)"

definition DeepCopy_PackagePolicy :: "ext_copy \<Rightarrow> (cell, nat option) copier" where
  "DeepCopy_PackagePolicy x =
     copy_ptr A_PackagePolicy un_PackagePolicy zero_PackagePolicyMem (DeepCopyInto_PackagePolicy x)"

definition DeepCopy_PackagePolicyList :: "ext_copy \<Rightarrow> (cell, nat option) copier" where
  "DeepCopy_PackagePolicyList x =
     copy_ptr A_PackagePolicyList un_PackagePolicyList zero_PackagePolicyListMem (DeepCopyInto_PackagePolicyList x)"

section \<open>Definitions: DeepCopyObject\<close>

text \<open>
  A value of the interface \<^verbatim>\<open>runtime.Object\<close> is nil or holds a pointer of one of the kinds, which may
  itself be nil: these are different things in Go.
\<close>

datatype runtime_object =
    O_ClusterPolicy "nat option"
  | O_ClusterPolicyList "nat option"
  | O_Checkpoint "nat option"
  | O_CheckpointList "nat option"
  | O_NodeHealth "nat option"
  | O_NodeHealthList "nat option"
  | O_PackagePolicy "nat option"
  | O_PackagePolicyList "nat option"

text \<open>\<^verbatim>\<open>if c := in.DeepCopy(); c != nil { return c }; return nil\<close>\<close>

definition as_object :: "(nat option \<Rightarrow> runtime_object) \<Rightarrow> nat option \<times> cell heap \<Rightarrow> runtime_object option \<times> cell heap" where
  "as_object K r = (case r of (c, h) \<Rightarrow> (if c \<noteq> None then Some (K c) else None, h))"

definition DeepCopyObject_ClusterPolicy :: "ext_copy \<Rightarrow> nat option \<Rightarrow> cell heap \<Rightarrow> runtime_object option \<times> cell heap" where
  "DeepCopyObject_ClusterPolicy x p h = as_object O_ClusterPolicy (DeepCopy_ClusterPolicy x p h)"

definition DeepCopyObject_ClusterPolicyList :: "ext_copy \<Rightarrow> nat option \<Rightarrow> cell heap \<Rightarrow> runtime_object option \<times> cell heap" where
  "DeepCopyObject_ClusterPolicyList x p h = as_object O_ClusterPolicyList (DeepCopy_ClusterPolicyList x p h)"

definition DeepCopyObject_Checkpoint :: "ext_copy \<Rightarrow> nat option \<Rightarrow> cell heap \<Rightarrow> runtime_object option \<times> cell heap" where
  "DeepCopyObject_Checkpoint x p h = as_object O_Checkpoint (DeepCopy_Checkpoint x p h)"

definition DeepCopyObject_CheckpointList :: "ext_copy \<Rightarrow> nat option \<Rightarrow> cell heap \<Rightarrow> runtime_object option \<times> cell heap" where
  "DeepCopyObject_CheckpointList x p h = as_object O_CheckpointList (DeepCopy_CheckpointList x p h)"

definition DeepCopyObject_NodeHealth :: "ext_copy \<Rightarrow> nat option \<Rightarrow> cell heap \<Rightarrow> runtime_object option \<times> cell heap" where
  "DeepCopyObject_NodeHealth x p h = as_object O_NodeHealth (DeepCopy_NodeHealth x p h)"

definition DeepCopyObject_NodeHealthList :: "ext_copy \<Rightarrow> nat option \<Rightarrow> cell heap \<Rightarrow> runtime_object option \<times> cell heap" where
  "DeepCopyObject_NodeHealthList x p h = as_object O_NodeHealthList (DeepCopy_NodeHealthList x p h)"

definition DeepCopyObject_PackagePolicy :: "ext_copy \<Rightarrow> nat option \<Rightarrow> cell heap \<Rightarrow> runtime_object option \<times> cell heap" where
  "DeepCopyObject_PackagePolicy x p h = as_object O_PackagePolicy (DeepCopy_PackagePolicy x p h)"

definition DeepCopyObject_PackagePolicyList :: "ext_copy \<Rightarrow> nat option \<Rightarrow> cell heap \<Rightarrow> runtime_object option \<times> cell heap" where
  "DeepCopyObject_PackagePolicyList x p h = as_object O_PackagePolicyList (DeepCopy_PackagePolicyList x p h)"

text \<open>The call through the interface, and the value behind an object.\<close>

fun DeepCopyObject :: "ext_copy \<Rightarrow> runtime_object \<Rightarrow> cell heap \<Rightarrow> runtime_object option \<times> cell heap" where
  "DeepCopyObject x (O_ClusterPolicy p) h = DeepCopyObject_ClusterPolicy x p h"
| "DeepCopyObject x (O_ClusterPolicyList p) h = DeepCopyObject_ClusterPolicyList x p h"
| "DeepCopyObject x (O_Checkpoint p) h = DeepCopyObject_Checkpoint x p h"
| "DeepCopyObject x (O_CheckpointList p) h = DeepCopyObject_CheckpointList x p h"
| "DeepCopyObject x (O_NodeHealth p) h = DeepCopyObject_NodeHealth x p h"
| "DeepCopyObject x (O_NodeHealthList p) h = DeepCopyObject_NodeHealthList x p h"
| "DeepCopyObject x (O_PackagePolicy p) h = DeepCopyObject_PackagePolicy x p h"
| "DeepCopyObject x (O_PackagePolicyList p) h = DeepCopyObject_PackagePolicyList x p h"

datatype object_value =
    V_ClusterPolicy "ClusterPolicy root"
  | V_ClusterPolicyList "ClusterPolicy items"
  | V_Checkpoint "Checkpoint root"
  | V_CheckpointList "Checkpoint items"
  | V_NodeHealth "NodeHealth root"
  | V_NodeHealthList "NodeHealth items"
  | V_PackagePolicy "PackagePolicy root"
  | V_PackagePolicyList "PackagePolicy items"

definition load_pointee :: "(cell \<Rightarrow> 'a list option) \<Rightarrow> (cell, 'a, 'b) loader \<Rightarrow> ('b \<Rightarrow> object_value) \<Rightarrow> (cell, nat option, object_value) loader" where
  "load_pointee un ld V h p =
     (case load_ptr un ld h p of Some (Some v, R) \<Rightarrow> Some (V v, R) | _ \<Rightarrow> None)"

text \<open>An object can be loaded if its pointer is not nil.\<close>

fun load_object :: "(cell, runtime_object, object_value) loader" where
  "load_object h (O_ClusterPolicy p) = load_pointee un_ClusterPolicy load_ClusterPolicy V_ClusterPolicy h p"
| "load_object h (O_ClusterPolicyList p) = load_pointee un_ClusterPolicyList load_ClusterPolicyList V_ClusterPolicyList h p"
| "load_object h (O_Checkpoint p) = load_pointee un_Checkpoint load_Checkpoint V_Checkpoint h p"
| "load_object h (O_CheckpointList p) = load_pointee un_CheckpointList load_CheckpointList V_CheckpointList h p"
| "load_object h (O_NodeHealth p) = load_pointee un_NodeHealth load_NodeHealth V_NodeHealth h p"
| "load_object h (O_NodeHealthList p) = load_pointee un_NodeHealthList load_NodeHealthList V_NodeHealthList h p"
| "load_object h (O_PackagePolicy p) = load_pointee un_PackagePolicy load_PackagePolicy V_PackagePolicy h p"
| "load_object h (O_PackagePolicyList p) = load_pointee un_PackagePolicyList load_PackagePolicyList V_PackagePolicyList h p"

fun pointer :: "runtime_object \<Rightarrow> nat option" where
  "pointer (O_ClusterPolicy p) = p"
| "pointer (O_ClusterPolicyList p) = p"
| "pointer (O_Checkpoint p) = p"
| "pointer (O_CheckpointList p) = p"
| "pointer (O_NodeHealth p) = p"
| "pointer (O_NodeHealthList p) = p"
| "pointer (O_PackagePolicy p) = p"
| "pointer (O_PackagePolicyList p) = p"

section \<open>The copy of a map\<close>

lemma map_set_new: "k \<notin> set (map fst m) \<Longrightarrow> map_set k v m = m @ [(k, v)]"
  by (simp add: map_set_def)

lemma set_entries_append:
  "b < length h \<Longrightarrow> h ! b = A_StringMap m \<Longrightarrow> distinct (map fst (m @ kvs)) \<Longrightarrow>
   set_entries b kvs h = h[b := A_StringMap (m @ kvs)]"
proof (induction kvs arbitrary: m h)
  case (Cons kv kvs)
  obtain k v where kv: "kv = (k, v)" by (cases kv)
  have "map_set k v m = m @ [(k, v)]" using Cons.prems(3) kv by (intro map_set_new) auto
  with Cons.prems Cons.IH [of "h[b := A_StringMap (m @ [(k, v)])]" "m @ [(k, v)]"] show ?case by (simp add: kv)
qed (metis append_Nil2 list_update_id set_entries.simps(1))

text \<open>Whatever the order of the loop, the copy is the same map.\<close>

lemma deepcopy_map:
  assumes rng: "\<And>h m. mset (rng h m) = mset m"
  shows "deepcopy load_map (copy_map rng)"
proof
  fix h p v R and g :: "cell heap"
  assume l: "load_map h p = Some (v, R)"
  then show "\<forall>a \<in> set R. a < length h" by (auto simp: load_map_def split: option.splits if_splits)
  show "load_map g p = Some (v, R)" if "agree R h g"
    using l that by (auto simp: load_map_def split: option.splits if_splits)
  fix q h'
  assume cp: "copy_map rng p h = (q, h')"
  show "prefix h h' \<and> (\<exists>S. load_map h' q = Some (v, S) \<and> (\<forall>a \<in> set S. length h \<le> a) \<and> distinct S)"
  proof (cases p)
    case None
    with l cp show ?thesis by (auto simp: load_map_def copy_map_def)
  next
    case (Some a)
    with l obtain m where m: "a < length h" "un_StringMap (h ! a) = Some m" "distinct (map fst m)" "v = sort_key fst m"
      by (auto simp: load_map_def split: option.splits if_splits)
    let ?h = "h @ [A_StringMap []]"
    define kvs where "kvs = rng ?h m"
    have perm: "mset kvs = mset m" by (simp add: kvs_def rng)
    then have d: "distinct (map fst kvs)" using m(3) by (metis mset_eq_imp_distinct_iff mset_map)
    have "sort_key fst kvs = sort_key fst m"
      using perm d by (intro sort_key_inj_key_eq) (simp_all add: distinct_map)
    moreover have "set_entries (length h) kvs ?h = h @ [A_StringMap kvs]"
      using d by (subst set_entries_append [where m = "[]"]) simp_all
    with cp Some m have "q = Some (length h)" "h' = h @ [A_StringMap kvs]"
      by (auto simp: copy_map_def alloc_def nth_append kvs_def)
    ultimately show ?thesis using m(4) d by (simp add: load_map_def)
  qed
qed

section \<open>The contract of the generated functions\<close>

text \<open>What the code relies on: the copy functions of the other packages do what they are documented to do.\<close>

locale external_copies =
  fixes x :: ext_copy
  assumes ObjectMeta: "deepcopy load_ObjectMeta (x_ObjectMeta x)"
    and ListMeta: "deepcopy load_ListMeta (x_ListMeta x)"
    and Container: "deepcopy load_CoreContainer (x_Container x)"
    and Condition: "deepcopy load_Condition (x_Condition x)"
    and Time: "deepcopy load_Time (x_Time x)"
    and TimePtr: "deepcopy (load_ptr un_time load_Time) (x_TimePtr x)"
    and range_perm: "mset (x_range x h m) = mset m"

lemmas copy_rules =
  deepcopy_fields deepcopy_pair deepcopy_slice deepcopy_ptr deepcopy_value un_cell

text \<open>The structs whose copy needs no other package.\<close>

lemma copy_PackageSelector: "deepcopy load_PackageSelector DeepCopyInto_PackageSelector"
  unfolding load_PackageSelector_def DeepCopyInto_PackageSelector_def by (intro copy_rules) (auto split: prod.splits)

lemma copy_TargetClusterPolicy: "deepcopy load_TargetClusterPolicy DeepCopyInto_TargetClusterPolicy"
  unfolding load_TargetClusterPolicy_def DeepCopyInto_TargetClusterPolicy_def by (intro copy_rules) (auto split: prod.splits)

lemma copy_ClusterPolicySpec: "deepcopy load_ClusterPolicySpec DeepCopyInto_ClusterPolicySpec"
  unfolding load_ClusterPolicySpec_def DeepCopyInto_ClusterPolicySpec_def by (intro copy_rules copy_PackageSelector copy_TargetClusterPolicy) (auto split: prod.splits)

lemma copy_Registry: "deepcopy load_Registry DeepCopyInto_Registry"
  unfolding load_Registry_def DeepCopyInto_Registry_def by (intro copy_rules) (auto split: prod.splits)

context external_copies
begin

lemma copy_Containers: "deepcopy load_Containers (DeepCopyInto_Containers x)"
  unfolding load_Containers_def DeepCopyInto_Containers_def by (intro copy_rules Container) auto

lemma copy_TransitionedPackages: "deepcopy load_TransitionedPackages (DeepCopyInto_TransitionedPackages x)"
  unfolding load_TransitionedPackages_def DeepCopyInto_TransitionedPackages_def by (intro copy_rules copy_PackageSelector Time) (auto split: prod.splits)

lemma copy_ClusterPolicyStatus: "deepcopy load_ClusterPolicyStatus (DeepCopyInto_ClusterPolicyStatus x)"
  unfolding load_ClusterPolicyStatus_def DeepCopyInto_ClusterPolicyStatus_def by (intro copy_rules copy_TransitionedPackages) (auto split: prod.splits)

lemma copy_ContainerRef: "deepcopy load_ContainerRef (DeepCopyInto_ContainerRef x)"
  unfolding load_ContainerRef_def DeepCopyInto_ContainerRef_def by (intro copy_rules Container) (auto split: prod.splits)

lemma copy_PodRef: "deepcopy load_PodRef (DeepCopyInto_PodRef x)"
  unfolding load_PodRef_def DeepCopyInto_PodRef_def by (intro copy_rules copy_ContainerRef) (auto split: prod.splits)

lemma copy_ResourceRef: "deepcopy load_ResourceRef (DeepCopyInto_ResourceRef x)"
  unfolding load_ResourceRef_def DeepCopyInto_ResourceRef_def by (intro copy_rules deepcopy_map range_perm) (auto split: prod.splits)

lemma copy_CheckpointSpec: "deepcopy load_CheckpointSpec (DeepCopyInto_CheckpointSpec x)"
  unfolding load_CheckpointSpec_def DeepCopyInto_CheckpointSpec_def by (intro copy_rules copy_PodRef copy_ResourceRef copy_Registry) (auto split: prod.splits)

lemma copy_CheckpointStatus: "deepcopy load_CheckpointStatus (DeepCopyInto_CheckpointStatus x)"
  unfolding load_CheckpointStatus_def DeepCopyInto_CheckpointStatus_def by (intro copy_rules Condition deepcopy_non_nil TimePtr) (auto split: prod.splits)

lemma copy_NodeHealthStatus: "deepcopy load_NodeHealthStatus (DeepCopyInto_NodeHealthStatus x)"
  unfolding load_NodeHealthStatus_def DeepCopyInto_NodeHealthStatus_def by (intro copy_rules Condition Time) (auto split: prod.splits)

lemma copy_ClusterPolicy: "deepcopy load_ClusterPolicy (DeepCopyInto_ClusterPolicy x)"
  unfolding load_ClusterPolicy_def DeepCopyInto_ClusterPolicy_def by (intro copy_rules copy_ClusterPolicySpec copy_ClusterPolicyStatus ObjectMeta) (auto split: prod.splits)

lemma copy_ClusterPolicyList: "deepcopy load_ClusterPolicyList (DeepCopyInto_ClusterPolicyList x)"
  unfolding load_ClusterPolicyList_def DeepCopyInto_ClusterPolicyList_def by (intro copy_rules copy_ClusterPolicy ListMeta) (auto split: prod.splits)

lemma copy_Checkpoint: "deepcopy load_Checkpoint (DeepCopyInto_Checkpoint x)"
  unfolding load_Checkpoint_def DeepCopyInto_Checkpoint_def by (intro copy_rules copy_CheckpointSpec copy_CheckpointStatus ObjectMeta) (auto split: prod.splits)

lemma copy_CheckpointList: "deepcopy load_CheckpointList (DeepCopyInto_CheckpointList x)"
  unfolding load_CheckpointList_def DeepCopyInto_CheckpointList_def by (intro copy_rules copy_Checkpoint ListMeta) (auto split: prod.splits)

lemma copy_NodeHealth: "deepcopy load_NodeHealth (DeepCopyInto_NodeHealth x)"
  unfolding load_NodeHealth_def DeepCopyInto_NodeHealth_def by (intro copy_rules copy_NodeHealthStatus ObjectMeta) (auto split: prod.splits)

lemma copy_NodeHealthList: "deepcopy load_NodeHealthList (DeepCopyInto_NodeHealthList x)"
  unfolding load_NodeHealthList_def DeepCopyInto_NodeHealthList_def by (intro copy_rules copy_NodeHealth ListMeta) (auto split: prod.splits)

lemma copy_PackagePolicy: "deepcopy load_PackagePolicy (DeepCopyInto_PackagePolicy x)"
  unfolding load_PackagePolicy_def DeepCopyInto_PackagePolicy_def by (intro copy_rules ObjectMeta) (auto split: prod.splits)

lemma copy_PackagePolicyList: "deepcopy load_PackagePolicyList (DeepCopyInto_PackagePolicyList x)"
  unfolding load_PackagePolicyList_def DeepCopyInto_PackagePolicyList_def by (intro copy_rules copy_PackagePolicy ListMeta) (auto split: prod.splits)

end

section \<open>The contract of an object\<close>

text \<open>
  A pointer to an object of some kind: the copy is a pointer to a new object of that kind, and the object
  behind either of the two does not change when the cells of the other are written.
\<close>

lemma as_object_independent:
  assumes cp: "deepcopy ld cp" and mk: "\<And>zs. un (mk zs) = Some zs"
    and K: "\<And>h p. load_object h (K p) = load_pointee un ld V h p"
    and ob: "load_object h (K p) = Some (v, R)" and r: "as_object K (copy_ptr mk un zero cp p h) = (r, h')"
  shows "\<exists>c S. r = Some c \<and> prefix h h' \<and> load_object h' (K p) = Some (v, R) \<and> load_object h' c = Some (v, S) \<and>
    distinct S \<and> set R \<inter> set S = {} \<and>
    (\<forall>g. writes_only S h' g \<longrightarrow> load_object g (K p) = Some (v, R)) \<and>
    (\<forall>g. writes_only R h' g \<longrightarrow> load_object g c = Some (v, S))"
proof -
  have dc: "deepcopy (load_ptr un ld) (copy_ptr mk un zero cp)" using cp mk by (rule deepcopy_ptr)
  from ob obtain w where w: "load_ptr un ld h p = Some (Some w, R)" "v = V w"
    by (auto simp: K load_pointee_def split: option.splits)
  obtain q where q: "copy_ptr mk un zero cp p h = (q, h')" using r by (auto simp: as_object_def split: prod.splits)
  have "prefix h h'" using deepcopy.copies [OF dc w(1) q] by blast
  moreover from deepcopy.independent [OF dc w(1) q] obtain S where S: "load_ptr un ld h' p = Some (Some w, R)"
    "load_ptr un ld h' q = Some (Some w, S)" "distinct S" "set R \<inter> set S = {}"
    "\<forall>g. writes_only S h' g \<longrightarrow> load_ptr un ld g p = Some (Some w, R)"
    "\<forall>g. writes_only R h' g \<longrightarrow> load_ptr un ld g q = Some (Some w, S)" by blast
  moreover have "r = Some (K q)" using S(2) r by (auto simp: q as_object_def load_ptr_Some)
  ultimately show ?thesis by (auto simp: K load_pointee_def w(2))
qed

text \<open>A nil pointer is answered with a nil interface, never with one that holds a nil pointer.\<close>

lemma DeepCopyObject_nil: "pointer ob = None \<Longrightarrow> DeepCopyObject x ob h = (None, h)"
  by (cases ob) (simp_all add: DeepCopyObject_Checkpoint_def DeepCopyObject_CheckpointList_def DeepCopyObject_ClusterPolicy_def
    DeepCopyObject_ClusterPolicyList_def DeepCopyObject_NodeHealth_def DeepCopyObject_NodeHealthList_def
    DeepCopyObject_PackagePolicy_def DeepCopyObject_PackagePolicyList_def DeepCopy_Checkpoint_def DeepCopy_CheckpointList_def
    DeepCopy_ClusterPolicy_def DeepCopy_ClusterPolicyList_def DeepCopy_NodeHealth_def DeepCopy_NodeHealthList_def
    DeepCopy_PackagePolicy_def DeepCopy_PackagePolicyList_def copy_ptr_def as_object_def)

context external_copies
begin

text \<open>\<^verbatim>\<open>DeepCopy\<close> of every struct keeps the contract, for pointers.\<close>

lemma DeepCopy_copies:
  "deepcopy (load_ptr un_BackupInformation (load_value id)) DeepCopy_BackupInformation"
  "deepcopy (load_ptr un_BackupRef (load_value id)) DeepCopy_BackupRef"
  "deepcopy (load_ptr un_ClusterRef (load_value id)) DeepCopy_ClusterRef"
  "deepcopy (load_ptr un_ClusterSelector (load_value id)) DeepCopy_ClusterSelector"
  "deepcopy (load_ptr un_Container (load_value id)) DeepCopy_Container"
  "deepcopy (load_ptr un_NodeHealthSpec (load_value id)) DeepCopy_NodeHealthSpec"
  "deepcopy (load_ptr un_PackagePolicySpec (load_value id)) DeepCopy_PackagePolicySpec"
  "deepcopy (load_ptr un_PackagePolicyStatus (load_value id)) DeepCopy_PackagePolicyStatus"
  "deepcopy (load_ptr un_PackageRetentionPolicy (load_value id)) DeepCopy_PackageRetentionPolicy"
  "deepcopy (load_ptr un_PreferredCluster (load_value id)) DeepCopy_PreferredCluster"
  "deepcopy (load_ptr un_SecretRef (load_value id)) DeepCopy_SecretRef"
  "deepcopy (load_ptr un_Containers load_Containers) (DeepCopy_Containers x)"
  "deepcopy (load_ptr un_PackageSelector load_PackageSelector) DeepCopy_PackageSelector"
  "deepcopy (load_ptr un_TargetClusterPolicy load_TargetClusterPolicy) DeepCopy_TargetClusterPolicy"
  "deepcopy (load_ptr un_ClusterPolicySpec load_ClusterPolicySpec) DeepCopy_ClusterPolicySpec"
  "deepcopy (load_ptr un_TransitionedPackages load_TransitionedPackages) (DeepCopy_TransitionedPackages x)"
  "deepcopy (load_ptr un_ClusterPolicyStatus load_ClusterPolicyStatus) (DeepCopy_ClusterPolicyStatus x)"
  "deepcopy (load_ptr un_ContainerRef load_ContainerRef) (DeepCopy_ContainerRef x)"
  "deepcopy (load_ptr un_PodRef load_PodRef) (DeepCopy_PodRef x)"
  "deepcopy (load_ptr un_ResourceRef load_ResourceRef) (DeepCopy_ResourceRef x)"
  "deepcopy (load_ptr un_Registry load_Registry) DeepCopy_Registry"
  "deepcopy (load_ptr un_CheckpointSpec load_CheckpointSpec) (DeepCopy_CheckpointSpec x)"
  "deepcopy (load_ptr un_CheckpointStatus load_CheckpointStatus) (DeepCopy_CheckpointStatus x)"
  "deepcopy (load_ptr un_NodeHealthStatus load_NodeHealthStatus) (DeepCopy_NodeHealthStatus x)"
  "deepcopy (load_ptr un_ClusterPolicy load_ClusterPolicy) (DeepCopy_ClusterPolicy x)"
  "deepcopy (load_ptr un_ClusterPolicyList load_ClusterPolicyList) (DeepCopy_ClusterPolicyList x)"
  "deepcopy (load_ptr un_Checkpoint load_Checkpoint) (DeepCopy_Checkpoint x)"
  "deepcopy (load_ptr un_CheckpointList load_CheckpointList) (DeepCopy_CheckpointList x)"
  "deepcopy (load_ptr un_NodeHealth load_NodeHealth) (DeepCopy_NodeHealth x)"
  "deepcopy (load_ptr un_NodeHealthList load_NodeHealthList) (DeepCopy_NodeHealthList x)"
  "deepcopy (load_ptr un_PackagePolicy load_PackagePolicy) (DeepCopy_PackagePolicy x)"
  "deepcopy (load_ptr un_PackagePolicyList load_PackagePolicyList) (DeepCopy_PackagePolicyList x)"
  unfolding DeepCopy_BackupInformation_def DeepCopy_BackupRef_def DeepCopy_ClusterRef_def DeepCopy_ClusterSelector_def
    DeepCopy_Container_def DeepCopy_NodeHealthSpec_def DeepCopy_PackagePolicySpec_def
    DeepCopy_PackagePolicyStatus_def DeepCopy_PackageRetentionPolicy_def DeepCopy_PreferredCluster_def
    DeepCopy_SecretRef_def DeepCopy_Containers_def DeepCopy_PackageSelector_def DeepCopy_TargetClusterPolicy_def
    DeepCopy_ClusterPolicySpec_def DeepCopy_TransitionedPackages_def DeepCopy_ClusterPolicyStatus_def
    DeepCopy_ContainerRef_def DeepCopy_PodRef_def DeepCopy_ResourceRef_def DeepCopy_Registry_def
    DeepCopy_CheckpointSpec_def DeepCopy_CheckpointStatus_def DeepCopy_NodeHealthStatus_def
    DeepCopy_ClusterPolicy_def DeepCopy_ClusterPolicyList_def DeepCopy_Checkpoint_def
    DeepCopy_CheckpointList_def DeepCopy_NodeHealth_def DeepCopy_NodeHealthList_def DeepCopy_PackagePolicy_def
    DeepCopy_PackagePolicyList_def
    DeepCopyInto_BackupInformation_def DeepCopyInto_BackupRef_def DeepCopyInto_ClusterRef_def
    DeepCopyInto_ClusterSelector_def DeepCopyInto_Container_def DeepCopyInto_NodeHealthSpec_def
    DeepCopyInto_PackagePolicySpec_def DeepCopyInto_PackagePolicyStatus_def
    DeepCopyInto_PackageRetentionPolicy_def DeepCopyInto_PreferredCluster_def DeepCopyInto_SecretRef_def
  by (intro deepcopy_ptr deepcopy_value un_cell
      copy_Containers copy_PackageSelector copy_TargetClusterPolicy copy_ClusterPolicySpec
      copy_TransitionedPackages copy_ClusterPolicyStatus copy_ContainerRef copy_PodRef copy_ResourceRef
      copy_Registry copy_CheckpointSpec copy_CheckpointStatus copy_NodeHealthStatus copy_ClusterPolicy
      copy_ClusterPolicyList copy_Checkpoint copy_CheckpointList copy_NodeHealth copy_NodeHealthList
      copy_PackagePolicy copy_PackagePolicyList)+

lemma object_independent:
  assumes "load_object h ob = Some (v, R)" and "DeepCopyObject x ob h = (r, h')"
  shows "\<exists>c S. r = Some c \<and> prefix h h' \<and> load_object h' ob = Some (v, R) \<and> load_object h' c = Some (v, S) \<and>
    distinct S \<and> set R \<inter> set S = {} \<and>
    (\<forall>g. writes_only S h' g \<longrightarrow> load_object g ob = Some (v, R)) \<and>
    (\<forall>g. writes_only R h' g \<longrightarrow> load_object g c = Some (v, S))"
proof (cases ob)
  case (O_ClusterPolicy p)
  show ?thesis
    using assms unfolding O_ClusterPolicy DeepCopyObject.simps DeepCopyObject_ClusterPolicy_def DeepCopy_ClusterPolicy_def
    by - (rule as_object_independent [OF copy_ClusterPolicy]; (rule un_cell load_object.simps | assumption))
next
  case (O_ClusterPolicyList p)
  show ?thesis
    using assms unfolding O_ClusterPolicyList DeepCopyObject.simps DeepCopyObject_ClusterPolicyList_def DeepCopy_ClusterPolicyList_def
    by - (rule as_object_independent [OF copy_ClusterPolicyList]; (rule un_cell load_object.simps | assumption))
next
  case (O_Checkpoint p)
  show ?thesis
    using assms unfolding O_Checkpoint DeepCopyObject.simps DeepCopyObject_Checkpoint_def DeepCopy_Checkpoint_def
    by - (rule as_object_independent [OF copy_Checkpoint]; (rule un_cell load_object.simps | assumption))
next
  case (O_CheckpointList p)
  show ?thesis
    using assms unfolding O_CheckpointList DeepCopyObject.simps DeepCopyObject_CheckpointList_def DeepCopy_CheckpointList_def
    by - (rule as_object_independent [OF copy_CheckpointList]; (rule un_cell load_object.simps | assumption))
next
  case (O_NodeHealth p)
  show ?thesis
    using assms unfolding O_NodeHealth DeepCopyObject.simps DeepCopyObject_NodeHealth_def DeepCopy_NodeHealth_def
    by - (rule as_object_independent [OF copy_NodeHealth]; (rule un_cell load_object.simps | assumption))
next
  case (O_NodeHealthList p)
  show ?thesis
    using assms unfolding O_NodeHealthList DeepCopyObject.simps DeepCopyObject_NodeHealthList_def DeepCopy_NodeHealthList_def
    by - (rule as_object_independent [OF copy_NodeHealthList]; (rule un_cell load_object.simps | assumption))
next
  case (O_PackagePolicy p)
  show ?thesis
    using assms unfolding O_PackagePolicy DeepCopyObject.simps DeepCopyObject_PackagePolicy_def DeepCopy_PackagePolicy_def
    by - (rule as_object_independent [OF copy_PackagePolicy]; (rule un_cell load_object.simps | assumption))
next
  case (O_PackagePolicyList p)
  show ?thesis
    using assms unfolding O_PackagePolicyList DeepCopyObject.simps DeepCopyObject_PackagePolicyList_def DeepCopy_PackagePolicyList_def
    by - (rule as_object_independent [OF copy_PackagePolicyList]; (rule un_cell load_object.simps | assumption))
qed

end

section \<open>An instance of the contract\<close>

text \<open>
  The other packages' types with copies in the style of the generated ones satisfy the contract, here
  with a loop over maps that runs backwards.
\<close>

definition std_copies :: ext_copy where
  "std_copies =
     \<lparr>x_ObjectMeta =
        copy_fields (\<lambda>s. (omm_Finalizers s, omm_DeletionTimestamp s))
          (\<lambda>s (f, dt). s\<lparr>omm_Finalizers := f, omm_DeletionTimestamp := dt\<rparr>)
          (copy_pair (copy_slice A_string un_string '''' copy_value) (copy_ptr A_time un_time ZeroTime copy_value)),
      x_ListMeta =
        copy_fields (\<lambda>s. lmm_RemainingItemCount s) (\<lambda>s n. s\<lparr>lmm_RemainingItemCount := n\<rparr>)
          (copy_ptr A_int64 un_int64 0 copy_value),
      x_Container =
        copy_fields (\<lambda>s. (ccm_Args s, ccm_Command s, ccm_Ports s))
          (\<lambda>s (a, c, p). s\<lparr>ccm_Args := a, ccm_Command := c, ccm_Ports := p\<rparr>)
          (copy_pair (copy_slice A_string un_string '''' copy_value)
            (copy_pair (copy_slice A_string un_string '''' copy_value)
              (copy_slice A_ContainerPort un_ContainerPort zero_ContainerPort copy_value))),
      x_Condition = copy_value,
      x_Time = copy_value,
      x_TimePtr = copy_ptr A_time un_time ZeroTime copy_value,
      x_range = (\<lambda>h m. rev m)\<rparr>"

interpretation std: external_copies std_copies
proof (rule external_copies.intro)
  show "deepcopy load_ObjectMeta (x_ObjectMeta std_copies)"
    unfolding load_ObjectMeta_def std_copies_def ext_copy.simps by (intro copy_rules) (auto split: prod.splits)
  show "deepcopy load_ListMeta (x_ListMeta std_copies)"
    unfolding load_ListMeta_def std_copies_def ext_copy.simps by (intro copy_rules) auto
  show "deepcopy load_CoreContainer (x_Container std_copies)"
    unfolding load_CoreContainer_def std_copies_def ext_copy.simps by (intro copy_rules) (auto split: prod.splits)
  show "deepcopy (load_ptr un_time load_Time) (x_TimePtr std_copies)"
    unfolding load_Time_def std_copies_def ext_copy.simps by (intro copy_rules)
qed (simp_all add: std_copies_def load_Condition_def load_Time_def deepcopy_value)

text \<open>
  A Checkpoint in memory: both its cluster references point to the same cell, and it has
  annotations and a slice of containers that does not use all of its array.
\<close>

definition sample_memory :: "cell heap" where
  "sample_memory =
     [A_Checkpoint
        [zero_CheckpointMem\<lparr>ckm_Spec := zero_CheckpointSpecMem
           \<lparr>cksm_ClusterRef := Some 1, cksm_TargetClusterRef := Some 1,
            cksm_ResourceRef := zero_ResourceRefMem\<lparr>rrm_Annotations := Some 2\<rparr>,
            cksm_Containers := \<lparr>sl_array = Some 3, sl_len = 1\<rparr>\<rparr>\<rparr>],
      A_ClusterRef [\<lparr>clr_Name = ''edge'', clr_Repository = ''repo'', clr_PackageName = ''app''\<rparr>],
      A_StringMap [(''b'', ''2''), (''a'', ''1'')],
      A_Container [\<lparr>cont_Name = ''c'', cont_Image = ''i''\<rparr>, zero_Container]]"

section \<open>Copies are independent\<close>

text \<open>
  C29. A deep copy through the interface \<^verbatim>\<open>runtime.Object\<close> of any object of the API that can be loaded,
  of a root kind or a list of one, gives an object of the same kind and the same value, touches
  nothing that was in memory before, and shares nothing with the original: whatever is written later through
  one of the two leaves the value of the other as it was. Cells that the original reaches twice are
  copied twice. This rests on the copy functions of the Kubernetes packages doing the same.
\<close>

theorem deep_copies_are_independent:
  assumes "external_copies x" and "load_object h ob = Some (v, R)" and "DeepCopyObject x ob h = (r, h')"
  shows "\<exists>c S. r = Some c \<and> prefix h h' \<and> load_object h' ob = Some (v, R) \<and> load_object h' c = Some (v, S) \<and>
    distinct S \<and> set R \<inter> set S = {} \<and>
    (\<forall>g. writes_only S h' g \<longrightarrow> load_object g ob = Some (v, R)) \<and>
    (\<forall>g. writes_only R h' g \<longrightarrow> load_object g c = Some (v, S))"
  using assms by (rule external_copies.object_independent)

theorem deep_copies_are_independent_witness:
  "\<exists>v c S h'. load_object sample_memory (O_Checkpoint (Some 0)) = Some (v, [0, 1, 1, 2, 3]) \<and>
     DeepCopyObject std_copies (O_Checkpoint (Some 0)) sample_memory = (Some c, h') \<and>
     load_object h' c = Some (v, S) \<and> distinct S \<and> set [0, 1, 1, 2, 3] \<inter> set S = {} \<and>
     (\<forall>g. writes_only S h' g \<longrightarrow> load_object g (O_Checkpoint (Some 0)) = Some (v, [0, 1, 1, 2, 3]))"
proof -
  let ?o = "O_Checkpoint (Some 0)"
  have "map_option snd (load_object sample_memory ?o) = Some [0, 1, 1, 2, 3]" by code_simp
  then obtain v where v: "load_object sample_memory ?o = Some (v, [0, 1, 1, 2, 3])" by auto
  obtain r h' where r: "DeepCopyObject std_copies ?o sample_memory = (r, h')" by (rule prod.exhaust)
  from deep_copies_are_independent [OF std.external_copies_axioms v r] obtain c S where "r = Some c"
    "load_object h' c = Some (v, S)" "distinct S" "set [0, 1, 1, 2, 3] \<inter> set S = {}"
    "\<forall>g. writes_only S h' g \<longrightarrow> load_object g ?o = Some (v, [0, 1, 1, 2, 3])" by (elim exE conjE)
  with v r show ?thesis by (intro exI conjI; (assumption | simp only:))
qed

end
