(* ===== verification/Scheme_Setup.thy ===== *)
theory Scheme_Setup
  imports Prelude
begin

text \<open>
  Which Go types a client can decode: the registration of the operator's own kinds
  (\<^verbatim>\<open>groupversion_info.go\<close> and the \<^verbatim>\<open>init\<close> functions of the types in \<^verbatim>\<open>src/api/v1\<close>), the scheme of the
  process (\<^verbatim>\<open>init\<close> of \<^verbatim>\<open>src/cmd/main.go\<close>) and the schemes of \<^verbatim>\<open>src/reconcilers/capi/cluster.go\<close>. A scheme
  is a value of the client library, and so are the builder and the registration functions of the
  other packages: they are the parameter \<open>scheme_api\<close>.
\<close>

section \<open>Definitions\<close>

datatype api_package =
    Corev1 | Appsv1 | Batchv1 | Rbacv1 | Autoscalingv1 | Networkingv1 | Policyv1 | Storagev1 | Apiextensionsv1
  | Scale_scheme | Clientgo_scheme | Velerov1 | Argov1alpha1 | Capiv1beta1

text \<open>
  \<^verbatim>\<open>runtime.NewScheme\<close>, \<^verbatim>\<open>AddToScheme\<close> of a package, which gives an error or none and changes the
  scheme, and \<^verbatim>\<open>scheme.Builder\<close> with its \<^verbatim>\<open>Register\<close> and \<^verbatim>\<open>AddToScheme\<close>. An object that is
  registered is given by the name of its type.
\<close>

record ('s, 'b) scheme_api =
  sa_NewScheme :: 's
  sa_AddToScheme :: "api_package \<Rightarrow> 's \<Rightarrow> error option \<times> 's"
  sa_Builder :: "string \<times> string \<Rightarrow> 'b"
  sa_Register :: "string list \<Rightarrow> 'b \<Rightarrow> 'b"
  sa_Build :: "'b \<Rightarrow> 's \<Rightarrow> error option \<times> 's"

definition GroupVersion :: "string \<times> string" where
  "GroupVersion = (''transition.dcnlab.ssu.ac.kr'', ''v1'')"

text \<open>The \<^verbatim>\<open>init\<close> functions of the types run in the order of their files.\<close>

definition init_Checkpoint :: "('s, 'b) scheme_api \<Rightarrow> 'b \<Rightarrow> 'b" where
  "init_Checkpoint api = sa_Register api [''Checkpoint'', ''CheckpointList'']"

definition init_ClusterPolicy :: "('s, 'b) scheme_api \<Rightarrow> 'b \<Rightarrow> 'b" where
  "init_ClusterPolicy api = sa_Register api [''ClusterPolicy'', ''ClusterPolicyList'']"

definition init_NodeHealth :: "('s, 'b) scheme_api \<Rightarrow> 'b \<Rightarrow> 'b" where
  "init_NodeHealth api = sa_Register api [''NodeHealth'', ''NodeHealthList'']"

definition init_PackagePolicy :: "('s, 'b) scheme_api \<Rightarrow> 'b \<Rightarrow> 'b" where
  "init_PackagePolicy api = sa_Register api [''PackagePolicy'', ''PackagePolicyList'']"

definition SchemeBuilder :: "('s, 'b) scheme_api \<Rightarrow> 'b" where
  "SchemeBuilder api =
     init_PackagePolicy api (init_NodeHealth api (init_ClusterPolicy api (init_Checkpoint api (sa_Builder api GroupVersion))))"

definition transitionv1_AddToScheme :: "('s, 'b) scheme_api \<Rightarrow> 's \<Rightarrow> error option \<times> 's" where
  "transitionv1_AddToScheme api = sa_Build api (SchemeBuilder api)"

text \<open>A sequence of registrations under \<^verbatim>\<open>utilruntime.Must\<close>, which panics on an error.\<close>

fun must_all :: "('s \<Rightarrow> error option \<times> 's) list \<Rightarrow> 's \<Rightarrow> 's outcome" where
  "must_all [] s = Ret s"
| "must_all (f # fs) s = (case f s of (Some e, s) \<Rightarrow> Panic | (None, s) \<Rightarrow> must_all fs s)"

text \<open>The scheme of the process; an error of the Cluster API types is ignored.\<close>

definition init_scheme :: "('s, 'b) scheme_api \<Rightarrow> 's outcome" where
  "init_scheme api =
     (case must_all [sa_AddToScheme api Clientgo_scheme, sa_AddToScheme api Velerov1, sa_AddToScheme api Argov1alpha1,
                     transitionv1_AddToScheme api] (sa_NewScheme api) of
        Panic \<Rightarrow> Panic
      | Ret s \<Rightarrow> Ret (snd (sa_AddToScheme api Capiv1beta1 s)))"

definition GetSchemeWithVelero :: "('s, 'b) scheme_api \<Rightarrow> error + 's" where
  "GetSchemeWithVelero api =
     (case sa_AddToScheme api Corev1 (sa_NewScheme api) of
        (Some err, s) \<Rightarrow> Inl err
      | (None, s) \<Rightarrow>
          (case sa_AddToScheme api Velerov1 s of
             (Some err, s) \<Rightarrow> Inl err
           | (None, s) \<Rightarrow> Inr s))"

definition GetDefaultKubeScheme :: "('s, 'b) scheme_api \<Rightarrow> 's outcome" where
  "GetDefaultKubeScheme api =
     must_all (map (sa_AddToScheme api)
       [Corev1, Appsv1, Batchv1, Rbacv1, Autoscalingv1, Networkingv1, Policyv1, Storagev1, Apiextensionsv1, Scale_scheme])
       (sa_NewScheme api)"

text \<open>The scheme of the clients for workload clusters, in \<^verbatim>\<open>getCapiClusterClient\<close>.\<close>

definition workload_scheme :: "('s, 'b) scheme_api \<Rightarrow> 's outcome" where
  "workload_scheme api =
     (case GetDefaultKubeScheme api of
        Panic \<Rightarrow> Panic
      | Ret s \<Rightarrow>
          (case must_all [sa_AddToScheme api Velerov1] s of
             Panic \<Rightarrow> Panic
           | Ret s \<Rightarrow> Ret (snd (sa_AddToScheme api Argov1alpha1 s))))"

section \<open>What is registered\<close>

text \<open>
  A registration function keeps what the scheme knows, and without an error the scheme
  knows its kinds afterwards; \<open>knows\<close> is the lookup of the scheme.
\<close>

definition adds :: "('s \<Rightarrow> 'k \<Rightarrow> bool) \<Rightarrow> 'k set \<Rightarrow> ('s \<Rightarrow> error option \<times> 's) \<Rightarrow> bool" where
  "adds knows K f \<longleftrightarrow>
     (\<forall>s k. knows s k \<longrightarrow> knows (snd (f s)) k) \<and> (\<forall>s. fst (f s) = None \<longrightarrow> (\<forall>k \<in> K. knows (snd (f s)) k))"

lemma adds_keeps: "adds knows K f \<Longrightarrow> f s = (e, t) \<Longrightarrow> knows s k \<Longrightarrow> knows t k"
  unfolding adds_def by (metis snd_conv)

lemma adds_new: "adds knows K f \<Longrightarrow> f s = (None, t) \<Longrightarrow> k \<in> K \<Longrightarrow> knows t k"
  unfolding adds_def by (metis fst_conv snd_conv)

lemma must_all_Cons_Ret: "must_all (f # fs) s = Ret t \<longleftrightarrow> (\<exists>s'. f s = (None, s') \<and> must_all fs s' = Ret t)"
  by (auto split: prod.splits option.splits)

lemma must_all_keeps:
  "must_all fs s = Ret t \<Longrightarrow> \<forall>f \<in> set fs. \<exists>K. adds knows K f \<Longrightarrow> knows s k \<Longrightarrow> knows t k"
proof (induction fs arbitrary: s)
  case (Cons f fs)
  then obtain s' K where "f s = (None, s')" "must_all fs s' = Ret t" "adds knows K f"
    by (auto simp: must_all_Cons_Ret simp del: must_all.simps)
  with Cons adds_keeps show ?case by (metis list.set_intros(2))
qed simp

lemma must_all_knows:
  assumes "must_all fs s = Ret t" "\<forall>f \<in> set fs. \<exists>K. adds knows K f" "f \<in> set fs" "adds knows K f" "k \<in> K"
  shows "knows t k"
  using assms(1-3)
proof (induction fs arbitrary: s)
  case (Cons g fs)
  then obtain s' where s': "g s = (None, s')" "must_all fs s' = Ret t"
    by (auto simp: must_all_Cons_Ret simp del: must_all.simps)
  show ?case
  proof (cases "f \<in> set fs")
    case True
    with Cons s' show ?thesis by auto
  next
    case False
    with Cons.prems(3) s'(1) have "f s = (None, s')" by simp
    from assms(4) this assms(5) have k: "knows s' k" by (rule adds_new)
    have "\<forall>f \<in> set fs. \<exists>K. adds knows K f" using Cons.prems(2) by simp
    from s'(2) this k show ?thesis by (rule must_all_keeps)
  qed
qed simp

text \<open>
  A process that gets past its initialization can decode the operator's own kinds and those of the
  packages whose registration it insists on.
\<close>

lemma init_scheme_knows:
  assumes "init_scheme api = Ret s"
    and adds: "\<And>p. adds knows (kinds p) (sa_AddToScheme api p)" and own: "adds knows own (transitionv1_AddToScheme api)"
  shows "\<forall>k \<in> own \<union> kinds Clientgo_scheme \<union> kinds Velerov1 \<union> kinds Argov1alpha1. knows s k"
proof -
  let ?fs = "[sa_AddToScheme api Clientgo_scheme, sa_AddToScheme api Velerov1, sa_AddToScheme api Argov1alpha1,
    transitionv1_AddToScheme api]"
  obtain t where t: "must_all ?fs (sa_NewScheme api) = Ret t" "s = snd (sa_AddToScheme api Capiv1beta1 t)"
    using assms(1) by (auto simp: init_scheme_def split: outcome.splits simp del: must_all.simps)
  have all: "\<forall>f \<in> set ?fs. \<exists>K. adds knows K f" using adds own by auto
  have "knows t k" if "k \<in> own \<union> kinds Clientgo_scheme \<union> kinds Velerov1 \<union> kinds Argov1alpha1" for k
    using that must_all_knows [OF t(1) all _ own] must_all_knows [OF t(1) all _ adds] by auto
  with adds_keeps [OF adds] t(2) show ?thesis by (metis prod.collapse)
qed

text \<open>The two schemes of \<^verbatim>\<open>cluster.go\<close>.\<close>

lemma GetSchemeWithVelero_knows:
  assumes "GetSchemeWithVelero api = Inr s" and adds: "\<And>p. adds knows (kinds p) (sa_AddToScheme api p)"
  shows "\<forall>k \<in> kinds Corev1 \<union> kinds Velerov1. knows s k"
proof -
  obtain t where "sa_AddToScheme api Corev1 (sa_NewScheme api) = (None, t)" "sa_AddToScheme api Velerov1 t = (None, s)"
    using assms(1) by (auto simp: GetSchemeWithVelero_def split: prod.splits option.splits)
  with adds_new [OF adds] adds_keeps [OF adds] show ?thesis by blast
qed

lemma workload_scheme_knows:
  assumes "workload_scheme api = Ret s" and adds: "\<And>p. adds knows (kinds p) (sa_AddToScheme api p)"
    and p: "p \<in> {Corev1, Appsv1, Batchv1, Rbacv1, Autoscalingv1, Networkingv1, Policyv1, Storagev1, Apiextensionsv1,
      Scale_scheme, Velerov1}"
  shows "\<forall>k \<in> kinds p. knows s k"
proof -
  let ?ps = "[Corev1, Appsv1, Batchv1, Rbacv1, Autoscalingv1, Networkingv1, Policyv1, Storagev1, Apiextensionsv1, Scale_scheme]"
  let ?fs = "map (sa_AddToScheme api) ?ps"
  from assms(1) obtain t u where t: "must_all ?fs (sa_NewScheme api) = Ret t"
    and u: "must_all [sa_AddToScheme api Velerov1] t = Ret u" "s = snd (sa_AddToScheme api Argov1alpha1 u)"
    by (auto simp: workload_scheme_def GetDefaultKubeScheme_def split: outcome.splits simp del: list.map must_all.simps)
  have all: "\<forall>f \<in> set (map (sa_AddToScheme api) ps). \<exists>K. adds knows K f" for ps using adds by auto
  from u(1) obtain velero: "sa_AddToScheme api Velerov1 t = (None, u)" by (auto split: prod.splits option.splits)
  have "knows u k" if k: "k \<in> kinds p" for k
  proof (cases "p = Velerov1")
    case True
    with adds_new [OF adds velero] k show ?thesis by blast
  next
    case False
    with p have "sa_AddToScheme api p \<in> set ?fs" by auto
    from must_all_knows [OF t all this adds k] adds_keeps [OF adds velero] show ?thesis by blast
  qed
  with adds_keeps [OF adds] u(2) show ?thesis by (metis prod.collapse)
qed

end
