(* ===== verification/Spec2Isabelle.thy ===== *)
theory Spec2Isabelle
  imports Gitops Manifest_Scan Gitea_Client Monitors Heartbeat_Server Checkpoint_Controller ClusterPolicy_Controller
    Process_Setup Auxiliary Deep_Copy Scheme_Setup
begin

text \<open>
  A model of the transition operator, a Kubernetes operator that moves workloads from a
  cluster in trouble to another one by writing manifests to git repositories, and, for
  live-state packages, by checkpointing the running containers into images first.

  \<^bold>\<open>The program.\<close> A \<^verbatim>\<open>ClusterPolicy\<close> selects a cluster, the packages to protect and the
  preferred target clusters. Its reconciler (\<^verbatim>\<open>src/internal/controller/clusterpolicy_controller.go\<close>)
  creates \<^verbatim>\<open>Checkpoint\<close> resources for live-state packages, starts a control-plane and a network
  monitor for the cluster, and transitions the annotated workloads of nodes that are not ready.
  The Checkpoint reconciler (\<^verbatim>\<open>checkpoint_controller.go\<close>) schedules a job per Checkpoint that asks
  the kubelet for an archive, waits for it in an object store (\<^verbatim>\<open>src/reconcilers/miniohelper\<close>),
  builds an image from it, pushes it and has it pulled on the target cluster ahead of time.
  A heartbeat server (\<^verbatim>\<open>src/reconcilers/heartbeat\<close>) and the monitors detect failures and
  trigger a migration, which edits the manifests of the source repository and adds an Argo CD
  application to the disaster-recovery repository (\<^verbatim>\<open>src/reconcilers/checkpoint_transition\<close>,
  \<^verbatim>\<open>helpers\<close>, \<^verbatim>\<open>gitaclient\<close>, \<^verbatim>\<open>capi\<close>, \<^verbatim>\<open>controlplane\<close>, \<^verbatim>\<open>cnifault\<close>). \<^verbatim>\<open>src/cmd/main.go\<close> registers the
  controllers, starts the heartbeat server and then the manager.

  \<^bold>\<open>How it is modelled.\<close> A handler is a function from its arguments and a history to its result
  and the extended history. The history (\<open>hist\<close>, newest first) records every call to a service.
  The services, which are not part of the repository, are functions in the records of an \<open>env\<close>:
  each answer may depend on the whole history, so that a theorem for all environments holds for
  all API servers, git servers, clocks and schedulers, with other clients acting in between. What the code relies on
  beyond that is a named hypothesis (\<open>clock_law\<close>, \<open>clock_advances\<close>, \<open>cron_law\<close>, \<open>selector_law\<close>, \<open>cancelled\<close>,
  \<open>external_copies\<close>). Errors are values
  (\<open>result\<close>, \<open>error option\<close>); a nil dereference and \<^verbatim>\<open>log.Fatal\<close> are the outcome \<open>Panic\<close>, after which
  nothing is considered. Machine integers whose width matters are words. Objects shared by
  pointer (the policy, the reconciler) are passed on and given back.

  \<^bold>\<open>Theories.\<close>
  \<^item> \<open>Prelude\<close>, \<open>Kube_Types\<close>, \<open>Api_Types\<close>, \<open>Manifest_Types\<close>, \<open>Environment\<close>, \<open>Samples\<close>: Go's strings,
    times and errors, the choice of a best element (locale \<open>strict_pref\<close>), the resources, the
    services and histories with the calculus \<open>emits\<close> of what a computation may do, and concrete
    inputs for the witnesses.
  \<^item> \<open>Policy_Selection\<close>, \<open>Owners\<close>, \<open>Capi\<close>: the pure decisions of \<^verbatim>\<open>helpers/clusterpolicy_helpers.go\<close>
    (target cluster, node summary, transitioned packages), the owners of pods and the clients of clusters.
  \<^item> \<open>Base64\<close>, \<open>Gitops\<close>: the manifests pushed to the disaster-recovery repository, their order, the
    wait for a Velero restore, and that the content can be read back.
  \<^item> \<open>Manifests\<close>, \<open>Manifest_Scan\<close>, \<open>Gitea_Client\<close>: clone, concurrent search, edit, commit and push of
    \<^verbatim>\<open>gitaclient/gitea.go\<close>; the search is a state machine whose every schedule ends and accounts for all matches.
  \<^item> \<open>Worker_Pool\<close>: the loop with a semaphore that starts goroutines, and that it refines a
    sequential run (locale \<open>pool_job\<close>); used by the manifest edits and by both kinds of transitions.
  \<^item> \<open>Checkpoint_Creation\<close>, \<open>Node_Transition\<close>, \<open>Migration\<close>: \<^verbatim>\<open>checkpoint_transition\<close> and the migration of
    a cluster: outcome, order and exclusion of transitions.
  \<^item> \<open>Detectors\<close>, \<open>Fault_Latch\<close>, \<open>Monitors\<close>, \<open>Heartbeat\<close>: the probes; the contract of a latched fault
    detector (locales \<open>fault_latch\<close>, \<open>counting_monitor\<close>), and its interpretations for the three detectors,
    with the loops that run them.
  \<^item> \<open>Heartbeat_Server\<close>: the handlers of \<^verbatim>\<open>RunHeartbeatServer\<close> and the goroutine of \<^verbatim>\<open>MonitorNodes\<close> as one
    machine over the shared store, in every interleaving (\<open>server_run\<close>): its invariant, that an alarm
    means silence, and that silence raises one alarm.
  \<^item> \<open>Paths\<close>, \<open>Process_Setup\<close>: \<^verbatim>\<open>filepath\<close>, \<^verbatim>\<open>main\<close> with its flags, TLS options (slices over a memory of
    arrays) and the four \<^verbatim>\<open>SetupWithManager\<close> functions, and the two reconcilers that do nothing: the order of
    the set-up, and when the two servers have TLS options of their own.
  \<^item> \<open>Go_Heap\<close>, \<open>Api_Memory\<close>, \<open>Deep_Copy\<close>: a heap of cells with slices, pointers and maps, the layout of the
    resources in it, and the generated copy functions of \<^verbatim>\<open>src/api/v1/zz_generated.deepcopy.go\<close>. The contract of a
    copy function (locale \<open>deepcopy\<close>) passes from the fields of a struct to the struct; hence a copy has
    the value of its original and shares nothing with it. The copy functions of the embedded Kubernetes types
    are a parameter with that contract (locale \<open>external_copies\<close>). The other theories pass resources as values
    and rest on this.
  \<^item> \<open>Scheme_Setup\<close>: the registration of the types, by \<^verbatim>\<open>groupversion_info.go\<close>, \<^verbatim>\<open>main.go\<close> and \<^verbatim>\<open>cluster.go\<close>.
  \<^item> \<open>Auxiliary\<close>: functions that nothing else in the repository calls: the methods of the Gitea client and the wait
    for it, lists of pods, the other triggers of Argo CD, the pod of a checkpoint.
  \<^item> \<open>Minio\<close>, \<open>Prepull\<close>, \<open>Checkpoint_Images\<close>, \<open>Checkpoint_Controller\<close>: the Checkpoint reconciler: the wait
    for an archive, the pre-pull of images, build and push, the phases, the scheduled jobs as an
    invariant of the reachable states (\<open>ck_reach\<close>).
  \<^item> \<open>Workload_Transition\<close>, \<open>ClusterPolicy_Controller\<close>: the choice of a backup, the two transitions that
    \<open>Reconcile\<close> makes itself, and \<open>Reconcile\<close> with machines, nodes and pods.
  \<^item> This theory: what spans the two controllers.

  \<^bold>\<open>Bounds and fuel.\<close> A loop over a ticker with a timeout takes the number of its ticks from the
  environment (\<open>o_Ticks\<close>). The wait for an archive has fuel: \<open>wait_fuel\<close> is 602, two more than its
  300 s in steps of half a second, and \<open>checkpointContainer_returns\<close> shows that it is enough on a
  clock that advances with the sleeps; the wait for the Gitea client takes its fuel from the timeout in the same
  way (\<open>WaitForInitialization_returns\<close>). The pools and the search of the manifests terminate by a measure. The
  monitors run for any number of ticks, and the heartbeat server for any sequence of inputs.

  \<^bold>\<open>Abstractions.\<close> Goroutines of a pool are atomic jobs in an order that the scheduler chooses.
  The lookups of \<open>HandlePodsOnNodeForPolicy\<close>, which only read, come before its first job. A
  cancelled context is a second environment, for the calls that use it. Reads whose result is only logged are left out.

  \<^bold>\<open>Not modelled.\<close> Logging; the HTTP listener, the flag and the JSON parser; and functions that nothing
  calls and that are empty or only read a setting (\<^verbatim>\<open>TransitionAllWorkloads\<close>, \<^verbatim>\<open>GetEnvDuration\<close>, \<^verbatim>\<open>getenvDuration\<close>).
\<close>

section \<open>From a checkpoint to a transition\<close>

text \<open>A status with the phase Completed names the image that the checkpoint pushes.\<close>

lemma completed_image:
  assumes "checkpointContainer en c n b reg ck ctr h = (res, h')" and "h' = es @ h"
    and "UpdatedCheckpointStatus ck' ok \<in> set es" and "ckst_Phase (ck_Status ck') = CheckpointPhaseCompleted"
  shows "ckst_LastCheckpointImage (ck_Status ck') = image_name ck ctr"
  using assms(1)
proof (cases rule: checkpointContainer_cases)
  case (unmarked ck1 e)
  with assms(2-4) show ?thesis by (auto simp: Cons_eq_append_conv)
next
  case (stuck ck1 fs)
  then have "es = fs @ [UpdatedCheckpointStatus ck1 True, Read ''clock'' '''' '''']" using assms(2) by simp
  with stuck assms(3,4) show ?thesis by (auto dest: work_event_quiet)
next
  case (failed ck1 ck2 fs e reg' ok')
  then have "es = UpdatedCheckpointStatus ck2 ok' # fs @ [UpdatedCheckpointStatus ck1 True, Read ''clock'' '''' '''']"
    using assms(2) by simp
  with failed assms(3,4) show ?thesis by (auto dest: work_event_quiet)
next
  case (pushed path ck1 fs h1 r reg')
  let ?v = "fs @ [UpdatedCheckpointStatus ck1 True, Read ''clock'' '''' '''']"
  have old: "UpdatedCheckpointStatus ck' ok \<notin> set ?v"
    using pushed(1,2) assms(4) by (auto dest: work_event_quiet)
  have quiet: "UpdatedCheckpointStatus ck' ok \<notin> set gs" if "\<forall>e \<in> set gs. \<not> is_status e" for gs
    using that by auto
  from pushed(6) show ?thesis
  proof (cases rule: finish_checkpoint_cases)
    case (unrecorded ck2 e)
    then have "es = [UpdatedCheckpointStatus ck2 False, Read ''clock'' '''' ''''] @ ?v" using pushed(3) assms(2) by simp
    with unrecorded old assms(3) pushed(5) show ?thesis by auto
  next
    case (died ck2 gs)
    then have "es = gs @ [UpdatedCheckpointStatus ck2 True, Read ''clock'' '''' ''''] @ ?v" using pushed(3) assms(2) by simp
    with died old quiet [OF died(2)] assms(3) pushed(5) show ?thesis by auto
  next
    case (finished ck2 ck3 gs err ok')
    then have "es = UpdatedCheckpointStatus ck3 ok' # gs @ [UpdatedCheckpointStatus ck2 True, Read ''clock'' '''' ''''] @ ?v"
      using pushed(3) assms(2) by simp
    with finished old quiet [OF finished(3)] assms(3) pushed(5) show ?thesis by auto
  qed
qed

section \<open>Properties\<close>

text \<open>
  C2. What a transition runs was pushed. When a live-state transition goes ahead with a
  checkpoint that the checkpoint controller reported as completed, the image that it puts into
  all matching manifests of the source repository, and then commits and pushes, is one that the
  controller had successfully pushed to the registry before it wrote that report.
\<close>

theorem transition_runs_the_pushed_image:
  assumes "checkpointContainer en c n b reg ck ctr h = (res, h')"
    and "h' = post @ UpdatedCheckpointStatus ck' ok # pre @ h"
    and "ckst_Phase (ck_Status ck') = CheckpointPhaseCompleted"
    and "prepare_live_state en' repo name backups g = (Ret (Some ck'), g')"
  shows "Executed [''buildah'', ''push'', ckst_LastCheckpointImage (ck_Status ck')] True \<in> set pre \<and>
    (\<exists>dir es. g' = pushed_edit ck' dir @ es @ g \<and> matches_edited en' repo ck' dir)"
proof
  from checkpointContainer_guarded [OF assms(1)] obtain es where
    es: "h' = es @ h" "guarded (\<lambda>pre. \<exists>path. pushed_trace en c n b ck ctr path pre) es" by blast
  with assms(2) have split: "es = post @ UpdatedCheckpointStatus ck' ok # pre" by simp
  then have "\<exists>path. pushed_trace en c n b ck ctr path pre"
    using guarded_split [OF es(2) [unfolded split]] assms(3) by simp
  then have "Executed [''buildah'', ''push'', image_name ck ctr] True \<in> set pre"
    unfolding pushed_trace_def by (fastforce elim: list_emb_set)
  moreover have "ckst_LastCheckpointImage (ck_Status ck') = image_name ck ctr"
    by (rule completed_image [OF assms(1) es(1) _ assms(3), of ok]) (simp add: split)
  ultimately show "Executed [''buildah'', ''push'', ckst_LastCheckpointImage (ck_Status ck')] True \<in> set pre" by simp
next
  from assms(4) obtain dir es where "g' = pushed_edit ck' dir @ es @ g" "matches_edited en' repo ck' dir"
    by (rule prepare_success)
  then show "\<exists>dir es. g' = pushed_edit ck' dir @ es @ g \<and> matches_edited en' repo ck' dir" by blast
qed

text \<open>The checkpoint of the sample container, and a transition that reads the status it wrote.\<close>

definition written_checkpoint :: Checkpoint where
  "written_checkpoint = (case snd sample_run of UpdatedCheckpointStatus ck _ # _ \<Rightarrow> ck | _ \<Rightarrow> sample_checkpoint)"

definition resume_env :: env where
  "resume_env = (dr_env ConditionTrue)\<lparr>mgmt := (mgmt (dr_env ConditionTrue))\<lparr>m_GetCheckpoint := (\<lambda>_ _ _. Inr written_checkpoint)\<rparr>\<rparr>"

theorem transition_runs_the_pushed_image_witness:
  "\<exists>pre. Executed [''buildah'', ''push'', ckst_LastCheckpointImage (ck_Status written_checkpoint)] True \<in> set pre \<and>
     (\<exists>dir. matches_edited resume_env ''http://git/cluster1-azure.git'' written_checkpoint dir)"
proof -
  obtain ck' reg' h' ck'' ok pre where run: "sample_run = (Ret (None, ck', reg'), h')"
    "h' = [] @ UpdatedCheckpointStatus ck'' ok # pre @ []" "ckst_Phase (ck_Status ck'') = CheckpointPhaseCompleted"
    by (rule ckpt_run)
  then have w: "written_checkpoint = ck''" by (simp add: written_checkpoint_def)
  have "case fst (prepare_live_state resume_env ''http://git/cluster1-azure.git'' ''ck'' [sample_backup] []) of
      Ret (Some ck) \<Rightarrow> ck = written_checkpoint | _ \<Rightarrow> False" by code_simp
  then obtain g' where "prepare_live_state resume_env ''http://git/cluster1-azure.git'' ''ck'' [sample_backup] [] =
      (Ret (Some written_checkpoint), g')"
    by (cases "prepare_live_state resume_env ''http://git/cluster1-azure.git'' ''ck'' [sample_backup] []")
      (auto split: outcome.splits option.splits)
  from transition_runs_the_pushed_image [OF run [folded w] this] show ?thesis by blast
qed

end
